(* ===== verification/Prelude.thy ===== *)
theory Prelude
  imports Main "HOL-Library.Word"
begin

text \<open>
  Shared vocabulary of the development: the machine types the Rust sources use, the parts of the
  standard library every component needs (saturating subtraction, decimal formatting, slices,
  big-endian integers), and the generic lemmas the component proofs rest on.
\<close>

section \<open>Types\<close>

type_synonym u8 = "8 word"
type_synonym u32 = "32 word"
type_synonym u64 = "64 word"
type_synonym bytes = "8 word list"

text \<open>
  Rust strings are UTF-8 byte sequences; \<^typ>\<open>string\<close> is a list of 8-bit characters, so a
  \<^typ>\<open>string\<close> is exactly the byte content of a Rust \<open>String\<close>. An array \<open>[u8; 32]\<close> is a
  \<^typ>\<open>bytes\<close> whose length is 32; \<open>array32\<close> names that fact.
\<close>

definition array32 :: "bytes \<Rightarrow> bool" where
  "array32 b \<longleftrightarrow> length b = 32"

section \<open>Proof collections\<close>

named_theorems result_simps \<open>inversion rules for the result type\<close>
named_theorems op_defs \<open>definitions of operations, unfolded together in step proofs\<close>
named_theorems wf_rules \<open>preservation of the component invariants\<close>

section \<open>Standard library\<close>

text \<open>\<open>u64::saturating_sub\<close>: the difference, or 0 where it would be negative.\<close>

definition saturating_sub :: "u64 \<Rightarrow> u64 \<Rightarrow> u64" where
  "saturating_sub a b = (if b \<le> a then a - b else 0)"

lemma unat_saturating_sub: "unat (saturating_sub a b) = unat a - unat b"
  by (simp add: saturating_sub_def unat_sub word_le_nat_alt)

lemma saturating_sub_le_iff: "saturating_sub a b \<le> w \<longleftrightarrow> unat a \<le> unat b + unat w"
  by (auto simp: word_le_nat_alt unat_saturating_sub)

lemma saturating_sub_future [simp]: "a \<le> b \<Longrightarrow> saturating_sub a b = 0"
  by (simp add: saturating_sub_def)

text \<open>Decimal formatting of an unsigned integer, as \<open>{}\<close> prints it.\<close>

fun dec :: "nat \<Rightarrow> string" where
  "dec n = (if n < 10 then [char_of (48 + n)] else dec (n div 10) @ [char_of (48 + n mod 10)])"

declare dec.simps [simp del]

lemma dec_nonempty: "dec n \<noteq> []"
  by (subst dec.simps) simp

text \<open>\<open>str::as_bytes\<close> and byte-string literals.\<close>

definition byte_of :: "char \<Rightarrow> u8" where
  "byte_of c = word_of_nat (of_char c)"

definition as_bytes :: "string \<Rightarrow> bytes" where
  "as_bytes s = map byte_of s"

lemma length_as_bytes [simp]: "length (as_bytes s) = length s"
  by (simp add: as_bytes_def)

lemma unat_byte_of: "unat (byte_of c) = of_char c"
  by (simp add: byte_of_def unat_of_nat)

lemma inj_byte_of: "inj byte_of"
  by (rule injI) (metis unat_byte_of of_char_eq_iff)

lemma as_bytes_inj [simp]: "as_bytes s = as_bytes t \<longleftrightarrow> s = t"
  by (simp add: as_bytes_def inj_map_eq_map [OF inj_byte_of])

text \<open>\<open>slice::starts_with\<close>.\<close>

definition starts_with :: "bytes \<Rightarrow> bytes \<Rightarrow> bool" where
  "starts_with xs p \<longleftrightarrow> take (length p) xs = p"

lemma starts_with_append [simp]: "starts_with (p @ r) p"
  by (simp add: starts_with_def)

lemma starts_withE: "starts_with xs p \<Longrightarrow> \<exists>r. xs = p @ r"
  by (metis append_take_drop_id starts_with_def)

section \<open>Fixed-width integers as bytes\<close>

text \<open>
  \<open>to_le_bytes\<close> and \<open>to_be_bytes\<close> of the unsigned integers. The digits are computed on
  \<^typ>\<open>nat\<close>: \<open>le_bytes k n\<close> is the \<open>k\<close>-byte little-endian form of \<open>n mod 256 ^ k\<close>.
\<close>

fun le_bytes :: "nat \<Rightarrow> nat \<Rightarrow> bytes" where
  "le_bytes 0 n = []"
| "le_bytes (Suc k) n = word_of_nat n # le_bytes k (n div 256)"

fun nat_of_le :: "bytes \<Rightarrow> nat" where
  "nat_of_le [] = 0"
| "nat_of_le (b # bs) = unat b + 256 * nat_of_le bs"

definition to_le_bytes :: "u64 \<Rightarrow> bytes" where
  "to_le_bytes w = le_bytes 8 (unat w)"

definition to_be_bytes :: "u64 \<Rightarrow> bytes" where
  "to_be_bytes w = rev (to_le_bytes w)"

definition from_le_bytes :: "bytes \<Rightarrow> u64" where
  "from_le_bytes bs = word_of_nat (nat_of_le bs)"

lemma length_le_bytes [simp]: "length (le_bytes k n) = k"
  by (induction k arbitrary: n) auto

lemma nat_of_le_bytes: "nat_of_le (le_bytes k n) = n mod 256 ^ k"
proof (induction k arbitrary: n)
  case 0
  then show ?case by simp
next
  case (Suc k)
  have "nat_of_le (le_bytes (Suc k) n) = n mod 256 + 256 * (n div 256 mod 256 ^ k)"
    by (simp add: Suc.IH unat_of_nat)
  also have "\<dots> = n mod 256 ^ Suc k"
    by (simp add: mod_mult2_eq)
  finally show ?case .
qed

lemma length_to_le_bytes [simp]: "length (to_le_bytes w) = 8"
  by (simp add: to_le_bytes_def)

lemma length_to_be_bytes [simp]: "length (to_be_bytes w) = 8"
  by (simp add: to_be_bytes_def)

lemma from_to_le_bytes [simp]: "from_le_bytes (to_le_bytes w) = w"
proof -
  have "unat w < 256 ^ 8" using unsigned_less [of w, where ?'a = nat] by simp
  then show ?thesis by (simp add: from_le_bytes_def to_le_bytes_def nat_of_le_bytes)
qed

lemma to_le_bytes_inj: "to_le_bytes v = to_le_bytes w \<Longrightarrow> v = w"
  by (metis from_to_le_bytes)

lemma to_be_bytes_inj: "to_be_bytes v = to_be_bytes w \<Longrightarrow> v = w"
  by (auto simp: to_be_bytes_def dest: to_le_bytes_inj)

lemma to_be_bytes_eq [simp]: "to_be_bytes v = to_be_bytes w \<longleftrightarrow> v = w"
  using to_be_bytes_inj by blast

section \<open>Self-delimiting encodings\<close>

text \<open>
  The interface of an encoding that may be followed by more data: the encoded value and the rest
  are both determined by the concatenation. Concatenating such encodings field by field is
  injective, which is what a signed byte string needs in order to bind every field.
\<close>

locale prefix_code =
  fixes enc :: "'a \<Rightarrow> bytes" and wf :: "'a \<Rightarrow> bool"
  assumes unique: "\<lbrakk>wf x; wf y; enc x @ r = enc y @ s\<rbrakk> \<Longrightarrow> x = y \<and> r = s"
begin

lemma enc_inj: "wf x \<Longrightarrow> wf y \<Longrightarrow> enc x = enc y \<Longrightarrow> x = y"
  using unique [of x y "[]" "[]"] by simp

lemma split_eq: "wf x \<Longrightarrow> wf y \<Longrightarrow> enc x @ r = enc y @ s \<longleftrightarrow> x = y \<and> r = s"
  using unique by blast

lemma prefix_free: "wf x \<Longrightarrow> wf y \<Longrightarrow> enc x @ r = enc y \<Longrightarrow> x = y \<and> r = []"
  using unique [of x y r "[]"] by simp

end

text \<open>An injective encoding of constant width is self-delimiting.\<close>

locale fixed_code =
  fixes enc :: "'a \<Rightarrow> bytes" and wf :: "'a \<Rightarrow> bool" and width :: nat
  assumes enc_width: "wf x \<Longrightarrow> length (enc x) = width"
    and enc_injective: "wf x \<Longrightarrow> wf y \<Longrightarrow> enc x = enc y \<Longrightarrow> x = y"

sublocale fixed_code \<subseteq> prefix_code enc wf
proof
  fix x y r s
  assume xy: "wf x" "wf y" and eq: "enc x @ r = enc y @ s"
  from xy have "length (enc x) = length (enc y)" by (simp add: enc_width)
  with eq have "enc x = enc y" and "r = s" by auto
  with xy show "x = y \<and> r = s" by (blast dest: enc_injective)
qed

interpretation be64: fixed_code to_be_bytes "\<lambda>_. True" 8
  by unfold_locales (auto dest: to_be_bytes_inj)

interpretation le64: fixed_code to_le_bytes "\<lambda>_. True" 8
  by unfold_locales (auto dest: to_le_bytes_inj)

interpretation raw32: fixed_code "\<lambda>b. b" array32 32
  by unfold_locales (auto simp: array32_def)

interpretation byte1: fixed_code "\<lambda>b. [b]" "\<lambda>_. True" 1
  by unfold_locales auto

end
