(* ===== verification/Errors.thy ===== *)
theory Errors
  imports Prelude
begin

text \<open>
  \<^verbatim>\<open>witan/src/error.rs\<close>: the unified error type with its rendering, and the result type every
  fallible operation of the model returns. A Rust \<open>Result\<close> is \<open>Ok\<close> or \<open>Err\<close>; an index out of
  range or a failed \<open>expect\<close> is the third outcome \<open>Panic\<close>, so that absence of panics is a theorem
  and not a convention.
\<close>

datatype gossip_error =
    NotInitialized
  | AlreadyInitialized
  | ConfigError string
  | IdentityError string
  | HandshakeError string
  | SessionNotFound string
  | EnvelopeError string
  | SignatureInvalid
  | ReplayDetected
  | TtlExpired
  | PeerNotFound string
  | QuorumNotReached
  | SerializationError string
  | CryptoError string
  | InvalidInput string

text \<open>\<open>impl Display for GossipError\<close>.\<close>

fun error_fmt :: "gossip_error \<Rightarrow> string" where
  "error_fmt NotInitialized = ''gossip component not initialized''"
| "error_fmt AlreadyInitialized = ''gossip component already initialized''"
| "error_fmt (ConfigError s) = ''config error: '' @ s"
| "error_fmt (IdentityError s) = ''identity error: '' @ s"
| "error_fmt (HandshakeError s) = ''handshake error: '' @ s"
| "error_fmt (SessionNotFound s) = ''session not found: '' @ s"
| "error_fmt (EnvelopeError s) = ''envelope error: '' @ s"
| "error_fmt SignatureInvalid = ''signature verification failed''"
| "error_fmt ReplayDetected = ''replay detected: message outside replay window''"
| "error_fmt TtlExpired = ''TTL expired''"
| "error_fmt (PeerNotFound s) = ''peer not found: '' @ s"
| "error_fmt QuorumNotReached = ''quorum not reached''"
| "error_fmt (SerializationError s) = ''serialization error: '' @ s"
| "error_fmt (CryptoError s) = ''crypto error: '' @ s"
| "error_fmt (InvalidInput s) = ''invalid input: '' @ s"

section \<open>Results\<close>

datatype 'a res = Ok 'a | Err gossip_error | Panic

text \<open>\<open>and_then m f\<close> is \<open>let x = m?; f x\<close>.\<close>

fun and_then :: "'a res \<Rightarrow> ('a \<Rightarrow> 'b res) \<Rightarrow> 'b res" where
  "and_then (Ok x) f = f x"
| "and_then (Err e) f = Err e"
| "and_then Panic f = Panic"

text \<open>
  Functions of other crates return \<open>Inl msg\<close>, the rendering of their error, or \<open>Inr v\<close>;
  \<open>map_err\<close> is the \<open>map_err(|e| ...)\<close> the sources apply to them.
\<close>

fun map_err :: "(string \<Rightarrow> gossip_error) \<Rightarrow> string + 'a \<Rightarrow> 'a res" where
  "map_err g (Inl e) = Err (g e)"
| "map_err g (Inr x) = Ok x"

text \<open>\<open>if c { return Err(e) }\<close> in front of the rest.\<close>

definition check :: "bool \<Rightarrow> gossip_error \<Rightarrow> 'b res \<Rightarrow> 'b res" where
  "check c e r = (if c then r else Err e)"

fun is_ok :: "'a res \<Rightarrow> bool" where
  "is_ok (Ok _) = True"
| "is_ok _ = False"

lemma and_then_eq_Ok [simp, result_simps]:
  "and_then m f = Ok y \<longleftrightarrow> (\<exists>x. m = Ok x \<and> f x = Ok y)"
  by (cases m) auto

lemma and_then_eq_Err [result_simps]:
  "and_then m f = Err e \<longleftrightarrow> m = Err e \<or> (\<exists>x. m = Ok x \<and> f x = Err e)"
  by (cases m) auto

lemma and_then_eq_Panic [simp, result_simps]:
  "and_then m f = Panic \<longleftrightarrow> m = Panic \<or> (\<exists>x. m = Ok x \<and> f x = Panic)"
  by (cases m) auto

lemma map_err_eq_Ok [simp, result_simps]: "map_err g m = Ok x \<longleftrightarrow> m = Inr x"
  by (cases m) auto

lemma map_err_eq_Err [result_simps]: "map_err g m = Err e \<longleftrightarrow> (\<exists>s. m = Inl s \<and> e = g s)"
  by (cases m) auto

lemma map_err_not_Panic [simp, result_simps]: "map_err g m \<noteq> Panic"
  by (cases m) auto

lemma check_eq_Ok [simp, result_simps]: "check c e r = Ok x \<longleftrightarrow> c \<and> r = Ok x"
  by (simp add: check_def)

lemma check_eq_Err [result_simps]:
  "check c e r = Err e' \<longleftrightarrow> (if c then r = Err e' else e = e')"
  by (simp add: check_def)

lemma check_eq_Panic [simp, result_simps]: "check c e r = Panic \<longleftrightarrow> c \<and> r = Panic"
  by (simp add: check_def)

lemma check_True [simp]: "check True e r = r"
  by (simp add: check_def)

lemma check_False [simp]: "check False e r = Err e"
  by (simp add: check_def)

lemma Ok_True_iff [simp]: "(\<exists>b. m = Ok b \<and> b) \<longleftrightarrow> m = Ok True"
  by auto

lemma is_ok_iff: "is_ok m \<longleftrightarrow> (\<exists>x. m = Ok x)"
  by (cases m) auto

lemma and_then_split:
  "P (and_then m f) \<longleftrightarrow>
     (\<forall>x. m = Ok x \<longrightarrow> P (f x)) \<and> (\<forall>e. m = Err e \<longrightarrow> P (Err e)) \<and> (m = Panic \<longrightarrow> P Panic)"
  by (cases m) auto

lemma and_then_cong [fundef_cong]:
  "m = m' \<Longrightarrow> (\<And>x. m' = Ok x \<Longrightarrow> f x = g x) \<Longrightarrow> and_then m f = and_then m' g"
  by (cases m') auto

section \<open>State and errors together\<close>

text \<open>
  A method on \<open>&mut self\<close> returns its result and the new state, on the error paths too.
  \<open>then_do p f\<close> is \<open>let x = p?; f x\<close>: an error of the first call ends the second, but the state it
  left stays.
\<close>

fun then_do :: "'a res \<times> 's \<Rightarrow> ('a \<Rightarrow> 's \<Rightarrow> 'b res \<times> 's) \<Rightarrow> 'b res \<times> 's" where
  "then_do (Ok x, s) f = f x s"
| "then_do (Err e, s) f = (Err e, s)"
| "then_do (Panic, s) f = (Panic, s)"

lemma then_do_Ok: "then_do p f = (Ok y, s') \<longleftrightarrow> (\<exists>x s. p = (Ok x, s) \<and> f x s = (Ok y, s'))"
  by (cases "(p, f)" rule: then_do.cases) auto

lemma then_do_state:
  assumes "P (snd p)" and "\<And>x s. p = (Ok x, s) \<Longrightarrow> P (snd (f x s))"
  shows "P (snd (then_do p f))"
  using assms by (cases "(p, f)" rule: then_do.cases) auto

lemma then_do_not_Panic:
  assumes "fst p \<noteq> Panic" and "\<And>x s. p = (Ok x, s) \<Longrightarrow> fst (f x s) \<noteq> Panic"
  shows "fst (then_do p f) \<noteq> Panic"
  using assms by (cases "(p, f)" rule: then_do.cases) auto

end
