(* ===== verification/F64.thy ===== *)
theory F64
  imports Complex_Main "HOL-Library.Log_Nat"
begin

text \<open>
  The IEEE 754 binary64 arithmetic the quorum computation uses: conversion from \<open>usize\<close>,
  multiplication, \<open>ceil\<close>, comparison and the saturating cast back to \<open>usize\<close>. A finite value is
  the rational it denotes (the sign of zero is not observable through these operations); every
  operation computes exactly and then rounds to nearest, ties to even, on the 53-bit grid with the
  binary64 exponent range.
\<close>

datatype f64 = F64 rat | F64_inf bool | F64_nan

definition f64_exponent :: "rat \<Rightarrow> int" where
  "f64_exponent x =
     (if 1 \<le> x then int (floorlog 2 (nat \<lfloor>x\<rfloor>)) - 1 else - int (ceillog2 (nat \<lceil>1 / x\<rceil>)))"

definition f64_ulp :: "rat \<Rightarrow> rat" where
  "f64_ulp x = 2 powi (max (f64_exponent x - 52) (- 1074))"

definition round_half_even :: "rat \<Rightarrow> int" where
  "round_half_even y =
     (let f = \<lfloor>y\<rfloor>; d = y - of_int f in
      if d < 1 / 2 then f else if 1 / 2 < d then f + 1 else if even f then f else f + 1)"

definition f64_round :: "rat \<Rightarrow> f64" where
  "f64_round x =
     (if x = 0 then F64 0
      else let u = f64_ulp \<bar>x\<bar>; r = u * of_int (round_half_even (\<bar>x\<bar> / u)) in
           if 2 ^ 1024 \<le> r then F64_inf (x < 0) else F64 (sgn x * r))"

fun f64_mul :: "f64 \<Rightarrow> f64 \<Rightarrow> f64" where
  "f64_mul (F64 a) (F64 b) = f64_round (a * b)"
| "f64_mul (F64 a) (F64_inf s) = (if a = 0 then F64_nan else F64_inf (s \<noteq> (a < 0)))"
| "f64_mul (F64_inf s) (F64 b) = (if b = 0 then F64_nan else F64_inf (s \<noteq> (b < 0)))"
| "f64_mul (F64_inf s) (F64_inf t) = F64_inf (s \<noteq> t)"
| "f64_mul _ _ = F64_nan"

fun f64_ceil :: "f64 \<Rightarrow> f64" where
  "f64_ceil (F64 a) = F64 (of_int \<lceil>a\<rceil>)"
| "f64_ceil x = x"

text \<open>\<open>n as f64\<close> and \<open>x as usize\<close>; the latter saturates at the target's \<open>usize::MAX\<close>.\<close>

definition f64_of_usize :: "nat \<Rightarrow> f64" where
  "f64_of_usize n = f64_round (of_nat n)"

fun f64_as_usize :: "nat \<Rightarrow> f64 \<Rightarrow> nat" where
  "f64_as_usize usize_max (F64 a) = min (nat \<lfloor>a\<rfloor>) usize_max"
| "f64_as_usize usize_max (F64_inf neg) = (if neg then 0 else usize_max)"
| "f64_as_usize usize_max F64_nan = 0"

text \<open>\<open>(0.0..=1.0).contains(&x)\<close>.\<close>

fun f64_in_unit :: "f64 \<Rightarrow> bool" where
  "f64_in_unit (F64 a) \<longleftrightarrow> 0 \<le> a \<and> a \<le> 1"
| "f64_in_unit _ \<longleftrightarrow> False"

section \<open>Rounding\<close>

lemma f64_exponent_le: "0 < x \<Longrightarrow> 2 powi f64_exponent x \<le> x"
proof (cases "1 \<le> x")
  case True
  define n where "n = nat \<lfloor>x\<rfloor>"
  from True have n: "0 < n" "of_nat n \<le> x" by (auto simp: n_def le_floor_iff)
  have fl: "0 < floorlog 2 n" using n by (simp add: floorlog_def)
  have "2 powi f64_exponent x = (2 ^ (floorlog 2 n - 1) :: rat)"
    using True fl unfolding f64_exponent_def n_def [symmetric]
    by (simp add: power_int_def nat_diff_distrib)
  also have "\<dots> = of_nat (2 ^ (floorlog 2 n - 1))" by simp
  also have "\<dots> \<le> of_nat n"
    using floorlog_bounds [of n 2] n by (simp only: of_nat_le_iff)
  finally show ?thesis using n by simp
next
  case False
  assume pos: "0 < x"
  define n where "n = nat \<lceil>1 / x\<rceil>"
  have "1 / x \<le> of_nat n" unfolding n_def by (rule of_nat_ceiling)
  also have "\<dots> \<le> of_nat (2 ^ ceillog2 n)"
    using le_two_power_ceillog2 [of n] by (simp only: of_nat_le_iff)
  finally have "1 / x \<le> 2 ^ ceillog2 n" by simp
  with pos have "1 / 2 ^ ceillog2 n \<le> x" by (simp add: field_simps)
  moreover have "2 powi f64_exponent x = (1 / 2 ^ ceillog2 n :: rat)"
    using False by (simp add: f64_exponent_def n_def power_int_minus inverse_eq_divide)
  ultimately show ?thesis by simp
qed

lemma f64_ulp_pos [simp]: "0 < f64_ulp x"
  by (simp add: f64_ulp_def)

lemma f64_ulp_nonzero [simp]: "f64_ulp x \<noteq> 0"
  by (simp add: less_imp_neq [symmetric])

lemma round_half_even_error: "\<bar>of_int (round_half_even y) - y\<bar> \<le> 1 / 2"
proof -
  have "of_int \<lfloor>y\<rfloor> \<le> y" and "y < of_int \<lfloor>y\<rfloor> + 1" by linarith+
  then show ?thesis by (simp add: round_half_even_def Let_def abs_le_iff)
qed

lemma round_half_even_le: "y \<le> of_int n \<Longrightarrow> round_half_even y \<le> n"
proof -
  assume le: "y \<le> of_int n"
  have err: "of_int (round_half_even y) \<le> y + 1 / 2"
    using round_half_even_error [of y] by linarith
  with le have "of_int (round_half_even y) < (of_int (n + 1) :: rat)" by simp
  then show ?thesis by (simp only: of_int_less_iff)
qed

lemma round_half_even_int [simp]: "round_half_even (of_int n) = n"
  by (simp add: round_half_even_def)

text \<open>Above the smallest normal number, half a unit in the last place is a relative error of
  at most \<open>2\<^sup>-\<^sup>5\<^sup>3\<close>.\<close>

lemma f64_ulp_le:
  assumes "2 powi (- 1022) \<le> x"
  shows "f64_ulp x \<le> x / 2 ^ 52"
proof -
  have pos: "0 < x" using assms by (rule less_le_trans [rotated]) simp
  show ?thesis
  proof (cases "- 1074 \<le> f64_exponent x - 52")
    case True
    then have "f64_ulp x = 2 powi f64_exponent x / 2 ^ 52"
      by (simp add: f64_ulp_def power_int_diff)
    also have "\<dots> \<le> x / 2 ^ 52"
      by (rule divide_right_mono [OF f64_exponent_le [OF pos]]) simp
    finally show ?thesis .
  next
    case False
    then have "f64_ulp x = 2 powi (- 1022 - 52)" by (simp add: f64_ulp_def)
    also have "\<dots> = 2 powi (- 1022) / 2 ^ 52"
      by (subst power_int_diff) simp_all
    also have "\<dots> \<le> x / 2 ^ 52" by (rule divide_right_mono [OF assms]) simp
    finally show ?thesis .
  qed
qed

lemma f64_round_lower:
  assumes "2 powi (- 1022) \<le> x" and "f64_round x = F64 r"
  shows "x * (1 - 1 / 2 ^ 53) \<le> r"
proof -
  have pos: "0 < x" using assms(1) by (rule less_le_trans [rotated]) simp
  define u where "u = f64_ulp x"
  have u: "0 < u" "u \<le> x / 2 ^ 52" using f64_ulp_le [OF assms(1)] by (auto simp: u_def)
  have r: "r = u * of_int (round_half_even (x / u))"
    using assms(2) pos by (simp add: f64_round_def u_def Let_def split: if_splits)
  have "x / u - 1 / 2 \<le> of_int (round_half_even (x / u))"
    using round_half_even_error [of "x / u"] by linarith
  then have "u * (x / u - 1 / 2) \<le> r" unfolding r using u(1) by (intro mult_left_mono) auto
  then have "x - u / 2 \<le> r" using u(1) by (simp add: algebra_simps)
  with u(2) show ?thesis by (simp add: algebra_simps)
qed

text \<open>Integers below \<open>2\<^sup>5\<^sup>3\<close> lie on the grid of every smaller number, so rounding does not cross
  them.\<close>

lemma f64_grid:
  assumes "0 < x" and "x \<le> of_nat n" and "n < 2 ^ 53"
  shows "\<exists>N. of_int N = (of_nat n / f64_ulp x :: rat)"
proof -
  define k where "k = max (f64_exponent x - 52) (- 1074)"
  have ulp: "f64_ulp x = 2 powi k" by (simp add: f64_ulp_def k_def)
  have "2 powi f64_exponent x < (2 powi 53 :: rat)"
  proof -
    have "2 powi f64_exponent x \<le> (of_nat n :: rat)"
      using f64_exponent_le [OF assms(1)] assms(2) by linarith
    also have "\<dots> < of_nat (2 ^ 53)" using assms(3) by (simp only: of_nat_less_iff)
    finally show ?thesis by simp
  qed
  then have "f64_exponent x < 53"
  proof (rule contrapos_pp)
    assume "\<not> f64_exponent x < 53"
    then show "\<not> 2 powi f64_exponent x < (2 powi 53 :: rat)"
      unfolding not_less by (intro power_int_increasing) auto
  qed
  then have "k \<le> 0" unfolding k_def by simp
  then obtain j where "k = - int j" by (rule nonpos_int_cases)
  then have "f64_ulp x = 1 / 2 ^ j" by (simp add: ulp power_int_minus inverse_eq_divide)
  then have "of_int (int n * 2 ^ j) = (of_nat n / f64_ulp x :: rat)" by simp
  then show ?thesis by blast
qed

lemma round_half_even_nonneg: "0 \<le> y \<Longrightarrow> 0 \<le> round_half_even y"
  by (simp add: round_half_even_def Let_def)

lemma f64_round_le_int:
  assumes "0 < x" and "x \<le> of_nat n" and "n < 2 ^ 53"
  shows "\<exists>r. f64_round x = F64 r \<and> 0 \<le> r \<and> r \<le> of_nat n"
proof -
  obtain N where N: "of_int N = (of_nat n / f64_ulp x :: rat)" using f64_grid [OF assms] ..
  have "x / f64_ulp x \<le> of_int N"
    unfolding N using assms(2) by (intro divide_right_mono) (auto simp: less_imp_le)
  then have le: "round_half_even (x / f64_ulp x) \<le> N" by (rule round_half_even_le)
  define r where "r = f64_ulp x * of_int (round_half_even (x / f64_ulp x))"
  have "r \<le> f64_ulp x * of_int N"
    unfolding r_def using le by (intro mult_left_mono) (auto simp: less_imp_le)
  then have rn: "r \<le> of_nat n" by (simp add: N)
  have r0: "0 \<le> r"
    using assms(1) by (simp add: r_def less_imp_le round_half_even_nonneg)
  have "(of_nat n :: rat) < of_nat (2 ^ 53)" using assms(3) by (simp only: of_nat_less_iff)
  then have "\<not> 2 ^ 1024 \<le> r" using rn by simp
  then have "f64_round x = F64 r" using assms(1) by (simp add: f64_round_def Let_def r_def)
  with r0 rn show ?thesis by blast
qed

lemma f64_of_usize_exact:
  assumes "n < 2 ^ 53"
  shows "f64_of_usize n = F64 (of_nat n)"
proof (cases "n = 0")
  case True
  then show ?thesis by (simp add: f64_of_usize_def f64_round_def)
next
  case False
  then have pos: "(0::rat) < of_nat n" by simp
  obtain N where N: "of_int N = (of_nat n / f64_ulp (of_nat n) :: rat)"
    using f64_grid [OF pos order_refl assms] ..
  have "(of_nat n :: rat) < of_nat (2 ^ 53)" using assms by (simp only: of_nat_less_iff)
  then have "\<not> 2 ^ 1024 \<le> (of_nat n :: rat)" by simp
  with pos show ?thesis
    by (simp add: f64_of_usize_def f64_round_def Let_def N [symmetric]) (simp add: N)
qed

end
