(* ===== verification/Types.thy ===== *)
theory Types
  imports Errors F64
begin

text \<open>
  \<^verbatim>\<open>witan/src/types.rs\<close>: the domain types shared across the modules, the protocol constants and
  the dispatch of incoming bytes; and the two record types of \<^verbatim>\<open>witan/src/rotation.rs\<close> that travel
  on the wire. Field names carry a prefix per struct, since record selectors share one name space.
\<close>

section \<open>Constants\<close>

definition HANDSHAKE_PROBE_MAGIC :: bytes where
  "HANDSHAKE_PROBE_MAGIC = as_bytes ''WITAN_GOSSIP_HANDSHAKE_V1''"

definition HANDSHAKE_ACK_MAGIC :: bytes where
  "HANDSHAKE_ACK_MAGIC = as_bytes ''WITAN_GOSSIP_HANDSHAKE_ACK_V1''"

definition HANDSHAKE_FINISH_MAGIC :: bytes where
  "HANDSHAKE_FINISH_MAGIC = as_bytes ''WITAN_GOSSIP_HANDSHAKE_FINISH_V1''"

definition HANDSHAKE_FINISH_ACK_MAGIC :: bytes where
  "HANDSHAKE_FINISH_ACK_MAGIC = as_bytes ''WITAN_GOSSIP_HANDSHAKE_FINISH_ACK_V1''"

definition SIG_CTX_HANDSHAKE :: bytes where
  "SIG_CTX_HANDSHAKE = as_bytes ''WITAN_GOSSIP_HANDSHAKE_V1''"

definition SIG_CTX_MESSAGE :: bytes where
  "SIG_CTX_MESSAGE = as_bytes ''WITAN_GOSSIP_MESSAGE_V1''"

definition SIG_CTX_NODE_ID :: bytes where
  "SIG_CTX_NODE_ID = as_bytes ''WITAN_NODE_IDENTITY_V1''"

definition HKDF_INFO_SESSION :: bytes where
  "HKDF_INFO_SESSION = as_bytes ''pqc-kem-hybrid-v1''"

lemmas magic_defs =
  HANDSHAKE_PROBE_MAGIC_def HANDSHAKE_ACK_MAGIC_def HANDSHAKE_FINISH_MAGIC_def
  HANDSHAKE_FINISH_ACK_MAGIC_def

section \<open>Payload types\<close>

datatype payload_type = Transaction | BlockProposal | FinalityVote | StateSync | PeerDiscovery

definition from_u8 :: "u8 \<Rightarrow> payload_type option" where
  "from_u8 v =
     (if v = 0 then Some Transaction
      else if v = 1 then Some BlockProposal
      else if v = 2 then Some FinalityVote
      else if v = 3 then Some StateSync
      else if v = 4 then Some PeerDiscovery
      else None)"

fun as_u8 :: "payload_type \<Rightarrow> u8" where
  "as_u8 Transaction = 0"
| "as_u8 BlockProposal = 1"
| "as_u8 FinalityVote = 2"
| "as_u8 StateSync = 3"
| "as_u8 PeerDiscovery = 4"

lemma from_u8_as_u8 [simp]: "from_u8 (as_u8 t) = Some t"
  by (cases t) (auto simp: from_u8_def)

lemma from_u8_eq_Some: "from_u8 v = Some t \<longleftrightarrow> v = as_u8 t"
  by (cases t) (auto simp: from_u8_def)

lemma as_u8_inj [simp]: "as_u8 s = as_u8 t \<longleftrightarrow> s = t"
  by (metis from_u8_as_u8 option.inject)

lemma from_u8_None: "from_u8 v = None \<longleftrightarrow> 5 \<le> v"
proof -
  have "\<not> 5 \<le> v \<longleftrightarrow> v < 5" by auto
  also have "\<dots> \<longleftrightarrow> unat v < 5" by (simp add: word_less_nat_alt)
  also have "\<dots> \<longleftrightarrow> unat v \<in> unat ` {0, 1, 2, 3, 4 :: u8}" by auto
  also have "\<dots> \<longleftrightarrow> v \<in> {0, 1, 2, 3, 4}" by (rule inj_image_mem_iff) (rule inj_unsigned)
  also have "\<dots> \<longleftrightarrow> from_u8 v \<noteq> None" by (auto simp: from_u8_def)
  finally show ?thesis by blast
qed

text \<open>
  The payload types are ordered by their wire discriminant (\<open>#[repr(u8)]\<close>), and there are five.
\<close>

instantiation payload_type :: linorder
begin

definition less_eq_payload_type :: "payload_type \<Rightarrow> payload_type \<Rightarrow> bool" where
  "less_eq_payload_type s t \<longleftrightarrow> as_u8 s \<le> as_u8 t"

definition less_payload_type :: "payload_type \<Rightarrow> payload_type \<Rightarrow> bool" where
  "less_payload_type s t \<longleftrightarrow> as_u8 s < as_u8 t"

instance
  by standard (auto simp: less_eq_payload_type_def less_payload_type_def less_le)

end

instance payload_type :: finite
proof
  have "(UNIV :: payload_type set) = {Transaction, BlockProposal, FinalityVote, StateSync, PeerDiscovery}"
    by (auto intro: payload_type.exhaust)
  then show "finite (UNIV :: payload_type set)" by (metis finite.emptyI finite.insertI)
qed

section \<open>Messages and API records\<close>

record gossip_envelope =
  env_version :: u8
  env_message_id :: bytes
  env_sender_node_id :: string
  env_sender_public_key :: bytes
  env_payload_type :: payload_type
  env_payload :: bytes
  env_signature :: bytes
  env_timestamp_unix_ms :: u64
  env_ttl :: u8

record node_identity_public =
  nip_node_id :: string
  nip_kem_public_key_json :: string
  nip_sig_public_key_hex :: string
  nip_key_epoch :: string

record peer_info =
  pi_addr :: string
  pi_node_id :: string
  pi_session_id :: string
  pi_established_at_ms :: u64

record gossip_stats =
  messages_published :: u64
  messages_received :: u64
  messages_deduplicated :: u64
  messages_dropped :: u64
  active_peers_stat :: u32
  mesh_peers_stat :: u32
  dedup_cache_size :: u32
  handshakes_completed :: u32
  handshakes_failed :: u32

definition stats_default :: gossip_stats where
  "stats_default =
     \<lparr>messages_published = 0, messages_received = 0, messages_deduplicated = 0,
      messages_dropped = 0, active_peers_stat = 0, mesh_peers_stat = 0, dedup_cache_size = 0,
      handshakes_completed = 0, handshakes_failed = 0\<rparr>"

record handshake_probe =
  probe_magic :: bytes
  probe_version :: u8
  probe_client_nonce :: bytes
  probe_endpoint :: string
  probe_client_node_id :: string
  probe_timestamp_unix_ms :: u64

record handshake_ack =
  ack_magic :: bytes
  ack_version :: u8
  ack_client_nonce :: bytes
  ack_server_nonce :: bytes
  ack_hybrid_kem_public_key_json :: string
  ack_ml_dsa_65_public_key :: bytes
  ack_server_node_id :: string
  ack_timestamp_unix_ms :: u64

record handshake_finish =
  fin_magic :: bytes
  fin_version :: u8
  fin_kem_ciphertext_json :: string
  fin_client_ml_dsa_65_public_key :: bytes
  fin_client_node_id :: string
  fin_timestamp_unix_ms :: u64

record handshake_finish_ack =
  fack_magic :: bytes
  fack_version :: u8
  fack_session_id :: string
  fack_transcript_hash :: bytes
  fack_server_mac :: bytes
  fack_transcript_signature :: bytes
  fack_timestamp_unix_ms :: u64

text \<open>\<open>KeyRotation\<close> and \<open>LineageWire\<close> of \<^verbatim>\<open>rotation.rs\<close>.\<close>

record key_rotation =
  kr_version :: u8
  kr_node_id :: string
  kr_sequence :: u64
  kr_prev_state_digest :: bytes
  kr_new_kem_public_key :: bytes
  kr_new_sig_public_key :: bytes
  kr_new_key_epoch :: string
  kr_next_key_commitment :: "bytes option"
  kr_timestamp_unix_ms :: u64
  kr_authorization :: bytes
  kr_possession :: bytes

record lineage_wire =
  lw_version :: u8
  lw_inception_kem_public_key :: bytes
  lw_inception_sig_public_key :: bytes
  lw_inception_key_epoch :: string
  lw_rotations :: "key_rotation list"

text \<open>\<open>GossipConfig\<close> and \<open>ResolvedConfig\<close> of \<^verbatim>\<open>config.rs\<close>. A \<open>usize\<close> is a \<^typ>\<open>nat\<close>.\<close>

record gossip_config =
  gc_node_id :: "string option"
  gc_kem_seed_hex :: "string option"
  gc_sig_seed_hex :: "string option"
  gc_key_epoch :: "string option"
  gc_mesh_n :: "u8 option"
  gc_mesh_n_low :: "u8 option"
  gc_mesh_n_high :: "u8 option"
  gc_heartbeat_ms :: "u64 option"
  gc_max_message_bytes :: "nat option"
  gc_dedup_cache_secs :: "u64 option"
  gc_quorum_fraction :: "f64 option"
  gc_replay_window_ms :: "u64 option"
  gc_default_ttl :: "u8 option"

record resolved_config =
  rc_node_id_override :: "string option"
  rc_kem_seed :: "bytes option"
  rc_sig_seed :: "bytes option"
  rc_key_epoch :: string
  rc_mesh_n :: u8
  rc_mesh_n_low :: u8
  rc_mesh_n_high :: u8
  rc_heartbeat_ms :: u64
  rc_max_message_bytes :: nat
  rc_dedup_cache_secs :: u64
  rc_quorum_fraction :: f64
  rc_replay_window_ms :: u64
  rc_default_ttl :: u8

section \<open>Dispatch of incoming bytes\<close>

datatype message_kind =
    KindHandshakeProbe
  | KindHandshakeAck
  | KindHandshakeFinish
  | KindHandshakeFinishAck
  | KindGossipEnvelope

definition classify_incoming :: "bytes \<Rightarrow> message_kind" where
  "classify_incoming bytes =
     (let payload = (if length bytes > 8 then drop 8 bytes else bytes) in
      if starts_with payload HANDSHAKE_FINISH_ACK_MAGIC then KindHandshakeFinishAck
      else if starts_with payload HANDSHAKE_FINISH_MAGIC then KindHandshakeFinish
      else if starts_with payload HANDSHAKE_ACK_MAGIC then KindHandshakeAck
      else if starts_with payload HANDSHAKE_PROBE_MAGIC then KindHandshakeProbe
      else KindGossipEnvelope)"

text \<open>The magic that announces each kind of handshake message.\<close>

fun magic_of :: "message_kind \<Rightarrow> bytes option" where
  "magic_of KindHandshakeProbe = Some HANDSHAKE_PROBE_MAGIC"
| "magic_of KindHandshakeAck = Some HANDSHAKE_ACK_MAGIC"
| "magic_of KindHandshakeFinish = Some HANDSHAKE_FINISH_MAGIC"
| "magic_of KindHandshakeFinishAck = Some HANDSHAKE_FINISH_ACK_MAGIC"
| "magic_of KindGossipEnvelope = None"

text \<open>No two magics can start the same byte string: at the first byte where they differ, both
  are still inside their magic.\<close>

lemma starts_with_zip:
  assumes "starts_with xs (as_bytes s)" and "starts_with xs (as_bytes t)"
  shows "list_all (\<lambda>(c, d). c = d) (zip s t)"
proof -
  have "s ! i = t ! i" if "i < length s" and "i < length t" for i
  proof -
    have "xs ! i = as_bytes s ! i" and "xs ! i = as_bytes t ! i"
      using assms that unfolding starts_with_def by (metis length_as_bytes nth_take)+
    with that show ?thesis by (simp add: as_bytes_def inj_eq [OF inj_byte_of])
  qed
  then show ?thesis by (auto simp: list_all_length)
qed

fun magic_string :: "message_kind \<Rightarrow> string option" where
  "magic_string KindHandshakeProbe = Some ''WITAN_GOSSIP_HANDSHAKE_V1''"
| "magic_string KindHandshakeAck = Some ''WITAN_GOSSIP_HANDSHAKE_ACK_V1''"
| "magic_string KindHandshakeFinish = Some ''WITAN_GOSSIP_HANDSHAKE_FINISH_V1''"
| "magic_string KindHandshakeFinishAck = Some ''WITAN_GOSSIP_HANDSHAKE_FINISH_ACK_V1''"
| "magic_string KindGossipEnvelope = None"

lemma magic_of_string: "magic_of k = Some m \<longleftrightarrow> (\<exists>s. magic_string k = Some s \<and> m = as_bytes s)"
  by (cases k) (auto simp: magic_defs)

lemma magic_string_conflict:
  assumes "magic_string k = Some s" and "magic_string k' = Some t"
    and "list_all (\<lambda>(c, d). c = d) (zip s t)"
  shows "k = k'"
  using assms by (cases k; cases k') auto

lemma magic_unique:
  assumes "magic_of k = Some m" and "magic_of k' = Some m'"
    and "starts_with xs m" and "starts_with xs m'"
  shows "k = k'"
  using assms by (auto simp: magic_of_string intro: magic_string_conflict starts_with_zip)

text \<open>The kind found is the one whose magic the bytes carry, whichever order the tests run in.\<close>

lemma classify_iff:
  assumes "magic_of k = Some m"
  shows "classify_incoming bs = k \<longleftrightarrow> starts_with (if length bs > 8 then drop 8 bs else bs) m"
proof -
  define p where "p = (if length bs > 8 then drop 8 bs else bs)"
  have uniq: "magic_of k' = Some m' \<Longrightarrow> starts_with p m' \<Longrightarrow> starts_with p m \<Longrightarrow> k' = k" for k' m'
    using magic_unique assms by blast
  note each = uniq [of KindHandshakeFinishAck HANDSHAKE_FINISH_ACK_MAGIC]
    uniq [of KindHandshakeFinish HANDSHAKE_FINISH_MAGIC]
    uniq [of KindHandshakeAck HANDSHAKE_ACK_MAGIC]
    uniq [of KindHandshakeProbe HANDSHAKE_PROBE_MAGIC]
  have "classify_incoming bs = k \<longleftrightarrow> starts_with p m"
    unfolding classify_incoming_def Let_def p_def [symmetric]
    using assms each by (cases k) auto
  then show ?thesis by (simp add: p_def)
qed

text \<open>A message whose first field is its magic, in the documented bincode layout (an 8-byte
  little-endian length, then the bytes), is classified by that magic.\<close>

lemma classify_layout:
  assumes "magic_of k = Some m"
  shows "classify_incoming (to_le_bytes n @ m @ rest) = k"
proof -
  have "m \<noteq> []" using assms by (cases k) (auto simp: magic_defs as_bytes_def)
  then show ?thesis by (subst classify_iff [OF assms]) simp
qed

end
