(* ===== verification/External.thy ===== *)
theory External
  imports Types
begin

text \<open>
  The crates the sources call and do not contain: \<open>sha2\<close>, \<open>hmac\<close>, \<open>hkdf\<close>, \<open>hex\<close>, \<open>pqc-kem\<close>,
  \<open>pqc-sig\<close>, \<open>bincode\<close> and \<open>serde_json\<close>. Each is a record of functions that the definitions
  take as an argument; nothing is assumed about a function except through the predicates of this
  theory, which state documented behaviour and appear as named hypotheses of the theorems that need
  them. A fallible function returns \<open>Inl msg\<close>, the rendering of the crate's error, or \<open>Inr v\<close>.
  Randomness is explicit: the bytes drawn by \<open>getrandom\<close> and \<open>OsRng\<close> are arguments.

  The type parameters are the opaque types of the crates: \<open>'k\<close> a hybrid KEM key pair, \<open>'p\<close> its
  public key, \<open>'c\<close> a KEM ciphertext, \<open>'s\<close> a shared secret, \<open>'d\<close> an ML-DSA-65 key pair. Signature
  public keys and signatures are the byte vectors in their public \<open>bytes\<close> fields.
\<close>

section \<open>Cryptography\<close>

datatype sig_outcome = SigOk | SigVerificationFailed | SigOther string

record ('k, 'p, 'c, 's, 'd) crypto =
  sha256 :: "bytes \<Rightarrow> bytes"
  hmac_sha256 :: "bytes \<Rightarrow> bytes \<Rightarrow> bytes"
  hkdf_sha256 :: "bytes \<Rightarrow> bytes \<Rightarrow> bytes"
  hex_encode :: "bytes \<Rightarrow> string"
  hex_decode :: "string \<Rightarrow> string + bytes"
  kem_generate :: "bytes \<Rightarrow> string + 'k"
  kem_from_secret_key_bytes :: "bytes \<Rightarrow> bytes \<Rightarrow> string + 'k"
  kem_public_key :: "'k \<Rightarrow> 'p"
  kem_pk_to_json :: "'p \<Rightarrow> string + string"
  kem_pk_from_json :: "string \<Rightarrow> string + 'p"
  kem_x25519_bytes :: "'p \<Rightarrow> string + bytes"
  kem_mlkem_bytes :: "'p \<Rightarrow> string + bytes"
  kem_encapsulate_to :: "bytes \<Rightarrow> 'p \<Rightarrow> string + 'c \<times> 's"
  kem_decapsulate :: "'k \<Rightarrow> 'c \<Rightarrow> string + 's"
  ss_as_32_bytes :: "'s \<Rightarrow> string + bytes"
  ct_to_json :: "'c \<Rightarrow> string + string"
  ct_from_json :: "string \<Rightarrow> string + 'c"
  ct_bincode :: "'c \<Rightarrow> string + bytes"
  sig_generate :: "bytes \<Rightarrow> string + 'd"
  sig_from_secret_key_bytes :: "bytes \<Rightarrow> string + 'd"
  sig_public_key :: "'d \<Rightarrow> bytes"
  sig_sign_deterministic :: "'d \<Rightarrow> bytes \<Rightarrow> string + bytes"
  sig_verify :: "bytes \<Rightarrow> bytes \<Rightarrow> bytes \<Rightarrow> sig_outcome"

text \<open>SHA-256 and HMAC-SHA256 produce 32 bytes; HKDF is asked for 32 bytes.\<close>

definition hash_laws :: "('k, 'p, 'c, 's, 'd) crypto \<Rightarrow> bool" where
  "hash_laws cr \<longleftrightarrow>
     (\<forall>x. array32 (sha256 cr x)) \<and> (\<forall>k x. array32 (hmac_sha256 cr k x)) \<and>
     (\<forall>i x. array32 (hkdf_sha256 cr i x))"

text \<open>Hexadecimal encoding doubles the length and is undone by decoding.\<close>

definition hex_laws :: "('k, 'p, 'c, 's, 'd) crypto \<Rightarrow> bool" where
  "hex_laws cr \<longleftrightarrow>
     (\<forall>b. hex_decode cr (hex_encode cr b) = Inr b \<and> length (hex_encode cr b) = 2 * length b)"

text \<open>
  Correctness of ML-DSA-65: what a key pair signs verifies under its public key. (No unforgeability
  is assumed anywhere: a deterministic predicate on all inputs cannot express it.)
\<close>

definition sig_laws :: "('k, 'p, 'c, 's, 'd) crypto \<Rightarrow> bool" where
  "sig_laws cr \<longleftrightarrow>
     (\<forall>kp m s. sig_sign_deterministic cr kp m = Inr s \<longrightarrow> sig_verify cr (sig_public_key cr kp) m s = SigOk)"

text \<open>
  Correctness of the hybrid KEM: decapsulation returns the encapsulated secret, and the JSON forms
  of public keys and ciphertexts parse back.
\<close>

definition kem_laws :: "('k, 'p, 'c, 's, 'd) crypto \<Rightarrow> bool" where
  "kem_laws cr \<longleftrightarrow>
     (\<forall>coins kp c s. kem_encapsulate_to cr coins (kem_public_key cr kp) = Inr (c, s) \<longrightarrow>
        kem_decapsulate cr kp c = Inr s) \<and>
     (\<forall>p j. kem_pk_to_json cr p = Inr j \<longrightarrow> kem_pk_from_json cr j = Inr p) \<and>
     (\<forall>c j. ct_to_json cr c = Inr j \<longrightarrow> ct_from_json cr j = Inr c)"

lemma hash_lawsD:
  assumes "hash_laws cr"
  shows "length (sha256 cr x) = 32" "length (hmac_sha256 cr k x) = 32" "length (hkdf_sha256 cr i x) = 32"
  using assms by (auto simp: hash_laws_def array32_def)

lemma sig_lawsD:
  "sig_laws cr \<Longrightarrow> sig_sign_deterministic cr kp m = Inr s \<Longrightarrow>
   sig_verify cr (sig_public_key cr kp) m s = SigOk"
  by (simp add: sig_laws_def)

lemma kem_lawsD:
  assumes "kem_laws cr"
  shows "kem_encapsulate_to cr coins (kem_public_key cr kp) = Inr (c, s) \<Longrightarrow> kem_decapsulate cr kp c = Inr s"
    and "kem_pk_to_json cr p = Inr j \<Longrightarrow> kem_pk_from_json cr j = Inr p"
    and "ct_to_json cr c = Inr j' \<Longrightarrow> ct_from_json cr j' = Inr c"
  using assms by (auto simp: kem_laws_def)

section \<open>Serialization\<close>

text \<open>
  \<open>bincode::serialize\<close> and \<open>bincode::deserialize\<close> at the types the sources use them at, and the
  length-limited decoder \<open>KeyLineage::decode\<close> configures (its first argument is the limit).
\<close>

record codec =
  ser_envelope :: "gossip_envelope \<Rightarrow> string + bytes"
  de_envelope :: "bytes \<Rightarrow> string + gossip_envelope"
  ser_probe :: "handshake_probe \<Rightarrow> string + bytes"
  de_probe :: "bytes \<Rightarrow> string + handshake_probe"
  ser_ack :: "handshake_ack \<Rightarrow> string + bytes"
  de_ack :: "bytes \<Rightarrow> string + handshake_ack"
  ser_finish :: "handshake_finish \<Rightarrow> string + bytes"
  de_finish :: "bytes \<Rightarrow> string + handshake_finish"
  ser_finish_ack :: "handshake_finish_ack \<Rightarrow> string + bytes"
  de_finish_ack :: "bytes \<Rightarrow> string + handshake_finish_ack"
  ser_lineage :: "lineage_wire \<Rightarrow> string + bytes"
  de_lineage :: "nat \<Rightarrow> bytes \<Rightarrow> string + lineage_wire"

text \<open>Decoding undoes encoding (for the limited decoder, up to its limit).\<close>

definition roundtrip :: "('a \<Rightarrow> string + bytes) \<Rightarrow> (bytes \<Rightarrow> string + 'a) \<Rightarrow> bool" where
  "roundtrip ser de \<longleftrightarrow> (\<forall>v b. ser v = Inr b \<longrightarrow> de b = Inr v)"

definition bincode_laws :: "codec \<Rightarrow> bool" where
  "bincode_laws bc \<longleftrightarrow>
     roundtrip (ser_envelope bc) (de_envelope bc) \<and>
     roundtrip (ser_probe bc) (de_probe bc) \<and>
     roundtrip (ser_ack bc) (de_ack bc) \<and>
     roundtrip (ser_finish bc) (de_finish bc) \<and>
     roundtrip (ser_finish_ack bc) (de_finish_ack bc)"

definition lineage_codec_laws :: "codec \<Rightarrow> bool" where
  "lineage_codec_laws bc \<longleftrightarrow>
     (\<forall>w b lim. ser_lineage bc w = Inr b \<longrightarrow> length b \<le> lim \<longrightarrow> de_lineage bc lim b = Inr w)"

text \<open>
  The layout the dispatcher relies on (comment at \<open>classify_incoming\<close>): a struct is the
  concatenation of its fields, and a \<open>Vec<u8>\<close> is its 8-byte little-endian length and its bytes.
\<close>

definition magic_first :: "('a \<Rightarrow> string + bytes) \<Rightarrow> ('a \<Rightarrow> bytes) \<Rightarrow> bool" where
  "magic_first ser magic \<longleftrightarrow>
     (\<forall>v b. ser v = Inr b \<longrightarrow> (\<exists>rest. b = to_le_bytes (word_of_nat (length (magic v))) @ magic v @ rest))"

definition layout_laws :: "codec \<Rightarrow> bool" where
  "layout_laws bc \<longleftrightarrow>
     magic_first (ser_probe bc) probe_magic \<and> magic_first (ser_ack bc) ack_magic \<and>
     magic_first (ser_finish bc) fin_magic \<and> magic_first (ser_finish_ack bc) fack_magic"

lemma bincode_lawsD:
  assumes "bincode_laws bc"
  shows "ser_envelope bc e = Inr b \<Longrightarrow> de_envelope bc b = Inr e"
    and "ser_probe bc p = Inr b \<Longrightarrow> de_probe bc b = Inr p"
    and "ser_ack bc a = Inr b \<Longrightarrow> de_ack bc b = Inr a"
    and "ser_finish bc f = Inr b \<Longrightarrow> de_finish bc b = Inr f"
    and "ser_finish_ack bc g = Inr b \<Longrightarrow> de_finish_ack bc b = Inr g"
  using assms by (auto simp: bincode_laws_def roundtrip_def)

lemma magic_first_classify:
  assumes "magic_first ser magic" and "ser v = Inr b" and "magic_of k = Some (magic v)"
  shows "classify_incoming b = k"
  using assms classify_layout unfolding magic_first_def by blast

text \<open>
  The calls of the handshake that fail only on malformed input or exhausted resources: serializing
  a message, rendering the public key of a key pair, encapsulating to it, rendering what that
  gives, signing. Nothing is said of public keys that belong to no key pair.
\<close>

definition externals_total :: "('k, 'p, 'c, 's, 'd) crypto \<Rightarrow> codec \<Rightarrow> bool" where
  "externals_total cr bc \<longleftrightarrow>
     (\<forall>v. \<exists>b. ser_probe bc v = Inr b) \<and> (\<forall>v. \<exists>b. ser_ack bc v = Inr b) \<and>
     (\<forall>v. \<exists>b. ser_finish bc v = Inr b) \<and> (\<forall>v. \<exists>b. ser_finish_ack bc v = Inr b) \<and>
     (\<forall>kp. \<exists>j. kem_pk_to_json cr (kem_public_key cr kp) = Inr j) \<and>
     (\<forall>r kp. \<exists>c s. kem_encapsulate_to cr r (kem_public_key cr kp) = Inr (c, s)) \<and>
     (\<forall>s. \<exists>b. ss_as_32_bytes cr s = Inr b) \<and>
     (\<forall>c. \<exists>j. ct_to_json cr c = Inr j) \<and> (\<forall>c. \<exists>b. ct_bincode cr c = Inr b) \<and>
     (\<forall>kp m. \<exists>s. sig_sign_deterministic cr kp m = Inr s)"

lemma externals_totalD:
  assumes "externals_total cr bc"
  shows "\<exists>b. ser_probe bc pv = Inr b" and "\<exists>b. ser_ack bc av = Inr b" and "\<exists>b. ser_finish bc fv = Inr b"
    and "\<exists>b. ser_finish_ack bc gv = Inr b" and "\<exists>j. kem_pk_to_json cr (kem_public_key cr kk) = Inr j"
    and "\<exists>c s. kem_encapsulate_to cr r (kem_public_key cr kk) = Inr (c, s)" and "\<exists>b. ss_as_32_bytes cr sec = Inr b"
    and "\<exists>j. ct_to_json cr c = Inr j" and "\<exists>b. ct_bincode cr c = Inr b"
    and "\<exists>s. sig_sign_deterministic cr kp m = Inr s"
  using assms unfolding externals_total_def by blast+

text \<open>
  The documented sizes of the public keys of a key pair (X25519 32 bytes, ML-KEM-768 1184 bytes, ML-DSA-65 1952
  bytes), and that writing a lineage to a vector succeeds.
\<close>

definition key_size_laws :: "('k, 'p, 'c, 's, 'd) crypto \<Rightarrow> bool" where
  "key_size_laws cr \<longleftrightarrow>
     (\<forall>kp. \<exists>x m. kem_x25519_bytes cr (kem_public_key cr kp) = Inr x \<and> length x = 32 \<and>
        kem_mlkem_bytes cr (kem_public_key cr kp) = Inr m \<and> length m = 1184) \<and>
     (\<forall>kp. length (sig_public_key cr kp) = 1952)"

definition lineage_ser_total :: "codec \<Rightarrow> bool" where
  "lineage_ser_total bc \<longleftrightarrow> (\<forall>w. \<exists>b. ser_lineage bc w = Inr b)"

section \<open>JSON\<close>

text \<open>The values \<open>serde_json::json!\<close> builds at the call sites, and the renderers of the API.\<close>

datatype json_value = JStr string | JU64 u64 | JBool bool | JNull

record json =
  json_parse_config :: "string \<Rightarrow> string + gossip_config"
  json_of_envelope :: "gossip_envelope \<Rightarrow> string + string"
  json_of_stats :: "gossip_stats \<Rightarrow> string + string"
  json_of_peers :: "peer_info list \<Rightarrow> string + string"
  json_of_identity :: "node_identity_public \<Rightarrow> string + string"
  json_of_object :: "(string \<times> json_value) list \<Rightarrow> string + string"

end
