(* ===== verification/Config.thy ===== *)
theory Config
  imports External
begin

text \<open>
  \<^verbatim>\<open>witan/src/config.rs\<close>: parsing a configuration and resolving it, with the defaults, the seed
  decoding and the range checks. \<open>config_ok\<close> is what a resolved configuration guarantees to the
  engine.
\<close>

definition config_from_json :: "json \<Rightarrow> string \<Rightarrow> gossip_config res" where
  "config_from_json js s = map_err (\<lambda>e. ConfigError (''JSON parse error: '' @ e)) (json_parse_config js s)"

text \<open>\<open>if let Some(hex_str)\<close> with its decoding and length check, for a seed of \<open>n\<close> bytes.\<close>

definition resolve_seed ::
    "('k, 'p, 'c, 's, 'd) crypto \<Rightarrow> string \<Rightarrow> nat \<Rightarrow> nat \<Rightarrow> string option \<Rightarrow> bytes option res" where
  "resolve_seed cr field n hexchars seed =
     (case seed of
        Some hex_str \<Rightarrow>
          and_then (map_err (\<lambda>e. ConfigError (field @ '' decode error: '' @ e)) (hex_decode cr hex_str))
            (\<lambda>bytes.
               check (length bytes = n)
                 (ConfigError (field @ '' must be '' @ dec n @ '' bytes ('' @ dec hexchars @ '' hex chars), got ''
                   @ dec (length bytes) @ '' bytes''))
                 (Ok (Some bytes)))
      | None \<Rightarrow> Ok None)"

definition unwrap_or :: "'a option \<Rightarrow> 'a \<Rightarrow> 'a" where
  "unwrap_or x d = (case x of Some v \<Rightarrow> v | None \<Rightarrow> d)"

definition resolve :: "('k, 'p, 'c, 's, 'd) crypto \<Rightarrow> gossip_config \<Rightarrow> resolved_config res" where
  "resolve cr gc =
     and_then (resolve_seed cr ''kem_seed_hex'' 96 192 (gc_kem_seed_hex gc)) (\<lambda>kem_seed.
     and_then (resolve_seed cr ''sig_seed_hex'' 32 64 (gc_sig_seed_hex gc)) (\<lambda>sig_seed.
     let mesh_n = unwrap_or (gc_mesh_n gc) 8;
         mesh_n_low = unwrap_or (gc_mesh_n_low gc) 4;
         mesh_n_high = unwrap_or (gc_mesh_n_high gc) 12;
         quorum_fraction = unwrap_or (gc_quorum_fraction gc) (f64_round (67 / 100)) in
     check (mesh_n_low \<le> mesh_n) (ConfigError ''mesh_n_low must be <= mesh_n'')
     (check (mesh_n \<le> mesh_n_high) (ConfigError ''mesh_n must be <= mesh_n_high'')
     (check (f64_in_unit quorum_fraction) (ConfigError ''quorum_fraction must be between 0.0 and 1.0'')
     (Ok \<lparr>rc_node_id_override = gc_node_id gc,
          rc_kem_seed = kem_seed,
          rc_sig_seed = sig_seed,
          rc_key_epoch = unwrap_or (gc_key_epoch gc) ''ephemeral-runtime'',
          rc_mesh_n = mesh_n,
          rc_mesh_n_low = mesh_n_low,
          rc_mesh_n_high = mesh_n_high,
          rc_heartbeat_ms = unwrap_or (gc_heartbeat_ms gc) 700,
          rc_max_message_bytes = unwrap_or (gc_max_message_bytes gc) 1048576,
          rc_dedup_cache_secs = unwrap_or (gc_dedup_cache_secs gc) 60,
          rc_quorum_fraction = quorum_fraction,
          rc_replay_window_ms = unwrap_or (gc_replay_window_ms gc) 30000,
          rc_default_ttl = unwrap_or (gc_default_ttl gc) 8\<rparr>)))))"

definition config_ok :: "resolved_config \<Rightarrow> bool" where
  "config_ok rc \<longleftrightarrow>
     rc_mesh_n_low rc \<le> rc_mesh_n rc \<and> rc_mesh_n rc \<le> rc_mesh_n_high rc \<and>
     f64_in_unit (rc_quorum_fraction rc) \<and>
     (\<forall>s. rc_kem_seed rc = Some s \<longrightarrow> length s = 96) \<and>
     (\<forall>s. rc_sig_seed rc = Some s \<longrightarrow> length s = 32)"

lemma resolve_seed_Ok:
  "resolve_seed cr f n h seed = Ok r \<longleftrightarrow>
     (case seed of None \<Rightarrow> r = None
      | Some hx \<Rightarrow> \<exists>b. hex_decode cr hx = Inr b \<and> length b = n \<and> r = Some b)"
  by (auto simp: resolve_seed_def split: option.splits)

lemma resolve_config_ok: "resolve cr gc = Ok rc \<Longrightarrow> config_ok rc"
  by (auto simp: resolve_def Let_def config_ok_def resolve_seed_Ok split: option.splits)

lemma resolve_seed_length:
  "resolve_seed cr f n h seed = Ok r \<Longrightarrow> case r of Some s \<Rightarrow> length s = n | None \<Rightarrow> seed = None"
  by (auto simp: resolve_seed_Ok split: option.splits)

lemma resolve_Ok_seeds:
  "resolve cr gc = Ok rc \<Longrightarrow> resolve_seed cr ''kem_seed_hex'' 96 192 (gc_kem_seed_hex gc) = Ok (rc_kem_seed rc) \<and>
     resolve_seed cr ''sig_seed_hex'' 32 64 (gc_sig_seed_hex gc) = Ok (rc_sig_seed rc)"
  by (auto simp: resolve_def Let_def)

lemma resolve_Ok_defaults:
  assumes "resolve cr gc = Ok rc"
  shows "rc_mesh_n rc = unwrap_or (gc_mesh_n gc) 8" "rc_mesh_n_low rc = unwrap_or (gc_mesh_n_low gc) 4"
    "rc_mesh_n_high rc = unwrap_or (gc_mesh_n_high gc) 12"
    "rc_quorum_fraction rc = unwrap_or (gc_quorum_fraction gc) (f64_round (67 / 100))"
    "rc_replay_window_ms rc = unwrap_or (gc_replay_window_ms gc) 30000"
    "rc_default_ttl rc = unwrap_or (gc_default_ttl gc) 8"
    "rc_key_epoch rc = unwrap_or (gc_key_epoch gc) ''ephemeral-runtime''"
    "rc_heartbeat_ms rc = unwrap_or (gc_heartbeat_ms gc) 700"
    "rc_node_id_override rc = gc_node_id gc"
    "rc_dedup_cache_secs rc = unwrap_or (gc_dedup_cache_secs gc) 60"
    "rc_max_message_bytes rc = unwrap_or (gc_max_message_bytes gc) 1048576"
  using assms by (auto simp: resolve_def Let_def)

lemma resolve_not_Panic [simp]: "resolve cr gc \<noteq> Panic"
  by (auto simp: resolve_def resolve_seed_def Let_def split: option.splits)

end
