(* ===== verification/HashMap.thy ===== *)
theory HashMap
  imports Prelude "HOL-Library.AList" "HOL-Library.Multiset"
begin

text \<open>
  \<open>std::collections::HashMap\<close> as the sources use it. A map is an association list with distinct
  keys; the order of the list is the order in which \<open>keys\<close>, \<open>values\<close> and \<open>retain\<close> visit the
  entries. Rust leaves that order unspecified: theorems about iteration are stated for every list,
  and the step relation of the component permutes the lists arbitrarily between calls.
  \<open>hash_map\<close> is the contract the stores built on a map rely on.
\<close>

type_synonym ('k, 'v) hashmap = "('k \<times> 'v) list"

definition hm_empty :: "('k, 'v) hashmap" where
  "hm_empty = []"

definition hm_get :: "'k \<Rightarrow> ('k, 'v) hashmap \<Rightarrow> 'v option" where
  "hm_get k m = map_of m k"

definition hm_insert :: "'k \<Rightarrow> 'v \<Rightarrow> ('k, 'v) hashmap \<Rightarrow> ('k, 'v) hashmap" where
  "hm_insert k v m = AList.update k v m"

definition hm_remove :: "'k \<Rightarrow> ('k, 'v) hashmap \<Rightarrow> ('k, 'v) hashmap" where
  "hm_remove k m = AList.delete k m"

definition hm_retain :: "('k \<Rightarrow> 'v \<Rightarrow> bool) \<Rightarrow> ('k, 'v) hashmap \<Rightarrow> ('k, 'v) hashmap" where
  "hm_retain P m = filter (\<lambda>(k, v). P k v) m"

definition hm_keys :: "('k, 'v) hashmap \<Rightarrow> 'k list" where
  "hm_keys m = map fst m"

definition hm_values :: "('k, 'v) hashmap \<Rightarrow> 'v list" where
  "hm_values m = map snd m"

definition hm_len :: "('k, 'v) hashmap \<Rightarrow> nat" where
  "hm_len m = length m"

definition hm_inv :: "('k, 'v) hashmap \<Rightarrow> bool" where
  "hm_inv m \<longleftrightarrow> distinct (map fst m)"

text \<open>The contract.\<close>

locale hash_map =
  fixes empty :: 'm
    and get :: "'k \<Rightarrow> 'm \<Rightarrow> 'v option"
    and insert :: "'k \<Rightarrow> 'v \<Rightarrow> 'm \<Rightarrow> 'm"
    and remove :: "'k \<Rightarrow> 'm \<Rightarrow> 'm"
    and retain :: "('k \<Rightarrow> 'v \<Rightarrow> bool) \<Rightarrow> 'm \<Rightarrow> 'm"
    and keys :: "'m \<Rightarrow> 'k list"
    and len :: "'m \<Rightarrow> nat"
    and inv :: "'m \<Rightarrow> bool"
  assumes get_empty [simp]: "get k empty = None"
    and get_insert: "get k' (insert k v m) = (if k' = k then Some v else get k' m)"
    and get_remove: "inv m \<Longrightarrow> get k' (remove k m) = (if k' = k then None else get k' m)"
    and get_retain: "inv m \<Longrightarrow> get k (retain P m) =
          (case get k m of Some v \<Rightarrow> if P k v then Some v else None | None \<Rightarrow> None)"
    and set_keys: "set (keys m) = {k. get k m \<noteq> None}"
    and distinct_keys: "inv m \<Longrightarrow> distinct (keys m)"
    and len_keys: "len m = length (keys m)"
    and inv_empty [simp]: "inv empty"
    and inv_insert [simp]: "inv m \<Longrightarrow> inv (insert k v m)"
    and inv_remove [simp]: "inv m \<Longrightarrow> inv (remove k m)"
    and inv_retain [simp]: "inv m \<Longrightarrow> inv (retain P m)"
begin

lemma get_insert_same [simp]: "get k (insert k v m) = Some v"
  by (simp add: get_insert)

lemma get_insert_other [simp]: "k' \<noteq> k \<Longrightarrow> get k' (insert k v m) = get k' m"
  by (simp add: get_insert)

lemma get_remove_same [simp]: "inv m \<Longrightarrow> get k (remove k m) = None"
  by (simp add: get_remove)

lemma get_remove_other [simp]: "inv m \<Longrightarrow> k' \<noteq> k \<Longrightarrow> get k' (remove k m) = get k' m"
  by (simp add: get_remove)

lemma get_retain_Some:
  "inv m \<Longrightarrow> get k (retain P m) = Some v \<longleftrightarrow> get k m = Some v \<and> P k v"
  by (auto simp: get_retain split: option.splits)

lemma len_card: "inv m \<Longrightarrow> len m = card {k. get k m \<noteq> None}"
  by (metis distinct_card distinct_keys len_keys set_keys)

lemma finite_dom: "finite {k. get k m \<noteq> None}"
  by (metis List.finite_set set_keys)

lemma len_insert:
  assumes "inv m"
  shows "len (insert k v m) = (if get k m = None then Suc (len m) else len m)"
proof -
  have "{k'. get k' (insert k v m) \<noteq> None} = Set.insert k {k'. get k' m \<noteq> None}"
    by (auto simp: get_insert)
  then show ?thesis
    using assms finite_dom [of m] by (auto simp: len_card card_insert_if)
qed

lemma len_remove:
  assumes "inv m"
  shows "len (remove k m) = (if get k m = None then len m else len m - 1)"
proof -
  have "{k'. get k' (remove k m) \<noteq> None} = {k'. get k' m \<noteq> None} - {k}"
    using assms by (auto simp: get_remove)
  then show ?thesis
    using assms finite_dom [of m] by (auto simp: len_card)
qed

lemma len_retain_le: "inv m \<Longrightarrow> len (retain P m) \<le> len m"
  using finite_dom [of m] by (auto simp: len_card get_retain split: option.splits intro!: card_mono)

end

interpretation hm: hash_map hm_empty hm_get hm_insert hm_remove hm_retain hm_keys hm_len hm_inv
proof
  fix k k' :: 'k and v :: 'v and m :: "('k, 'v) hashmap" and P
  show "hm_get k (hm_empty :: ('k, 'v) hashmap) = None" by (simp add: hm_get_def hm_empty_def)
  show "hm_get k' (hm_insert k v m) = (if k' = k then Some v else hm_get k' m)"
    by (simp add: hm_get_def hm_insert_def update_conv')
  show "hm_get k' (hm_remove k m) = (if k' = k then None else hm_get k' m)"
    by (simp add: hm_get_def hm_remove_def delete_conv')
  show "hm_inv m \<Longrightarrow> hm_get k (hm_retain P m) =
      (case hm_get k m of Some v \<Rightarrow> if P k v then Some v else None | None \<Rightarrow> None)"
    unfolding hm_inv_def hm_get_def hm_retain_def
    by (induction m) (auto split: option.splits simp: map_of_eq_None_iff)
  show "set (hm_keys m) = {k. hm_get k m \<noteq> None}"
    by (auto simp: hm_keys_def hm_get_def map_of_eq_None_iff)
  show "hm_inv m \<Longrightarrow> distinct (hm_keys m)" by (simp add: hm_inv_def hm_keys_def)
  show "hm_len m = length (hm_keys m)" by (simp add: hm_len_def hm_keys_def)
  show "hm_inv (hm_empty :: ('k, 'v) hashmap)" by (simp add: hm_inv_def hm_empty_def)
  show "hm_inv m \<Longrightarrow> hm_inv (hm_insert k v m)"
    by (simp add: hm_inv_def hm_insert_def distinct_update)
  show "hm_inv m \<Longrightarrow> hm_inv (hm_remove k m)"
    by (simp add: hm_inv_def hm_remove_def distinct_delete)
  show "hm_inv m \<Longrightarrow> hm_inv (hm_retain P m)"
    by (simp add: hm_inv_def hm_retain_def distinct_map_filter)
qed

lemma hm_values_iff: "hm_inv m \<Longrightarrow> v \<in> set (hm_values m) \<longleftrightarrow> (\<exists>k. hm_get k m = Some v)"
  by (force simp: hm_values_def hm_inv_def hm_get_def dest: map_of_SomeD)

text \<open>A permutation of the entries is the same map.\<close>

lemma hm_get_perm:
  assumes "hm_inv m" and "mset m = mset m'"
  shows "hm_inv m'" and "hm_get k m' = hm_get k m"
proof -
  have "mset (map fst m) = mset (map fst m')" using assms(2) by simp
  then show inv': "hm_inv m'"
    using assms(1) unfolding hm_inv_def by (metis mset_eq_imp_distinct_iff)
  have "set m = set m'" using assms(2) by (rule mset_eq_setD)
  then show "hm_get k m' = hm_get k m"
    using assms(1) inv' unfolding hm_get_def hm_inv_def by (metis map_of_inject_set)
qed

end
