(* ===== verification/Dedup.thy ===== *)
theory Dedup
  imports HashMap Errors
begin

text \<open>
  \<^verbatim>\<open>witan/src/dedup.rs\<close>: the deduplication cache. \<open>ttl_secs * 1000\<close> is computed on 64-bit words
  and wraps, as it does in a release build. The abstract specification remembers the last insertion
  time of every id and never forgets; the refinement theorem shows that lazy eviction cannot be
  observed as long as the clock does not go backwards.
\<close>

record dedup_cache =
  dc_entries :: "(bytes, u64) hashmap"
  dc_ttl_ms :: u64

definition dedup_new :: "u64 \<Rightarrow> dedup_cache" where
  "dedup_new ttl_secs = \<lparr>dc_entries = hm_empty, dc_ttl_ms = ttl_secs * 1000\<rparr>"

definition evict_expired :: "u64 \<Rightarrow> dedup_cache \<Rightarrow> dedup_cache" where
  "evict_expired now_ms c =
     c\<lparr>dc_entries := hm_retain (\<lambda>_ ts. saturating_sub now_ms ts \<le> dc_ttl_ms c) (dc_entries c)\<rparr>"

definition is_duplicate :: "bytes \<Rightarrow> u64 \<Rightarrow> dedup_cache \<Rightarrow> bool \<times> dedup_cache" where
  "is_duplicate message_id now_ms c =
     (let c' = evict_expired now_ms c in (hm_get message_id (dc_entries c') \<noteq> None, c'))"

definition dedup_insert :: "bytes \<Rightarrow> u64 \<Rightarrow> dedup_cache \<Rightarrow> dedup_cache" where
  "dedup_insert message_id now_ms c = c\<lparr>dc_entries := hm_insert message_id now_ms (dc_entries c)\<rparr>"

definition dedup_len :: "dedup_cache \<Rightarrow> nat" where
  "dedup_len c = hm_len (dc_entries c)"

definition dedup_is_empty :: "dedup_cache \<Rightarrow> bool" where
  "dedup_is_empty c \<longleftrightarrow> hm_len (dc_entries c) = 0"

definition active_ids :: "dedup_cache \<Rightarrow> bytes list" where
  "active_ids c = hm_keys (dc_entries c)"

definition dedup_inv :: "dedup_cache \<Rightarrow> bool" where
  "dedup_inv c \<longleftrightarrow> hm_inv (dc_entries c)"

section \<open>Behaviour of the operations\<close>

text \<open>An insertion time is live at \<open>now\<close> while at most the TTL has passed.\<close>

definition live :: "u64 \<Rightarrow> u64 \<Rightarrow> u64 \<Rightarrow> bool" where
  "live ttl now ts \<longleftrightarrow> unat now \<le> unat ts + unat ttl"

lemma live_antimono: "live ttl now ts \<Longrightarrow> now' \<le> now \<Longrightarrow> live ttl now' ts"
  by (simp add: live_def word_le_nat_alt)

lemma dedup_inv_new [simp, wf_rules]: "dedup_inv (dedup_new secs)"
  by (simp add: dedup_inv_def dedup_new_def)

lemma dedup_inv_evict [simp, wf_rules]: "dedup_inv c \<Longrightarrow> dedup_inv (evict_expired now c)"
  by (simp add: dedup_inv_def evict_expired_def)

lemma dedup_inv_insert [simp, wf_rules]: "dedup_inv c \<Longrightarrow> dedup_inv (dedup_insert m now c)"
  by (simp add: dedup_inv_def dedup_insert_def)

lemma dedup_inv_is_duplicate [simp, wf_rules]: "dedup_inv c \<Longrightarrow> dedup_inv (snd (is_duplicate m now c))"
  by (simp add: is_duplicate_def Let_def)

lemma ttl_evict [simp]: "dc_ttl_ms (evict_expired now c) = dc_ttl_ms c"
  by (simp add: evict_expired_def)

lemma ttl_insert [simp]: "dc_ttl_ms (dedup_insert m now c) = dc_ttl_ms c"
  by (simp add: dedup_insert_def)

lemma get_evict:
  "dedup_inv c \<Longrightarrow> hm_get m (dc_entries (evict_expired now c)) = Some ts \<longleftrightarrow>
     hm_get m (dc_entries c) = Some ts \<and> live (dc_ttl_ms c) now ts"
  by (auto simp: dedup_inv_def evict_expired_def hm.get_retain_Some saturating_sub_le_iff live_def)

lemma get_dedup_insert:
  "hm_get m (dc_entries (dedup_insert m' now c)) = (if m = m' then Some now else hm_get m (dc_entries c))"
  by (simp add: dedup_insert_def hm.get_insert)

lemma is_duplicate_iff:
  "dedup_inv c \<Longrightarrow> fst (is_duplicate m now c) \<longleftrightarrow>
     (\<exists>ts. hm_get m (dc_entries c) = Some ts \<and> live (dc_ttl_ms c) now ts)"
  by (auto simp: is_duplicate_def Let_def get_evict)

lemma set_active_ids: "set (active_ids c) = {m. hm_get m (dc_entries c) \<noteq> None}"
  by (simp add: active_ids_def hm.set_keys)

section \<open>Specification and refinement\<close>

text \<open>
  The operations a client performs, with their clock readings, and the answers it sees. The
  specification keeps the last insertion time of each id.
\<close>

datatype dedup_op = OpInsert bytes u64 | OpQuery bytes u64 | OpEvict u64

fun op_time :: "dedup_op \<Rightarrow> u64" where
  "op_time (OpInsert m t) = t"
| "op_time (OpQuery m t) = t"
| "op_time (OpEvict t) = t"

fun dedup_step :: "dedup_op \<Rightarrow> dedup_cache \<Rightarrow> bool option \<times> dedup_cache" where
  "dedup_step (OpInsert m t) c = (None, dedup_insert m t c)"
| "dedup_step (OpQuery m t) c = (case is_duplicate m t c of (d, c') \<Rightarrow> (Some d, c'))"
| "dedup_step (OpEvict t) c = (None, evict_expired t c)"

fun spec_step :: "u64 \<Rightarrow> dedup_op \<Rightarrow> (bytes \<Rightarrow> u64 option) \<Rightarrow> bool option \<times> (bytes \<Rightarrow> u64 option)" where
  "spec_step ttl (OpInsert m t) s = (None, s(m := Some t))"
| "spec_step ttl (OpQuery m t) s = (Some (\<exists>ts. s m = Some ts \<and> live ttl t ts), s)"
| "spec_step ttl (OpEvict t) s = (None, s)"

fun dedup_run :: "dedup_op list \<Rightarrow> dedup_cache \<Rightarrow> bool option list" where
  "dedup_run [] c = []"
| "dedup_run (x # xs) c = (case dedup_step x c of (r, c') \<Rightarrow> r # dedup_run xs c')"

fun spec_run :: "u64 \<Rightarrow> dedup_op list \<Rightarrow> (bytes \<Rightarrow> u64 option) \<Rightarrow> bool option list" where
  "spec_run ttl [] s = []"
| "spec_run ttl (x # xs) s = (case spec_step ttl x s of (r, s') \<Rightarrow> r # spec_run ttl xs s')"

text \<open>
  The interface between a cache and its clients: a set of ids that are duplicates at a time. The
  engine's publish path is proved against these laws.
\<close>

locale dedup_contract =
  fixes query :: "bytes \<Rightarrow> u64 \<Rightarrow> 'c \<Rightarrow> bool \<times> 'c"
    and ins :: "bytes \<Rightarrow> u64 \<Rightarrow> 'c \<Rightarrow> 'c"
    and evict :: "u64 \<Rightarrow> 'c \<Rightarrow> 'c"
    and ttl :: "'c \<Rightarrow> u64"
    and inv :: "'c \<Rightarrow> bool"
  assumes fresh_after_insert: "inv c \<Longrightarrow> fst (query m t' (ins m t c)) \<longleftrightarrow> live (ttl c) t' t"
    and insert_other: "inv c \<Longrightarrow> m \<noteq> m' \<Longrightarrow> fst (query m t' (ins m' t c)) = fst (query m t' c)"
    and query_stable: "inv c \<Longrightarrow> t \<le> t' \<Longrightarrow> fst (query m t' (snd (query m'' t c))) = fst (query m t' c)"
    and evict_stable: "inv c \<Longrightarrow> t \<le> t' \<Longrightarrow> fst (query m t' (evict t c)) = fst (query m t' c)"
    and inv_query: "inv c \<Longrightarrow> inv (snd (query m t c))"
    and inv_ins: "inv c \<Longrightarrow> inv (ins m t c)"
    and ttl_query: "ttl (snd (query m t c)) = ttl c"
begin

text \<open>A checked insertion, as \<open>publish\<close> performs it: the same id is refused until the TTL has
  passed, and accepted afterwards.\<close>

lemma checked_insert_blocks:
  assumes "inv c"
  shows "fst (query m t' (ins m t (snd (query m t c)))) \<longleftrightarrow> live (ttl c) t' t"
  using assms by (simp add: fresh_after_insert inv_query ttl_query)

lemma checked_insert_other:
  assumes "inv c" and "m \<noteq> m'" and "t \<le> t'"
  shows "fst (query m t' (ins m' t (snd (query m' t c)))) = fst (query m t' c)"
  using assms by (simp add: insert_other inv_query query_stable)

end

interpretation dedup: dedup_contract is_duplicate dedup_insert evict_expired dc_ttl_ms dedup_inv
proof
  fix c :: dedup_cache and m m' m'' t t'
  assume inv: "dedup_inv c"
  show "fst (is_duplicate m t' (dedup_insert m t c)) \<longleftrightarrow> live (dc_ttl_ms c) t' t"
    using inv by (simp add: is_duplicate_iff get_dedup_insert)
  show "m \<noteq> m' \<Longrightarrow> fst (is_duplicate m t' (dedup_insert m' t c)) = fst (is_duplicate m t' c)"
    using inv by (simp add: is_duplicate_iff get_dedup_insert)
  show ev: "t \<le> t' \<Longrightarrow> fst (is_duplicate m t' (evict_expired t c)) = fst (is_duplicate m t' c)"
    using inv by (auto simp: is_duplicate_iff get_evict dest: live_antimono)
  then show "t \<le> t' \<Longrightarrow> fst (is_duplicate m t' (snd (is_duplicate m'' t c))) = fst (is_duplicate m t' c)"
    by (simp add: is_duplicate_def [of m'' t] Let_def)
  show "dedup_inv (snd (is_duplicate m t c))" using inv by simp
  show "dedup_inv (dedup_insert m t c)" using inv by simp
next
  fix c m t
  show "dc_ttl_ms (snd (is_duplicate m t c)) = dc_ttl_ms c" by (simp add: is_duplicate_def Let_def)
qed

text \<open>The simulation: the cache holds exactly the entries of the specification that are live at the
  last clock reading, and possibly some that are not.\<close>

definition dedup_sim :: "u64 \<Rightarrow> dedup_cache \<Rightarrow> (bytes \<Rightarrow> u64 option) \<Rightarrow> bool" where
  "dedup_sim now c s \<longleftrightarrow>
     dedup_inv c \<and>
     (\<forall>m ts. hm_get m (dc_entries c) = Some ts \<longrightarrow> s m = Some ts) \<and>
     (\<forall>m ts. s m = Some ts \<and> live (dc_ttl_ms c) now ts \<longrightarrow> hm_get m (dc_entries c) = Some ts)"

lemma dedup_sim_step:
  assumes sim: "dedup_sim now c s" and later: "now \<le> op_time x"
    and st: "dedup_step x c = (r, c')" and sp: "spec_step (dc_ttl_ms c) x s = (r', s')"
  shows "r = r' \<and> dedup_sim (op_time x) c' s' \<and> dc_ttl_ms c' = dc_ttl_ms c"
proof -
  have inv: "dedup_inv c" using sim by (simp add: dedup_sim_def)
  have up: "live (dc_ttl_ms c) now ts" if "live (dc_ttl_ms c) (op_time x) ts" for ts
    using that later by (rule live_antimono)
  have agree: "hm_get m (dc_entries c) = Some ts"
    if "s m = Some ts" and "live (dc_ttl_ms c) (op_time x) ts" for m ts
    using sim up [OF that(2)] that(1) unfolding dedup_sim_def by blast
  have sound: "s m = Some ts" if "hm_get m (dc_entries c) = Some ts" for m ts
    using sim that unfolding dedup_sim_def by blast
  have evict: "dedup_sim (op_time x) (evict_expired (op_time x) c) s"
    using inv by (auto simp: dedup_sim_def get_evict intro: agree sound)
  show ?thesis
  proof (cases x)
    case (OpInsert m t)
    note agree = agree [unfolded OpInsert op_time.simps]
    from OpInsert st sp inv show ?thesis
      by (auto simp: dedup_sim_def get_dedup_insert intro: agree sound split: if_splits)
  next
    case (OpQuery m t)
    note agree = agree [unfolded OpQuery op_time.simps]
    have "fst (is_duplicate m t c) \<longleftrightarrow> (\<exists>ts. s m = Some ts \<and> live (dc_ttl_ms c) t ts)"
      using OpQuery by (auto simp: is_duplicate_iff [OF inv] intro: agree sound)
    moreover have "c' = evict_expired t c" and "r = Some (fst (is_duplicate m t c))"
      using st OpQuery by (auto simp: is_duplicate_def Let_def)
    moreover have "s' = s" and "r' = Some (\<exists>ts. s m = Some ts \<and> live (dc_ttl_ms c) t ts)"
      using sp OpQuery by auto
    ultimately show ?thesis using OpQuery evict by simp
  next
    case (OpEvict t)
    with st sp evict show ?thesis by auto
  qed
qed

lemma dedup_run_refines:
  assumes "dedup_sim now c s" and "sorted (map unat (now # map op_time xs))"
  shows "dedup_run xs c = spec_run (dc_ttl_ms c) xs s"
  using assms
proof (induction xs arbitrary: now c s)
  case Nil
  then show ?case by simp
next
  case (Cons x xs)
  obtain r c' where st: "dedup_step x c = (r, c')" by force
  obtain r' s' where sp: "spec_step (dc_ttl_ms c) x s = (r', s')" by force
  have "now \<le> op_time x" using Cons.prems(2) by (simp add: word_le_nat_alt)
  from dedup_sim_step [OF Cons.prems(1) this st sp]
  have "r = r'" and sim: "dedup_sim (op_time x) c' s'" and ttl: "dc_ttl_ms c' = dc_ttl_ms c" by auto
  moreover have "sorted (map unat (op_time x # map op_time xs))" using Cons.prems(2) by simp
  ultimately show ?case using Cons.IH [OF sim] st sp by simp
qed

lemma dedup_sim_new: "dedup_sim now (dedup_new secs) (\<lambda>_. None)"
  by (simp add: dedup_sim_def) (simp add: dedup_new_def)

end
