(* ===== verification/Quorum.thy ===== *)
theory Quorum
  imports HashMap Types "HOL-Library.FSet"
begin

text \<open>
  \<^verbatim>\<open>witan/src/quorum.rs\<close>: the BFT quorum tracker. The threshold is computed in binary64 arithmetic
  exactly as the code does. The lemmas show that the default fraction demands at least two thirds
  of the peers despite rounding, that unanimity always suffices, and that two quorums intersect in
  at least a third of the peers.
\<close>

record quorum_tracker =
  qt_acks :: "(bytes, string fset) hashmap"
  qt_quorum_fraction :: f64

definition quorum_new :: "f64 \<Rightarrow> quorum_tracker" where
  "quorum_new quorum_fraction = \<lparr>qt_acks = hm_empty, qt_quorum_fraction = quorum_fraction\<rparr>"

definition ack_set :: "bytes \<Rightarrow> quorum_tracker \<Rightarrow> string fset" where
  "ack_set message_id q = (case hm_get message_id (qt_acks q) of Some s \<Rightarrow> s | None \<Rightarrow> {||})"

definition record_ack :: "bytes \<Rightarrow> string \<Rightarrow> quorum_tracker \<Rightarrow> quorum_tracker" where
  "record_ack message_id peer_addr q =
     q\<lparr>qt_acks := hm_insert message_id (finsert peer_addr (ack_set message_id q)) (qt_acks q)\<rparr>"

definition ack_count :: "bytes \<Rightarrow> quorum_tracker \<Rightarrow> nat" where
  "ack_count message_id q = (case hm_get message_id (qt_acks q) of Some s \<Rightarrow> fcard s | None \<Rightarrow> 0)"

definition required_acks :: "nat \<Rightarrow> quorum_tracker \<Rightarrow> nat \<Rightarrow> nat" where
  "required_acks usize_max q total_peers =
     f64_as_usize usize_max (f64_ceil (f64_mul (f64_of_usize total_peers) (qt_quorum_fraction q)))"

definition has_quorum :: "nat \<Rightarrow> bytes \<Rightarrow> nat \<Rightarrow> quorum_tracker \<Rightarrow> bool" where
  "has_quorum usize_max message_id total_peers q =
     (if total_peers = 0 then False
      else required_acks usize_max q total_peers \<le> ack_count message_id q)"

definition prune :: "bytes list \<Rightarrow> quorum_tracker \<Rightarrow> quorum_tracker" where
  "prune known_message_ids q = q\<lparr>qt_acks := hm_retain (\<lambda>i _. i \<in> set known_message_ids) (qt_acks q)\<rparr>"

definition quorum_inv :: "quorum_tracker \<Rightarrow> bool" where
  "quorum_inv q \<longleftrightarrow> hm_inv (qt_acks q)"

section \<open>Acknowledgement sets\<close>

lemma quorum_inv_new [simp, wf_rules]: "quorum_inv (quorum_new f)"
  by (simp add: quorum_inv_def quorum_new_def)

lemma quorum_inv_record [simp, wf_rules]: "quorum_inv q \<Longrightarrow> quorum_inv (record_ack m p q)"
  by (simp add: quorum_inv_def record_ack_def)

lemma quorum_inv_prune [simp, wf_rules]: "quorum_inv q \<Longrightarrow> quorum_inv (prune ids q)"
  by (simp add: quorum_inv_def prune_def)

lemma ack_count_set: "ack_count m q = fcard (ack_set m q)"
  by (simp add: ack_count_def ack_set_def split: option.splits)

lemma ack_set_record:
  "ack_set m (record_ack m' p q) = (if m = m' then finsert p (ack_set m q) else ack_set m q)"
  by (simp add: ack_set_def [of m "record_ack m' p q"] record_ack_def hm.get_insert)
     (simp add: ack_set_def)

lemma fraction_record [simp]: "qt_quorum_fraction (record_ack m p q) = qt_quorum_fraction q"
  by (simp add: record_ack_def)

lemma ack_set_prune:
  "quorum_inv q \<Longrightarrow> ack_set m (prune ids q) = (if m \<in> set ids then ack_set m q else {||})"
  by (simp add: ack_set_def prune_def quorum_inv_def hm.get_retain split: option.splits)

lemma ack_count_record:
  "ack_count m (record_ack m p q) = (if p |\<in>| ack_set m q then ack_count m q else Suc (ack_count m q))"
  by (simp add: ack_count_set ack_set_record fcard_finsert_if)

lemma required_record [simp]: "required_acks M (record_ack m p q) n = required_acks M q n"
  by (simp add: required_acks_def)

lemma has_quorum_record_mono:
  assumes "has_quorum M m n q"
  shows "has_quorum M m n (record_ack m' p q)"
proof -
  have "ack_count m q \<le> ack_count m (record_ack m' p q)"
    by (simp add: ack_count_set ack_set_record fcard_finsert_if)
  with assms show ?thesis by (auto simp: has_quorum_def split: if_splits)
qed

section \<open>The threshold\<close>

text \<open>The fraction \<open>0.67\<close> as the compiler reads the literal.\<close>

definition default_fraction :: rat where
  "default_fraction = 6034823500676465 / 9007199254740992"

lemma f64_exponent_067: "f64_exponent (67 / 100) = - 1"
proof -
  have "\<lceil>1 / (67 / 100 :: rat)\<rceil> = 2" by (rule ceiling_unique) simp_all
  moreover have "ceillog2 2 = 1" using ceillog2_2_power [of 1] by simp
  ultimately show ?thesis by (simp add: f64_exponent_def)
qed

lemma f64_round_067: "f64_round (67 / 100) = F64 default_fraction"
proof -
  have ulp: "f64_ulp (67 / 100) = 1 / 2 ^ 53"
    by (simp add: f64_ulp_def f64_exponent_067 power_int_minus inverse_eq_divide)
  have fl: "\<lfloor>67 / 100 / (1 / 2 ^ 53) :: rat\<rfloor> = 6034823500676464"
    by (rule floor_unique) simp_all
  have "round_half_even (67 / 100 / (1 / 2 ^ 53)) = 6034823500676465"
    by (simp only: round_half_even_def Let_def fl) simp
  then show ?thesis
    by (simp add: f64_round_def ulp default_fraction_def)
qed

lemma required_le:
  assumes "qt_quorum_fraction q = F64 f" and "0 \<le> f" and "f \<le> 1" and "n < 2 ^ 53"
  shows "required_acks M q n \<le> n"
proof (cases "n = 0 \<or> f = 0")
  case True
  with assms show ?thesis by (auto simp: required_acks_def f64_of_usize_exact f64_round_def)
next
  case False
  with assms have pos: "0 < of_nat n * f" and le: "of_nat n * f \<le> of_nat n"
    by (auto simp: mult_left_le)
  obtain r where r: "f64_round (of_nat n * f) = F64 r" "0 \<le> r" "r \<le> of_nat n"
    using f64_round_le_int [OF pos le assms(4)] by blast
  have "\<lceil>r\<rceil> \<le> int n" using r(3) by (simp add: ceiling_le_iff)
  then have "nat \<lceil>r\<rceil> \<le> n" by linarith
  with r(1) assms show ?thesis by (simp add: required_acks_def f64_of_usize_exact min.coboundedI1)
qed

lemma required_two_thirds:
  assumes "qt_quorum_fraction q = F64 default_fraction" and "0 < n" and "n < 2 ^ 53" and "n \<le> M"
  shows "2 * n < 3 * required_acks M q n"
proof -
  let ?x = "of_nat n * default_fraction"
  have pos: "0 < ?x" and le: "?x \<le> of_nat n"
    using assms(2) by (auto simp: default_fraction_def mult_left_le)
  obtain r where r: "f64_round ?x = F64 r" "0 \<le> r" "r \<le> of_nat n"
    using f64_round_le_int [OF pos le assms(3)] by blast
  have "2 powi (- 1022) \<le> (1 / 2 :: rat)"
    using power_int_increasing [of "- 1022" "- 1" "2 :: rat"] by (simp add: power_int_minus)
  also have "(1 / 2 :: rat) \<le> ?x" using assms(2) by (simp add: default_fraction_def)
  finally have "?x * (1 - 1 / 2 ^ 53) \<le> r" using f64_round_lower [OF _ r(1)] by blast
  then have "2 / 3 * of_nat n < r" using assms(2) by (simp add: default_fraction_def)
  then have "2 / 3 * of_nat n < (of_nat (nat \<lceil>r\<rceil>) :: rat)"
    using of_nat_ceiling [of r] by linarith
  then have "(of_nat (2 * n) :: rat) < of_nat (3 * nat \<lceil>r\<rceil>)" by simp
  then have lt: "2 * n < 3 * nat \<lceil>r\<rceil>" by (simp only: of_nat_less_iff)
  have "\<lceil>r\<rceil> \<le> int n" using r(3) by (simp add: ceiling_le_iff)
  with assms(4) have "nat \<lceil>r\<rceil> \<le> M" by linarith
  then have "required_acks M q n = nat \<lceil>r\<rceil>"
    using assms(1,3) r(1) by (simp add: required_acks_def f64_of_usize_exact)
  with lt show ?thesis by simp
qed

text \<open>Two sets of more than two thirds of a population share more than a third of it.\<close>

lemma two_thirds_intersect:
  fixes A B :: "'a fset"
  assumes "A |\<subseteq>| P" and "B |\<subseteq>| P" and "2 * fcard P < 3 * fcard A" and "2 * fcard P < 3 * fcard B"
  shows "fcard P < 3 * fcard (A |\<inter>| B)"
proof -
  have "fcard (A |\<union>| B) \<le> fcard P" using assms(1,2) by (intro fcard_mono) auto
  moreover have "fcard A + fcard B = fcard (A |\<union>| B) + fcard (A |\<inter>| B)"
    by (rule fcard_funion_finter)
  ultimately show ?thesis using assms(3,4) by linarith
qed

end
