(* ===== verification/Session.thy ===== *)
theory Session
  imports HashMap External
begin

text \<open>
  \<^verbatim>\<open>witan/src/session.rs\<close>: session records, the session store keyed by peer address, and the
  derivation of session id, transcript hash and server MAC. \<open>session_store\<close> is the contract the
  engine relies on.
\<close>

record session_record =
  sr_session_id :: string
  sr_peer_addr :: string
  sr_peer_node_id :: string
  sr_peer_sig_public_key :: bytes
  sr_transcript_hash :: bytes
  sr_established_at_ms :: u64
  sr_is_active :: bool

type_synonym sessions = "(string, session_record) hashmap"

definition sessions_new :: sessions where
  "sessions_new = hm_empty"

definition sessions_default :: sessions where
  "sessions_default = sessions_new"

definition sessions_insert :: "session_record \<Rightarrow> sessions \<Rightarrow> sessions" where
  "sessions_insert r m = hm_insert (sr_peer_addr r) r m"

definition sessions_get :: "string \<Rightarrow> sessions \<Rightarrow> session_record option" where
  "sessions_get peer_addr m = hm_get peer_addr m"

definition sessions_remove :: "string \<Rightarrow> sessions \<Rightarrow> session_record option \<times> sessions" where
  "sessions_remove peer_addr m = (hm_get peer_addr m, hm_remove peer_addr m)"

definition peer_info_of :: "session_record \<Rightarrow> peer_info" where
  "peer_info_of s =
     \<lparr>pi_addr = sr_peer_addr s, pi_node_id = sr_peer_node_id s, pi_session_id = sr_session_id s,
      pi_established_at_ms = sr_established_at_ms s\<rparr>"

definition active_peers :: "sessions \<Rightarrow> peer_info list" where
  "active_peers m = map peer_info_of (filter sr_is_active (hm_values m))"

definition sessions_count :: "sessions \<Rightarrow> nat" where
  "sessions_count m = hm_len m"

section \<open>Derivations\<close>

definition derive_session_id ::
    "('k, 'p, 'c, 's, 'd) crypto \<Rightarrow> bytes \<Rightarrow> bytes \<Rightarrow> bytes \<Rightarrow> bytes \<Rightarrow> string \<Rightarrow> string" where
  "derive_session_id cr shared_secret_32b client_nonce server_nonce kem_ciphertext_bytes node_id =
     (let ikm = shared_secret_32b @ client_nonce @ server_nonce @ kem_ciphertext_bytes @ as_bytes node_id
      in hex_encode cr (hkdf_sha256 cr ikm HKDF_INFO_SESSION))"

definition compute_transcript_hash ::
    "('k, 'p, 'c, 's, 'd) crypto \<Rightarrow> bytes \<Rightarrow> bytes \<Rightarrow> bytes \<Rightarrow> bytes" where
  "compute_transcript_hash cr probe_bytes ack_bytes finish_bytes =
     sha256 cr (probe_bytes @ ack_bytes @ finish_bytes)"

definition compute_server_mac :: "('k, 'p, 'c, 's, 'd) crypto \<Rightarrow> bytes \<Rightarrow> bytes \<Rightarrow> bytes" where
  "compute_server_mac cr shared_secret_32b transcript_hash =
     hmac_sha256 cr shared_secret_32b transcript_hash"

section \<open>The store contract\<close>

text \<open>Every record is filed under its own address.\<close>

definition sessions_inv :: "sessions \<Rightarrow> bool" where
  "sessions_inv m \<longleftrightarrow> hm_inv m \<and> (\<forall>a r. hm_get a m = Some r \<longrightarrow> sr_peer_addr r = a)"

locale session_store =
  fixes empty :: 'm
    and ins :: "session_record \<Rightarrow> 'm \<Rightarrow> 'm"
    and get :: "string \<Rightarrow> 'm \<Rightarrow> session_record option"
    and rem :: "string \<Rightarrow> 'm \<Rightarrow> session_record option \<times> 'm"
    and peers :: "'m \<Rightarrow> peer_info list"
    and cnt :: "'m \<Rightarrow> nat"
    and inv :: "'m \<Rightarrow> bool"
  assumes get_empty: "get a empty = None"
    and get_ins: "get a (ins r m) = (if a = sr_peer_addr r then Some r else get a m)"
    and rem_result: "fst (rem a m) = get a m"
    and get_rem: "inv m \<Longrightarrow> get b (snd (rem a m)) = (if b = a then None else get b m)"
    and peers_iff: "inv m \<Longrightarrow> p \<in> set (peers m) \<longleftrightarrow> (\<exists>a r. get a m = Some r \<and> sr_is_active r \<and> p = peer_info_of r)"
    and filed: "inv m \<Longrightarrow> get a m = Some r \<Longrightarrow> sr_peer_addr r = a"
    and distinct_peers: "inv m \<Longrightarrow> distinct (map pi_addr (peers m))"
    and cnt_card: "inv m \<Longrightarrow> cnt m = card {a. get a m \<noteq> None}"
    and finite_store: "inv m \<Longrightarrow> finite {a. get a m \<noteq> None}"
    and inv_empty: "inv empty"
    and inv_ins: "inv m \<Longrightarrow> inv (ins r m)"
    and inv_rem: "inv m \<Longrightarrow> inv (snd (rem a m))"
begin

text \<open>The addresses listed are exactly those of the active sessions.\<close>

lemma peer_addrs:
  assumes "inv m"
  shows "set (map pi_addr (peers m)) = {a. \<exists>r. get a m = Some r \<and> sr_is_active r}"
proof -
  have "pi_addr (peer_info_of r) = a" if "get a m = Some r" for a r
    using filed [OF assms that] by (simp add: peer_info_of_def)
  then show ?thesis using peers_iff [OF assms] by (force simp: image_iff)
qed

text \<open>When every session is active, the list has one entry per session.\<close>

lemma length_peers:
  assumes "inv m" and "\<And>a r. get a m = Some r \<Longrightarrow> sr_is_active r"
  shows "length (peers m) = cnt m"
proof -
  have "set (map pi_addr (peers m)) = {a. get a m \<noteq> None}"
    unfolding peer_addrs [OF assms(1)] using assms(2) by blast
  then have "card (set (map pi_addr (peers m))) = cnt m" using assms by (simp add: cnt_card)
  with distinct_card [OF distinct_peers [OF assms(1)]] show ?thesis by simp
qed

lemma cnt_ins:
  assumes "inv m"
  shows "cnt (ins r m) = (if get (sr_peer_addr r) m = None then Suc (cnt m) else cnt m)"
proof -
  have "{a. get a (ins r m) \<noteq> None} = insert (sr_peer_addr r) {a. get a m \<noteq> None}"
    by (auto simp: get_ins)
  then show ?thesis using assms finite_store by (simp add: cnt_card inv_ins card_insert_if)
qed

lemma cnt_rem:
  assumes "inv m" and "get a m = Some r"
  shows "Suc (cnt (snd (rem a m))) = cnt m"
proof -
  have "{b. get b (snd (rem a m)) \<noteq> None} = {b. get b m \<noteq> None} - {a}"
    using assms(1) by (auto simp: get_rem)
  moreover have "a \<in> {b. get b m \<noteq> None}" using assms(2) by simp
  ultimately show ?thesis
    using assms(1) finite_store [OF assms(1)] by (simp only: cnt_card inv_rem card_Suc_Diff1)
qed

end

interpretation ses: session_store sessions_new sessions_insert sessions_get sessions_remove
  active_peers sessions_count sessions_inv
proof
  fix a b :: string and r :: session_record and m :: sessions and p :: peer_info
  show "sessions_get a sessions_new = None" by (simp add: sessions_get_def sessions_new_def)
  show "sessions_get a (sessions_insert r m) = (if a = sr_peer_addr r then Some r else sessions_get a m)"
    by (simp add: sessions_get_def sessions_insert_def hm.get_insert)
  show "fst (sessions_remove a m) = sessions_get a m"
    by (simp add: sessions_remove_def sessions_get_def)
  show "sessions_inv sessions_new" by (simp add: sessions_inv_def sessions_new_def)
next
  fix a b :: string and r :: session_record and m :: sessions and p :: peer_info
  assume inv: "sessions_inv m"
  then have hm: "hm_inv m" and filed: "hm_get a m = Some r \<Longrightarrow> sr_peer_addr r = a" for a r
    by (auto simp: sessions_inv_def)
  show "sessions_get b (snd (sessions_remove a m)) = (if b = a then None else sessions_get b m)"
    using hm by (simp add: sessions_get_def sessions_remove_def hm.get_remove)
  show "p \<in> set (active_peers m) \<longleftrightarrow>
      (\<exists>a r. sessions_get a m = Some r \<and> sr_is_active r \<and> p = peer_info_of r)"
    by (auto simp: active_peers_def sessions_get_def hm_values_iff [OF hm])
  show "sessions_get a m = Some r \<Longrightarrow> sr_peer_addr r = a" by (simp add: sessions_get_def filed)
  have "sr_peer_addr (snd e) = fst e" if "e \<in> set m" for e
    using that hm by (auto intro!: filed simp: hm_get_def hm_inv_def)
  then have "map pi_addr (active_peers m) = map fst (filter (\<lambda>e. sr_is_active (snd e)) m)"
    by (auto simp: active_peers_def hm_values_def peer_info_of_def filter_map o_def)
  then show "distinct (map pi_addr (active_peers m))"
    using hm by (simp add: hm_inv_def distinct_map_filter)
  show "sessions_count m = card {a. sessions_get a m \<noteq> None}"
    using hm by (simp add: sessions_count_def sessions_get_def hm.len_card)
  show "finite {a. sessions_get a m \<noteq> None}"
    unfolding sessions_get_def by (rule hm.finite_dom)
  show "sessions_inv (sessions_insert r m)"
    using hm filed by (auto simp: sessions_inv_def sessions_insert_def hm.get_insert)
  show "sessions_inv (snd (sessions_remove a m))"
    using hm filed by (auto simp: sessions_inv_def sessions_remove_def hm.get_remove split: if_splits)
qed

lemma derive_session_id_length:
  "hash_laws cr \<Longrightarrow> hex_laws cr \<Longrightarrow> length (derive_session_id cr ss cn sn ct nid) = 64"
  by (simp add: derive_session_id_def Let_def hex_laws_def hash_lawsD)

end
