(* ===== verification/Identity.thy ===== *)
theory Identity
  imports Config
begin

text \<open>
  \<^verbatim>\<open>witan/src/identity.rs\<close>: the node identity, its derivation from key pairs, and signing and
  verification with a domain-separating context. The lemmas show that the tagged message binds
  context and message, that what an identity signs it verifies, and that every identity built by
  the constructors carries the id derived from its own keys.
\<close>

record ('k, 'd) node_identity =
  ni_node_id :: string
  ni_kem_keypair :: 'k
  ni_sig_keypair :: 'd
  ni_key_epoch :: string

definition derive_node_id :: "('k, 'p, 'c, 's, 'd) crypto \<Rightarrow> bytes \<Rightarrow> bytes \<Rightarrow> string" where
  "derive_node_id cr kem_pk_bytes sig_pk_bytes = hex_encode cr (sha256 cr (kem_pk_bytes @ sig_pk_bytes))"

definition kem_public_key_bytes :: "('k, 'p, 'c, 's, 'd) crypto \<Rightarrow> 'p \<Rightarrow> bytes res" where
  "kem_public_key_bytes cr pk =
     and_then (map_err (\<lambda>e. IdentityError (''KEM x25519_bytes failed: '' @ e)) (kem_x25519_bytes cr pk)) (\<lambda>x25519.
     and_then (map_err (\<lambda>e. IdentityError (''KEM mlkem_bytes failed: '' @ e)) (kem_mlkem_bytes cr pk)) (\<lambda>mlkem.
     Ok (x25519 @ mlkem)))"

text \<open>The common tail of \<open>generate\<close> and \<open>from_seeds\<close>: derive the id from the two key pairs.\<close>

definition identity_of_keypairs ::
    "('k, 'p, 'c, 's, 'd) crypto \<Rightarrow> 'k \<Rightarrow> 'd \<Rightarrow> string \<Rightarrow> ('k, 'd) node_identity res" where
  "identity_of_keypairs cr kem_keypair sig_keypair key_epoch =
     and_then (kem_public_key_bytes cr (kem_public_key cr kem_keypair)) (\<lambda>kem_pk_bytes.
     Ok \<lparr>ni_node_id = derive_node_id cr kem_pk_bytes (sig_public_key cr sig_keypair),
         ni_kem_keypair = kem_keypair,
         ni_sig_keypair = sig_keypair,
         ni_key_epoch = key_epoch\<rparr>)"

definition identity_generate ::
    "('k, 'p, 'c, 's, 'd) crypto \<Rightarrow> bytes \<Rightarrow> bytes \<Rightarrow> string \<Rightarrow> ('k, 'd) node_identity res" where
  "identity_generate cr kem_rng sig_rng key_epoch =
     and_then (map_err (\<lambda>e. IdentityError (''KEM keygen failed: '' @ e)) (kem_generate cr kem_rng)) (\<lambda>kem_keypair.
     and_then (map_err (\<lambda>e. IdentityError (''SIG keygen failed: '' @ e)) (sig_generate cr sig_rng)) (\<lambda>sig_keypair.
     identity_of_keypairs cr kem_keypair sig_keypair key_epoch))"

definition from_seeds ::
    "('k, 'p, 'c, 's, 'd) crypto \<Rightarrow> bytes \<Rightarrow> bytes \<Rightarrow> bytes \<Rightarrow> string \<Rightarrow> ('k, 'd) node_identity res" where
  "from_seeds cr x25519_seed mlkem_seed sig_seed key_epoch =
     and_then (map_err (\<lambda>e. IdentityError (''KEM restore failed: '' @ e))
       (kem_from_secret_key_bytes cr x25519_seed mlkem_seed)) (\<lambda>kem_keypair.
     and_then (map_err (\<lambda>e. IdentityError (''SIG restore failed: '' @ e))
       (sig_from_secret_key_bytes cr sig_seed)) (\<lambda>sig_keypair.
     identity_of_keypairs cr kem_keypair sig_keypair key_epoch))"

definition sig_public_key_bytes :: "('k, 'p, 'c, 's, 'd) crypto \<Rightarrow> ('k, 'd) node_identity \<Rightarrow> bytes" where
  "sig_public_key_bytes cr i = sig_public_key cr (ni_sig_keypair i)"

definition sig_public_key_hex :: "('k, 'p, 'c, 's, 'd) crypto \<Rightarrow> ('k, 'd) node_identity \<Rightarrow> string" where
  "sig_public_key_hex cr i = hex_encode cr (sig_public_key cr (ni_sig_keypair i))"

definition kem_public_key_json :: "('k, 'p, 'c, 's, 'd) crypto \<Rightarrow> ('k, 'd) node_identity \<Rightarrow> string res" where
  "kem_public_key_json cr i =
     map_err (\<lambda>e. IdentityError (''KEM pk to_json failed: '' @ e))
       (kem_pk_to_json cr (kem_public_key cr (ni_kem_keypair i)))"

definition kem_public_key_canonical_bytes ::
    "('k, 'p, 'c, 's, 'd) crypto \<Rightarrow> ('k, 'd) node_identity \<Rightarrow> bytes res" where
  "kem_public_key_canonical_bytes cr i = kem_public_key_bytes cr (kem_public_key cr (ni_kem_keypair i))"

definition public_view ::
    "('k, 'p, 'c, 's, 'd) crypto \<Rightarrow> ('k, 'd) node_identity \<Rightarrow> node_identity_public res" where
  "public_view cr i =
     and_then (map_err (\<lambda>e. IdentityError (''KEM pk to_json failed: '' @ e))
       (kem_pk_to_json cr (kem_public_key cr (ni_kem_keypair i)))) (\<lambda>kem_public_key_json.
     Ok \<lparr>nip_node_id = ni_node_id i,
         nip_kem_public_key_json = kem_public_key_json,
         nip_sig_public_key_hex = hex_encode cr (sig_public_key cr (ni_sig_keypair i)),
         nip_key_epoch = ni_key_epoch i\<rparr>)"

section \<open>Signing with a context\<close>

text \<open>\<open>0x00 || context_len_byte || context || message\<close>, and the message of the length error
  (its third word is the UTF-8 form of the less-or-equal sign).\<close>

definition tagged_message :: "bytes \<Rightarrow> bytes \<Rightarrow> bytes" where
  "tagged_message context message = 0 # word_of_nat (length context) # context @ message"

definition context_too_long :: gossip_error where
  "context_too_long = CryptoError (''context must be '' @ map char_of [0xE2, 0x89, 0xA4 :: nat] @ '' 255 bytes'')"

definition sign ::
    "('k, 'p, 'c, 's, 'd) crypto \<Rightarrow> ('k, 'd) node_identity \<Rightarrow> bytes \<Rightarrow> bytes \<Rightarrow> bytes res" where
  "sign cr i message context =
     check (length context \<le> 255) context_too_long
       (map_err (\<lambda>e. CryptoError (''ML-DSA-65 sign failed: '' @ e))
         (sig_sign_deterministic cr (ni_sig_keypair i) (tagged_message context message)))"

definition verify_external ::
    "('k, 'p, 'c, 's, 'd) crypto \<Rightarrow> bytes \<Rightarrow> bytes \<Rightarrow> bytes \<Rightarrow> bytes \<Rightarrow> bool res" where
  "verify_external cr pk_bytes message signature context =
     check (length context \<le> 255) context_too_long
       (case sig_verify cr pk_bytes (tagged_message context message) signature of
          SigOk \<Rightarrow> Ok True
        | SigVerificationFailed \<Rightarrow> Ok False
        | SigOther e \<Rightarrow> Err (CryptoError (''ML-DSA-65 verify error: '' @ e)))"

definition verify ::
    "('k, 'p, 'c, 's, 'd) crypto \<Rightarrow> ('k, 'd) node_identity \<Rightarrow> bytes \<Rightarrow> bytes \<Rightarrow> bytes \<Rightarrow> bool res" where
  "verify cr i message signature context =
     verify_external cr (sig_public_key cr (ni_sig_keypair i)) message signature context"

section \<open>Lemmas\<close>

text \<open>The identity invariant: the id is the one derived from the identity's own keys.\<close>

definition self_certified :: "('k, 'p, 'c, 's, 'd) crypto \<Rightarrow> ('k, 'd) node_identity \<Rightarrow> bool" where
  "self_certified cr i \<longleftrightarrow>
     (\<exists>k. kem_public_key_canonical_bytes cr i = Ok k \<and> ni_node_id i = derive_node_id cr k (sig_public_key_bytes cr i))"

lemma identity_of_keypairs_self_certified [wf_rules]:
  "identity_of_keypairs cr k d ep = Ok i \<Longrightarrow> self_certified cr i"
  by (auto simp: identity_of_keypairs_def self_certified_def kem_public_key_canonical_bytes_def
      sig_public_key_bytes_def)

lemma from_seeds_self_certified [wf_rules]: "from_seeds cr x m s ep = Ok i \<Longrightarrow> self_certified cr i"
  by (auto simp: from_seeds_def intro: wf_rules)

lemma identity_generate_self_certified [wf_rules]:
  "identity_generate cr r r' ep = Ok i \<Longrightarrow> self_certified cr i"
  by (auto simp: identity_generate_def intro: wf_rules)

lemma kem_public_key_bytes_not_Panic [simp]: "kem_public_key_bytes cr pk \<noteq> Panic"
  by (simp add: kem_public_key_bytes_def)

lemma kem_canonical_not_Panic [simp]: "kem_public_key_canonical_bytes cr i \<noteq> Panic"
  by (simp add: kem_public_key_canonical_bytes_def)

lemma from_seeds_not_Panic [simp]: "from_seeds cr x m s ep \<noteq> Panic"
  by (simp add: from_seeds_def identity_of_keypairs_def)

lemma identity_generate_not_Panic [simp]: "identity_generate cr r r' ep \<noteq> Panic"
  by (simp add: identity_generate_def identity_of_keypairs_def)

lemma sign_not_Panic [simp]: "sign cr i m c \<noteq> Panic"
  by (simp add: sign_def)

lemma verify_external_not_Panic [simp]: "verify_external cr pk m s c \<noteq> Panic"
  by (auto simp: verify_external_def split: sig_outcome.splits)

lemma verify_external_True:
  "verify_external cr pk m s c = Ok True \<longleftrightarrow>
     length c \<le> 255 \<and> sig_verify cr pk (tagged_message c m) s = SigOk"
  by (auto simp: verify_external_def split: sig_outcome.splits)

lemma derive_node_id_length: "hash_laws cr \<Longrightarrow> hex_laws cr \<Longrightarrow> length (derive_node_id cr k s) = 64"
  by (simp add: derive_node_id_def hex_laws_def hash_lawsD)

text \<open>The tag determines context and message.\<close>

lemma tagged_message_inj:
  assumes "length c \<le> 255" and "length c' \<le> 255" and "tagged_message c m = tagged_message c' m'"
  shows "c = c' \<and> m = m'"
proof -
  have "(word_of_nat (length c) :: u8) = word_of_nat (length c')" and eq: "c @ m = c' @ m'"
    using assms(3) by (auto simp: tagged_message_def)
  then have "unat (word_of_nat (length c) :: u8) = unat (word_of_nat (length c') :: u8)" by simp
  then have "length c = length c'" using assms(1,2) by (simp add: unat_of_nat)
  with eq show ?thesis by auto
qed

lemma sign_verify:
  assumes "sig_laws cr" and "sign cr i m c = Ok s"
  shows "verify_external cr (sig_public_key_bytes cr i) m s c = Ok True"
  using assms by (auto simp: sign_def verify_external_True sig_public_key_bytes_def dest: sig_lawsD)

end
