(* ===== verification/Handshake.thy ===== *)
theory Handshake
  imports Session Identity
begin

text \<open>
  \<^verbatim>\<open>witan/src/handshake.rs\<close>: the four-message handshake. The manager keeps the handshakes in
  progress and the completed sessions, both by peer address. Every operation returns its result and
  the new manager, on the error paths too: some errors are reported after the pending context has
  already been removed. The random bytes an operation draws are its first arguments.
\<close>

unbundle bit_operations_syntax

definition HANDSHAKE_TIMEOUT_MS :: u64 where
  "HANDSHAKE_TIMEOUT_MS = 10000"

section \<open>State\<close>

datatype client_handshake_state =
    ClientIdle
  | ProbeSent (ps_client_nonce: bytes) (ps_probe_bytes: bytes) (ps_sent_at_ms: u64)
  | FinishSent (fs_client_nonce: bytes) (fs_server_nonce: bytes) (fs_kem_ciphertext_bytes: bytes)
      (fs_shared_secret_32b: bytes) (fs_probe_bytes: bytes) (fs_ack_bytes: bytes)
      (fs_finish_bytes: bytes) (fs_server_sig_pk: bytes) (fs_server_node_id: string)
      (fs_sent_at_ms: u64)
  | ClientComplete session_record
  | ClientFailed string

datatype server_handshake_state =
    ServerIdle
  | AckSent (as_client_nonce: bytes) (as_server_nonce: bytes) (as_probe_bytes: bytes)
      (as_ack_bytes: bytes) (as_sent_at_ms: u64)
  | ServerComplete session_record
  | ServerFailed string

datatype handshake_context = Client client_handshake_state | Server server_handshake_state

definition new_client :: handshake_context where
  "new_client = Client ClientIdle"

definition new_server :: "server_handshake_state \<Rightarrow> handshake_context" where
  "new_server state = Server state"

fun is_timed_out :: "u64 \<Rightarrow> handshake_context \<Rightarrow> bool" where
  "is_timed_out now_ms (Client (ProbeSent _ _ sent_at_ms)) =
     (HANDSHAKE_TIMEOUT_MS < saturating_sub now_ms sent_at_ms)"
| "is_timed_out now_ms (Client (FinishSent _ _ _ _ _ _ _ _ _ sent_at_ms)) =
     (HANDSHAKE_TIMEOUT_MS < saturating_sub now_ms sent_at_ms)"
| "is_timed_out now_ms (Server (AckSent _ _ _ _ sent_at_ms)) =
     (HANDSHAKE_TIMEOUT_MS < saturating_sub now_ms sent_at_ms)"
| "is_timed_out now_ms _ = False"

fun context_is_complete :: "handshake_context \<Rightarrow> bool" where
  "context_is_complete (Client (ClientComplete _)) = True"
| "context_is_complete (Server (ServerComplete _)) = True"
| "context_is_complete _ = False"

fun into_session :: "handshake_context \<Rightarrow> session_record option" where
  "into_session (Client (ClientComplete s)) = Some s"
| "into_session (Server (ServerComplete s)) = Some s"
| "into_session _ = None"

record handshake_manager =
  pending :: "(string, handshake_context) hashmap"
  completed :: "(string, session_record) hashmap"

definition manager_new :: handshake_manager where
  "manager_new = \<lparr>pending = hm_empty, completed = hm_empty\<rparr>"

definition manager_default :: handshake_manager where
  "manager_default = manager_new"

definition put_pending :: "string \<Rightarrow> handshake_context \<Rightarrow> handshake_manager \<Rightarrow> handshake_manager" where
  "put_pending peer_addr ctx m = m\<lparr>pending := hm_insert peer_addr ctx (pending m)\<rparr>"

text \<open>
  A computation that fails before it touches the state: its value and new state on success, the
  old state otherwise.
\<close>

fun commit :: "('a \<times> 's) res \<Rightarrow> 's \<Rightarrow> 'a res \<times> 's" where
  "commit (Ok (x, s')) s = (Ok x, s')"
| "commit (Err e) s = (Err e, s)"
| "commit Panic s = (Panic, s)"

section \<open>Message checks\<close>

definition version_mismatch :: "u8 \<Rightarrow> gossip_error" where
  "version_mismatch v = HandshakeError (''version mismatch: expected 1, got '' @ dec (unat v))"

definition fresh_timestamp :: "u64 \<Rightarrow> u64 \<Rightarrow> bool" where
  "fresh_timestamp now_ms ts \<longleftrightarrow> saturating_sub now_ms ts \<le> 30000"

definition constant_time_eq :: "bytes \<Rightarrow> bytes \<Rightarrow> bool" where
  "constant_time_eq a b =
     (if length a \<noteq> length b then False
      else foldl (\<lambda>diff (x, y). diff OR (x XOR y)) 0 (zip a b) = 0)"

section \<open>The four messages\<close>

text \<open>Client step 1.\<close>

definition build_probe ::
    "codec \<Rightarrow> string + bytes \<Rightarrow> string \<Rightarrow> ('k, 'd) node_identity \<Rightarrow> u64 \<Rightarrow> handshake_manager \<Rightarrow>
     bytes res \<times> handshake_manager" where
  "build_probe bc rand peer_addr identity now_ms m =
     commit
       (and_then (map_err (\<lambda>e. CryptoError (''getrandom failed: '' @ e)) rand) (\<lambda>client_nonce.
        let probe = \<lparr>probe_magic = HANDSHAKE_PROBE_MAGIC, probe_version = 1,
              probe_client_nonce = client_nonce, probe_endpoint = peer_addr,
              probe_client_node_id = ni_node_id identity, probe_timestamp_unix_ms = now_ms\<rparr> in
        and_then (map_err (\<lambda>e. SerializationError (''probe serialize: '' @ e)) (ser_probe bc probe)) (\<lambda>probe_bytes.
        Ok (probe_bytes, put_pending peer_addr (Client (ProbeSent client_nonce probe_bytes now_ms)) m))))
       m"

text \<open>Server step 1.\<close>

definition process_probe_build_ack ::
    "('k, 'p, 'c, 's, 'd) crypto \<Rightarrow> codec \<Rightarrow> string + bytes \<Rightarrow> string \<Rightarrow> bytes \<Rightarrow>
     ('k, 'd) node_identity \<Rightarrow> u64 \<Rightarrow> handshake_manager \<Rightarrow> bytes res \<times> handshake_manager" where
  "process_probe_build_ack cr bc rand peer_addr probe_bytes identity now_ms m =
     commit
       (and_then (map_err (\<lambda>e. HandshakeError (''probe deserialize: '' @ e)) (de_probe bc probe_bytes)) (\<lambda>probe.
        check (probe_magic probe = HANDSHAKE_PROBE_MAGIC) (HandshakeError ''invalid probe magic'')
        (check (probe_version probe = 1) (version_mismatch (probe_version probe))
        (check (fresh_timestamp now_ms (probe_timestamp_unix_ms probe)) (HandshakeError ''timestamp out of window'')
        (and_then (map_err (\<lambda>e. CryptoError (''getrandom failed: '' @ e)) rand) (\<lambda>server_nonce.
        and_then (map_err (\<lambda>e. CryptoError (''KEM pk to_json: '' @ e))
          (kem_pk_to_json cr (kem_public_key cr (ni_kem_keypair identity)))) (\<lambda>kem_pk_json.
        let ack = \<lparr>ack_magic = HANDSHAKE_ACK_MAGIC, ack_version = 1,
              ack_client_nonce = probe_client_nonce probe, ack_server_nonce = server_nonce,
              ack_hybrid_kem_public_key_json = kem_pk_json,
              ack_ml_dsa_65_public_key = sig_public_key_bytes cr identity,
              ack_server_node_id = ni_node_id identity, ack_timestamp_unix_ms = now_ms\<rparr> in
        and_then (map_err (\<lambda>e. SerializationError (''ack serialize: '' @ e)) (ser_ack bc ack)) (\<lambda>ack_bytes.
        Ok (ack_bytes,
            put_pending peer_addr
              (Server (AckSent (probe_client_nonce probe) server_nonce probe_bytes ack_bytes now_ms)) m)))))))))
       m"

text \<open>Client step 2. \<open>rng\<close> are the coins of the encapsulation.\<close>

definition process_ack_build_finish ::
    "('k, 'p, 'c, 's, 'd) crypto \<Rightarrow> codec \<Rightarrow> bytes \<Rightarrow> string \<Rightarrow> bytes \<Rightarrow>
     ('k, 'd) node_identity \<Rightarrow> u64 \<Rightarrow> handshake_manager \<Rightarrow> bytes res \<times> handshake_manager" where
  "process_ack_build_finish cr bc rng peer_addr ack_bytes identity now_ms m =
     commit
       (and_then (map_err (\<lambda>e. HandshakeError (''ack deserialize: '' @ e)) (de_ack bc ack_bytes)) (\<lambda>ack.
        check (ack_magic ack = HANDSHAKE_ACK_MAGIC) (HandshakeError ''invalid ack magic'')
        (check (ack_version ack = 1) (version_mismatch (ack_version ack))
        (check (fresh_timestamp now_ms (ack_timestamp_unix_ms ack)) (HandshakeError ''timestamp out of window'')
        (check (length (ack_ml_dsa_65_public_key ack) = 1952)
          (HandshakeError (''invalid sig pk size: expected 1952, got '' @ dec (length (ack_ml_dsa_65_public_key ack))))
        (and_then
          (case hm_get peer_addr (pending m) of
             Some (Client (ProbeSent client_nonce probe_bytes _)) \<Rightarrow> Ok (client_nonce, probe_bytes)
           | _ \<Rightarrow> Err (HandshakeError (''no pending client handshake for '' @ peer_addr)))
          (\<lambda>(client_nonce, probe_bytes).
        check (ack_client_nonce ack = client_nonce) (HandshakeError ''nonce mismatch'')
        (and_then (map_err (\<lambda>e. CryptoError (''KEM pk from_json: '' @ e))
          (kem_pk_from_json cr (ack_hybrid_kem_public_key_json ack))) (\<lambda>server_kem_pk.
        and_then (map_err (\<lambda>e. CryptoError (''KEM encapsulate failed: '' @ e))
          (kem_encapsulate_to cr rng server_kem_pk)) (\<lambda>(ciphertext, shared_secret).
        and_then (map_err (\<lambda>e. CryptoError (''shared secret not 32 bytes: '' @ e))
          (ss_as_32_bytes cr shared_secret)) (\<lambda>shared_secret_32b.
        and_then (map_err (\<lambda>e. CryptoError (''ciphertext to_json: '' @ e))
          (ct_to_json cr ciphertext)) (\<lambda>ciphertext_json.
        and_then (map_err (\<lambda>e. SerializationError (''ciphertext serialize: '' @ e))
          (ct_bincode cr ciphertext)) (\<lambda>kem_ciphertext_bytes.
        let finish = \<lparr>fin_magic = HANDSHAKE_FINISH_MAGIC, fin_version = 1,
              fin_kem_ciphertext_json = ciphertext_json,
              fin_client_ml_dsa_65_public_key = sig_public_key_bytes cr identity,
              fin_client_node_id = ni_node_id identity, fin_timestamp_unix_ms = now_ms\<rparr> in
        and_then (map_err (\<lambda>e. SerializationError (''finish serialize: '' @ e)) (ser_finish bc finish)) (\<lambda>finish_bytes.
        Ok (finish_bytes,
            put_pending peer_addr
              (Client (FinishSent client_nonce (ack_server_nonce ack) kem_ciphertext_bytes shared_secret_32b
                 probe_bytes ack_bytes finish_bytes (ack_ml_dsa_65_public_key ack)
                 (ack_server_node_id ack) now_ms)) m)))))))))))))))
       m"

definition take_pending :: "string \<Rightarrow> handshake_manager \<Rightarrow> handshake_manager" where
  "take_pending peer_addr m = m\<lparr>pending := hm_remove peer_addr (pending m)\<rparr>"

text \<open>Server step 2. The first part only inspects the message; the pending context is removed
  before the rest runs.\<close>

definition check_finish :: "codec \<Rightarrow> u64 \<Rightarrow> bytes \<Rightarrow> handshake_finish res" where
  "check_finish bc now_ms finish_bytes =
     and_then (map_err (\<lambda>e. HandshakeError (''finish deserialize: '' @ e)) (de_finish bc finish_bytes)) (\<lambda>finish.
     check (fin_magic finish = HANDSHAKE_FINISH_MAGIC) (HandshakeError ''invalid finish magic'')
     (check (fin_version finish = 1) (version_mismatch (fin_version finish))
     (check (fresh_timestamp now_ms (fin_timestamp_unix_ms finish)) (HandshakeError ''timestamp out of window'')
     (check (length (fin_client_ml_dsa_65_public_key finish) = 1952)
       (HandshakeError (''invalid client sig pk size: expected 1952, got ''
          @ dec (length (fin_client_ml_dsa_65_public_key finish))))
     (Ok finish)))))"

definition finish_ack_of ::
    "('k, 'p, 'c, 's, 'd) crypto \<Rightarrow> codec \<Rightarrow> string \<Rightarrow> bytes \<Rightarrow> ('k, 'd) node_identity \<Rightarrow> u64 \<Rightarrow>
     handshake_finish \<Rightarrow> handshake_context option \<Rightarrow> (bytes \<times> session_record) res" where
  "finish_ack_of cr bc peer_addr finish_bytes identity now_ms finish ctx =
     and_then
       (case ctx of
          Some (Server (AckSent client_nonce server_nonce probe_bytes ack_bytes _)) \<Rightarrow>
            Ok (client_nonce, server_nonce, probe_bytes, ack_bytes)
        | _ \<Rightarrow> Err (HandshakeError (''no pending server handshake for '' @ peer_addr)))
       (\<lambda>(client_nonce, server_nonce, probe_bytes, ack_bytes).
     and_then (map_err (\<lambda>e. CryptoError (''ciphertext from_json: '' @ e))
       (ct_from_json cr (fin_kem_ciphertext_json finish))) (\<lambda>ciphertext.
     and_then (map_err (\<lambda>e. CryptoError (''KEM decapsulate failed: '' @ e))
       (kem_decapsulate cr (ni_kem_keypair identity) ciphertext)) (\<lambda>shared_secret.
     and_then (map_err (\<lambda>e. CryptoError (''shared secret not 32 bytes: '' @ e))
       (ss_as_32_bytes cr shared_secret)) (\<lambda>shared_secret_32b.
     and_then (map_err (\<lambda>e. SerializationError (''ciphertext serialize: '' @ e))
       (ct_bincode cr ciphertext)) (\<lambda>kem_ciphertext_bytes.
     let transcript_hash = compute_transcript_hash cr probe_bytes ack_bytes finish_bytes;
         server_mac = compute_server_mac cr shared_secret_32b transcript_hash in
     and_then (sign cr identity transcript_hash SIG_CTX_HANDSHAKE) (\<lambda>transcript_signature.
     let session_id = derive_session_id cr shared_secret_32b client_nonce server_nonce
           kem_ciphertext_bytes (ni_node_id identity);
         finish_ack = \<lparr>fack_magic = HANDSHAKE_FINISH_ACK_MAGIC, fack_version = 1,
           fack_session_id = session_id, fack_transcript_hash = transcript_hash,
           fack_server_mac = server_mac, fack_transcript_signature = transcript_signature,
           fack_timestamp_unix_ms = now_ms\<rparr> in
     and_then (map_err (\<lambda>e. SerializationError (''finish_ack serialize: '' @ e))
       (ser_finish_ack bc finish_ack)) (\<lambda>finish_ack_bytes.
     Ok (finish_ack_bytes,
         \<lparr>sr_session_id = session_id, sr_peer_addr = peer_addr,
          sr_peer_node_id = fin_client_node_id finish,
          sr_peer_sig_public_key = fin_client_ml_dsa_65_public_key finish,
          sr_transcript_hash = transcript_hash, sr_established_at_ms = now_ms,
          sr_is_active = True\<rparr>))))))))"

definition process_finish_build_finish_ack ::
    "('k, 'p, 'c, 's, 'd) crypto \<Rightarrow> codec \<Rightarrow> string \<Rightarrow> bytes \<Rightarrow> ('k, 'd) node_identity \<Rightarrow> u64 \<Rightarrow>
     handshake_manager \<Rightarrow> (bytes \<times> session_record) res \<times> handshake_manager" where
  "process_finish_build_finish_ack cr bc peer_addr finish_bytes identity now_ms m =
     (case check_finish bc now_ms finish_bytes of
        Ok finish \<Rightarrow>
          (finish_ack_of cr bc peer_addr finish_bytes identity now_ms finish (hm_get peer_addr (pending m)),
           take_pending peer_addr m)
      | Err e \<Rightarrow> (Err e, m)
      | Panic \<Rightarrow> (Panic, m))"

text \<open>Client step 3.\<close>

definition check_finish_ack :: "codec \<Rightarrow> u64 \<Rightarrow> bytes \<Rightarrow> handshake_finish_ack res" where
  "check_finish_ack bc now_ms finish_ack_bytes =
     and_then (map_err (\<lambda>e. HandshakeError (''finish_ack deserialize: '' @ e))
       (de_finish_ack bc finish_ack_bytes)) (\<lambda>finish_ack.
     check (fack_magic finish_ack = HANDSHAKE_FINISH_ACK_MAGIC) (HandshakeError ''invalid finish_ack magic'')
     (check (fack_version finish_ack = 1) (version_mismatch (fack_version finish_ack))
     (check (fresh_timestamp now_ms (fack_timestamp_unix_ms finish_ack)) (HandshakeError ''timestamp out of window'')
     (Ok finish_ack))))"

definition session_of_finish_ack ::
    "('k, 'p, 'c, 's, 'd) crypto \<Rightarrow> string \<Rightarrow> u64 \<Rightarrow> handshake_finish_ack \<Rightarrow> handshake_context option \<Rightarrow>
     session_record res" where
  "session_of_finish_ack cr peer_addr now_ms finish_ack ctx =
     (case ctx of
        Some (Client (FinishSent _ _ _ shared_secret_32b probe_bytes ack_bytes finish_bytes
          server_sig_pk server_node_id _)) \<Rightarrow>
          (let expected_transcript_hash = compute_transcript_hash cr probe_bytes ack_bytes finish_bytes;
               expected_mac = compute_server_mac cr shared_secret_32b expected_transcript_hash in
           check (fack_transcript_hash finish_ack = expected_transcript_hash)
             (HandshakeError ''transcript hash mismatch'')
           (check (constant_time_eq (fack_server_mac finish_ack) expected_mac)
             (HandshakeError ''mac verification failed'')
           (and_then (verify_external cr server_sig_pk (fack_transcript_hash finish_ack)
              (fack_transcript_signature finish_ack) SIG_CTX_HANDSHAKE) (\<lambda>sig_valid.
           check sig_valid (HandshakeError ''transcript signature invalid'')
           (Ok \<lparr>sr_session_id = fack_session_id finish_ack, sr_peer_addr = peer_addr,
                sr_peer_node_id = server_node_id, sr_peer_sig_public_key = server_sig_pk,
                sr_transcript_hash = fack_transcript_hash finish_ack,
                sr_established_at_ms = now_ms, sr_is_active = True\<rparr>)))))
      | _ \<Rightarrow> Err (HandshakeError (''no pending client finish for '' @ peer_addr)))"

definition process_finish_ack ::
    "('k, 'p, 'c, 's, 'd) crypto \<Rightarrow> codec \<Rightarrow> string \<Rightarrow> bytes \<Rightarrow> u64 \<Rightarrow> handshake_manager \<Rightarrow>
     session_record res \<times> handshake_manager" where
  "process_finish_ack cr bc peer_addr finish_ack_bytes now_ms m =
     (case check_finish_ack bc now_ms finish_ack_bytes of
        Ok finish_ack \<Rightarrow>
          (session_of_finish_ack cr peer_addr now_ms finish_ack (hm_get peer_addr (pending m)),
           take_pending peer_addr m)
      | Err e \<Rightarrow> (Err e, m)
      | Panic \<Rightarrow> (Panic, m))"

section \<open>Dispatch and bookkeeping\<close>

definition put_completed :: "string \<Rightarrow> session_record \<Rightarrow> handshake_manager \<Rightarrow> handshake_manager" where
  "put_completed peer_addr s m = m\<lparr>completed := hm_insert peer_addr s (completed m)\<rparr>"

definition process_incoming ::
    "('k, 'p, 'c, 's, 'd) crypto \<Rightarrow> codec \<Rightarrow> string + bytes \<Rightarrow> bytes \<Rightarrow> string \<Rightarrow> bytes \<Rightarrow>
     ('k, 'd) node_identity \<Rightarrow> u64 \<Rightarrow> handshake_manager \<Rightarrow> bytes res \<times> handshake_manager" where
  "process_incoming cr bc rand rng peer_addr bytes identity now_ms m =
     (case classify_incoming bytes of
        KindHandshakeProbe \<Rightarrow> process_probe_build_ack cr bc rand peer_addr bytes identity now_ms m
      | KindHandshakeAck \<Rightarrow> process_ack_build_finish cr bc rng peer_addr bytes identity now_ms m
      | KindHandshakeFinish \<Rightarrow>
          (case process_finish_build_finish_ack cr bc peer_addr bytes identity now_ms m of
             (Ok (finish_ack_bytes, session), m') \<Rightarrow> (Ok finish_ack_bytes, put_completed peer_addr session m')
           | (Err e, m') \<Rightarrow> (Err e, m')
           | (Panic, m') \<Rightarrow> (Panic, m'))
      | KindHandshakeFinishAck \<Rightarrow>
          (case process_finish_ack cr bc peer_addr bytes now_ms m of
             (Ok session, m') \<Rightarrow> (Ok [], put_completed peer_addr session m')
           | (Err e, m') \<Rightarrow> (Err e, m')
           | (Panic, m') \<Rightarrow> (Panic, m'))
      | KindGossipEnvelope \<Rightarrow>
          (Err (HandshakeError ''expected handshake message, got gossip envelope''), m))"

definition manager_is_complete :: "string \<Rightarrow> handshake_manager \<Rightarrow> bool" where
  "manager_is_complete peer_addr m \<longleftrightarrow> hm_get peer_addr (completed m) \<noteq> None"

definition manager_is_handshake_complete :: "string \<Rightarrow> handshake_manager \<Rightarrow> bool" where
  "manager_is_handshake_complete peer_addr m = manager_is_complete peer_addr m"

definition get_session :: "string \<Rightarrow> handshake_manager \<Rightarrow> session_record option" where
  "get_session peer_addr m = hm_get peer_addr (completed m)"

definition create_identity_probe ::
    "codec \<Rightarrow> u64 \<Rightarrow> string + bytes \<Rightarrow> string \<Rightarrow> ('k, 'd) node_identity \<Rightarrow> handshake_manager \<Rightarrow>
     bytes res \<times> handshake_manager" where
  "create_identity_probe bc clock_ms rand peer_addr identity m =
     build_probe bc rand peer_addr identity clock_ms m"

definition manager_remove :: "string \<Rightarrow> handshake_manager \<Rightarrow> handshake_manager" where
  "manager_remove peer_addr m =
     m\<lparr>pending := hm_remove peer_addr (pending m), completed := hm_remove peer_addr (completed m)\<rparr>"

definition evict_timed_out :: "u64 \<Rightarrow> handshake_manager \<Rightarrow> string list \<times> handshake_manager" where
  "evict_timed_out now_ms m =
     (map fst (filter (\<lambda>(addr, ctx). is_timed_out now_ms ctx) (pending m)),
      m\<lparr>pending := hm_retain (\<lambda>addr ctx. \<not> is_timed_out now_ms ctx) (pending m)\<rparr>)"

definition take_session :: "string \<Rightarrow> handshake_manager \<Rightarrow> session_record option \<times> handshake_manager" where
  "take_session peer_addr m =
     (case hm_get peer_addr (pending m) of
        Some ctx \<Rightarrow> (into_session ctx, take_pending peer_addr m)
      | None \<Rightarrow> (None, m))"

end
