(* ===== verification/Handshake_Facts.thy ===== *)
theory Handshake_Facts
  imports Handshake
begin

text \<open>
  The facts about the handshake manager: what each step demands and stores, the manager's
  invariant, the independence of peers, and the run of an honest exchange. The contract
  \<open>peer_op\<close> states what every operation on one peer keeps of the manager.
\<close>

unbundle bit_operations_syntax

section \<open>Comparison in constant time\<close>

lemma xor_zero_iff: "x XOR y = 0 \<longleftrightarrow> x = y" for x y :: u8
  by (metis xor.assoc xor.left_neutral xor_self_eq)

lemma foldl_or_xor_zero:
  "foldl (\<lambda>diff (x, y). diff OR (x XOR y)) d ps = 0 \<longleftrightarrow> d = 0 \<and> (\<forall>(x, y) \<in> set ps. x = y)"
  for d :: u8
  by (induction ps arbitrary: d) (auto simp: or_eq_0_iff xor_zero_iff)

lemma constant_time_eq_iff: "constant_time_eq a b \<longleftrightarrow> a = b"
proof (cases "length a = length b")
  case True
  then have "(\<forall>(x, y) \<in> set (zip a b). x = y) \<longleftrightarrow> a = b"
    by (metis list_all2_iff list.rel_eq)
  with True show ?thesis by (simp add: constant_time_eq_def foldl_or_xor_zero)
qed (auto simp: constant_time_eq_def)

section \<open>Committing a result\<close>

lemma commit_Ok [simp]: "commit r s = (Ok x, s') \<longleftrightarrow> r = Ok (x, s')"
  by (cases r) auto

lemma commit_state: "(\<And>x s'. r = Ok (x, s') \<Longrightarrow> P s') \<Longrightarrow> P s \<Longrightarrow> P (snd (commit r s))"
  by (cases r) auto

lemma commit_Panic [simp]: "fst (commit r s) = Panic \<longleftrightarrow> r = Panic"
  by (cases r) auto

lemma fresh_iff: "fresh_timestamp now ts \<longleftrightarrow> unat now \<le> unat ts + 30000"
  by (simp add: fresh_timestamp_def saturating_sub_le_iff)

section \<open>The manager invariant\<close>

text \<open>Contexts in the pending map are always in progress; completed sessions are active and filed
  under their address.\<close>

fun in_progress :: "handshake_context \<Rightarrow> bool" where
  "in_progress (Client (ProbeSent _ _ _)) = True"
| "in_progress (Client (FinishSent _ _ _ _ _ _ _ _ _ _)) = True"
| "in_progress (Server (AckSent _ _ _ _ _)) = True"
| "in_progress _ = False"

definition manager_inv :: "handshake_manager \<Rightarrow> bool" where
  "manager_inv m \<longleftrightarrow>
     hm_inv (pending m) \<and> hm_inv (completed m) \<and>
     (\<forall>a ctx. hm_get a (pending m) = Some ctx \<longrightarrow> in_progress ctx) \<and>
     (\<forall>a s. hm_get a (completed m) = Some s \<longrightarrow> sr_peer_addr s = a \<and> sr_is_active s)"

lemma manager_inv_new [simp, wf_rules]: "manager_inv manager_new"
  by (simp add: manager_inv_def manager_new_def)

lemma manager_inv_put_pending [wf_rules]:
  "manager_inv m \<Longrightarrow> in_progress ctx \<Longrightarrow> manager_inv (put_pending a ctx m)"
  by (simp add: manager_inv_def put_pending_def hm.get_insert)

lemma manager_inv_take_pending [wf_rules]: "manager_inv m \<Longrightarrow> manager_inv (take_pending a m)"
  by (simp add: manager_inv_def take_pending_def hm.get_remove)

lemma manager_inv_put_completed [wf_rules]:
  "manager_inv m \<Longrightarrow> sr_peer_addr s = a \<Longrightarrow> sr_is_active s \<Longrightarrow> manager_inv (put_completed a s m)"
  by (simp add: manager_inv_def put_completed_def hm.get_insert)

lemma manager_inv_remove [wf_rules]: "manager_inv m \<Longrightarrow> manager_inv (manager_remove a m)"
  by (simp add: manager_inv_def manager_remove_def hm.get_remove)

lemma manager_inv_evict [wf_rules]: "manager_inv m \<Longrightarrow> manager_inv (snd (evict_timed_out now m))"
  by (auto simp: manager_inv_def evict_timed_out_def hm.get_retain_Some)

lemmas pending_simps =
  put_pending_def take_pending_def put_completed_def manager_remove_def

section \<open>Operations on one peer\<close>

locale peer_op =
  fixes run :: "handshake_manager \<Rightarrow> 'r \<times> handshake_manager" and addr :: string
  assumes keeps_inv: "manager_inv m \<Longrightarrow> manager_inv (snd (run m))"
    and keeps_pending: "manager_inv m \<Longrightarrow> b \<noteq> addr \<Longrightarrow> hm_get b (pending (snd (run m))) = hm_get b (pending m)"
    and keeps_completed: "manager_inv m \<Longrightarrow> b \<noteq> addr \<Longrightarrow> hm_get b (completed (snd (run m))) = hm_get b (completed m)"
begin

text \<open>A context of another peer is answered the same way before and after.\<close>

lemma keeps_take_session: "manager_inv m \<Longrightarrow> b \<noteq> addr \<Longrightarrow> fst (take_session b (snd (run m))) = fst (take_session b m)"
  by (simp add: take_session_def keeps_pending split: option.splits)

lemma keeps_get_session: "manager_inv m \<Longrightarrow> b \<noteq> addr \<Longrightarrow> get_session b (snd (run m)) = get_session b m"
  by (simp add: get_session_def keeps_completed)

end

text \<open>The two shapes of a step: insert a context in progress, or take one out.\<close>

lemma peer_op_commit:
  assumes "\<And>m x m'. r m = Ok (x, m') \<Longrightarrow> \<exists>ctx. in_progress ctx \<and> m' = put_pending a ctx m"
  shows "peer_op (\<lambda>m. commit (r m) m) a"
proof -
  have shape: "snd (commit (r m) m) = m \<or> (\<exists>ctx. in_progress ctx \<and> snd (commit (r m) m) = put_pending a ctx m)" for m
    using assms [of m] by (cases "r m") auto
  show ?thesis
  proof
    fix m :: handshake_manager and b :: string
    assume inv: "manager_inv m"
    show "manager_inv (snd (commit (r m) m))"
      using shape [of m] inv by (auto intro: wf_rules)
    show "b \<noteq> a \<Longrightarrow> hm_get b (pending (snd (commit (r m) m))) = hm_get b (pending m)"
      using shape [of m] by (auto simp: put_pending_def)
    show "b \<noteq> a \<Longrightarrow> hm_get b (completed (snd (commit (r m) m))) = hm_get b (completed m)"
      using shape [of m] by (auto simp: put_pending_def)
  qed
qed

lemma put_pendingI: "in_progress c \<Longrightarrow> \<exists>ctx. in_progress ctx \<and> put_pending a c m = put_pending a ctx m"
  by blast

lemma peer_op_take:
  "peer_op (\<lambda>m. case chk of Ok f \<Rightarrow> (g f m, take_pending a m) | Err e \<Rightarrow> (Err e, m) | Panic \<Rightarrow> (Panic, m)) a"
  by unfold_locales
     (auto simp: take_pending_def hm.get_remove manager_inv_def split: res.splits intro: wf_rules)

interpretation probe_op: peer_op "build_probe bc rand a i now" a for bc rand a i now
  unfolding build_probe_def [abs_def]
  by (rule peer_op_commit) (auto simp: Let_def intro!: put_pendingI)

interpretation ack_op: peer_op "process_probe_build_ack cr bc rand a bs i now" a for cr bc rand a bs i now
  unfolding process_probe_build_ack_def [abs_def]
  by (rule peer_op_commit) (auto simp: Let_def intro!: put_pendingI)

interpretation finish_op: peer_op "process_ack_build_finish cr bc rng a bs i now" a for cr bc rng a bs i now
  unfolding process_ack_build_finish_def [abs_def]
  by (rule peer_op_commit) (auto simp: Let_def intro!: put_pendingI split: option.splits handshake_context.splits client_handshake_state.splits)

interpretation finish_ack_op: peer_op "process_finish_build_finish_ack cr bc a bs i now" a for cr bc a bs i now
  unfolding process_finish_build_finish_ack_def [abs_def] by (rule peer_op_take)

interpretation complete_op: peer_op "process_finish_ack cr bc a bs now" a for cr bc a bs now
  unfolding process_finish_ack_def [abs_def] by (rule peer_op_take)

interpretation incoming_op: peer_op "process_incoming cr bc rand rng a bs i now" a for cr bc rand rng a bs i now
proof -
  have fin: "\<And>m fb ss m'. process_finish_build_finish_ack cr bc a bs i now m = (Ok (fb, ss), m') \<Longrightarrow>
      sr_peer_addr ss = a \<and> sr_is_active ss"
    by (auto simp: process_finish_build_finish_ack_def finish_ack_of_def Let_def split: res.splits)
  have fack: "\<And>m ss m'. process_finish_ack cr bc a bs now m = (Ok ss, m') \<Longrightarrow>
      sr_peer_addr ss = a \<and> sr_is_active ss"
    by (auto simp: process_finish_ack_def session_of_finish_ack_def Let_def
        split: res.splits option.splits handshake_context.splits client_handshake_state.splits)
  show "peer_op (process_incoming cr bc rand rng a bs i now) a"
  proof
    fix m :: handshake_manager and b :: string
    assume inv: "manager_inv m"
    note fk = finish_ack_op.keeps_inv [OF inv, of cr bc a bs i now]
      complete_op.keeps_inv [OF inv, of cr bc a bs now]
    show "manager_inv (snd (process_incoming cr bc rand rng a bs i now m))"
      using inv fk
      by (auto simp: process_incoming_def ack_op.keeps_inv finish_op.keeps_inv
          split: message_kind.splits prod.splits res.splits intro!: manager_inv_put_completed dest: fin fack)
    show "b \<noteq> a \<Longrightarrow> hm_get b (pending (snd (process_incoming cr bc rand rng a bs i now m))) = hm_get b (pending m)"
      using finish_ack_op.keeps_pending [OF inv, of b a cr bc bs i now]
        complete_op.keeps_pending [OF inv, of b a cr bc bs now]
      by (auto simp: process_incoming_def ack_op.keeps_pending [OF inv] finish_op.keeps_pending [OF inv] put_completed_def
          split: message_kind.splits prod.splits res.splits)
    show "b \<noteq> a \<Longrightarrow> hm_get b (completed (snd (process_incoming cr bc rand rng a bs i now m))) = hm_get b (completed m)"
      using finish_ack_op.keeps_completed [OF inv, of b a cr bc bs i now]
        complete_op.keeps_completed [OF inv, of b a cr bc bs now]
      by (auto simp: process_incoming_def ack_op.keeps_completed [OF inv] finish_op.keeps_completed [OF inv] put_completed_def
          split: message_kind.splits prod.splits res.splits)
  qed
qed

section \<open>What each step stores and sends\<close>

abbreviation probe_msg :: "bytes \<Rightarrow> string \<Rightarrow> ('k, 'd) node_identity \<Rightarrow> u64 \<Rightarrow> handshake_probe" where
  "probe_msg n a i t \<equiv>
     \<lparr>probe_magic = HANDSHAKE_PROBE_MAGIC, probe_version = 1, probe_client_nonce = n,
      probe_endpoint = a, probe_client_node_id = ni_node_id i, probe_timestamp_unix_ms = t\<rparr>"

abbreviation ack_msg ::
    "('k, 'p, 'c, 's, 'd) crypto \<Rightarrow> bytes \<Rightarrow> bytes \<Rightarrow> string \<Rightarrow> ('k, 'd) node_identity \<Rightarrow> u64 \<Rightarrow> handshake_ack" where
  "ack_msg cr cn sn j i t \<equiv>
     \<lparr>ack_magic = HANDSHAKE_ACK_MAGIC, ack_version = 1, ack_client_nonce = cn, ack_server_nonce = sn,
      ack_hybrid_kem_public_key_json = j, ack_ml_dsa_65_public_key = sig_public_key_bytes cr i,
      ack_server_node_id = ni_node_id i, ack_timestamp_unix_ms = t\<rparr>"

abbreviation finish_msg ::
    "('k, 'p, 'c, 's, 'd) crypto \<Rightarrow> string \<Rightarrow> ('k, 'd) node_identity \<Rightarrow> u64 \<Rightarrow> handshake_finish" where
  "finish_msg cr j i t \<equiv>
     \<lparr>fin_magic = HANDSHAKE_FINISH_MAGIC, fin_version = 1, fin_kem_ciphertext_json = j,
      fin_client_ml_dsa_65_public_key = sig_public_key_bytes cr i,
      fin_client_node_id = ni_node_id i, fin_timestamp_unix_ms = t\<rparr>"

abbreviation finish_ack_msg :: "string \<Rightarrow> bytes \<Rightarrow> bytes \<Rightarrow> bytes \<Rightarrow> u64 \<Rightarrow> handshake_finish_ack" where
  "finish_ack_msg sid h mac sg t \<equiv>
     \<lparr>fack_magic = HANDSHAKE_FINISH_ACK_MAGIC, fack_version = 1, fack_session_id = sid,
      fack_transcript_hash = h, fack_server_mac = mac, fack_transcript_signature = sg,
      fack_timestamp_unix_ms = t\<rparr>"

lemma build_probe_Ok:
  "build_probe bc rand a i t m = (Ok b, m') \<longleftrightarrow>
     (\<exists>n. rand = Inr n \<and> ser_probe bc (probe_msg n a i t) = Inr b \<and>
        m' = put_pending a (Client (ProbeSent n b t)) m)"
  by (auto simp: build_probe_def Let_def)

lemma process_probe_Ok:
  "process_probe_build_ack cr bc rand a pb i t m = (Ok b, m') \<longleftrightarrow>
     (\<exists>p sn j. de_probe bc pb = Inr p \<and> probe_magic p = HANDSHAKE_PROBE_MAGIC \<and> probe_version p = 1 \<and>
        fresh_timestamp t (probe_timestamp_unix_ms p) \<and> rand = Inr sn \<and>
        kem_pk_to_json cr (kem_public_key cr (ni_kem_keypair i)) = Inr j \<and>
        ser_ack bc (ack_msg cr (probe_client_nonce p) sn j i t) = Inr b \<and>
        m' = put_pending a (Server (AckSent (probe_client_nonce p) sn pb b t)) m)"
  by (auto simp: process_probe_build_ack_def Let_def)

lemma process_ack_Ok:
  "process_ack_build_finish cr bc rng a ab i t m = (Ok b, m') \<longleftrightarrow>
     (\<exists>k pb t0 pk ct ss ss32 j cb. de_ack bc ab = Inr k \<and> ack_magic k = HANDSHAKE_ACK_MAGIC \<and>
        ack_version k = 1 \<and> fresh_timestamp t (ack_timestamp_unix_ms k) \<and>
        length (ack_ml_dsa_65_public_key k) = 1952 \<and>
        hm_get a (pending m) = Some (Client (ProbeSent (ack_client_nonce k) pb t0)) \<and>
        kem_pk_from_json cr (ack_hybrid_kem_public_key_json k) = Inr pk \<and>
        kem_encapsulate_to cr rng pk = Inr (ct, ss) \<and> ss_as_32_bytes cr ss = Inr ss32 \<and>
        ct_to_json cr ct = Inr j \<and> ct_bincode cr ct = Inr cb \<and>
        ser_finish bc (finish_msg cr j i t) = Inr b \<and>
        m' = put_pending a (Client (FinishSent (ack_client_nonce k) (ack_server_nonce k) cb ss32 pb ab b
               (ack_ml_dsa_65_public_key k) (ack_server_node_id k) t)) m)"
  unfolding process_ack_build_finish_def Let_def commit_Ok
  by (auto split: option.splits handshake_context.splits client_handshake_state.splits)

lemma process_finish_Ok:
  "process_finish_build_finish_ack cr bc a fb i t m = (Ok (b, s), m') \<longleftrightarrow>
     (\<exists>f cn sn pb ab t0 ct ss ss32 cb sg. check_finish bc t fb = Ok f \<and>
        hm_get a (pending m) = Some (Server (AckSent cn sn pb ab t0)) \<and>
        ct_from_json cr (fin_kem_ciphertext_json f) = Inr ct \<and>
        kem_decapsulate cr (ni_kem_keypair i) ct = Inr ss \<and> ss_as_32_bytes cr ss = Inr ss32 \<and>
        ct_bincode cr ct = Inr cb \<and>
        sign cr i (compute_transcript_hash cr pb ab fb) SIG_CTX_HANDSHAKE = Ok sg \<and>
        ser_finish_ack bc
          (finish_ack_msg (derive_session_id cr ss32 cn sn cb (ni_node_id i))
             (compute_transcript_hash cr pb ab fb)
             (compute_server_mac cr ss32 (compute_transcript_hash cr pb ab fb)) sg t) = Inr b \<and>
        s = \<lparr>sr_session_id = derive_session_id cr ss32 cn sn cb (ni_node_id i), sr_peer_addr = a,
             sr_peer_node_id = fin_client_node_id f,
             sr_peer_sig_public_key = fin_client_ml_dsa_65_public_key f,
             sr_transcript_hash = compute_transcript_hash cr pb ab fb,
             sr_established_at_ms = t, sr_is_active = True\<rparr> \<and>
        m' = take_pending a m)"
  unfolding process_finish_build_finish_ack_def finish_ack_of_def Let_def
  by (auto split: res.splits option.splits handshake_context.splits server_handshake_state.splits)

lemma check_finish_Ok:
  "check_finish bc t fb = Ok f \<longleftrightarrow>
     de_finish bc fb = Inr f \<and> fin_magic f = HANDSHAKE_FINISH_MAGIC \<and> fin_version f = 1 \<and>
     fresh_timestamp t (fin_timestamp_unix_ms f) \<and> length (fin_client_ml_dsa_65_public_key f) = 1952"
  by (auto simp: check_finish_def)

lemma check_finish_ack_Ok:
  "check_finish_ack bc t b = Ok g \<longleftrightarrow>
     de_finish_ack bc b = Inr g \<and> fack_magic g = HANDSHAKE_FINISH_ACK_MAGIC \<and> fack_version g = 1 \<and>
     fresh_timestamp t (fack_timestamp_unix_ms g)"
  by (auto simp: check_finish_ack_def)

lemma SIG_CTX_HANDSHAKE_len [simp]: "length SIG_CTX_HANDSHAKE = 25"
  by (simp add: SIG_CTX_HANDSHAKE_def)

text \<open>The conditions under which the client accepts, and the session it then has.\<close>

lemma process_finish_ack_Ok:
  "process_finish_ack cr bc a b t m = (Ok s, m') \<longleftrightarrow>
     (\<exists>g cn sn cb ss32 pb ab fb pk nid t0. check_finish_ack bc t b = Ok g \<and>
        hm_get a (pending m) = Some (Client (FinishSent cn sn cb ss32 pb ab fb pk nid t0)) \<and>
        fack_transcript_hash g = compute_transcript_hash cr pb ab fb \<and>
        fack_server_mac g = compute_server_mac cr ss32 (compute_transcript_hash cr pb ab fb) \<and>
        sig_verify cr pk (tagged_message SIG_CTX_HANDSHAKE (compute_transcript_hash cr pb ab fb))
          (fack_transcript_signature g) = SigOk \<and>
        s = \<lparr>sr_session_id = fack_session_id g, sr_peer_addr = a, sr_peer_node_id = nid,
             sr_peer_sig_public_key = pk, sr_transcript_hash = fack_transcript_hash g,
             sr_established_at_ms = t, sr_is_active = True\<rparr> \<and>
        m' = take_pending a m)"
  unfolding process_finish_ack_def session_of_finish_ack_def Let_def
  by (auto simp: constant_time_eq_iff verify_external_True
      split: res.splits option.splits handshake_context.splits client_handshake_state.splits)

section \<open>An honest exchange\<close>

lemma get_put_pending [simp]: "hm_get a (pending (put_pending a ctx m)) = Some ctx"
  by (simp add: put_pending_def)

text \<open>
  Four messages carried between a client and a server whose clocks stay within the 30 s windows
  establish a session on both sides, with the same id and transcript and each other's key.
\<close>

lemma honest_exchange:
  fixes cr :: "('k, 'p, 'c, 's, 'd) crypto" and ci si :: "('k, 'd) node_identity"
  assumes laws: "bincode_laws bc" "kem_laws cr" "sig_laws cr" and total: "externals_total cr bc"
    and keys: "length (sig_public_key_bytes cr ci) = 1952" "length (sig_public_key_bytes cr si) = 1952"
    and clocks: "fresh_timestamp t2 t1" "fresh_timestamp t3 t2" "fresh_timestamp t4 t3" "fresh_timestamp t5 t4"
  shows "\<exists>probe ack fin fack mc1 ms1 mc2 ms2 mc3 sc ss.
     build_probe bc (Inr cn) sa ci t1 mc = (Ok probe, mc1) \<and>
     process_probe_build_ack cr bc (Inr sn) ca probe si t2 ms = (Ok ack, ms1) \<and>
     process_ack_build_finish cr bc rng sa ack ci t3 mc1 = (Ok fin, mc2) \<and>
     process_finish_build_finish_ack cr bc ca fin si t4 ms1 = (Ok (fack, ss), ms2) \<and>
     process_finish_ack cr bc sa fack t5 mc2 = (Ok sc, mc3) \<and>
     sr_session_id sc = sr_session_id ss \<and> sr_transcript_hash sc = sr_transcript_hash ss \<and>
     sr_peer_addr sc = sa \<and> sr_peer_addr ss = ca \<and> sr_is_active sc \<and> sr_is_active ss \<and>
     sr_peer_sig_public_key sc = sig_public_key_bytes cr si \<and> sr_peer_node_id sc = ni_node_id si \<and>
     sr_peer_sig_public_key ss = sig_public_key_bytes cr ci \<and> sr_peer_node_id ss = ni_node_id ci \<and>
     (\<exists>p. ser_probe bc p = Inr probe \<and> probe_magic p = HANDSHAKE_PROBE_MAGIC) \<and>
     (\<exists>k. ser_ack bc k = Inr ack \<and> ack_magic k = HANDSHAKE_ACK_MAGIC) \<and>
     (\<exists>f. ser_finish bc f = Inr fin \<and> fin_magic f = HANDSHAKE_FINISH_MAGIC) \<and>
     (\<exists>g. ser_finish_ack bc g = Inr fack \<and> fack_magic g = HANDSHAKE_FINISH_ACK_MAGIC)"
proof -
  note de = bincode_lawsD [OF laws(1)]
  note tot = externals_totalD [OF total]
  obtain pb where pb: "ser_probe bc (probe_msg cn sa ci t1) = Inr pb" using tot(1) by blast
  obtain j where j: "kem_pk_to_json cr (kem_public_key cr (ni_kem_keypair si)) = Inr j" using tot(5) by blast
  obtain ab where ab: "ser_ack bc (ack_msg cr cn sn j si t2) = Inr ab" using tot(2) by blast
  obtain ct ssec where enc: "kem_encapsulate_to cr rng (kem_public_key cr (ni_kem_keypair si)) = Inr (ct, ssec)"
    using tot(6) by blast
  obtain ss32 cj cb where ct: "ss_as_32_bytes cr ssec = Inr ss32" "ct_to_json cr ct = Inr cj" "ct_bincode cr ct = Inr cb"
    using tot(7,8,9) by blast
  obtain fb where fb: "ser_finish bc (finish_msg cr cj ci t3) = Inr fb" using tot(3) by blast
  let ?h = "compute_transcript_hash cr pb ab fb"
  obtain sg where sg0: "sig_sign_deterministic cr (ni_sig_keypair si) (tagged_message SIG_CTX_HANDSHAKE ?h) = Inr sg"
    using tot(10) by blast
  then have sg: "sign cr si ?h SIG_CTX_HANDSHAKE = Ok sg" by (simp add: sign_def)
  let ?sid = "derive_session_id cr ss32 cn sn cb (ni_node_id si)"
  let ?g = "finish_ack_msg ?sid ?h (compute_server_mac cr ss32 ?h) sg t4"
  obtain gb where gb: "ser_finish_ack bc ?g = Inr gb" using tot(4) by blast
  have ver: "sig_verify cr (sig_public_key_bytes cr si) (tagged_message SIG_CTX_HANDSHAKE ?h) sg = SigOk"
    using sig_lawsD [OF laws(3) sg0] by (simp add: sig_public_key_bytes_def)
  let ?mc1 = "put_pending sa (Client (ProbeSent cn pb t1)) mc"
  let ?ms1 = "put_pending ca (Server (AckSent cn sn pb ab t2)) ms"
  let ?mc2 = "put_pending sa (Client (FinishSent cn sn cb ss32 pb ab fb (sig_public_key_bytes cr si)
    (ni_node_id si) t3)) ?mc1"
  let ?ss = "\<lparr>sr_session_id = ?sid, sr_peer_addr = ca, sr_peer_node_id = ni_node_id ci,
     sr_peer_sig_public_key = sig_public_key_bytes cr ci, sr_transcript_hash = ?h,
     sr_established_at_ms = t4, sr_is_active = True\<rparr>"
  let ?sc = "\<lparr>sr_session_id = ?sid, sr_peer_addr = sa, sr_peer_node_id = ni_node_id si,
     sr_peer_sig_public_key = sig_public_key_bytes cr si, sr_transcript_hash = ?h,
     sr_established_at_ms = t5, sr_is_active = True\<rparr>"
  have 1: "build_probe bc (Inr cn) sa ci t1 mc = (Ok pb, ?mc1)" by (simp add: build_probe_Ok pb)
  have 2: "process_probe_build_ack cr bc (Inr sn) ca pb si t2 ms = (Ok ab, ?ms1)"
    using clocks(1) by (simp add: process_probe_Ok de(2) [OF pb] j ab)
  have 3: "process_ack_build_finish cr bc rng sa ab ci t3 ?mc1 = (Ok fb, ?mc2)"
    using clocks(2) keys(2)
    by (simp add: process_ack_Ok de(3) [OF ab] kem_lawsD(2) [OF laws(2) j] enc ct fb)
  have cf: "check_finish bc t4 fb = Ok (finish_msg cr cj ci t3)"
    using clocks(3) keys(1) by (simp add: check_finish_Ok de(4) [OF fb])
  have 4: "process_finish_build_finish_ack cr bc ca fb si t4 ?ms1 = (Ok (gb, ?ss), take_pending ca ?ms1)"
    by (simp add: process_finish_Ok cf kem_lawsD(3) [OF laws(2) ct(2)] kem_lawsD(1) [OF laws(2) enc] ct sg gb)
  have cfa: "check_finish_ack bc t5 gb = Ok ?g"
    using clocks(4) by (simp add: check_finish_ack_Ok de(5) [OF gb])
  have 5: "process_finish_ack cr bc sa gb t5 ?mc2 = (Ok ?sc, take_pending sa ?mc2)"
    by (simp add: process_finish_ack_Ok cfa ver)
  show ?thesis
    by (intro exI conjI, rule 1, rule 2, rule 3, rule 4, rule 5) (simp_all, use pb ab fb gb in \<open>fastforce+\<close>)
qed

section \<open>Single use of a pending context\<close>

text \<open>Once a well-formed Finish or FinishAck has been processed, with success or not, no context of
  that peer is pending: the same message is refused when it comes again.\<close>

lemma get_take_pending [simp]: "manager_inv m \<Longrightarrow> hm_get a (pending (take_pending a m)) = None"
  by (simp add: take_pending_def manager_inv_def)

lemma finish_consumes:
  assumes "manager_inv m" and "check_finish bc t fb = Ok f"
    and "process_finish_build_finish_ack cr bc a fb i t m = (r, m')"
  shows "hm_get a (pending m') = None"
  using assms by (auto simp: process_finish_build_finish_ack_def)

lemma finish_needs_context:
  assumes "hm_get a (pending m) = None"
  shows "\<exists>e. fst (process_finish_build_finish_ack cr bc a fb i t m) = Err e"
  using assms
  by (auto simp: process_finish_build_finish_ack_def finish_ack_of_def check_finish_def split: res.splits)

lemma finish_ack_consumes:
  assumes "manager_inv m" and "check_finish_ack bc t b = Ok g"
    and "process_finish_ack cr bc a b t m = (r, m')"
  shows "hm_get a (pending m') = None"
  using assms by (auto simp: process_finish_ack_def)

lemma finish_ack_needs_context:
  assumes "hm_get a (pending m) = None"
  shows "\<exists>e. fst (process_finish_ack cr bc a b t m) = Err e"
  using assms
  by (auto simp: process_finish_ack_def session_of_finish_ack_def check_finish_ack_def split: res.splits)

section \<open>Eviction and sessions\<close>

lemma evict_pending:
  assumes "manager_inv m"
  shows "hm_get a (pending (snd (evict_timed_out now m))) =
     (case hm_get a (pending m) of Some ctx \<Rightarrow> if is_timed_out now ctx then None else Some ctx | None \<Rightarrow> None)"
  using assms by (simp add: evict_timed_out_def manager_inv_def hm.get_retain split: option.splits)

lemma evicted_addrs:
  assumes "manager_inv m"
  shows "set (fst (evict_timed_out now m)) = {a. \<exists>ctx. hm_get a (pending m) = Some ctx \<and> is_timed_out now ctx}"
    and "distinct (fst (evict_timed_out now m))"
proof -
  have d: "distinct (map fst (pending m))" using assms by (simp add: manager_inv_def hm_inv_def)
  then show "set (fst (evict_timed_out now m)) = {a. \<exists>ctx. hm_get a (pending m) = Some ctx \<and> is_timed_out now ctx}"
    by (force simp: evict_timed_out_def hm_get_def)
  show "distinct (fst (evict_timed_out now m))"
    using d by (simp add: evict_timed_out_def distinct_map_filter)
qed

lemma take_session_None:
  assumes "manager_inv m"
  shows "fst (take_session a m) = None"
proof -
  have "into_session ctx = None" if "in_progress ctx" for ctx
    using that by (cases ctx rule: into_session.cases) auto
  with assms show ?thesis by (auto simp: take_session_def manager_inv_def split: option.splits)
qed

lemma manager_steps_not_Panic:
  "fst (build_probe bc rand a i t m) \<noteq> Panic"
  "fst (process_probe_build_ack cr bc rand a bs i t m) \<noteq> Panic"
  "fst (process_ack_build_finish cr bc rng a bs i t m) \<noteq> Panic"
  "fst (process_finish_build_finish_ack cr bc a bs i t m) \<noteq> Panic"
  "fst (process_finish_ack cr bc a bs t m) \<noteq> Panic"
  by (auto simp: build_probe_def process_probe_build_ack_def process_ack_build_finish_def
      process_finish_build_finish_ack_def process_finish_ack_def check_finish_def check_finish_ack_def
      finish_ack_of_def session_of_finish_ack_def Let_def
      split: res.splits option.splits handshake_context.splits client_handshake_state.splits server_handshake_state.splits)

end
