(* ===== verification/Envelope.thy ===== *)
theory Envelope
  imports Identity
begin

text \<open>
  \<^verbatim>\<open>witan/src/envelope.rs\<close>: message ids, the signed bytes, building, encoding and verifying
  gossip envelopes.
\<close>

definition compute_message_id :: "('k, 'p, 'c, 's, 'd) crypto \<Rightarrow> payload_type \<Rightarrow> bytes \<Rightarrow> bytes" where
  "compute_message_id cr payload_type payload = sha256 cr (as_u8 payload_type # payload)"

definition signing_input :: "gossip_envelope \<Rightarrow> bytes" where
  "signing_input env = env_message_id env @ as_u8 (env_payload_type env) # env_payload env"

definition build_envelope ::
    "('k, 'p, 'c, 's, 'd) crypto \<Rightarrow> payload_type \<Rightarrow> bytes \<Rightarrow> ('k, 'd) node_identity \<Rightarrow> u8 \<Rightarrow> u64 \<Rightarrow>
     gossip_envelope res" where
  "build_envelope cr payload_type payload identity default_ttl now_ms =
     (let env =
        \<lparr>env_version = 1,
         env_message_id = compute_message_id cr payload_type payload,
         env_sender_node_id = ni_node_id identity,
         env_sender_public_key = sig_public_key_bytes cr identity,
         env_payload_type = payload_type,
         env_payload = payload,
         env_signature = [],
         env_timestamp_unix_ms = now_ms,
         env_ttl = default_ttl\<rparr>
      in and_then (sign cr identity (signing_input env) SIG_CTX_MESSAGE) (\<lambda>signature.
         Ok (env\<lparr>env_signature := signature\<rparr>)))"

definition encode_envelope :: "codec \<Rightarrow> gossip_envelope \<Rightarrow> bytes res" where
  "encode_envelope bc env = map_err (\<lambda>e. SerializationError (''bincode encode failed: '' @ e)) (ser_envelope bc env)"

definition decode_envelope :: "codec \<Rightarrow> bytes \<Rightarrow> gossip_envelope res" where
  "decode_envelope bc bs = map_err (\<lambda>e. SerializationError (''bincode decode failed: '' @ e)) (de_envelope bc bs)"

definition verify_envelope ::
    "('k, 'p, 'c, 's, 'd) crypto \<Rightarrow> gossip_envelope \<Rightarrow> resolved_config \<Rightarrow> u64 \<Rightarrow> bool res" where
  "verify_envelope cr env config now_ms =
     check (env_version env = 1)
       (EnvelopeError (''unsupported version: '' @ dec (unat (env_version env))))
     (check (env_message_id env = compute_message_id cr (env_payload_type env) (env_payload env))
       (EnvelopeError ''message_id mismatch'')
     (check (saturating_sub now_ms (env_timestamp_unix_ms env) \<le> rc_replay_window_ms config) ReplayDetected
     (check (env_ttl env \<noteq> 0) TtlExpired
     (check (length (env_payload env) \<le> rc_max_message_bytes config) (EnvelopeError ''payload too large'')
     (and_then (verify_external cr (env_sender_public_key env) (signing_input env) (env_signature env)
        SIG_CTX_MESSAGE) (\<lambda>verified.
      check verified SignatureInvalid (Ok True)))))))"

section \<open>Lemmas\<close>

lemma SIG_CTX_MESSAGE_len [simp]: "length SIG_CTX_MESSAGE = 23"
  by (simp add: SIG_CTX_MESSAGE_def)

text \<open>What an accepted envelope satisfies, and nothing else is accepted.\<close>

lemma verify_envelope_True:
  "verify_envelope cr env config now = Ok True \<longleftrightarrow>
     env_version env = 1 \<and>
     env_message_id env = compute_message_id cr (env_payload_type env) (env_payload env) \<and>
     unat now \<le> unat (env_timestamp_unix_ms env) + unat (rc_replay_window_ms config) \<and>
     env_ttl env \<noteq> 0 \<and>
     length (env_payload env) \<le> rc_max_message_bytes config \<and>
     sig_verify cr (env_sender_public_key env) (tagged_message SIG_CTX_MESSAGE (signing_input env))
       (env_signature env) = SigOk"
  by (auto simp: verify_envelope_def saturating_sub_le_iff verify_external_True)

lemma verify_envelope_never_False: "verify_envelope cr env config now \<noteq> Ok False"
  by (simp add: verify_envelope_def)

lemma verify_envelope_not_Panic [simp]: "verify_envelope cr env config now \<noteq> Panic"
  by (simp add: verify_envelope_def)

lemma verify_envelope_cases:
  "verify_envelope cr env config now = Ok True \<or> (\<exists>e. verify_envelope cr env config now = Err e)"
  using verify_envelope_never_False [of cr env config now] verify_envelope_not_Panic [of cr env config now]
  by (cases "verify_envelope cr env config now") auto

lemma build_envelope_Ok:
  "build_envelope cr pt payload i ttl now = Ok env \<longleftrightarrow>
     (\<exists>s. sign cr i (compute_message_id cr pt payload @ as_u8 pt # payload) SIG_CTX_MESSAGE = Ok s \<and>
        env = \<lparr>env_version = 1, env_message_id = compute_message_id cr pt payload,
          env_sender_node_id = ni_node_id i, env_sender_public_key = sig_public_key_bytes cr i,
          env_payload_type = pt, env_payload = payload, env_signature = s,
          env_timestamp_unix_ms = now, env_ttl = ttl\<rparr>)"
  by (auto simp: build_envelope_def Let_def signing_input_def)

lemma build_envelope_not_Panic [simp]: "build_envelope cr pt payload i ttl now \<noteq> Panic"
  by (simp add: build_envelope_def Let_def)

text \<open>The signed bytes bind id, type and payload.\<close>

lemma signing_input_inj:
  assumes "array32 (env_message_id e)" and "array32 (env_message_id e')"
    and "signing_input e = signing_input e'"
  shows "env_message_id e = env_message_id e' \<and> env_payload_type e = env_payload_type e' \<and>
    env_payload e = env_payload e'"
  using assms raw32.split_eq by (auto simp: signing_input_def)

lemma build_then_verify:
  assumes laws: "sig_laws cr" and built: "build_envelope cr pt payload i ttl now = Ok env"
    and "ttl \<noteq> 0" and "length payload \<le> rc_max_message_bytes config"
    and "unat now' \<le> unat now + unat (rc_replay_window_ms config)"
  shows "verify_envelope cr env config now' = Ok True"
proof -
  obtain s where s: "sign cr i (compute_message_id cr pt payload @ as_u8 pt # payload) SIG_CTX_MESSAGE = Ok s"
    and env: "env = \<lparr>env_version = 1, env_message_id = compute_message_id cr pt payload,
          env_sender_node_id = ni_node_id i, env_sender_public_key = sig_public_key_bytes cr i,
          env_payload_type = pt, env_payload = payload, env_signature = s,
          env_timestamp_unix_ms = now, env_ttl = ttl\<rparr>"
    using built by (auto simp: build_envelope_Ok)
  from sign_verify [OF laws s] show ?thesis
    using assms(3-5) by (simp add: env verify_envelope_True verify_external_True signing_input_def)
qed

end
