(* ===== verification/Rotation.thy ===== *)
theory Rotation
  imports Envelope
begin

text \<open>
  \<^verbatim>\<open>witan/src/rotation.rs\<close>: key rotation under a stable node id. A lineage is the inception keys
  and a chain of signed rotation records; every way to obtain one verifies the chain.
\<close>

section \<open>Constants and encoding helpers\<close>

definition SIG_CTX_KEY_ROTATION :: bytes where
  "SIG_CTX_KEY_ROTATION = as_bytes ''WITAN_KEY_ROTATION_V1''"

definition SIG_CTX_KEY_POSSESSION :: bytes where
  "SIG_CTX_KEY_POSSESSION = as_bytes ''WITAN_KEY_POSSESSION_V1''"

definition STATE_DIGEST_TAG :: bytes where
  "STATE_DIGEST_TAG = as_bytes ''WITAN_KEY_STATE_V1''"

definition ROTATION_SIGNING_TAG :: bytes where
  "ROTATION_SIGNING_TAG = as_bytes ''WITAN_KEY_ROTATION_RECORD_V1''"

definition COMMITMENT_TAG :: bytes where
  "COMMITMENT_TAG = as_bytes ''WITAN_NEXT_KEY_COMMITMENT_V1''"

definition SIG_PK_LEN :: nat where "SIG_PK_LEN = 1952"
definition KEM_PK_LEN :: nat where "KEM_PK_LEN = 32 + 1184"
definition LINEAGE_VERSION :: u8 where "LINEAGE_VERSION = 1"
definition MAX_LINEAGE_BYTES :: nat where "MAX_LINEAGE_BYTES = 4 * 1024 * 1024"

definition put_bytes :: "bytes \<Rightarrow> bytes" where
  "put_bytes b = to_be_bytes (word_of_nat (length b)) @ b"

fun put_commitment :: "bytes option \<Rightarrow> bytes" where
  "put_commitment (Some c) = 1 # c"
| "put_commitment None = [0]"

definition check_key_lengths :: "bytes \<Rightarrow> bytes \<Rightarrow> unit res" where
  "check_key_lengths kem_pk sig_pk =
     check (length kem_pk = KEM_PK_LEN)
       (IdentityError (''invalid kem pk size: expected '' @ dec KEM_PK_LEN @ '', got '' @ dec (length kem_pk)))
     (check (length sig_pk = SIG_PK_LEN)
       (IdentityError (''invalid sig pk size: expected '' @ dec SIG_PK_LEN @ '', got '' @ dec (length sig_pk)))
     (Ok ()))"

section \<open>Commitments\<close>

definition key_commitment :: "('k, 'p, 'c, 's, 'd) crypto \<Rightarrow> bytes \<Rightarrow> bytes" where
  "key_commitment cr sig_pk = sha256 cr (COMMITMENT_TAG @ sig_pk)"

definition key_commitment_for_seed :: "('k, 'p, 'c, 's, 'd) crypto \<Rightarrow> bytes \<Rightarrow> bytes res" where
  "key_commitment_for_seed cr sig_seed =
     and_then (map_err (\<lambda>e. IdentityError (''SIG restore failed: '' @ e))
       (sig_from_secret_key_bytes cr sig_seed)) (\<lambda>kp. Ok (key_commitment cr (sig_public_key cr kp)))"

section \<open>Records and states\<close>

definition rotation_signing_input :: "key_rotation \<Rightarrow> bytes" where
  "rotation_signing_input r =
     ROTATION_SIGNING_TAG @ [kr_version r] @ put_bytes (as_bytes (kr_node_id r)) @
     to_be_bytes (kr_sequence r) @ kr_prev_state_digest r @ put_bytes (kr_new_kem_public_key r) @
     put_bytes (kr_new_sig_public_key r) @ put_bytes (as_bytes (kr_new_key_epoch r)) @
     put_commitment (kr_next_key_commitment r) @ to_be_bytes (kr_timestamp_unix_ms r)"

record key_state =
  ks_sequence :: u64
  ks_kem_public_key :: bytes
  ks_sig_public_key :: bytes
  ks_key_epoch :: string
  ks_next_key_commitment :: "bytes option"

definition state_bytes :: "string \<Rightarrow> key_state \<Rightarrow> bytes" where
  "state_bytes node_id s =
     STATE_DIGEST_TAG @ put_bytes (as_bytes node_id) @ to_be_bytes (ks_sequence s) @
     put_bytes (ks_kem_public_key s) @ put_bytes (ks_sig_public_key s) @
     put_bytes (as_bytes (ks_key_epoch s)) @ put_commitment (ks_next_key_commitment s)"

definition state_digest :: "('k, 'p, 'c, 's, 'd) crypto \<Rightarrow> string \<Rightarrow> key_state \<Rightarrow> bytes" where
  "state_digest cr node_id s = sha256 cr (state_bytes node_id s)"

record key_lineage =
  kl_node_id :: string
  kl_inception :: key_state
  kl_rotations :: "key_rotation list"
  kl_current :: key_state

section \<open>Lineages\<close>

definition inception_state :: "bytes \<Rightarrow> bytes \<Rightarrow> string \<Rightarrow> key_state" where
  "inception_state kem_pk sig_pk key_epoch =
     \<lparr>ks_sequence = 0, ks_kem_public_key = kem_pk, ks_sig_public_key = sig_pk,
      ks_key_epoch = key_epoch, ks_next_key_commitment = None\<rparr>"

definition inception :: "('k, 'p, 'c, 's, 'd) crypto \<Rightarrow> bytes \<Rightarrow> bytes \<Rightarrow> string \<Rightarrow> key_lineage res" where
  "inception cr kem_pk sig_pk key_epoch =
     and_then (check_key_lengths kem_pk sig_pk) (\<lambda>_.
     let state = inception_state kem_pk sig_pk key_epoch in
     Ok \<lparr>kl_node_id = derive_node_id cr kem_pk sig_pk,
         kl_inception = state, kl_rotations = [], kl_current = state\<rparr>)"

definition from_identity :: "('k, 'p, 'c, 's, 'd) crypto \<Rightarrow> ('k, 'd) node_identity \<Rightarrow> key_lineage res" where
  "from_identity cr identity =
     and_then (kem_public_key_canonical_bytes cr identity) (\<lambda>kem_pk.
     and_then (inception cr kem_pk (sig_public_key_bytes cr identity) (ni_key_epoch identity)) (\<lambda>lineage.
     check (kl_node_id lineage = ni_node_id identity)
       (IdentityError ''identity node_id is not derived from its keys; supply its lineage'')
     (Ok lineage)))"

definition lineage_node_id :: "key_lineage \<Rightarrow> string" where
  "lineage_node_id l = kl_node_id l"

definition lineage_rotations :: "key_lineage \<Rightarrow> key_rotation list" where
  "lineage_rotations l = kl_rotations l"

definition lineage_sequence :: "key_lineage \<Rightarrow> u64" where
  "lineage_sequence l = ks_sequence (kl_current l)"

definition current_sig_public_key :: "key_lineage \<Rightarrow> bytes" where
  "current_sig_public_key l = ks_sig_public_key (kl_current l)"

definition current_kem_public_key :: "key_lineage \<Rightarrow> bytes" where
  "current_kem_public_key l = ks_kem_public_key (kl_current l)"

definition current_key_epoch :: "key_lineage \<Rightarrow> string" where
  "current_key_epoch l = ks_key_epoch (kl_current l)"

definition next_key_commitment :: "key_lineage \<Rightarrow> bytes option" where
  "next_key_commitment l = ks_next_key_commitment (kl_current l)"

definition previous_sig_public_key :: "key_lineage \<Rightarrow> bytes option" where
  "previous_sig_public_key l =
     (let n = length (kl_rotations l) in
      if n = 0 then None
      else if n = 1 then Some (ks_sig_public_key (kl_inception l))
      else Some (kr_new_sig_public_key (kl_rotations l ! (n - 2))))"

definition rejected :: "string \<Rightarrow> gossip_error" where
  "rejected msg = IdentityError (''rotation rejected: '' @ msg)"

definition state_of_rotation :: "key_rotation \<Rightarrow> key_state" where
  "state_of_rotation r =
     \<lparr>ks_sequence = kr_sequence r, ks_kem_public_key = kr_new_kem_public_key r,
      ks_sig_public_key = kr_new_sig_public_key r, ks_key_epoch = kr_new_key_epoch r,
      ks_next_key_commitment = kr_next_key_commitment r\<rparr>"

definition verify_next ::
    "('k, 'p, 'c, 's, 'd) crypto \<Rightarrow> string \<Rightarrow> key_state \<Rightarrow> key_rotation \<Rightarrow> key_state res" where
  "verify_next cr node_id current r =
     check (kr_version r = 1) (rejected (''unsupported version '' @ dec (unat (kr_version r))))
     (check (kr_node_id r = node_id) (rejected ''node_id does not match lineage'')
     (check (kr_sequence r = ks_sequence current + 1)
       (rejected (''expected sequence '' @ dec (unat (ks_sequence current + 1)) @ '', got '' @ dec (unat (kr_sequence r))))
     (check (kr_prev_state_digest r = state_digest cr node_id current)
       (rejected ''prev_state_digest does not match current state'')
     (and_then (check_key_lengths (kr_new_kem_public_key r) (kr_new_sig_public_key r)) (\<lambda>_.
      let input = rotation_signing_input r in
      and_then (verify_external cr (kr_new_sig_public_key r) input (kr_possession r) SIG_CTX_KEY_POSSESSION)
        (\<lambda>possession_ok.
      check possession_ok (rejected ''new key's proof of possession is invalid'')
      (and_then
        (case ks_next_key_commitment current of
           Some commitment \<Rightarrow>
             check (key_commitment cr (kr_new_sig_public_key r) = commitment)
               (rejected ''new key does not match the pre-rotation commitment'')
             (check (kr_authorization r = [])
               (rejected ''authorization must be empty when a commitment is in force'')
             (Ok ()))
         | None \<Rightarrow>
             and_then (verify_external cr (ks_sig_public_key current) input (kr_authorization r)
               SIG_CTX_KEY_ROTATION) (\<lambda>authorized.
             check authorized (rejected ''previous key's authorization is invalid'') (Ok ())))
        (\<lambda>_. Ok (state_of_rotation r)))))))))"

text \<open>\<open>self.rotations[i]\<close> panics out of range.\<close>

definition index :: "'a list \<Rightarrow> nat \<Rightarrow> 'a res" where
  "index xs i = (if i < length xs then Ok (xs ! i) else Panic)"

definition apply_rotation ::
    "('k, 'p, 'c, 's, 'd) crypto \<Rightarrow> key_rotation \<Rightarrow> key_lineage \<Rightarrow> key_lineage res" where
  "apply_rotation cr rotation l =
     (if 1 \<le> kr_sequence rotation \<and> kr_sequence rotation \<le> ks_sequence (kl_current l) then
        and_then (index (kl_rotations l) (unat (kr_sequence rotation - 1))) (\<lambda>existing.
        if existing = rotation then Ok l
        else Err (IdentityError (''lineage fork: conflicting rotation at sequence ''
          @ dec (unat (kr_sequence rotation)) @ '' for node '' @ kl_node_id l)))
      else
        and_then (verify_next cr (kl_node_id l) (kl_current l) rotation) (\<lambda>next.
        Ok (l\<lparr>kl_rotations := kl_rotations l @ [rotation], kl_current := next\<rparr>)))"

definition check_envelope_sender :: "key_lineage \<Rightarrow> gossip_envelope \<Rightarrow> unit res" where
  "check_envelope_sender l envelope =
     check (env_sender_node_id envelope = kl_node_id l)
       (IdentityError (''sender '' @ env_sender_node_id envelope @ '' is not lineage node '' @ kl_node_id l))
     (check (env_sender_public_key envelope = ks_sig_public_key (kl_current l))
       (IdentityError (''sender key is not the current key for node '' @ kl_node_id l @ '' (sequence ''
          @ dec (unat (ks_sequence (kl_current l))) @ '')''))
     (Ok ()))"

definition lineage_encode :: "codec \<Rightarrow> key_lineage \<Rightarrow> bytes res" where
  "lineage_encode bc l =
     (let wire = \<lparr>lw_version = LINEAGE_VERSION,
        lw_inception_kem_public_key = ks_kem_public_key (kl_inception l),
        lw_inception_sig_public_key = ks_sig_public_key (kl_inception l),
        lw_inception_key_epoch = ks_key_epoch (kl_inception l),
        lw_rotations = kl_rotations l\<rparr>
      in map_err (\<lambda>e. SerializationError (''bincode encode failed: '' @ e)) (ser_lineage bc wire))"

fun replay :: "('k, 'p, 'c, 's, 'd) crypto \<Rightarrow> key_rotation list \<Rightarrow> key_lineage \<Rightarrow> key_lineage res" where
  "replay cr [] lineage = Ok lineage"
| "replay cr (rotation # rotations) lineage =
     check (kr_sequence rotation = ks_sequence (kl_current lineage) + 1)
       (IdentityError (''lineage out of order: expected sequence ''
          @ dec (unat (ks_sequence (kl_current lineage) + 1)) @ '', got '' @ dec (unat (kr_sequence rotation))))
     (and_then (apply_rotation cr rotation lineage) (\<lambda>lineage'. replay cr rotations lineage'))"

definition lineage_decode :: "('k, 'p, 'c, 's, 'd) crypto \<Rightarrow> codec \<Rightarrow> bytes \<Rightarrow> key_lineage res" where
  "lineage_decode cr bc bytes =
     check (length bytes \<le> MAX_LINEAGE_BYTES)
       (InvalidInput (''lineage too large: '' @ dec (length bytes) @ '' > '' @ dec MAX_LINEAGE_BYTES @ '' bytes''))
     (and_then (map_err (\<lambda>e. SerializationError (''bincode decode failed: '' @ e))
       (de_lineage bc MAX_LINEAGE_BYTES bytes)) (\<lambda>wire.
      check (lw_version wire = LINEAGE_VERSION)
        (IdentityError (''unsupported lineage version: '' @ dec (unat (lw_version wire))))
      (and_then (inception cr (lw_inception_kem_public_key wire) (lw_inception_sig_public_key wire)
        (lw_inception_key_epoch wire)) (\<lambda>lineage.
       replay cr (lw_rotations wire) lineage))))"

definition build_and_apply ::
    "('k, 'p, 'c, 's, 'd) crypto \<Rightarrow> ('k, 'd) node_identity option \<Rightarrow> ('k, 'd) node_identity \<Rightarrow> bytes option \<Rightarrow>
     u64 \<Rightarrow> key_lineage \<Rightarrow> (key_rotation \<times> key_lineage) res" where
  "build_and_apply cr current next commitment now_ms l =
     and_then (kem_public_key_canonical_bytes cr next) (\<lambda>next_kem.
     let rotation0 = \<lparr>kr_version = 1, kr_node_id = kl_node_id l,
           kr_sequence = ks_sequence (kl_current l) + 1,
           kr_prev_state_digest = state_digest cr (kl_node_id l) (kl_current l),
           kr_new_kem_public_key = next_kem,
           kr_new_sig_public_key = sig_public_key_bytes cr next,
           kr_new_key_epoch = ni_key_epoch next,
           kr_next_key_commitment = commitment, kr_timestamp_unix_ms = now_ms,
           kr_authorization = [], kr_possession = []\<rparr>;
         input = rotation_signing_input rotation0 in
     and_then
       (if ks_next_key_commitment (kl_current l) = None then
          (case current of
             None \<Rightarrow> Err (IdentityError ''rotation needs the current key'')
           | Some c \<Rightarrow>
               and_then (sign cr c input SIG_CTX_KEY_ROTATION) (\<lambda>a. Ok (rotation0\<lparr>kr_authorization := a\<rparr>)))
        else Ok rotation0)
       (\<lambda>rotation1.
     and_then (sign cr next input SIG_CTX_KEY_POSSESSION) (\<lambda>p.
     let rotation = rotation1\<lparr>kr_possession := p\<rparr> in
     and_then (apply_rotation cr rotation l) (\<lambda>l'. Ok (rotation, l')))))"

definition lineage_rotate ::
    "('k, 'p, 'c, 's, 'd) crypto \<Rightarrow> ('k, 'd) node_identity \<Rightarrow> ('k, 'd) node_identity \<Rightarrow> bytes option \<Rightarrow>
     u64 \<Rightarrow> key_lineage \<Rightarrow> (key_rotation \<times> key_lineage) res" where
  "lineage_rotate cr current next commitment now_ms l =
     check (sig_public_key_bytes cr current = ks_sig_public_key (kl_current l))
       (IdentityError ''rotating identity does not hold this lineage's current key'')
     (build_and_apply cr (Some current) next commitment now_ms l)"

definition lineage_recover ::
    "('k, 'p, 'c, 's, 'd) crypto \<Rightarrow> ('k, 'd) node_identity \<Rightarrow> bytes option \<Rightarrow> u64 \<Rightarrow> key_lineage \<Rightarrow>
     (key_rotation \<times> key_lineage) res" where
  "lineage_recover cr next commitment now_ms l =
     check (ks_next_key_commitment (kl_current l) \<noteq> None)
       (IdentityError ''recovery needs a pre-rotation commitment; this lineage has none'')
     (build_and_apply cr None next commitment now_ms l)"

end
