(* ===== verification/Rotation_Facts.thy ===== *)
theory Rotation_Facts
  imports Rotation "HOL-Library.Sublist"
begin

text \<open>
  Facts about \<^verbatim>\<open>rotation.rs\<close>: what the signed and hashed bytes bind, the lineage invariant and its
  preservation, replay and fork detection, and the correctness of \<open>rotate\<close>, \<open>recover\<close>, \<open>encode\<close>
  and \<open>decode\<close>.
\<close>

section \<open>The encodings are self-delimiting\<close>

text \<open>Lengths a Rust \<open>Vec\<close> or \<open>String\<close> can have, and \<open>Option<[u8; 32]>\<close>.\<close>

definition vec_ok :: "'a list \<Rightarrow> bool" where
  "vec_ok b \<longleftrightarrow> length b < 2 ^ 64"

definition commitment_ok :: "bytes option \<Rightarrow> bool" where
  "commitment_ok c \<longleftrightarrow> (case c of None \<Rightarrow> True | Some d \<Rightarrow> array32 d)"

lemma vec_ok_as_bytes [simp]: "vec_ok (as_bytes s) \<longleftrightarrow> vec_ok s"
  by (simp add: vec_ok_def)

lemma commitment_ok_simps [simp]:
  "commitment_ok None" "commitment_ok (Some d) \<longleftrightarrow> array32 d"
  by (auto simp: commitment_ok_def)

interpretation putb: prefix_code put_bytes vec_ok
proof
  fix x y r s
  assume xy: "vec_ok x" "vec_ok y" and eq: "put_bytes x @ r = put_bytes y @ s"
  from eq have len: "(word_of_nat (length x) :: u64) = word_of_nat (length y)" and rest: "x @ r = y @ s"
    by (auto simp: put_bytes_def be64.split_eq)
  from len have "unat (word_of_nat (length x) :: u64) = unat (word_of_nat (length y) :: u64)" by simp
  with xy have "length x = length y" by (simp add: vec_ok_def unat_of_nat)
  with rest show "x = y \<and> r = s" by auto
qed

interpretation putc: prefix_code put_commitment commitment_ok
proof
  fix x y r s
  assume "commitment_ok x" "commitment_ok y" "put_commitment x @ r = put_commitment y @ s"
  then show "x = y \<and> r = s"
    by (cases x; cases y) (auto simp: raw32.split_eq)
qed

lemmas split_fields = putb.split_eq putc.split_eq be64.split_eq raw32.split_eq

definition rotation_ok :: "key_rotation \<Rightarrow> bool" where
  "rotation_ok r \<longleftrightarrow> vec_ok (kr_node_id r) \<and> array32 (kr_prev_state_digest r) \<and>
     vec_ok (kr_new_kem_public_key r) \<and> vec_ok (kr_new_sig_public_key r) \<and> vec_ok (kr_new_key_epoch r) \<and>
     commitment_ok (kr_next_key_commitment r)"

definition key_state_ok :: "key_state \<Rightarrow> bool" where
  "key_state_ok s \<longleftrightarrow> vec_ok (ks_kem_public_key s) \<and> vec_ok (ks_sig_public_key s) \<and>
     vec_ok (ks_key_epoch s) \<and> commitment_ok (ks_next_key_commitment s)"

text \<open>The signed bytes determine every field but the two signatures themselves.\<close>

lemma rotation_signing_input_inj:
  assumes "rotation_ok r" and "rotation_ok r'" and "rotation_signing_input r = rotation_signing_input r'"
  shows "r\<lparr>kr_authorization := [], kr_possession := []\<rparr> = r'\<lparr>kr_authorization := [], kr_possession := []\<rparr>"
  using assms
  by (cases r; cases r')
     (auto simp: rotation_signing_input_def rotation_ok_def split_fields dest: putc.enc_inj)

text \<open>The hashed bytes determine the node id and the state.\<close>

lemma state_bytes_inj:
  assumes "key_state_ok s" and "key_state_ok s'" and "vec_ok n" and "vec_ok n'"
    and "state_bytes n s = state_bytes n' s'"
  shows "n = n' \<and> s = s'"
  using assms by (cases s; cases s') (auto simp: state_bytes_def key_state_ok_def split_fields dest: putc.enc_inj)

definition sha256_collision :: "('k, 'p, 'c, 's, 'd) crypto \<Rightarrow> bytes \<Rightarrow> bytes \<Rightarrow> bool" where
  "sha256_collision cr x y \<longleftrightarrow> x \<noteq> y \<and> sha256 cr x = sha256 cr y"

lemma state_digest_binds:
  assumes "key_state_ok s" and "key_state_ok s'" and "vec_ok n" and "vec_ok n'"
    and "state_digest cr n s = state_digest cr n' s'"
  shows "n = n' \<and> s = s' \<or> sha256_collision cr (state_bytes n s) (state_bytes n' s')"
  using assms state_bytes_inj unfolding state_digest_def sha256_collision_def by blast

lemma key_commitment_binds:
  assumes "key_commitment cr k = key_commitment cr k'"
  shows "k = k' \<or> sha256_collision cr (COMMITMENT_TAG @ k) (COMMITMENT_TAG @ k')"
  using assms by (auto simp: key_commitment_def sha256_collision_def)

section \<open>Verified logs\<close>

text \<open>
  A log is checked entry by entry: \<open>step s e\<close> is the state after \<open>e\<close>, if \<open>e\<close> may follow \<open>s\<close>.
  \<open>chain\<close> is the abstract specification of a lineage: the records are accepted one after the other.
\<close>

fun chain :: "('s \<Rightarrow> 'e \<Rightarrow> 's res) \<Rightarrow> 's \<Rightarrow> 'e list \<Rightarrow> 's res" where
  "chain step s [] = Ok s"
| "chain step s (e # es) = and_then (step s e) (\<lambda>s'. chain step s' es)"

lemma chain_append: "chain step s (es @ fs) = and_then (chain step s es) (\<lambda>s'. chain step s' fs)"
proof (induction es arbitrary: s)
  case (Cons e es)
  then show ?case by (cases "step s e") auto
qed simp

locale verified_log =
  fixes step :: "'s \<Rightarrow> 'e \<Rightarrow> 's res" and state_no :: "'s \<Rightarrow> u64" and entry_no :: "'e \<Rightarrow> u64"
  assumes step_no: "step s e = Ok s' \<Longrightarrow> entry_no e = state_no s + 1 \<and> state_no s' = entry_no e"
begin

lemma chain_no: "chain step s es = Ok s' \<Longrightarrow> state_no s' = state_no s + word_of_nat (length es)"
  by (induction es arbitrary: s) (auto dest!: step_no simp: algebra_simps)

lemma chain_nth:
  assumes "chain step s es = Ok s'" and "i < length es"
  obtains t t' where "chain step s (take i es) = Ok t" and "step t (es ! i) = Ok t'"
    and "entry_no (es ! i) = state_no s + word_of_nat (Suc i)"
proof -
  have "chain step s (take i es @ es ! i # drop (Suc i) es) = Ok s'"
    using assms by (simp add: id_take_nth_drop [symmetric])
  then obtain t t' where t: "chain step s (take i es) = Ok t" and st: "step t (es ! i) = Ok t'"
    by (auto simp: chain_append)
  from chain_no [OF t] step_no [OF st] assms(2)
  have "entry_no (es ! i) = state_no s + word_of_nat (Suc i)" by (simp add: min_def algebra_simps)
  with t st that show thesis by blast
qed

text \<open>Two logs from the same state that contradict each other differ first in entries that may both follow it.\<close>

lemma chain_fork:
  assumes "chain step s es = Ok t" and "chain step s es' = Ok t'" and "\<not> prefix es es'" and "\<not> prefix es' es"
  obtains pre e e' u where "prefix (pre @ [e]) es" and "prefix (pre @ [e']) es'" and "e \<noteq> e'"
    and "chain step s pre = Ok u" and "\<exists>v. step u e = Ok v" and "\<exists>v. step u e' = Ok v"
proof -
  obtain pre e rest e' rest' where "e \<noteq> e'" "es = pre @ e # rest" "es' = pre @ e' # rest'"
    using parallel_decomp [of es es'] assms(3,4) by (auto simp: parallel_def)
  with assms(1,2) that show thesis by (fastforce simp: chain_append prefix_def)
qed

end

section \<open>Acceptance of a record\<close>

lemma ctx_lens [simp]:
  "length SIG_CTX_KEY_ROTATION = 21" "length SIG_CTX_KEY_POSSESSION = 23"
  by (simp_all add: SIG_CTX_KEY_ROTATION_def SIG_CTX_KEY_POSSESSION_def)

lemma check_key_lengths_Ok:
  "check_key_lengths k s = Ok u \<longleftrightarrow> length k = KEM_PK_LEN \<and> length s = SIG_PK_LEN"
  by (auto simp: check_key_lengths_def)

lemma check_key_lengths_not_Panic [simp]: "check_key_lengths k s \<noteq> Panic"
  by (simp add: check_key_lengths_def)

text \<open>Who may speak for the successor: the committed key alone, or the current key.\<close>

definition authorized_by :: "('k, 'p, 'c, 's, 'd) crypto \<Rightarrow> key_state \<Rightarrow> key_rotation \<Rightarrow> bool" where
  "authorized_by cr s r \<longleftrightarrow>
     (case ks_next_key_commitment s of
        Some c \<Rightarrow> key_commitment cr (kr_new_sig_public_key r) = c \<and> kr_authorization r = []
      | None \<Rightarrow> verify_external cr (ks_sig_public_key s) (rotation_signing_input r) (kr_authorization r)
                 SIG_CTX_KEY_ROTATION = Ok True)"

lemma verify_next_Ok:
  "verify_next cr n s r = Ok s' \<longleftrightarrow>
     kr_version r = 1 \<and> kr_node_id r = n \<and> kr_sequence r = ks_sequence s + 1 \<and>
     kr_prev_state_digest r = state_digest cr n s \<and>
     length (kr_new_kem_public_key r) = KEM_PK_LEN \<and> length (kr_new_sig_public_key r) = SIG_PK_LEN \<and>
     verify_external cr (kr_new_sig_public_key r) (rotation_signing_input r) (kr_possession r)
       SIG_CTX_KEY_POSSESSION = Ok True \<and>
     authorized_by cr s r \<and> s' = state_of_rotation r"
  by (cases "ks_next_key_commitment s")
     (auto simp: verify_next_def check_key_lengths_Ok authorized_by_def Let_def)

lemma verify_next_not_Panic [simp]: "verify_next cr n s r \<noteq> Panic"
  by (auto simp: verify_next_def Let_def split: option.splits)

interpretation rot: verified_log "verify_next cr n" ks_sequence kr_sequence for cr n
  by unfold_locales (auto simp: verify_next_Ok state_of_rotation_def)

section \<open>The lineage invariant\<close>

text \<open>
  A lineage holds a valid chain: the id is derived from the inception keys, and the current state is
  reached from the inception by accepted records.
\<close>

definition lineage_inv :: "('k, 'p, 'c, 's, 'd) crypto \<Rightarrow> key_lineage \<Rightarrow> bool" where
  "lineage_inv cr l \<longleftrightarrow>
     (let i = kl_inception l in
      length (ks_kem_public_key i) = KEM_PK_LEN \<and> length (ks_sig_public_key i) = SIG_PK_LEN \<and>
      i = inception_state (ks_kem_public_key i) (ks_sig_public_key i) (ks_key_epoch i) \<and>
      kl_node_id l = derive_node_id cr (ks_kem_public_key i) (ks_sig_public_key i) \<and>
      chain (verify_next cr (kl_node_id l)) i (kl_rotations l) = Ok (kl_current l))"

lemma lineage_invD:
  assumes "lineage_inv cr l"
  shows "chain (verify_next cr (kl_node_id l)) (kl_inception l) (kl_rotations l) = Ok (kl_current l)"
    and "ks_sequence (kl_inception l) = 0"
    and "length (ks_kem_public_key (kl_inception l)) = KEM_PK_LEN"
    and "length (ks_sig_public_key (kl_inception l)) = SIG_PK_LEN"
    and "inception_state (ks_kem_public_key (kl_inception l)) (ks_sig_public_key (kl_inception l))
           (ks_key_epoch (kl_inception l)) = kl_inception l"
    and "kl_node_id l =
           derive_node_id cr (ks_kem_public_key (kl_inception l)) (ks_sig_public_key (kl_inception l))"
  using assms unfolding lineage_inv_def Let_def inception_state_def
  by (auto dest: arg_cong [where f = ks_sequence])

lemma lineage_sequence_length:
  "lineage_inv cr l \<Longrightarrow> ks_sequence (kl_current l) = word_of_nat (length (kl_rotations l))"
  using rot.chain_no lineage_invD(1,2) by (metis add_0)

lemma inception_inv [wf_rules]: "inception cr k s e = Ok l \<Longrightarrow> lineage_inv cr l"
  by (auto simp: inception_def check_key_lengths_Ok Let_def lineage_inv_def inception_state_def)

lemma from_identity_inv [wf_rules]: "from_identity cr i = Ok l \<Longrightarrow> lineage_inv cr l"
  by (auto simp: from_identity_def intro: wf_rules)

lemma from_identity_Ok:
  assumes "from_identity cr i = Ok l"
  shows "kl_node_id l = ni_node_id i \<and> current_sig_public_key l = sig_public_key_bytes cr i \<and>
    kem_public_key_canonical_bytes cr i = Ok (current_kem_public_key l)"
  using assms by (auto simp: from_identity_def inception_def inception_state_def Let_def
      current_sig_public_key_def current_kem_public_key_def)

text \<open>With keys of the documented sizes, a self-certified identity always starts a lineage.\<close>

lemma canonical_bytes_size:
  assumes "key_size_laws cr"
  shows "\<exists>k. kem_public_key_canonical_bytes cr i = Ok k \<and> length k = KEM_PK_LEN"
    and "length (sig_public_key_bytes cr i) = SIG_PK_LEN"
proof -
  obtain x m where "kem_x25519_bytes cr (kem_public_key cr (ni_kem_keypair i)) = Inr x" "length x = 32"
    "kem_mlkem_bytes cr (kem_public_key cr (ni_kem_keypair i)) = Inr m" "length m = 1184"
    using assms unfolding key_size_laws_def by blast
  then show "\<exists>k. kem_public_key_canonical_bytes cr i = Ok k \<and> length k = KEM_PK_LEN"
    by (simp add: kem_public_key_canonical_bytes_def kem_public_key_bytes_def KEM_PK_LEN_def)
  show "length (sig_public_key_bytes cr i) = SIG_PK_LEN"
    using assms by (simp add: key_size_laws_def sig_public_key_bytes_def SIG_PK_LEN_def)
qed

lemma from_identity_succeeds:
  assumes "key_size_laws cr" and "self_certified cr i"
  shows "\<exists>l. from_identity cr i = Ok l"
  using assms(2) canonical_bytes_size [OF assms(1), of i]
  by (auto simp: from_identity_def self_certified_def inception_def check_key_lengths_def Let_def)

lemma inception_not_Panic [simp]: "inception cr k s e \<noteq> Panic"
  by (simp add: inception_def Let_def)

lemma from_identity_not_Panic [simp]: "from_identity cr i \<noteq> Panic"
  by (simp add: from_identity_def)

section \<open>Applying records\<close>

text \<open>The next record is never mistaken for a known one, even at the end of the counter's range.\<close>

lemma next_sequence_new: "\<not> (1 \<le> w + 1 \<and> w + 1 \<le> (w :: u64))"
proof (cases "w + 1 = 0")
  case False
  then have "unat (w + 1) = Suc (unat w)" by (metis add.commute unatSuc)
  then show ?thesis by (simp add: word_le_nat_alt)
qed simp

lemma apply_next:
  "kr_sequence r = ks_sequence (kl_current l) + 1 \<Longrightarrow>
   apply_rotation cr r l = and_then (verify_next cr (kl_node_id l) (kl_current l) r)
     (\<lambda>s. Ok (l\<lparr>kl_rotations := kl_rotations l @ [r], kl_current := s\<rparr>))"
  using next_sequence_new by (auto simp: apply_rotation_def)

text \<open>An applied record is already in the chain, or extends it by a verified successor.\<close>

lemma apply_rotation_Ok:
  assumes "apply_rotation cr r l = Ok l'"
  shows "(l' = l \<and> r \<in> set (kl_rotations l)) \<or>
    (verify_next cr (kl_node_id l) (kl_current l) r = Ok (state_of_rotation r) \<and>
     l' = l\<lparr>kl_rotations := kl_rotations l @ [r], kl_current := state_of_rotation r\<rparr>)"
proof (cases "1 \<le> kr_sequence r \<and> kr_sequence r \<le> ks_sequence (kl_current l)")
  case True
  with assms have "l' = l \<and> r \<in> set (kl_rotations l)"
    by (auto simp: apply_rotation_def index_def split: if_splits dest: nth_mem)
  then show ?thesis ..
next
  case False
  with assms obtain s where "verify_next cr (kl_node_id l) (kl_current l) r = Ok s"
    and "l' = l\<lparr>kl_rotations := kl_rotations l @ [r], kl_current := s\<rparr>"
    unfolding apply_rotation_def by auto
  then show ?thesis by (auto simp: verify_next_Ok)
qed

lemma lineage_extend:
  assumes "lineage_inv cr l" and "verify_next cr (kl_node_id l) (kl_current l) r = Ok s"
  shows "lineage_inv cr (l\<lparr>kl_rotations := kl_rotations l @ [r], kl_current := s\<rparr>)"
  using assms by (auto simp: lineage_inv_def Let_def chain_append)

lemma apply_rotation_inv [wf_rules]:
  assumes "lineage_inv cr l" and "apply_rotation cr r l = Ok l'"
  shows "lineage_inv cr l'"
  using apply_rotation_Ok [OF assms(2)] assms(1) lineage_extend by auto

lemma apply_rotation_node_id: "apply_rotation cr r l = Ok l' \<Longrightarrow> kl_node_id l' = kl_node_id l"
  using apply_rotation_Ok by fastforce

lemma known_index:
  assumes "lineage_inv cr l" and "1 \<le> kr_sequence r" and "kr_sequence r \<le> ks_sequence (kl_current l)"
  shows "unat (kr_sequence r - 1) < length (kl_rotations l)"
proof -
  have "unat (kr_sequence r - 1) = unat (kr_sequence r) - 1"
    using assms(2) by (simp add: unat_sub)
  moreover have "0 < unat (kr_sequence r)" using assms(2) by (simp add: word_le_nat_alt)
  moreover have "unat (kr_sequence r) \<le> length (kl_rotations l)"
    using assms(3) lineage_sequence_length [OF assms(1)]
    by (auto simp: word_le_nat_alt unat_of_nat intro: order_trans mod_less_eq_dividend)
  ultimately show ?thesis by linarith
qed

lemma apply_rotation_not_Panic: "lineage_inv cr l \<Longrightarrow> apply_rotation cr r l \<noteq> Panic"
  using known_index by (auto simp: apply_rotation_def index_def split: if_splits)

text \<open>Positions in the chain carry their sequence numbers.\<close>

lemma lineage_nth_sequence:
  assumes "lineage_inv cr l" and "i < length (kl_rotations l)"
  shows "kr_sequence (kl_rotations l ! i) = word_of_nat (Suc i)"
  using rot.chain_nth [OF lineage_invD(1) [OF assms(1)] assms(2)] lineage_invD(2) [OF assms(1)]
  by (metis add_0)

lemma lineage_nth_known:
  assumes "lineage_inv cr l" and "vec_ok (kl_rotations l)" and "i < length (kl_rotations l)"
    and "kr_sequence r = word_of_nat (Suc i)"
  shows "1 \<le> kr_sequence r" and "kr_sequence r \<le> ks_sequence (kl_current l)"
    and "unat (kr_sequence r - 1) = i"
proof -
  have len: "length (kl_rotations l) < 2 ^ 64" using assms(2) by (simp add: vec_ok_def)
  then have u: "unat (kr_sequence r) = Suc i" using assms(3,4) by (simp add: unat_of_nat del: of_nat_Suc)
  then show one: "1 \<le> kr_sequence r" by (simp add: word_le_nat_alt)
  have "unat (ks_sequence (kl_current l)) = length (kl_rotations l)"
    using lineage_sequence_length [OF assms(1)] len by (simp add: unat_of_nat)
  with u assms(3) show "kr_sequence r \<le> ks_sequence (kl_current l)" by (simp add: word_le_nat_alt)
  from one u show "unat (kr_sequence r - 1) = i" by (simp add: unat_sub)
qed

text \<open>Replaying a record of the chain changes nothing; another record in its place is a fork.\<close>

lemma apply_at_known:
  assumes "lineage_inv cr l" and "vec_ok (kl_rotations l)" and "i < length (kl_rotations l)"
    and "kr_sequence r = word_of_nat (Suc i)"
  shows "apply_rotation cr r l =
    (if r = kl_rotations l ! i then Ok l
     else Err (IdentityError (''lineage fork: conflicting rotation at sequence ''
       @ dec (Suc i) @ '' for node '' @ kl_node_id l)))"
proof -
  have "unat (kr_sequence r) = Suc i"
    using assms(2-4) by (simp add: unat_of_nat vec_ok_def del: of_nat_Suc)
  with lineage_nth_known [OF assms] assms(3) show ?thesis
    by (auto simp: apply_rotation_def index_def)
qed

section \<open>Encoding and decoding\<close>

text \<open>Replaying is the fold of the verifier.\<close>

lemma replay_chain:
  "chain (verify_next cr (kl_node_id l)) (kl_current l) rs = Ok s \<Longrightarrow>
   replay cr rs l = Ok (l\<lparr>kl_rotations := kl_rotations l @ rs, kl_current := s\<rparr>)"
proof (induction rs arbitrary: l)
  case (Cons r rs)
  then obtain t where t: "verify_next cr (kl_node_id l) (kl_current l) r = Ok t"
    and rest: "chain (verify_next cr (kl_node_id l)) t rs = Ok s"
    by auto
  from t have seq: "kr_sequence r = ks_sequence (kl_current l) + 1" by (simp add: verify_next_Ok)
  define m where "m = l\<lparr>kl_rotations := kl_rotations l @ [r], kl_current := t\<rparr>"
  from rest have "chain (verify_next cr (kl_node_id m)) (kl_current m) rs = Ok s" by (simp add: m_def)
  from Cons.IH [OF this] show ?case by (simp add: seq apply_next [OF seq] t m_def)
qed simp

lemma replay_inv [wf_rules]: "replay cr rs l = Ok l' \<Longrightarrow> lineage_inv cr l \<Longrightarrow> lineage_inv cr l'"
  by (induction rs arbitrary: l) (auto intro: wf_rules)

lemma replay_not_Panic: "lineage_inv cr l \<Longrightarrow> replay cr rs l \<noteq> Panic"
  by (induction rs arbitrary: l) (auto simp: apply_rotation_not_Panic intro: wf_rules)

lemma lineage_decode_inv [wf_rules]: "lineage_decode cr bc b = Ok l \<Longrightarrow> lineage_inv cr l"
  by (auto simp: lineage_decode_def intro: wf_rules)

lemma lineage_decode_not_Panic [simp]: "lineage_decode cr bc b \<noteq> Panic"
  by (auto simp: lineage_decode_def dest!: inception_inv replay_not_Panic)

lemma lineage_encode_not_Panic [simp]: "lineage_encode bc l \<noteq> Panic"
  by (simp add: lineage_encode_def Let_def)

lemma lineage_decode_encode:
  assumes laws: "lineage_codec_laws bc" and inv: "lineage_inv cr l"
    and enc: "lineage_encode bc l = Ok b" and len: "length b \<le> MAX_LINEAGE_BYTES"
  shows "lineage_decode cr bc b = Ok l"
proof -
  let ?i = "kl_inception l"
  let ?w = "\<lparr>lw_version = LINEAGE_VERSION, lw_inception_kem_public_key = ks_kem_public_key ?i,
    lw_inception_sig_public_key = ks_sig_public_key ?i, lw_inception_key_epoch = ks_key_epoch ?i,
    lw_rotations = kl_rotations l\<rparr>"
  let ?l = "\<lparr>kl_node_id = kl_node_id l, kl_inception = ?i, kl_rotations = [], kl_current = ?i\<rparr>"
  have "ser_lineage bc ?w = Inr b" using enc by (simp add: lineage_encode_def)
  with laws len have de: "de_lineage bc MAX_LINEAGE_BYTES b = Inr ?w"
    by (simp add: lineage_codec_laws_def)
  have "inception cr (ks_kem_public_key ?i) (ks_sig_public_key ?i) (ks_key_epoch ?i) = Ok ?l"
    using lineage_invD(3-6) [OF inv]
    by (simp add: inception_def check_key_lengths_def Let_def)
  moreover have "replay cr (kl_rotations l) ?l = Ok l"
    using replay_chain [of cr ?l "kl_rotations l" "kl_current l"] lineage_invD(1) [OF inv] by simp
  ultimately show ?thesis using len by (simp add: lineage_decode_def de)
qed

section \<open>Rotating and recovering\<close>

lemma signing_input_ignores_signatures [simp]:
  "rotation_signing_input (r\<lparr>kr_authorization := a\<rparr>) = rotation_signing_input r"
  "rotation_signing_input (r\<lparr>kr_possession := p\<rparr>) = rotation_signing_input r"
  by (simp_all add: rotation_signing_input_def)

text \<open>The record \<open>build_and_apply\<close> signs, before the signatures are filled in.\<close>

definition unsigned_rotation ::
    "('k, 'p, 'c, 's, 'd) crypto \<Rightarrow> bytes \<Rightarrow> ('k, 'd) node_identity \<Rightarrow> bytes option \<Rightarrow> u64 \<Rightarrow> key_lineage \<Rightarrow>
     key_rotation" where
  "unsigned_rotation cr kem next c now l =
     \<lparr>kr_version = 1, kr_node_id = kl_node_id l, kr_sequence = ks_sequence (kl_current l) + 1,
      kr_prev_state_digest = state_digest cr (kl_node_id l) (kl_current l),
      kr_new_kem_public_key = kem, kr_new_sig_public_key = sig_public_key_bytes cr next,
      kr_new_key_epoch = ni_key_epoch next, kr_next_key_commitment = c, kr_timestamp_unix_ms = now,
      kr_authorization = [], kr_possession = []\<rparr>"

lemma build_and_apply_Ok:
  assumes "build_and_apply cr cur next c now l = Ok (r, l')"
  obtains kem where "kem_public_key_canonical_bytes cr next = Ok kem"
    and "r\<lparr>kr_authorization := [], kr_possession := []\<rparr> = unsigned_rotation cr kem next c now l"
    and "apply_rotation cr r l = Ok l'"
  using assms
  by (fastforce simp: build_and_apply_def Let_def unsigned_rotation_def split: if_splits option.splits)

lemma build_and_apply_not_Panic: "lineage_inv cr l \<Longrightarrow> build_and_apply cr cur next c now l \<noteq> Panic"
  by (auto simp: build_and_apply_def Let_def apply_rotation_not_Panic split: if_splits option.splits)

lemma build_and_apply_inv [wf_rules]:
  "build_and_apply cr cur next c now l = Ok (r, l') \<Longrightarrow> lineage_inv cr l \<Longrightarrow> lineage_inv cr l'"
  by (auto elim: build_and_apply_Ok intro: wf_rules)

text \<open>A successful rotation moves to the keys of \<open>next\<close> under the same id.\<close>

lemma build_and_apply_effect:
  assumes "build_and_apply cr cur next c now l = Ok (r, l')"
  shows "kl_node_id l' = kl_node_id l \<and> kl_inception l' = kl_inception l \<and>
    kl_rotations l' = kl_rotations l @ [r] \<and> lineage_sequence l' = lineage_sequence l + 1 \<and>
    current_sig_public_key l' = sig_public_key_bytes cr next \<and> next_key_commitment l' = c \<and>
    current_key_epoch l' = ni_key_epoch next \<and>
    kem_public_key_canonical_bytes cr next = Ok (current_kem_public_key l')"
proof -
  obtain kem where kem: "kem_public_key_canonical_bytes cr next = Ok kem" and r: "r\<lparr>kr_authorization := [], kr_possession := []\<rparr> = unsigned_rotation cr kem next c now l"
    and ap: "apply_rotation cr r l = Ok l'"
    using build_and_apply_Ok [OF assms] by blast
  from r have fields: "kr_sequence r = ks_sequence (kl_current l) + 1"
    "kr_new_sig_public_key r = sig_public_key_bytes cr next" "kr_next_key_commitment r = c"
    "kr_new_key_epoch r = ni_key_epoch next" "kr_new_kem_public_key r = kem"
    by (cases r; simp add: unsigned_rotation_def)+
  from ap obtain s where "verify_next cr (kl_node_id l) (kl_current l) r = Ok s"
    and "l' = l\<lparr>kl_rotations := kl_rotations l @ [r], kl_current := s\<rparr>"
    unfolding apply_next [OF fields(1)] by auto
  then show ?thesis
    by (auto simp: verify_next_Ok state_of_rotation_def fields lineage_sequence_def
        current_sig_public_key_def next_key_commitment_def current_key_epoch_def kem
        current_kem_public_key_def)
qed

lemma build_and_apply_record:
  assumes "build_and_apply cr cur nx c now l = Ok (r, l')"
  shows "verify_next cr (kl_node_id l) (kl_current l) r = Ok (state_of_rotation r)"
    and "kl_current l' = state_of_rotation r"
proof -
  have "apply_rotation cr r l = Ok l'" by (rule build_and_apply_Ok [OF assms])
  from apply_rotation_Ok [OF this] build_and_apply_effect [OF assms]
  show "verify_next cr (kl_node_id l) (kl_current l) r = Ok (state_of_rotation r)"
    and "kl_current l' = state_of_rotation r" by auto
qed

lemma committed_key_only:
  assumes "build_and_apply cr cur nx c now l = Ok (r, l')" and "next_key_commitment l = Some d"
  shows "key_commitment cr (sig_public_key_bytes cr nx) = d" and "kr_authorization r = []"
  using build_and_apply_record [OF assms(1)] build_and_apply_effect [OF assms(1)] assms(2)
  by (auto simp: verify_next_Ok authorized_by_def next_key_commitment_def current_sig_public_key_def state_of_rotation_def)

text \<open>When the keys have their sizes, signing works, and the new key is the committed one where
  there is a commitment, the rotation goes through.\<close>

lemma build_and_apply_succeeds:
  assumes laws: "sig_laws cr" and total: "\<And>kp m. \<exists>s. sig_sign_deterministic cr kp m = Inr s"
    and kem: "kem_public_key_canonical_bytes cr next = Ok kem" "length kem = KEM_PK_LEN"
    and sig: "length (sig_public_key_bytes cr next) = SIG_PK_LEN"
    and who: "case ks_next_key_commitment (kl_current l) of
        Some d \<Rightarrow> key_commitment cr (sig_public_key_bytes cr next) = d
      | None \<Rightarrow> (\<exists>i. cur = Some i \<and> sig_public_key_bytes cr i = ks_sig_public_key (kl_current l))"
  shows "\<exists>r l'. build_and_apply cr cur next c now l = Ok (r, l')"
proof -
  define r0 where "r0 = unsigned_rotation cr kem next c now l"
  have signs: "\<exists>s. sign cr i (rotation_signing_input r0) x = Ok s" if "length x \<le> 255" for i x
    using total [of "ni_sig_keypair i" "tagged_message x (rotation_signing_input r0)"] that by (auto simp: sign_def)
  obtain p where p: "sign cr next (rotation_signing_input r0) SIG_CTX_KEY_POSSESSION = Ok p"
    using signs [of SIG_CTX_KEY_POSSESSION "next"] by auto
  have pos: "verify_external cr (sig_public_key_bytes cr next) (rotation_signing_input r0) p
      SIG_CTX_KEY_POSSESSION = Ok True"
    using sign_verify [OF laws p] .
  obtain a where a: "ks_next_key_commitment (kl_current l) = None \<Longrightarrow>
      \<exists>i. cur = Some i \<and> sign cr i (rotation_signing_input r0) SIG_CTX_KEY_ROTATION = Ok a"
    and auth: "authorized_by cr (kl_current l) (r0\<lparr>kr_authorization := a, kr_possession := p\<rparr>)"
    and a0: "ks_next_key_commitment (kl_current l) \<noteq> None \<Longrightarrow> a = []"
  proof (cases "ks_next_key_commitment (kl_current l)")
    case None
    with who obtain i where i: "cur = Some i" "sig_public_key_bytes cr i = ks_sig_public_key (kl_current l)"
      by auto
    obtain b where b: "sign cr i (rotation_signing_input r0) SIG_CTX_KEY_ROTATION = Ok b"
      using signs [of SIG_CTX_KEY_ROTATION i] by auto
    from sign_verify [OF laws b] i None b that [of b] show thesis by (simp add: authorized_by_def)
  next
    case (Some d)
    with who that [of "[]"] show thesis by (simp add: authorized_by_def r0_def unsigned_rotation_def)
  qed
  let ?r = "r0\<lparr>kr_authorization := a, kr_possession := p\<rparr>"
  have "verify_next cr (kl_node_id l) (kl_current l) ?r = Ok (state_of_rotation ?r)"
    using kem(2) sig pos auth
    unfolding verify_next_Ok signing_input_ignores_signatures
    by (simp add: r0_def unsigned_rotation_def)
  moreover have "kr_sequence ?r = ks_sequence (kl_current l) + 1"
    by (simp add: r0_def unsigned_rotation_def)
  ultimately have ap: "\<exists>l'. apply_rotation cr ?r l = Ok l'" by (simp add: apply_next)
  have "build_and_apply cr cur next c now l = and_then (apply_rotation cr ?r l) (\<lambda>l'. Ok (?r, l'))"
    unfolding build_and_apply_def kem(1) and_then.simps Let_def unsigned_rotation_def [symmetric]
      r0_def [symmetric]
    using a a0 p by (cases "ks_next_key_commitment (kl_current l)") (auto simp: r0_def unsigned_rotation_def)
  with ap show ?thesis by auto
qed

end
