(* ===== verification/Engine.thy ===== *)
theory Engine
  imports Config Dedup Quorum Handshake_Facts Rotation_Facts
begin

text \<open>
  \<^verbatim>\<open>witan/src/gossip.rs\<close>: the engine that owns every subsystem. A method on \<open>&mut self\<close> takes the
  engine last and returns its result and the new engine, on the error paths too. Counters are
  machine words and wrap, as they do in a release build. The engine keeps its identity behind an
  \<open>Arc\<close> that is only replaced, so the model stores the identity itself.
\<close>

record ('k, 'd) engine =
  config :: resolved_config
  identity :: "('k, 'd) node_identity"
  sessions :: sessions
  handshakes :: handshake_manager
  dedup :: dedup_cache
  quorum :: quorum_tracker
  stats :: gossip_stats
  mesh_peers :: "string list"

definition engine_new :: "resolved_config \<Rightarrow> ('k, 'd) node_identity \<Rightarrow> ('k, 'd) engine" where
  "engine_new rc i =
     \<lparr>config = rc, identity = i, sessions = sessions_new, handshakes = manager_new,
      dedup = dedup_new (rc_dedup_cache_secs rc), quorum = quorum_new (rc_quorum_fraction rc),
      stats = stats_default, mesh_peers = []\<rparr>"

text \<open>A call on the handshake manager inside a method of the engine.\<close>

definition on_handshakes ::
    "(handshake_manager \<Rightarrow> 'a res \<times> handshake_manager) \<Rightarrow> ('k, 'd) engine \<Rightarrow> 'a res \<times> ('k, 'd) engine" where
  "on_handshakes f e = (case f (handshakes e) of (r, m) \<Rightarrow> (r, e\<lparr>handshakes := m\<rparr>))"

section \<open>Mesh\<close>

definition add_to_mesh :: "string \<Rightarrow> ('k, 'd) engine \<Rightarrow> ('k, 'd) engine" where
  "add_to_mesh peer_addr e =
     (if peer_addr \<notin> set (mesh_peers e) \<and> length (mesh_peers e) < unat (rc_mesh_n_high (config e))
      then e\<lparr>mesh_peers := mesh_peers e @ [peer_addr]\<rparr> else e)"

definition remove_from_mesh :: "string \<Rightarrow> ('k, 'd) engine \<Rightarrow> ('k, 'd) engine" where
  "remove_from_mesh peer_addr e = e\<lparr>mesh_peers := filter (\<lambda>p. p \<noteq> peer_addr) (mesh_peers e)\<rparr>"

definition mesh_is_full :: "('k, 'd) engine \<Rightarrow> bool" where
  "mesh_is_full e \<longleftrightarrow> length (mesh_peers e) \<ge> unat (rc_mesh_n_high (config e))"

definition mesh_needs_peers :: "('k, 'd) engine \<Rightarrow> bool" where
  "mesh_needs_peers e \<longleftrightarrow> length (mesh_peers e) < unat (rc_mesh_n_low (config e))"

section \<open>Peers\<close>

definition connect_peer ::
    "codec \<Rightarrow> string + bytes \<Rightarrow> string \<Rightarrow> u64 \<Rightarrow> ('k, 'd) engine \<Rightarrow> bytes res \<times> ('k, 'd) engine" where
  "connect_peer bc rand peer_addr now_ms e =
     (if sessions_get peer_addr (sessions e) \<noteq> None
      then (Err (HandshakeError (''already connected to '' @ peer_addr)), e)
      else on_handshakes (build_probe bc rand peer_addr (identity e) now_ms) e)"

definition sync_peer_stats :: "('k, 'd) engine \<Rightarrow> ('k, 'd) engine" where
  "sync_peer_stats e =
     e\<lparr>stats := (stats e)\<lparr>active_peers_stat := word_of_nat (sessions_count (sessions e)),
                         mesh_peers_stat := word_of_nat (length (mesh_peers e))\<rparr>\<rparr>"

definition complete_handshake :: "string \<Rightarrow> session_record \<Rightarrow> ('k, 'd) engine \<Rightarrow> ('k, 'd) engine" where
  "complete_handshake peer_addr session e =
     (let e1 = e\<lparr>sessions := sessions_insert session (sessions e)\<rparr>;
          e2 = add_to_mesh peer_addr e1;
          e3 = e2\<lparr>stats := (stats e2)\<lparr>handshakes_completed := handshakes_completed (stats e2) + 1\<rparr>\<rparr>
      in sync_peer_stats e3)"

definition process_handshake_bytes ::
    "('k, 'p, 'c, 's, 'd) crypto \<Rightarrow> codec \<Rightarrow> string + bytes \<Rightarrow> bytes \<Rightarrow> string \<Rightarrow> bytes \<Rightarrow> u64 \<Rightarrow>
     ('k, 'd) engine \<Rightarrow> bytes option res \<times> ('k, 'd) engine" where
  "process_handshake_bytes cr bc rand rng peer_addr bytes now_ms e =
     (case classify_incoming bytes of
        KindHandshakeProbe \<Rightarrow>
          then_do (on_handshakes (process_probe_build_ack cr bc rand peer_addr bytes (identity e) now_ms) e)
            (\<lambda>ack_bytes e. (Ok (Some ack_bytes), e))
      | KindHandshakeAck \<Rightarrow>
          then_do (on_handshakes (process_ack_build_finish cr bc rng peer_addr bytes (identity e) now_ms) e)
            (\<lambda>finish_bytes e. (Ok (Some finish_bytes), e))
      | KindHandshakeFinish \<Rightarrow>
          then_do (on_handshakes (process_finish_build_finish_ack cr bc peer_addr bytes (identity e) now_ms) e)
            (\<lambda>(finish_ack_bytes, session) e.
               (Ok (Some finish_ack_bytes), complete_handshake peer_addr session e))
      | KindHandshakeFinishAck \<Rightarrow>
          then_do (on_handshakes (process_finish_ack cr bc peer_addr bytes now_ms) e)
            (\<lambda>session e. (Ok None, complete_handshake peer_addr session e))
      | KindGossipEnvelope \<Rightarrow>
          (Err (HandshakeError ''expected handshake message, got gossip envelope''), e))"

definition is_handshake_complete :: "string \<Rightarrow> ('k, 'd) engine \<Rightarrow> bool" where
  "is_handshake_complete peer_addr e \<longleftrightarrow> sessions_get peer_addr (sessions e) \<noteq> None"

definition disconnect_peer :: "string \<Rightarrow> ('k, 'd) engine \<Rightarrow> unit res \<times> ('k, 'd) engine" where
  "disconnect_peer peer_addr e =
     (case sessions_remove peer_addr (sessions e) of
        (None, s) \<Rightarrow> (Err (PeerNotFound peer_addr), e\<lparr>sessions := s\<rparr>)
      | (Some _, s) \<Rightarrow>
          (let e1 = remove_from_mesh peer_addr (e\<lparr>sessions := s\<rparr>);
               e2 = e1\<lparr>handshakes := manager_remove peer_addr (handshakes e1)\<rparr>
           in (Ok (), sync_peer_stats e2)))"

section \<open>Messages\<close>

definition payload_type_of :: "u8 \<Rightarrow> payload_type res" where
  "payload_type_of payload_type =
     (case from_u8 payload_type of
        Some pt \<Rightarrow> Ok pt
      | None \<Rightarrow> Err (InvalidInput (''unknown payload_type_id: '' @ dec (unat payload_type))))"

definition publish ::
    "('k, 'p, 'c, 's, 'd) crypto \<Rightarrow> u8 \<Rightarrow> bytes \<Rightarrow> u64 \<Rightarrow> ('k, 'd) engine \<Rightarrow> bytes res \<times> ('k, 'd) engine" where
  "publish cr payload_type payload now_ms e =
     then_do (payload_type_of payload_type, e) (\<lambda>pt e.
     if length payload > rc_max_message_bytes (config e)
     then (Err (InvalidInput (''payload too large: '' @ dec (length payload) @ '' > ''
             @ dec (rc_max_message_bytes (config e)))), e)
     else
       let message_id = compute_message_id cr pt payload;
           (duplicate, cache) = is_duplicate message_id now_ms (dedup e);
           e1 = e\<lparr>dedup := cache\<rparr> in
       if duplicate
       then (Err (EnvelopeError ''duplicate message''),
             e1\<lparr>stats := (stats e1)\<lparr>messages_deduplicated := messages_deduplicated (stats e1) + 1\<rparr>\<rparr>)
       else
         let e2 = e1\<lparr>dedup := dedup_insert message_id now_ms (dedup e1)\<rparr> in
         then_do (build_envelope cr pt payload (identity e2) (rc_default_ttl (config e2)) now_ms, e2)
           (\<lambda>_ e. (Ok message_id,
                   e\<lparr>stats := (stats e)\<lparr>messages_published := messages_published (stats e) + 1\<rparr>\<rparr>)))"

definition engine_encode_envelope ::
    "('k, 'p, 'c, 's, 'd) crypto \<Rightarrow> codec \<Rightarrow> u8 \<Rightarrow> bytes \<Rightarrow> u64 \<Rightarrow> ('k, 'd) engine \<Rightarrow> bytes res" where
  "engine_encode_envelope cr bc payload_type payload now_ms e =
     and_then (payload_type_of payload_type) (\<lambda>pt.
     and_then (build_envelope cr pt payload (identity e) (rc_default_ttl (config e)) now_ms) (\<lambda>envelope.
     encode_envelope bc envelope))"

definition drop_message :: "('k, 'd) engine \<Rightarrow> ('k, 'd) engine" where
  "drop_message e = e\<lparr>stats := (stats e)\<lparr>messages_dropped := messages_dropped (stats e) + 1\<rparr>\<rparr>"

definition receive_message :: "('k, 'd) engine \<Rightarrow> ('k, 'd) engine" where
  "receive_message e = e\<lparr>stats := (stats e)\<lparr>messages_received := messages_received (stats e) + 1\<rparr>\<rparr>"

definition verify_envelope_bytes ::
    "('k, 'p, 'c, 's, 'd) crypto \<Rightarrow> codec \<Rightarrow> bytes \<Rightarrow> u64 \<Rightarrow> ('k, 'd) engine \<Rightarrow> bool res \<times> ('k, 'd) engine" where
  "verify_envelope_bytes cr bc bytes now_ms e =
     then_do (decode_envelope bc bytes, e) (\<lambda>envelope e.
     case verify_envelope cr envelope (config e) now_ms of
       Ok True \<Rightarrow> (Ok True, receive_message e)
     | Ok False \<Rightarrow> (Ok False, drop_message e)
     | Err err \<Rightarrow> (Err err, drop_message e)
     | Panic \<Rightarrow> (Panic, e))"

definition decode_envelope_to_json :: "codec \<Rightarrow> json \<Rightarrow> bytes \<Rightarrow> string res" where
  "decode_envelope_to_json bc js bytes =
     and_then (decode_envelope bc bytes) (\<lambda>envelope.
     map_err (\<lambda>m. SerializationError (''JSON serialize: '' @ m)) (json_of_envelope js envelope))"

section \<open>Responses\<close>

definition get_stats_json :: "json \<Rightarrow> ('k, 'd) engine \<Rightarrow> string res" where
  "get_stats_json js e =
     map_err (\<lambda>m. SerializationError (''JSON serialize: '' @ m)) (json_of_stats js (stats e))"

definition get_peers_json :: "json \<Rightarrow> ('k, 'd) engine \<Rightarrow> string res" where
  "get_peers_json js e =
     map_err (\<lambda>m. SerializationError (''JSON serialize: '' @ m)) (json_of_peers js (active_peers (sessions e)))"

definition get_node_identity_json ::
    "('k, 'p, 'c, 's, 'd) crypto \<Rightarrow> json \<Rightarrow> ('k, 'd) engine \<Rightarrow> string res" where
  "get_node_identity_json cr js e =
     and_then (public_view cr (identity e)) (\<lambda>public_view.
     map_err (\<lambda>m. SerializationError (''JSON serialize: '' @ m)) (json_of_identity js public_view))"

definition get_session_json :: "json \<Rightarrow> string \<Rightarrow> ('k, 'd) engine \<Rightarrow> string res" where
  "get_session_json js peer_addr e =
     (case sessions_get peer_addr (sessions e) of
        None \<Rightarrow> Err (SessionNotFound peer_addr)
      | Some session \<Rightarrow>
          map_err (\<lambda>m. SerializationError (''JSON serialize: '' @ m))
            (json_of_object js
              [(''session_id'', JStr (sr_session_id session)),
               (''peer_addr'', JStr (sr_peer_addr session)),
               (''peer_node_id'', JStr (sr_peer_node_id session)),
               (''established_at_ms'', JU64 (sr_established_at_ms session)),
               (''is_active'', JBool (sr_is_active session))]))"

section \<open>Heartbeat\<close>

text \<open>\<open>for addr in candidates { if !self.mesh_is_full() { self.mesh_peers.push(addr) } }\<close>\<close>

fun graft :: "string list \<Rightarrow> ('k, 'd) engine \<Rightarrow> ('k, 'd) engine" where
  "graft [] e = e"
| "graft (addr # addrs) e =
     graft addrs (if \<not> mesh_is_full e then e\<lparr>mesh_peers := mesh_peers e @ [addr]\<rparr> else e)"

definition graft_candidates :: "('k, 'd) engine \<Rightarrow> string list" where
  "graft_candidates e =
     take (unat (rc_mesh_n (config e)) - length (mesh_peers e))
       (filter (\<lambda>a. a \<notin> set (mesh_peers e)) (map pi_addr (active_peers (sessions e))))"

definition heartbeat :: "u64 \<Rightarrow> ('k, 'd) engine \<Rightarrow> ('k, 'd) engine" where
  "heartbeat now_ms e =
     (let e1 = e\<lparr>dedup := evict_expired now_ms (dedup e)\<rparr>;
          (evicted, m) = evict_timed_out now_ms (handshakes e1);
          e2 = e1\<lparr>handshakes := m,
                  stats := (stats e1)\<lparr>handshakes_failed := handshakes_failed (stats e1) + word_of_nat (length evicted)\<rparr>\<rparr>;
          e3 = e2\<lparr>quorum := prune (active_ids (dedup e2)) (quorum e2)\<rparr>;
          e4 = (if mesh_needs_peers e3 then graft (graft_candidates e3) e3 else e3);
          e5 = sync_peer_stats e4
      in e5\<lparr>stats := (stats e5)\<lparr>dedup_cache_size := word_of_nat (dedup_len (dedup e5))\<rparr>\<rparr>)"

section \<open>Key rotation\<close>

definition rotate_keys ::
    "('k, 'p, 'c, 's, 'd) crypto \<Rightarrow> bytes \<Rightarrow> bytes \<Rightarrow> string \<Rightarrow> ('k, 'd) engine \<Rightarrow>
     string res \<times> ('k, 'd) engine" where
  "rotate_keys cr kem_rng sig_rng key_epoch e =
     then_do (identity_generate cr kem_rng sig_rng key_epoch, e) (\<lambda>new_identity e.
     (Ok (ni_node_id new_identity), e\<lparr>identity := new_identity\<rparr>))"

text \<open>The lineage is passed by \<open>&mut\<close>: the state is the pair of engine and lineage.\<close>

definition rotate_keys_under_id ::
    "('k, 'p, 'c, 's, 'd) crypto \<Rightarrow> ('k, 'd) node_identity \<Rightarrow> bytes option \<Rightarrow> u64 \<Rightarrow>
     ('k, 'd) engine \<times> key_lineage \<Rightarrow> key_rotation res \<times> ('k, 'd) engine \<times> key_lineage" where
  "rotate_keys_under_id cr next commitment now_ms s =
     (case s of (e, lineage) \<Rightarrow>
      if kl_node_id lineage \<noteq> ni_node_id (identity e)
      then (Err (IdentityError ''lineage does not belong to this node''), (e, lineage))
      else
        (case commit (lineage_rotate cr (identity e) next commitment now_ms lineage) lineage of
           (Ok rotation, l) \<Rightarrow> (Ok rotation, (e\<lparr>identity := next\<lparr>ni_node_id := kl_node_id l\<rparr>\<rparr>, l))
         | (Err err, l) \<Rightarrow> (Err err, (e, l))
         | (Panic, l) \<Rightarrow> (Panic, (e, l))))"

definition verify_signature ::
    "('k, 'p, 'c, 's, 'd) crypto \<Rightarrow> bytes \<Rightarrow> bytes \<Rightarrow> bytes \<Rightarrow> bytes \<Rightarrow> bool res" where
  "verify_signature cr public_key_bytes message signature context =
     verify_external cr public_key_bytes message signature context"

end
