(* ===== verification/Api.thy ===== *)
theory Api
  imports Engine
begin

text \<open>
  \<^verbatim>\<open>witan/src/api.rs\<close>: the exported functions over the two global cells, the engine in its
  \<open>OnceLock<Mutex<_>>\<close> and the key lineage in its \<open>Mutex<Option<_>>\<close>. The component is single
  threaded and built with \<open>panic = "abort"\<close>, so a lock is always free and never poisoned: acquiring
  it always succeeds. The clock reading and the random bytes of a call are its arguments.
\<close>

record ('k, 'd) globals =
  gossip_state :: "('k, 'd) engine option"
  lineage :: "key_lineage option"

definition globals_init :: "('k, 'd) globals" where
  "globals_init = \<lparr>gossip_state = None, lineage = None\<rparr>"

text \<open>
  The closure of \<open>with_engine\<close> gets the engine, and the cell of the lineage as the rest of the
  global state; the closure of \<open>with_lineage\<close> gets the cell.
\<close>

definition with_lineage ::
    "(key_lineage option \<Rightarrow> 'a res \<times> key_lineage option) \<Rightarrow> ('k, 'd) globals \<Rightarrow> 'a res \<times> ('k, 'd) globals" where
  "with_lineage f g = (case f (lineage g) of (r, l) \<Rightarrow> (r, g\<lparr>lineage := l\<rparr>))"

definition with_engine_and ::
    "(('k, 'd) engine \<times> key_lineage option \<Rightarrow> 'a res \<times> ('k, 'd) engine \<times> key_lineage option) \<Rightarrow>
     ('k, 'd) globals \<Rightarrow> 'a res \<times> ('k, 'd) globals" where
  "with_engine_and f g =
     (case gossip_state g of
        None \<Rightarrow> (Err NotInitialized, g)
      | Some e \<Rightarrow> (case f (e, lineage g) of (r, e', l') \<Rightarrow> (r, g\<lparr>gossip_state := Some e', lineage := l'\<rparr>)))"

definition with_engine ::
    "(('k, 'd) engine \<Rightarrow> 'a res \<times> ('k, 'd) engine) \<Rightarrow> ('k, 'd) globals \<Rightarrow> 'a res \<times> ('k, 'd) globals" where
  "with_engine f = with_engine_and (\<lambda>(e, l). case f e of (r, e') \<Rightarrow> (r, e', l))"

text \<open>\<open>duration_since(UNIX_EPOCH)\<close> in milliseconds, or an error before the epoch; \<open>as u64\<close> truncates.\<close>

definition current_time_unix_ms :: "nat option \<Rightarrow> u64" where
  "current_time_unix_ms clock = (case clock of Some ms \<Rightarrow> word_of_nat ms | None \<Rightarrow> 0)"

text \<open>\<open>&b[lo..hi]\<close> panics out of range.\<close>

definition slice :: "nat \<Rightarrow> nat \<Rightarrow> 'a list \<Rightarrow> 'a list res" where
  "slice lo hi b = (if lo \<le> hi \<and> hi \<le> length b then Ok (take (hi - lo) (drop lo b)) else Panic)"

section \<open>Initialization\<close>

definition install ::
    "resolved_config \<Rightarrow> ('k, 'd) node_identity \<Rightarrow> key_lineage \<Rightarrow> ('k, 'd) globals \<Rightarrow> unit res \<times> ('k, 'd) globals" where
  "install resolved node keys g =
     (if gossip_state g \<noteq> None then (Err AlreadyInitialized, g)
      else with_lineage (\<lambda>_. (Ok (), Some keys)) (g\<lparr>gossip_state := Some (engine_new resolved node)\<rparr>))"

definition identity_of_seeds ::
    "('k, 'p, 'c, 's, 'd) crypto \<Rightarrow> bytes \<Rightarrow> bytes \<Rightarrow> string \<Rightarrow> ('k, 'd) node_identity res" where
  "identity_of_seeds cr kem_seed sig_seed key_epoch =
     and_then (slice 0 32 kem_seed) (\<lambda>x25519_seed.
     and_then (slice 32 96 kem_seed) (\<lambda>mlkem_seed.
     from_seeds cr x25519_seed mlkem_seed sig_seed key_epoch))"

definition gossip_init ::
    "('k, 'p, 'c, 's, 'd) crypto \<Rightarrow> json \<Rightarrow> bytes \<Rightarrow> bytes \<Rightarrow> string \<Rightarrow> ('k, 'd) globals \<Rightarrow>
     unit res \<times> ('k, 'd) globals" where
  "gossip_init cr js kem_rng sig_rng config_json g =
     (if gossip_state g \<noteq> None then (Err AlreadyInitialized, g)
      else
        then_do (and_then (config_from_json js config_json) (resolve cr), g) (\<lambda>resolved g.
        then_do
          (case (rc_kem_seed resolved, rc_sig_seed resolved) of
             (Some kem_seed, Some sig_seed) \<Rightarrow> identity_of_seeds cr kem_seed sig_seed (rc_key_epoch resolved)
           | _ \<Rightarrow> identity_generate cr kem_rng sig_rng (rc_key_epoch resolved), g)
          (\<lambda>identity g.
        then_do (from_identity cr identity, g) (\<lambda>lineage g.
        install resolved identity lineage g))))"

definition gossip_init_with_lineage ::
    "('k, 'p, 'c, 's, 'd) crypto \<Rightarrow> codec \<Rightarrow> json \<Rightarrow> string \<Rightarrow> bytes \<Rightarrow> ('k, 'd) globals \<Rightarrow>
     unit res \<times> ('k, 'd) globals" where
  "gossip_init_with_lineage cr bc js config_json lineage_bytes g =
     (if gossip_state g \<noteq> None then (Err AlreadyInitialized, g)
      else
        then_do (and_then (config_from_json js config_json) (resolve cr), g) (\<lambda>resolved g.
        case (rc_kem_seed resolved, rc_sig_seed resolved) of
          (Some kem_seed, Some sig_seed) \<Rightarrow>
            then_do (identity_of_seeds cr kem_seed sig_seed (rc_key_epoch resolved), g) (\<lambda>identity g.
            then_do (lineage_decode cr bc lineage_bytes, g) (\<lambda>lineage g.
            let mismatch = IdentityError (''seeds are not the current keys of lineage '' @ kl_node_id lineage
                  @ '' (sequence '' @ dec (unat (lineage_sequence lineage)) @ '')'') in
            if sig_public_key_bytes cr identity \<noteq> current_sig_public_key lineage then (Err mismatch, g)
            else
              then_do (kem_public_key_canonical_bytes cr identity, g) (\<lambda>kem_pk g.
              if kem_pk \<noteq> current_kem_public_key lineage then (Err mismatch, g)
              else install resolved (identity\<lparr>ni_node_id := kl_node_id lineage\<rparr>) lineage g)))
        | _ \<Rightarrow> (Err (ConfigError
              ''gossip_init_with_lineage needs kem_seed_hex and sig_seed_hex for the current keys''), g)))"

section \<open>Messages and peers\<close>

definition gossip_publish ::
    "('k, 'p, 'c, 's, 'd) crypto \<Rightarrow> nat option \<Rightarrow> u8 \<Rightarrow> bytes \<Rightarrow> ('k, 'd) globals \<Rightarrow> bytes res \<times> ('k, 'd) globals" where
  "gossip_publish cr clock payload_type payload =
     with_engine (publish cr payload_type payload (current_time_unix_ms clock))"

definition gossip_connect_peer ::
    "codec \<Rightarrow> nat option \<Rightarrow> string + bytes \<Rightarrow> string \<Rightarrow> ('k, 'd) globals \<Rightarrow> bytes res \<times> ('k, 'd) globals" where
  "gossip_connect_peer bc clock rand peer_addr =
     with_engine (connect_peer bc rand peer_addr (current_time_unix_ms clock))"

definition gossip_disconnect_peer :: "string \<Rightarrow> ('k, 'd) globals \<Rightarrow> unit res \<times> ('k, 'd) globals" where
  "gossip_disconnect_peer peer_addr = with_engine (disconnect_peer peer_addr)"

definition gossip_get_peers :: "json \<Rightarrow> ('k, 'd) globals \<Rightarrow> string res \<times> ('k, 'd) globals" where
  "gossip_get_peers js = with_engine (\<lambda>e. (get_peers_json js e, e))"

definition gossip_get_node_identity ::
    "('k, 'p, 'c, 's, 'd) crypto \<Rightarrow> json \<Rightarrow> ('k, 'd) globals \<Rightarrow> string res \<times> ('k, 'd) globals" where
  "gossip_get_node_identity cr js = with_engine (\<lambda>e. (get_node_identity_json cr js e, e))"

definition gossip_verify_envelope ::
    "('k, 'p, 'c, 's, 'd) crypto \<Rightarrow> codec \<Rightarrow> nat option \<Rightarrow> bytes \<Rightarrow> ('k, 'd) globals \<Rightarrow> bool res \<times> ('k, 'd) globals" where
  "gossip_verify_envelope cr bc clock envelope_bytes =
     with_engine (verify_envelope_bytes cr bc envelope_bytes (current_time_unix_ms clock))"

definition gossip_encode_envelope ::
    "('k, 'p, 'c, 's, 'd) crypto \<Rightarrow> codec \<Rightarrow> nat option \<Rightarrow> u8 \<Rightarrow> bytes \<Rightarrow> ('k, 'd) globals \<Rightarrow>
     bytes res \<times> ('k, 'd) globals" where
  "gossip_encode_envelope cr bc clock payload_type payload =
     with_engine (\<lambda>e. (engine_encode_envelope cr bc payload_type payload (current_time_unix_ms clock) e, e))"

definition gossip_decode_envelope :: "codec \<Rightarrow> json \<Rightarrow> bytes \<Rightarrow> ('k, 'd) globals \<Rightarrow> string res \<times> ('k, 'd) globals" where
  "gossip_decode_envelope bc js bytes = with_engine (\<lambda>e. (decode_envelope_to_json bc js bytes, e))"

definition gossip_get_stats :: "json \<Rightarrow> nat option \<Rightarrow> ('k, 'd) globals \<Rightarrow> string res \<times> ('k, 'd) globals" where
  "gossip_get_stats js clock =
     with_engine (\<lambda>e. let e' = heartbeat (current_time_unix_ms clock) e in (get_stats_json js e', e'))"

definition gossip_process_handshake_bytes ::
    "('k, 'p, 'c, 's, 'd) crypto \<Rightarrow> codec \<Rightarrow> nat option \<Rightarrow> string + bytes \<Rightarrow> bytes \<Rightarrow> string \<Rightarrow> bytes \<Rightarrow>
     ('k, 'd) globals \<Rightarrow> bytes option res \<times> ('k, 'd) globals" where
  "gossip_process_handshake_bytes cr bc clock rand rng peer_addr bytes =
     with_engine (process_handshake_bytes cr bc rand rng peer_addr bytes (current_time_unix_ms clock))"

definition gossip_build_handshake_ack ::
    "('k, 'p, 'c, 's, 'd) crypto \<Rightarrow> codec \<Rightarrow> nat option \<Rightarrow> string + bytes \<Rightarrow> string \<Rightarrow> bytes \<Rightarrow>
     ('k, 'd) globals \<Rightarrow> bytes res \<times> ('k, 'd) globals" where
  "gossip_build_handshake_ack cr bc clock rand peer_addr probe_bytes =
     with_engine (\<lambda>e. on_handshakes
       (process_probe_build_ack cr bc rand peer_addr probe_bytes (identity e) (current_time_unix_ms clock)) e)"

definition store_finished :: "session_record \<Rightarrow> ('k, 'd) engine \<Rightarrow> ('k, 'd) engine" where
  "store_finished session e =
     (let e1 = e\<lparr>sessions := sessions_insert session (sessions e)\<rparr>;
          e2 = e1\<lparr>stats := (stats e1)\<lparr>handshakes_completed := handshakes_completed (stats e1) + 1\<rparr>\<rparr>
      in e2\<lparr>stats := (stats e2)\<lparr>active_peers_stat := word_of_nat (sessions_count (sessions e2))\<rparr>\<rparr>)"

definition gossip_build_finish_ack ::
    "('k, 'p, 'c, 's, 'd) crypto \<Rightarrow> codec \<Rightarrow> nat option \<Rightarrow> string \<Rightarrow> bytes \<Rightarrow>
     ('k, 'd) globals \<Rightarrow> bytes res \<times> ('k, 'd) globals" where
  "gossip_build_finish_ack cr bc clock peer_addr finish_bytes =
     with_engine (\<lambda>e. then_do
       (on_handshakes
         (process_finish_build_finish_ack cr bc peer_addr finish_bytes (identity e) (current_time_unix_ms clock)) e)
       (\<lambda>(finish_ack_bytes, session) e. (Ok finish_ack_bytes, store_finished session e)))"

definition gossip_get_session :: "json \<Rightarrow> string \<Rightarrow> ('k, 'd) globals \<Rightarrow> string res \<times> ('k, 'd) globals" where
  "gossip_get_session js peer_addr = with_engine (\<lambda>e. (get_session_json js peer_addr e, e))"

section \<open>Keys and lineages\<close>

definition gossip_rotate_keys ::
    "('k, 'p, 'c, 's, 'd) crypto \<Rightarrow> bytes \<Rightarrow> bytes \<Rightarrow> ('k, 'd) globals \<Rightarrow> string res \<times> ('k, 'd) globals" where
  "gossip_rotate_keys cr kem_rng sig_rng =
     with_engine_and (\<lambda>(e, l).
       case rotate_keys cr kem_rng sig_rng (rc_key_epoch (config e)) e of
         (Ok node_id, e') \<Rightarrow>
           (case from_identity cr (identity e') of
              Ok lin \<Rightarrow> (Ok node_id, e', Some lin)
            | Err err \<Rightarrow> (Err err, e', l)
            | Panic \<Rightarrow> (Panic, e', l))
       | (Err err, e') \<Rightarrow> (Err err, e', l)
       | (Panic, e') \<Rightarrow> (Panic, e', l))"

definition identity_from_seed_bytes ::
    "('k, 'p, 'c, 's, 'd) crypto \<Rightarrow> bytes \<Rightarrow> bytes \<Rightarrow> string \<Rightarrow> ('k, 'd) node_identity res" where
  "identity_from_seed_bytes cr kem_seed sig_seed key_epoch =
     check (length kem_seed = 96) (InvalidInput (''kem_seed must be 96 bytes, got '' @ dec (length kem_seed)))
     (check (length sig_seed = 32) (InvalidInput (''sig_seed must be 32 bytes, got '' @ dec (length sig_seed)))
     (and_then (slice 0 32 kem_seed) (\<lambda>x25519_seed.
      and_then (slice 32 (length kem_seed) kem_seed) (\<lambda>mlkem_seed.
      from_seeds cr x25519_seed mlkem_seed sig_seed key_epoch))))"

definition parse_commitment :: "bytes option \<Rightarrow> bytes option res" where
  "parse_commitment c =
     (case c of
        None \<Rightarrow> Ok None
      | Some b \<Rightarrow>
          check (length b = 32) (InvalidInput (''next_key_commitment must be 32 bytes, got '' @ dec (length b)))
            (Ok (Some b)))"

definition gossip_rotate_keys_under_id ::
    "('k, 'p, 'c, 's, 'd) crypto \<Rightarrow> codec \<Rightarrow> nat option \<Rightarrow> bytes \<Rightarrow> bytes \<Rightarrow> string \<Rightarrow> bytes option \<Rightarrow>
     ('k, 'd) globals \<Rightarrow> bytes res \<times> ('k, 'd) globals" where
  "gossip_rotate_keys_under_id cr bc clock kem_seed sig_seed key_epoch next_commitment g =
     then_do (identity_from_seed_bytes cr kem_seed sig_seed key_epoch, g) (\<lambda>next g.
     then_do (parse_commitment next_commitment, g) (\<lambda>commitment g.
     with_engine_and (\<lambda>(e, l).
       case l of
         None \<Rightarrow> (Err NotInitialized, e, l)
       | Some lin \<Rightarrow>
           (case rotate_keys_under_id cr next commitment (current_time_unix_ms clock) (e, lin) of
              (Ok _, e', updated) \<Rightarrow>
                (case lineage_encode bc updated of
                   Ok bytes \<Rightarrow> (Ok bytes, e', Some updated)
                 | Err err \<Rightarrow> (Err err, e', Some lin)
                 | Panic \<Rightarrow> (Panic, e', Some lin))
            | (Err err, e', _) \<Rightarrow> (Err err, e', Some lin)
            | (Panic, e', _) \<Rightarrow> (Panic, e', Some lin))) g))"

definition gossip_recover_lineage ::
    "('k, 'p, 'c, 's, 'd) crypto \<Rightarrow> codec \<Rightarrow> nat option \<Rightarrow> bytes \<Rightarrow> bytes \<Rightarrow> bytes \<Rightarrow> string \<Rightarrow> bytes option \<Rightarrow>
     bytes res" where
  "gossip_recover_lineage cr bc clock lineage_bytes kem_seed sig_seed key_epoch next_commitment =
     and_then (lineage_decode cr bc lineage_bytes) (\<lambda>lineage.
     and_then (identity_from_seed_bytes cr kem_seed sig_seed key_epoch) (\<lambda>next.
     and_then (parse_commitment next_commitment) (\<lambda>commitment.
     and_then (lineage_recover cr next commitment (current_time_unix_ms clock) lineage) (\<lambda>(_, lineage').
     lineage_encode bc lineage'))))"

definition gossip_get_key_lineage :: "codec \<Rightarrow> ('k, 'd) globals \<Rightarrow> bytes res \<times> ('k, 'd) globals" where
  "gossip_get_key_lineage bc =
     with_lineage (\<lambda>l. (case l of None \<Rightarrow> Err NotInitialized | Some lin \<Rightarrow> lineage_encode bc lin, l))"

definition gossip_verify_key_lineage ::
    "('k, 'p, 'c, 's, 'd) crypto \<Rightarrow> codec \<Rightarrow> json \<Rightarrow> bytes \<Rightarrow> string res" where
  "gossip_verify_key_lineage cr bc js lineage_bytes =
     and_then (lineage_decode cr bc lineage_bytes) (\<lambda>lineage.
     map_err (\<lambda>m. SerializationError (''JSON serialize: '' @ m))
       (json_of_object js
         [(''node_id'', JStr (kl_node_id lineage)),
          (''sequence'', JU64 (lineage_sequence lineage)),
          (''sig_public_key_hex'', JStr (hex_encode cr (current_sig_public_key lineage))),
          (''kem_public_key_hex'', JStr (hex_encode cr (current_kem_public_key lineage))),
          (''key_epoch'', JStr (current_key_epoch lineage)),
          (''next_key_commitment_hex'',
            case next_key_commitment lineage of None \<Rightarrow> JNull | Some c \<Rightarrow> JStr (hex_encode cr c))]))"

definition gossip_verify_envelope_from_lineage ::
    "('k, 'p, 'c, 's, 'd) crypto \<Rightarrow> codec \<Rightarrow> nat option \<Rightarrow> bytes \<Rightarrow> bytes \<Rightarrow> ('k, 'd) globals \<Rightarrow>
     bool res \<times> ('k, 'd) globals" where
  "gossip_verify_envelope_from_lineage cr bc clock envelope_bytes lineage_bytes g =
     then_do (lineage_decode cr bc lineage_bytes, g) (\<lambda>lineage.
     with_engine (\<lambda>e.
       then_do (decode_envelope bc envelope_bytes, e) (\<lambda>envelope e.
       case check_envelope_sender lineage envelope of
         Err err \<Rightarrow> (Err err, drop_message e)
       | Panic \<Rightarrow> (Panic, e)
       | Ok _ \<Rightarrow> verify_envelope_bytes cr bc envelope_bytes (current_time_unix_ms clock) e)))"

definition gossip_key_commitment :: "('k, 'p, 'c, 's, 'd) crypto \<Rightarrow> bytes \<Rightarrow> bytes res" where
  "gossip_key_commitment cr sig_seed = key_commitment_for_seed cr sig_seed"

definition gossip_now_ms :: "nat option \<Rightarrow> u64" where
  "gossip_now_ms clock = current_time_unix_ms clock"

definition gossip_verify_signature ::
    "('k, 'p, 'c, 's, 'd) crypto \<Rightarrow> bytes \<Rightarrow> bytes \<Rightarrow> bytes \<Rightarrow> bytes \<Rightarrow> bool res" where
  "gossip_verify_signature cr public_key_bytes message signature context =
     verify_signature cr public_key_bytes message signature context"

text \<open>\<open>env!("CARGO_PKG_VERSION")\<close>, the version of the package manifest.\<close>

definition gossip_get_version :: string where
  "gossip_get_version = ''0.2.2''"

end
