(* ===== verification/Engine_Facts.thy ===== *)
theory Engine_Facts
  imports Engine
begin

text \<open>
  Facts about the engine: its invariant and that every method keeps it (contract \<open>engine_op\<close>,
  interpreted on each method), the mesh after a heartbeat, publishing, verification counters, and
  the complete handshake between two engines.
\<close>

section \<open>The engine invariant\<close>

definition mesh_inv :: "('k, 'd) engine \<Rightarrow> bool" where
  "mesh_inv e \<longleftrightarrow>
     distinct (mesh_peers e) \<and> set (mesh_peers e) \<subseteq> {a. sessions_get a (sessions e) \<noteq> None} \<and>
     length (mesh_peers e) \<le> unat (rc_mesh_n_high (config e))"

definition counts_inv :: "('k, 'd) engine \<Rightarrow> bool" where
  "counts_inv e \<longleftrightarrow>
     active_peers_stat (stats e) = word_of_nat (sessions_count (sessions e)) \<and>
     mesh_peers_stat (stats e) = word_of_nat (length (mesh_peers e))"

definition engine_inv :: "('k, 'd) engine \<Rightarrow> bool" where
  "engine_inv e \<longleftrightarrow>
     config_ok (config e) \<and> manager_inv (handshakes e) \<and> sessions_inv (sessions e) \<and>
     (\<forall>a s. sessions_get a (sessions e) = Some s \<longrightarrow> sr_is_active s) \<and>
     dedup_inv (dedup e) \<and> quorum_inv (quorum e) \<and> mesh_inv e \<and> counts_inv e"

lemma engine_invD:
  assumes "engine_inv e"
  shows "config_ok (config e)" "manager_inv (handshakes e)" "sessions_inv (sessions e)"
    "dedup_inv (dedup e)" "quorum_inv (quorum e)" "mesh_inv e" "counts_inv e"
  using assms by (simp_all add: engine_inv_def)

lemma sessions_count_new [simp]: "sessions_count sessions_new = 0"
  by (simp add: sessions_count_def sessions_new_def hm_len_def hm_empty_def)

lemma engine_inv_new [wf_rules]: "config_ok rc \<Longrightarrow> engine_inv (engine_new rc i)"
  by (simp add: engine_inv_def engine_new_def mesh_inv_def counts_inv_def stats_default_def
      ses.inv_empty ses.get_empty)

section \<open>Steps of the engine\<close>

lemma engine_inv_handshakes [wf_rules]:
  "engine_inv e \<Longrightarrow> manager_inv m \<Longrightarrow> engine_inv (e\<lparr>handshakes := m\<rparr>)"
  by (simp add: engine_inv_def mesh_inv_def counts_inv_def)

lemma engine_inv_dedup [wf_rules]: "engine_inv e \<Longrightarrow> dedup_inv c \<Longrightarrow> engine_inv (e\<lparr>dedup := c\<rparr>)"
  by (simp add: engine_inv_def mesh_inv_def counts_inv_def)

lemma engine_inv_quorum [wf_rules]: "engine_inv e \<Longrightarrow> quorum_inv q \<Longrightarrow> engine_inv (e\<lparr>quorum := q\<rparr>)"
  by (simp add: engine_inv_def mesh_inv_def counts_inv_def)

lemma engine_inv_identity [wf_rules]: "engine_inv e \<Longrightarrow> engine_inv (e\<lparr>identity := i\<rparr>)"
  by (simp add: engine_inv_def mesh_inv_def counts_inv_def)

lemma engine_inv_stats [wf_rules]:
  "engine_inv e \<Longrightarrow> active_peers_stat s = active_peers_stat (stats e) \<Longrightarrow>
   mesh_peers_stat s = mesh_peers_stat (stats e) \<Longrightarrow> engine_inv (e\<lparr>stats := s\<rparr>)"
  by (simp add: engine_inv_def mesh_inv_def counts_inv_def)

lemma counts_inv_sync [simp]: "counts_inv (sync_peer_stats e)"
  by (simp add: counts_inv_def sync_peer_stats_def)

lemma mesh_inv_sync [simp]: "mesh_inv (sync_peer_stats e) \<longleftrightarrow> mesh_inv e"
  by (simp add: mesh_inv_def sync_peer_stats_def)

lemma sync_fields [simp]:
  "config (sync_peer_stats e) = config e" "identity (sync_peer_stats e) = identity e"
  "sessions (sync_peer_stats e) = sessions e" "handshakes (sync_peer_stats e) = handshakes e"
  "dedup (sync_peer_stats e) = dedup e" "quorum (sync_peer_stats e) = quorum e"
  "mesh_peers (sync_peer_stats e) = mesh_peers e"
  by (simp_all add: sync_peer_stats_def)

lemma add_to_mesh_fields [simp]:
  "config (add_to_mesh a e) = config e" "identity (add_to_mesh a e) = identity e"
  "sessions (add_to_mesh a e) = sessions e" "handshakes (add_to_mesh a e) = handshakes e"
  "dedup (add_to_mesh a e) = dedup e" "quorum (add_to_mesh a e) = quorum e" "stats (add_to_mesh a e) = stats e"
  by (simp_all add: add_to_mesh_def)

lemma mesh_inv_add: "mesh_inv e \<Longrightarrow> sessions_get a (sessions e) \<noteq> None \<Longrightarrow> mesh_inv (add_to_mesh a e)"
  by (auto simp: mesh_inv_def add_to_mesh_def)

lemma complete_handshake_fields [simp]:
  "config (complete_handshake a s e) = config e" "identity (complete_handshake a s e) = identity e"
  "sessions (complete_handshake a s e) = sessions_insert s (sessions e)"
  "handshakes (complete_handshake a s e) = handshakes e"
  "dedup (complete_handshake a s e) = dedup e" "quorum (complete_handshake a s e) = quorum e"
  by (simp_all add: complete_handshake_def Let_def)

text \<open>A mesh only depends on the configuration, the sessions and the list itself.\<close>

lemma mesh_inv_cong:
  "config e = config e' \<Longrightarrow> sessions e = sessions e' \<Longrightarrow> mesh_peers e = mesh_peers e' \<Longrightarrow> mesh_inv e = mesh_inv e'"
  by (simp add: mesh_inv_def)

lemma complete_handshake_inv [wf_rules]:
  assumes "engine_inv e" and "sr_peer_addr s = a" and "sr_is_active s"
  shows "engine_inv (complete_handshake a s e)"
proof -
  let ?e1 = "e\<lparr>sessions := sessions_insert s (sessions e)\<rparr>"
  have "mesh_inv ?e1"
    using assms(1) by (auto simp: engine_inv_def mesh_inv_def ses.get_ins)
  then have "mesh_inv (add_to_mesh a ?e1)"
    using assms(2) by (intro mesh_inv_add) (simp_all add: ses.get_ins)
  moreover have "mesh_inv (complete_handshake a s e) = mesh_inv (add_to_mesh a ?e1)"
    by (rule mesh_inv_cong) (simp_all add: complete_handshake_def Let_def)
  moreover have "counts_inv (complete_handshake a s e)" by (simp add: complete_handshake_def Let_def)
  ultimately show ?thesis
    using assms by (auto simp: engine_inv_def ses.inv_ins ses.get_ins split: if_splits)
qed

lemma disconnect_peer_inv [wf_rules]:
  assumes inv: "engine_inv e"
  shows "engine_inv (snd (disconnect_peer a e))"
proof -
  have hm: "hm_inv (sessions e)" using inv by (simp add: engine_inv_def sessions_inv_def)
  show ?thesis
  proof (cases "sessions_get a (sessions e)")
    case None
    have get: "sessions_get b (hm_remove a (sessions e)) = sessions_get b (sessions e)" for b
      using None hm by (simp add: sessions_get_def hm.get_remove)
    have "sessions_count (hm_remove a (sessions e)) = sessions_count (sessions e)"
      using None hm by (simp add: sessions_count_def sessions_get_def hm.len_remove)
    moreover have "sessions_inv (hm_remove a (sessions e))"
      using ses.inv_rem [of "sessions e" a] inv by (simp add: engine_inv_def sessions_remove_def)
    moreover have "snd (disconnect_peer a e) = e\<lparr>sessions := hm_remove a (sessions e)\<rparr>"
      using None by (simp add: disconnect_peer_def sessions_remove_def sessions_get_def)
    ultimately show ?thesis
      using inv by (simp add: engine_inv_def mesh_inv_def counts_inv_def get)
  next
    case (Some s)
    let ?s = "hm_remove a (sessions e)"
    let ?e2 = "e\<lparr>sessions := ?s, mesh_peers := filter (\<lambda>p. p \<noteq> a) (mesh_peers e),
                 handshakes := manager_remove a (handshakes e)\<rparr>"
    have get: "sessions_get b ?s = (if b = a then None else sessions_get b (sessions e))" for b
      using hm by (simp add: sessions_get_def hm.get_remove)
    have "sessions_inv ?s"
      using ses.inv_rem [of "sessions e" a] inv by (simp add: engine_inv_def sessions_remove_def)
    moreover have "snd (disconnect_peer a e) = sync_peer_stats ?e2"
      using Some by (simp add: disconnect_peer_def sessions_remove_def sessions_get_def remove_from_mesh_def Let_def)
    moreover have "mesh_inv ?e2"
      using inv by (auto simp: engine_inv_def mesh_inv_def get intro: order_trans [OF length_filter_le])
    ultimately show ?thesis
      using inv by (auto simp: engine_inv_def get manager_inv_remove)
  qed
qed

section \<open>Grafting\<close>

lemma graft_eq:
  "graft cs e = e\<lparr>mesh_peers := mesh_peers e @ take (unat (rc_mesh_n_high (config e)) - length (mesh_peers e)) cs\<rparr>"
proof (induction cs arbitrary: e)
  case (Cons c cs)
  show ?case
  proof (cases "mesh_is_full e")
    case True
    then show ?thesis using Cons.IH [of e] by (simp add: mesh_is_full_def)
  next
    case False
    then have "unat (rc_mesh_n_high (config e)) - length (mesh_peers e) =
        Suc (unat (rc_mesh_n_high (config e)) - Suc (length (mesh_peers e)))"
      by (simp add: mesh_is_full_def)
    then show ?thesis using False Cons.IH [of "e\<lparr>mesh_peers := mesh_peers e @ [c]\<rparr>"] by simp
  qed
qed simp

definition unmeshed :: "('k, 'd) engine \<Rightarrow> string list" where
  "unmeshed e = filter (\<lambda>a. a \<notin> set (mesh_peers e)) (map pi_addr (active_peers (sessions e)))"

text \<open>The mesh a heartbeat leaves.\<close>

lemma heartbeat_mesh:
  assumes "config_ok (config e)"
  shows "mesh_peers (heartbeat now e) =
    (if length (mesh_peers e) < unat (rc_mesh_n_low (config e))
     then mesh_peers e @ take (unat (rc_mesh_n (config e)) - length (mesh_peers e)) (unmeshed e)
     else mesh_peers e)"
proof -
  have "unat (rc_mesh_n (config e)) \<le> unat (rc_mesh_n_high (config e))"
    using assms by (simp add: config_ok_def word_le_nat_alt)
  then show ?thesis
    by (simp add: heartbeat_def Let_def graft_eq mesh_needs_peers_def graft_candidates_def unmeshed_def
        min_absorb2 split: prod.splits)
qed

lemma heartbeat_fields [simp]:
  "config (heartbeat now e) = config e" "identity (heartbeat now e) = identity e"
  "sessions (heartbeat now e) = sessions e"
  "dedup (heartbeat now e) = evict_expired now (dedup e)"
  "handshakes (heartbeat now e) = snd (evict_timed_out now (handshakes e))"
  "quorum (heartbeat now e) = prune (active_ids (evict_expired now (dedup e))) (quorum e)"
  by (simp_all add: heartbeat_def Let_def graft_eq split: prod.splits)

lemma unmeshed_props:
  assumes "engine_inv e"
  shows "distinct (unmeshed e)" and "set (unmeshed e) \<inter> set (mesh_peers e) = {}"
    and "set (unmeshed e) \<subseteq> {a. sessions_get a (sessions e) \<noteq> None}"
    and "length (unmeshed e) = sessions_count (sessions e) - length (mesh_peers e)"
    and "length (mesh_peers e) \<le> sessions_count (sessions e)"
proof -
  let ?S = "{a. sessions_get a (sessions e) \<noteq> None}"
  have si: "sessions_inv (sessions e)" using assms by (simp add: engine_inv_def)
  have addrs: "set (map pi_addr (active_peers (sessions e))) = ?S"
    unfolding ses.peer_addrs [OF si] using assms by (auto simp: engine_inv_def)
  show d: "distinct (unmeshed e)" unfolding unmeshed_def by (rule distinct_filter) (rule ses.distinct_peers [OF si])
  show "set (unmeshed e) \<inter> set (mesh_peers e) = {}" by (auto simp: unmeshed_def)
  have set: "set (unmeshed e) = ?S - set (mesh_peers e)" using addrs by (auto simp: unmeshed_def)
  then show "set (unmeshed e) \<subseteq> ?S" by blast
  have mesh: "set (mesh_peers e) \<subseteq> ?S" "card (set (mesh_peers e)) = length (mesh_peers e)"
    using assms by (auto simp: engine_inv_def mesh_inv_def distinct_card)
  have fin: "finite ?S" by (rule ses.finite_store [OF si])
  have cnt: "sessions_count (sessions e) = card ?S" by (rule ses.cnt_card [OF si])
  show "length (mesh_peers e) \<le> sessions_count (sessions e)"
    using card_mono [OF fin mesh(1)] mesh(2) cnt by simp
  show "length (unmeshed e) = sessions_count (sessions e) - length (mesh_peers e)"
    using distinct_card [OF d] card_Diff_subset [of "set (mesh_peers e)" ?S] mesh cnt set by simp
qed

lemma heartbeat_inv [wf_rules]:
  assumes inv: "engine_inv e"
  shows "engine_inv (heartbeat now e)"
proof -
  have cfg: "config_ok (config e)" using inv by (simp add: engine_inv_def)
  let ?new = "take (unat (rc_mesh_n (config e)) - length (mesh_peers e)) (unmeshed e)"
  have new: "distinct ?new" "set ?new \<inter> set (mesh_peers e) = {}" "set ?new \<subseteq> {a. sessions_get a (sessions e) \<noteq> None}"
    using unmeshed_props [OF inv] set_take_subset [of _ "unmeshed e"] by (auto simp del: set_take_subset) blast
  have hi: "unat (rc_mesh_n_low (config e)) \<le> unat (rc_mesh_n (config e))"
    "unat (rc_mesh_n (config e)) \<le> unat (rc_mesh_n_high (config e))"
    using cfg by (simp_all add: config_ok_def word_le_nat_alt)
  have "mesh_inv (heartbeat now e)"
    using inv new hi unfolding mesh_inv_def heartbeat_mesh [OF cfg] heartbeat_fields
    by (auto simp: engine_inv_def mesh_inv_def)
  moreover have "counts_inv (heartbeat now e)"
    by (simp add: heartbeat_def Let_def counts_inv_def sync_peer_stats_def split: prod.splits)
  ultimately show ?thesis
    using inv by (simp add: engine_inv_def manager_inv_evict)
qed

section \<open>The contract of a method\<close>

text \<open>What every method promises to its callers: the invariant holds afterwards, whatever the result,
  the configuration is never changed, and it does not panic.\<close>

locale engine_op =
  fixes run :: "('k, 'd) engine \<Rightarrow> 'r res \<times> ('k, 'd) engine"
  assumes keeps_inv: "engine_inv e \<Longrightarrow> engine_inv (snd (run e))"
    and keeps_config: "config (snd (run e)) = config e"
    and no_panic: "fst (run e) \<noteq> Panic"
begin

text \<open>Sequencing two methods, the second one chosen by the result of the first.\<close>

lemma seq_inv:
  assumes "engine_inv e" and "\<And>x e'. engine_inv e' \<Longrightarrow> run e = (Ok x, e') \<Longrightarrow> engine_inv (snd (f x e'))"
  shows "engine_inv (snd (then_do (run e) f))"
proof (rule then_do_state)
  show "engine_inv (snd (run e))" by (rule keeps_inv [OF assms(1)])
  fix x e'
  assume r: "run e = (Ok x, e')"
  with keeps_inv [OF assms(1)] have "engine_inv e'" by simp
  then show "engine_inv (snd (f x e'))" using r by (rule assms(2))
qed

lemma seq_not_Panic:
  assumes "\<And>x e'. run e = (Ok x, e') \<Longrightarrow> fst (f x e') \<noteq> Panic"
  shows "fst (then_do (run e) f) \<noteq> Panic"
  by (rule then_do_not_Panic [OF no_panic assms])

lemma seq_config:
  assumes "\<And>x e'. config (snd (f x e')) = config e'"
  shows "config (snd (then_do (run e) f)) = config e"
  by (rule then_do_state) (use keeps_config [of e] assms in auto)

end

lemma on_handshakes_simps [simp]:
  "fst (on_handshakes f e) = fst (f (handshakes e))"
  "snd (on_handshakes f e) = e\<lparr>handshakes := snd (f (handshakes e))\<rparr>"
  by (simp_all add: on_handshakes_def split: prod.splits)

text \<open>A step of the handshake manager on one peer is such a method.\<close>

lemma engine_op_handshake:
  assumes "\<And>m. manager_inv m \<Longrightarrow> manager_inv (snd (f m))" and "\<And>m. fst (f m) \<noteq> Panic"
  shows "engine_op (on_handshakes f)"
  by unfold_locales (auto simp: assms intro!: engine_inv_handshakes dest: engine_invD(2))

interpretation eng_probe: engine_op "on_handshakes (process_probe_build_ack cr bc rand a bs i now)"
  for cr bc rand a bs i now
  by (rule engine_op_handshake) (auto simp: ack_op.keeps_inv manager_steps_not_Panic)

interpretation eng_ack: engine_op "on_handshakes (process_ack_build_finish cr bc rng a bs i now)"
  for cr bc rng a bs i now
  by (rule engine_op_handshake) (auto simp: finish_op.keeps_inv manager_steps_not_Panic)

interpretation eng_finish: engine_op "on_handshakes (process_finish_build_finish_ack cr bc a bs i now)"
  for cr bc a bs i now
  by (rule engine_op_handshake) (auto simp: finish_ack_op.keeps_inv manager_steps_not_Panic)

interpretation eng_finish_ack: engine_op "on_handshakes (process_finish_ack cr bc a bs now)"
  for cr bc a bs now
  by (rule engine_op_handshake) (auto simp: complete_op.keeps_inv manager_steps_not_Panic)

interpretation eng_connect: engine_op "connect_peer bc rand a now" for bc rand a now
  by unfold_locales
     (auto simp: connect_peer_def probe_op.keeps_inv manager_steps_not_Panic
       intro!: engine_inv_handshakes dest: engine_invD(2))

text \<open>The sessions the two completing steps return.\<close>

lemma finish_session:
  "process_finish_build_finish_ack cr bc a bs i now m = (Ok (b, s), m') \<Longrightarrow> sr_peer_addr s = a \<and> sr_is_active s"
  by (auto simp: process_finish_Ok)

lemma finish_ack_session:
  "process_finish_ack cr bc a bs now m = (Ok s, m') \<Longrightarrow> sr_peer_addr s = a \<and> sr_is_active s"
  by (auto simp: process_finish_ack_Ok)

lemma on_handshakes_Ok:
  "on_handshakes f e = (Ok x, e') \<longleftrightarrow> (\<exists>m. f (handshakes e) = (Ok x, m) \<and> e' = e\<lparr>handshakes := m\<rparr>)"
  by (auto simp: on_handshakes_def split: prod.splits)

interpretation eng_process: engine_op "process_handshake_bytes cr bc rand rng a bs now" for cr bc rand rng a bs now
proof
  fix e :: "('a, 'e) engine"
  let ?run = "process_handshake_bytes cr bc rand rng a bs now e"
  show "engine_inv (snd ?run)" if "engine_inv e"
    using that unfolding process_handshake_bytes_def
    by (cases "classify_incoming bs")
       (auto intro!: eng_probe.seq_inv eng_ack.seq_inv eng_finish.seq_inv eng_finish_ack.seq_inv
          complete_handshake_inv simp: on_handshakes_Ok dest: finish_session finish_ack_session)
  show "config (snd ?run) = config e"
    unfolding process_handshake_bytes_def
    by (cases "classify_incoming bs")
       (auto simp: eng_probe.seq_config eng_ack.seq_config eng_finish.seq_config eng_finish_ack.seq_config
          split: prod.splits)
  show "fst ?run \<noteq> Panic"
    unfolding process_handshake_bytes_def
    by (cases "classify_incoming bs")
       (simp_all add: eng_probe.seq_not_Panic eng_ack.seq_not_Panic eng_finish.seq_not_Panic
          eng_finish_ack.seq_not_Panic split_def)
qed

interpretation eng_disconnect: engine_op "disconnect_peer a" for a
  by (unfold_locales, rule disconnect_peer_inv, assumption)
     (simp_all add: disconnect_peer_def sessions_remove_def remove_from_mesh_def Let_def split: option.splits)

lemma payload_type_of_not_Panic [simp]: "payload_type_of t \<noteq> Panic"
  by (simp add: payload_type_of_def split: option.splits)

text \<open>Publishing, branch by branch.\<close>

lemma publish_unknown:
  "from_u8 t = None \<Longrightarrow> publish cr t payload now e =
     (Err (InvalidInput (''unknown payload_type_id: '' @ dec (unat t))), e)"
  by (simp add: publish_def payload_type_of_def)

lemma publish_too_large:
  "from_u8 t = Some pt \<Longrightarrow> rc_max_message_bytes (config e) < length payload \<Longrightarrow>
   publish cr t payload now e =
     (Err (InvalidInput (''payload too large: '' @ dec (length payload) @ '' > ''
        @ dec (rc_max_message_bytes (config e)))), e)"
  by (simp add: publish_def payload_type_of_def)

lemma publish_duplicate:
  assumes "from_u8 t = Some pt" and "length payload \<le> rc_max_message_bytes (config e)"
    and "fst (is_duplicate (compute_message_id cr pt payload) now (dedup e))"
  shows "publish cr t payload now e =
    (Err (EnvelopeError ''duplicate message''),
     e\<lparr>dedup := evict_expired now (dedup e),
       stats := (stats e)\<lparr>messages_deduplicated := messages_deduplicated (stats e) + 1\<rparr>\<rparr>)"
  using assms by (simp add: publish_def payload_type_of_def is_duplicate_def Let_def)

lemma publish_fresh:
  assumes "from_u8 t = Some pt" and "length payload \<le> rc_max_message_bytes (config e)"
    and "\<not> fst (is_duplicate (compute_message_id cr pt payload) now (dedup e))"
  shows "publish cr t payload now e =
    (let id = compute_message_id cr pt payload;
         e' = e\<lparr>dedup := dedup_insert id now (evict_expired now (dedup e))\<rparr> in
     case build_envelope cr pt payload (identity e) (rc_default_ttl (config e)) now of
       Ok _ \<Rightarrow> (Ok id, e'\<lparr>stats := (stats e)\<lparr>messages_published := messages_published (stats e) + 1\<rparr>\<rparr>)
     | Err err \<Rightarrow> (Err err, e')
     | Panic \<Rightarrow> (Panic, e'))"
  using assms by (simp add: publish_def payload_type_of_def is_duplicate_def Let_def split: res.splits)

lemma publish_cases:
  obtains (unknown) "from_u8 t = None"
  | (large) pt where "from_u8 t = Some pt" "rc_max_message_bytes (config e) < length payload"
  | (duplicate) pt where "from_u8 t = Some pt" "length payload \<le> rc_max_message_bytes (config e)"
      "fst (is_duplicate (compute_message_id cr pt payload) now (dedup e))"
  | (fresh) pt where "from_u8 t = Some pt" "length payload \<le> rc_max_message_bytes (config e)"
      "\<not> fst (is_duplicate (compute_message_id cr pt payload) now (dedup e))"
  by (metis not_le option.exhaust)

lemmas publish_simps = publish_unknown publish_too_large publish_duplicate publish_fresh

interpretation eng_publish: engine_op "publish cr t payload now" for cr t payload now
proof
  fix e :: "('a, 'e) engine"
  let ?run = "publish cr t payload now e"
  show "engine_inv (snd ?run)" if "engine_inv e"
    using that engine_invD(4) [OF that]
    by (cases rule: publish_cases [where t = t and e = e and payload = payload and cr = cr and now = now])
       (auto simp: publish_simps Let_def intro!: engine_inv_stats engine_inv_dedup split: res.splits)
  show "config (snd ?run) = config e"
    by (cases rule: publish_cases [where t = t and e = e and payload = payload and cr = cr and now = now])
       (auto simp: publish_simps Let_def split: res.splits)
  show "fst ?run \<noteq> Panic"
    by (cases rule: publish_cases [where t = t and e = e and payload = payload and cr = cr and now = now])
       (auto simp: publish_simps Let_def split: res.splits)
qed

lemma engine_inv_drop [wf_rules]: "engine_inv e \<Longrightarrow> engine_inv (drop_message e)"
  by (simp add: drop_message_def engine_inv_stats)

lemma engine_inv_receive [wf_rules]: "engine_inv e \<Longrightarrow> engine_inv (receive_message e)"
  by (simp add: receive_message_def engine_inv_stats)

lemma decode_envelope_not_Panic [simp]: "decode_envelope bc b \<noteq> Panic"
  by (simp add: decode_envelope_def)

text \<open>A decoded envelope is either received or dropped, never both and never neither.\<close>

lemma verify_envelope_bytes_cases:
  "verify_envelope_bytes cr bc b now e =
     (case de_envelope bc b of
        Inl m \<Rightarrow> (Err (SerializationError (''bincode decode failed: '' @ m)), e)
      | Inr env \<Rightarrow>
          if verify_envelope cr env (config e) now = Ok True then (Ok True, receive_message e)
          else (verify_envelope cr env (config e) now, drop_message e))"
proof (cases "de_envelope bc b")
  case (Inr env)
  then show ?thesis
    using verify_envelope_cases [of cr env "config e" now]
    by (auto simp: verify_envelope_bytes_def decode_envelope_def)
qed (simp add: verify_envelope_bytes_def decode_envelope_def)

interpretation eng_verify: engine_op "verify_envelope_bytes cr bc b now" for cr bc b now
  by unfold_locales
     (auto simp: verify_envelope_bytes_cases drop_message_def receive_message_def
       intro!: engine_inv_stats split: sum.splits)

lemma rotate_keys_cases:
  "rotate_keys cr r r' epoch e =
     (case identity_generate cr r r' epoch of
        Ok i \<Rightarrow> (Ok (ni_node_id i), e\<lparr>identity := i\<rparr>) | Err x \<Rightarrow> (Err x, e) | Panic \<Rightarrow> (Panic, e))"
  by (simp add: rotate_keys_def split: res.splits)

interpretation eng_rotate: engine_op "rotate_keys cr r r' epoch" for cr r r' epoch
  by unfold_locales
     (simp_all add: rotate_keys_cases engine_inv_identity split: res.splits)

interpretation eng_heartbeat: engine_op "\<lambda>e. (Ok (), heartbeat now e)" for now
  by unfold_locales (auto simp: heartbeat_inv)

end
