(* ===== verification/Api_Facts.thy ===== *)
theory Api_Facts
  imports Api Engine_Facts
begin

text \<open>
  The component as a state machine: its calls as data, the step relation, the invariant of the
  global state (the engine's identity is always the current one of the stored lineage), and that no
  call panics in a reachable state.
\<close>

section \<open>The invariant of the global state\<close>

text \<open>The engine signs and decapsulates with the keys the lineage names, under the lineage's id.\<close>

definition agrees :: "('k, 'p, 'c, 's, 'd) crypto \<Rightarrow> ('k, 'd) engine \<Rightarrow> key_lineage \<Rightarrow> bool" where
  "agrees cr e l \<longleftrightarrow>
     kl_node_id l = ni_node_id (identity e) \<and>
     current_sig_public_key l = sig_public_key_bytes cr (identity e) \<and>
     kem_public_key_canonical_bytes cr (identity e) = Ok (current_kem_public_key l)"

definition globals_inv :: "('k, 'p, 'c, 's, 'd) crypto \<Rightarrow> ('k, 'd) globals \<Rightarrow> bool" where
  "globals_inv cr g \<longleftrightarrow>
     (case gossip_state g of
        None \<Rightarrow> lineage g = None
      | Some e \<Rightarrow> engine_inv e \<and> (\<exists>l. lineage g = Some l \<and> lineage_inv cr l \<and> agrees cr e l))"

lemma globals_inv_init [simp]: "globals_inv cr globals_init"
  by (simp add: globals_inv_def globals_init_def)

lemma globals_inv_Some:
  "globals_inv cr g \<Longrightarrow> gossip_state g = Some e \<Longrightarrow>
   engine_inv e \<and> (\<exists>l. lineage g = Some l \<and> lineage_inv cr l \<and> agrees cr e l)"
  by (simp add: globals_inv_def)

section \<open>The contract of a call\<close>

text \<open>A good outcome: no panic, and the invariant holds.\<close>

definition good :: "('k, 'p, 'c, 's, 'd) crypto \<Rightarrow> 'r res \<times> ('k, 'd) globals \<Rightarrow> bool" where
  "good cr p \<longleftrightarrow> globals_inv cr (snd p) \<and> fst p \<noteq> Panic"

lemma good_Ok [simp]: "good cr (Ok x, g) \<longleftrightarrow> globals_inv cr g"
  by (simp add: good_def)

lemma good_Err [simp]: "good cr (Err x, g) \<longleftrightarrow> globals_inv cr g"
  by (simp add: good_def)

text \<open>A fallible computation that does not touch the state, in front of a call.\<close>

lemma good_pure:
  assumes "globals_inv cr g" and "r \<noteq> Panic" and "\<And>x. r = Ok x \<Longrightarrow> good cr (f x g)"
  shows "good cr (then_do (r, g) f)"
  using assms by (cases r) auto

locale api_op =
  fixes cr :: "('k, 'p, 'c, 's, 'd) crypto" and run :: "('k, 'd) globals \<Rightarrow> 'r res \<times> ('k, 'd) globals"
  assumes runs_good: "globals_inv cr g \<Longrightarrow> good cr (run g)"

text \<open>
  A method of the engine that leaves the identity alone gives a call that keeps the global
  invariant.
\<close>

locale engine_keeper = engine_op run for run :: "('k, 'd) engine \<Rightarrow> 'r res \<times> ('k, 'd) engine" +
  assumes keeps_identity: "identity (snd (run e)) = identity e"

sublocale engine_keeper \<subseteq> api: api_op cx "with_engine run" for cx
proof
  fix g
  assume inv: "globals_inv cx g"
  show "good cx (with_engine run g)"
  proof (cases "gossip_state g")
    case None
    with inv show ?thesis by (simp add: with_engine_def with_engine_and_def)
  next
    case (Some e)
    from keeps_inv [of e] keeps_identity [of e] no_panic [of e] globals_inv_Some [OF inv Some] Some
    show ?thesis
      by (cases "run e") (auto simp: good_def with_engine_def with_engine_and_def globals_inv_def agrees_def)
  qed
qed

lemma identity_then_do:
  assumes "identity (snd p) = i" and "\<And>x e. p = (Ok x, e) \<Longrightarrow> identity (snd (f x e)) = i"
  shows "identity (snd (then_do p f)) = i"
  by (rule then_do_state) (use assms in auto)

interpretation kept_publish: engine_keeper "publish cr t payload now" for cr t payload now
proof
  fix e :: "('a, 'e) engine"
  show "identity (snd (publish cr t payload now e)) = identity e"
    by (cases rule: publish_cases [where t = t and e = e and payload = payload and cr = cr and now = now])
       (auto simp: publish_simps Let_def split: res.splits)
qed

interpretation kept_connect: engine_keeper "connect_peer bc rand a now" for bc rand a now
  by unfold_locales (auto simp: connect_peer_def)

interpretation kept_disconnect: engine_keeper "disconnect_peer a" for a
  by unfold_locales (simp add: disconnect_peer_def sessions_remove_def remove_from_mesh_def Let_def split: option.splits)

interpretation kept_verify: engine_keeper "verify_envelope_bytes cr bc b now" for cr bc b now
  by unfold_locales (auto simp: verify_envelope_bytes_cases drop_message_def receive_message_def split: sum.splits)

interpretation kept_process: engine_keeper "process_handshake_bytes cr bc rand rng a bs now" for cr bc rand rng a bs now
  by unfold_locales
     (auto simp: process_handshake_bytes_def on_handshakes_Ok split: message_kind.splits intro!: identity_then_do)

interpretation kept_stats: engine_keeper "\<lambda>e. let e' = heartbeat now e in (get_stats_json js e', e')" for now js
  by unfold_locales (auto simp: Let_def heartbeat_inv get_stats_json_def)

interpretation kept_ack: engine_keeper
  "\<lambda>e. on_handshakes (process_probe_build_ack cr bc rand a bs (identity e) now) e" for cr bc rand a bs now
  by unfold_locales (auto simp: eng_probe.no_panic [simplified] eng_probe.keeps_inv [simplified])

lemma store_finished_inv [wf_rules]:
  assumes "engine_inv e" and "sr_is_active s"
  shows "engine_inv (store_finished s e)"
  using assms
  by (auto simp: store_finished_def Let_def engine_inv_def mesh_inv_def counts_inv_def ses.inv_ins ses.get_ins
      split: if_splits)

interpretation kept_finish: engine_keeper
  "\<lambda>e. then_do (on_handshakes (process_finish_build_finish_ack cr bc a bs (identity e) now) e)
     (\<lambda>(finish_ack_bytes, session) e. (Ok finish_ack_bytes, store_finished session e))" for cr bc a bs now
proof
  fix e
  let ?run = "then_do (on_handshakes (process_finish_build_finish_ack cr bc a bs (identity e) now) e)
     (\<lambda>(finish_ack_bytes, session) e. (Ok finish_ack_bytes, store_finished session e))"
  show "engine_inv (snd ?run)" if "engine_inv e"
    using that by (auto intro!: eng_finish.seq_inv store_finished_inv simp: on_handshakes_Ok dest: finish_session)
  show "config (snd ?run) = config e"
    by (rule eng_finish.seq_config) (auto simp: store_finished_def Let_def)
  show "fst ?run \<noteq> Panic" by (rule eng_finish.seq_not_Panic) auto
  show "identity (snd ?run) = identity e"
    by (rule identity_then_do) (auto simp: on_handshakes_Ok store_finished_def Let_def)
qed

lemma check_envelope_sender_not_Panic [simp]: "check_envelope_sender l env \<noteq> Panic"
  by (simp add: check_envelope_sender_def)

text \<open>What the combined check accepts.\<close>

lemma check_envelope_sender_Ok:
  "check_envelope_sender l env = Ok u \<longleftrightarrow>
     env_sender_node_id env = kl_node_id l \<and> env_sender_public_key env = current_sig_public_key l"
  by (auto simp: check_envelope_sender_def current_sig_public_key_def)

abbreviation checked_verify ::
    "('k, 'p, 'c, 's, 'd) crypto \<Rightarrow> codec \<Rightarrow> bytes \<Rightarrow> u64 \<Rightarrow> key_lineage \<Rightarrow> ('k, 'd) engine \<Rightarrow>
     bool res \<times> ('k, 'd) engine" where
  "checked_verify cr bc b now l e \<equiv>
     then_do (decode_envelope bc b, e) (\<lambda>envelope e.
       case check_envelope_sender l envelope of
         Err err \<Rightarrow> (Err err, drop_message e)
       | Panic \<Rightarrow> (Panic, e)
       | Ok _ \<Rightarrow> verify_envelope_bytes cr bc b now e)"

lemma checked_verify_cases:
  "checked_verify cr bc b now l e =
     (case de_envelope bc b of
        Inl m \<Rightarrow> (Err (SerializationError (''bincode decode failed: '' @ m)), e)
      | Inr env \<Rightarrow>
          (case check_envelope_sender l env of
             Ok _ \<Rightarrow> verify_envelope_bytes cr bc b now e
           | Err err \<Rightarrow> (Err err, drop_message e)
           | Panic \<Rightarrow> (Panic, e)))"
  by (cases "de_envelope bc b") (auto simp: decode_envelope_def split: res.splits)

interpretation kept_checked: engine_keeper "checked_verify cr bc b now l" for cr bc b now l
  by unfold_locales
     (auto simp: checked_verify_cases eng_verify.keeps_inv eng_verify.keeps_config eng_verify.no_panic
       kept_verify.keeps_identity drop_message_def intro!: engine_inv_stats split: sum.splits res.splits)

section \<open>Initialization and key changes\<close>

lemma slice_Ok [simp]: "lo \<le> hi \<Longrightarrow> hi \<le> length b \<Longrightarrow> slice lo hi b = Ok (take (hi - lo) (drop lo b))"
  by (simp add: slice_def)

lemma identity_of_seeds_not_Panic: "length k = 96 \<Longrightarrow> identity_of_seeds cr k s ep \<noteq> Panic"
  by (simp add: identity_of_seeds_def)

lemma identity_of_seeds_self_certified: "identity_of_seeds cr k s ep = Ok i \<Longrightarrow> self_certified cr i"
  by (auto simp: identity_of_seeds_def intro: wf_rules)

lemma identity_from_seed_bytes_not_Panic [simp]: "identity_from_seed_bytes cr k s ep \<noteq> Panic"
  by (simp add: identity_from_seed_bytes_def)

lemma parse_commitment_not_Panic [simp]: "parse_commitment c \<noteq> Panic"
  by (simp add: parse_commitment_def split: option.splits)

lemma config_from_json_not_Panic [simp]: "config_from_json js s \<noteq> Panic"
  by (simp add: config_from_json_def)

lemma install_good:
  assumes "globals_inv cr g" and "config_ok rc" and "lineage_inv cr l" and "agrees cr (engine_new rc i) l"
  shows "good cr (install rc i l g)"
  using assms by (auto simp: install_def with_lineage_def globals_inv_def engine_inv_new)

lemma from_identity_agrees:
  "from_identity cr i = Ok l \<Longrightarrow> agrees cr (engine_new rc i) l"
  using from_identity_Ok by (auto simp: agrees_def engine_new_def)

lemma gossip_init_good:
  assumes inv: "globals_inv cr g"
  shows "good cr (gossip_init cr js kr sr cfg g)"
proof (cases "gossip_state g")
  case None
  have rest: "good cr (then_do (ident, g) (\<lambda>i g. then_do (from_identity cr i, g) (\<lambda>l g. install rc i l g)))"
    if "ident \<noteq> Panic" and "config_ok rc" for ident rc
    using that inv by (intro good_pure install_good) (auto intro: wf_rules from_identity_agrees)
  have ident: "(case (rc_kem_seed rc, rc_sig_seed rc) of
      (Some k, Some s) \<Rightarrow> identity_of_seeds cr k s (rc_key_epoch rc)
    | _ \<Rightarrow> identity_generate cr kr sr (rc_key_epoch rc)) \<noteq> Panic" if "config_ok rc" for rc
    using that by (auto simp: config_ok_def identity_of_seeds_not_Panic split: option.splits)
  from None show ?thesis
    unfolding gossip_init_def
    by (simp only: not_True_eq_False if_False simp_thms)
       (intro good_pure inv rest ident, auto dest: resolve_config_ok)
qed (use inv in \<open>simp add: gossip_init_def\<close>)

lemma gossip_init_with_lineage_good:
  assumes inv: "globals_inv cr g"
  shows "good cr (gossip_init_with_lineage cr bc js cfg lb g)"
proof (cases "gossip_state g")
  case None
  have rest: "good cr (gossip_init_with_lineage cr bc js cfg lb g)"
    if "and_then (config_from_json js cfg) (resolve cr) = Ok rc" for rc
  proof (cases "(rc_kem_seed rc, rc_sig_seed rc)" rule: prod.exhaust)
    case (Pair k s)
    have ok: "config_ok rc" using that by (auto dest: resolve_config_ok)
    show ?thesis
      using None inv ok that Pair lineage_decode_inv [of cr bc lb] unfolding gossip_init_with_lineage_def
      by (cases k; cases s)
         (auto simp: Let_def identity_of_seeds_not_Panic config_ok_def agrees_def engine_new_def
            sig_public_key_bytes_def kem_public_key_canonical_bytes_def
            intro!: good_pure install_good)
  qed
  show ?thesis
  proof (cases "and_then (config_from_json js cfg) (resolve cr)")
    case (Err e)
    with None inv show ?thesis by (simp add: gossip_init_with_lineage_def)
  next
    case Panic
    then show ?thesis by auto
  qed (rule rest)
qed (use inv in \<open>simp add: gossip_init_with_lineage_def\<close>)

lemma gossip_rotate_keys_good:
  assumes inv: "globals_inv cr g" and sizes: "key_size_laws cr"
  shows "good cr (gossip_rotate_keys cr kr sr g)"
proof (cases "gossip_state g")
  case None
  with inv show ?thesis by (simp add: gossip_rotate_keys_def with_engine_and_def)
next
  case (Some e)
  show ?thesis
  proof (cases "identity_generate cr kr sr (rc_key_epoch (config e))")
    case (Ok i)
    then obtain l where l: "from_identity cr i = Ok l"
      using from_identity_succeeds [OF sizes] identity_generate_self_certified by blast
    with Some Ok show ?thesis
      using globals_inv_Some [OF inv Some] from_identity_Ok [OF l] from_identity_inv [OF l]
      by (auto simp: gossip_rotate_keys_def with_engine_and_def rotate_keys_cases globals_inv_def agrees_def
          engine_inv_identity)
  next
    case (Err x)
    with Some inv show ?thesis
      by (auto simp: gossip_rotate_keys_def with_engine_and_def rotate_keys_cases globals_inv_def)
  qed simp
qed

text \<open>A rotation under the id, as the engine performs it.\<close>

lemma rotate_keys_under_id_Ok:
  assumes "rotate_keys_under_id cr next c now (e, l) = (Ok r, e', l')"
  shows "build_and_apply cr (Some (identity e)) next c now l = Ok (r, l')"
    and "e' = e\<lparr>identity := next\<lparr>ni_node_id := kl_node_id l'\<rparr>\<rparr>"
    and "sig_public_key_bytes cr (identity e) = current_sig_public_key l"
  using assms
  by (auto simp: rotate_keys_under_id_def lineage_rotate_def current_sig_public_key_def
      split: if_splits prod.splits res.splits)

lemma rotate_keys_under_id_fails:
  assumes "fst (rotate_keys_under_id cr next c now (e, l)) = Err x"
  shows "snd (rotate_keys_under_id cr next c now (e, l)) = (e, l)"
  using assms
  by (cases "lineage_rotate cr (identity e) next c now l") (auto simp: rotate_keys_under_id_def split: if_splits)

lemma rotate_keys_under_id_not_Panic:
  "lineage_inv cr l \<Longrightarrow> fst (rotate_keys_under_id cr next c now (e, l)) \<noteq> Panic"
  using build_and_apply_not_Panic [of cr l "Some (identity e)" "next" c now]
  by (cases "lineage_rotate cr (identity e) next c now l")
     (auto simp: rotate_keys_under_id_def lineage_rotate_def)

lemma rotate_keys_under_id_agrees:
  assumes "rotate_keys_under_id cr next c now (e, l) = (Ok r, e', l')" and "lineage_inv cr l"
  shows "lineage_inv cr l' \<and> agrees cr e' l' \<and> kl_node_id l' = kl_node_id l"
proof -
  note b = rotate_keys_under_id_Ok [OF assms(1)]
  from build_and_apply_effect [OF b(1)] build_and_apply_inv [OF b(1) assms(2)] show ?thesis
    by (simp add: b(2) agrees_def sig_public_key_bytes_def kem_public_key_canonical_bytes_def)
qed

lemma lineage_encode_total: "lineage_ser_total bc \<Longrightarrow> \<exists>b. lineage_encode bc l = Ok b"
  by (simp add: lineage_ser_total_def lineage_encode_def)

lemma rotate_under_id_closure_good:
  assumes inv: "globals_inv cr g" and ser: "lineage_ser_total bc"
  shows "good cr (with_engine_and (\<lambda>(e, l).
       case l of
         None \<Rightarrow> (Err NotInitialized, e, l)
       | Some lin \<Rightarrow>
           (case rotate_keys_under_id cr next commitment now (e, lin) of
              (Ok _, e', updated) \<Rightarrow>
                (case lineage_encode bc updated of
                   Ok bytes \<Rightarrow> (Ok bytes, e', Some updated)
                 | Err err \<Rightarrow> (Err err, e', Some lin)
                 | Panic \<Rightarrow> (Panic, e', Some lin))
            | (Err err, e', _) \<Rightarrow> (Err err, e', Some lin)
            | (Panic, e', _) \<Rightarrow> (Panic, e', Some lin))) g)"
proof (cases "gossip_state g")
  case None
  with inv show ?thesis by (simp add: with_engine_and_def)
next
  case (Some e)
  then obtain l where e: "engine_inv e" and l: "lineage g = Some l" "lineage_inv cr l" "agrees cr e l"
    using globals_inv_Some [OF inv] by blast
  obtain r e' l' where run: "rotate_keys_under_id cr next commitment now (e, l) = (r, e', l')"
    by (metis prod.exhaust)
  show ?thesis
  proof (cases r)
    case (Ok x)
    with run have run: "rotate_keys_under_id cr next commitment now (e, l) = (Ok x, e', l')" by simp
    obtain b where "lineage_encode bc l' = Ok b" using lineage_encode_total [OF ser] by blast
    with run Some l(1) rotate_keys_under_id_agrees [OF run l(2)] rotate_keys_under_id_Ok(2) [OF run] e show ?thesis
      by (auto simp: with_engine_and_def globals_inv_def engine_inv_identity)
  next
    case (Err x)
    with run rotate_keys_under_id_fails [of cr "next" commitment now e l x] Some l inv show ?thesis
      by (auto simp: with_engine_and_def globals_inv_def)
  next
    case Panic
    with run rotate_keys_under_id_not_Panic [OF l(2), of "next" commitment now e] show ?thesis by simp
  qed
qed

lemma gossip_rotate_keys_under_id_good:
  assumes "globals_inv cr g" and "lineage_ser_total bc"
  shows "good cr (gossip_rotate_keys_under_id cr bc clock ks ss ep c g)"
  using assms unfolding gossip_rotate_keys_under_id_def
  by (intro good_pure rotate_under_id_closure_good) auto

lemma gossip_get_key_lineage_good:
  "globals_inv cr g \<Longrightarrow> good cr (gossip_get_key_lineage bc g)"
  by (auto simp: gossip_get_key_lineage_def with_lineage_def good_def split: option.splits)

lemma gossip_verify_envelope_from_lineage_good:
  assumes "globals_inv cr g"
  shows "good cr (gossip_verify_envelope_from_lineage cr bc clock eb lb g)"
  using assms unfolding gossip_verify_envelope_from_lineage_def
  by (intro good_pure kept_checked.api.runs_good) auto

end
