(* ===== verification/Component.thy ===== *)
theory Component
  imports Api_Facts
begin

text \<open>
  \<^verbatim>\<open>witan/src/component.rs\<close>: the exported interface of the WASM component. A call is a value of
  \<open>export_call\<close>, with the clock reading and the random bytes it will see; \<open>component_call\<close> delegates
  it and maps the error. A random source that fails inside \<open>OsRng\<close> and an allocation that fails end
  the instance and are not modelled. The component is then a state machine: a call, or a change of the
  unspecified iteration order of its hash maps, is a step.
\<close>

section \<open>Error mapping\<close>

datatype wit_error =
    WitNotInitialized
  | WitAlreadyInitialized
  | WitConfigError string
  | WitIdentityError string
  | WitHandshakeError string
  | WitSessionNotFound string
  | WitEnvelopeError string
  | WitSignatureInvalid
  | WitReplayDetected
  | WitTtlExpired
  | WitPeerNotFound string
  | WitQuorumNotReached
  | WitSerializationError string
  | WitCryptoError string
  | WitInvalidInput string

fun wit_error_from :: "gossip_error \<Rightarrow> wit_error" where
  "wit_error_from NotInitialized = WitNotInitialized"
| "wit_error_from AlreadyInitialized = WitAlreadyInitialized"
| "wit_error_from (ConfigError s) = WitConfigError s"
| "wit_error_from (IdentityError s) = WitIdentityError s"
| "wit_error_from (HandshakeError s) = WitHandshakeError s"
| "wit_error_from (SessionNotFound s) = WitSessionNotFound s"
| "wit_error_from (EnvelopeError s) = WitEnvelopeError s"
| "wit_error_from SignatureInvalid = WitSignatureInvalid"
| "wit_error_from ReplayDetected = WitReplayDetected"
| "wit_error_from TtlExpired = WitTtlExpired"
| "wit_error_from (PeerNotFound s) = WitPeerNotFound s"
| "wit_error_from QuorumNotReached = WitQuorumNotReached"
| "wit_error_from (SerializationError s) = WitSerializationError s"
| "wit_error_from (CryptoError s) = WitCryptoError s"
| "wit_error_from (InvalidInput s) = WitInvalidInput s"

text \<open>No two errors are confused at the boundary.\<close>

lemma wit_error_from_inj: "wit_error_from e = wit_error_from e' \<Longrightarrow> e = e'"
  by (cases e; cases e') simp_all

section \<open>Exports\<close>

text \<open>The values the exports return, and what a host observes of a call: a value, an error of the
  interface, or a trap.\<close>

datatype wit_value = VUnit | VBytes bytes | VText string | VBool bool | VReply "bytes option" | VTime u64

datatype outcome = Returned wit_value | Failed wit_error | Trapped

fun outcome_of :: "('a \<Rightarrow> wit_value) \<Rightarrow> 'a res \<Rightarrow> outcome" where
  "outcome_of f (Ok x) = Returned (f x)"
| "outcome_of f (Err e) = Failed (wit_error_from e)"
| "outcome_of f Panic = Trapped"

definition deliver :: "('a \<Rightarrow> wit_value) \<Rightarrow> 'a res \<times> 's \<Rightarrow> outcome \<times> 's" where
  "deliver f p = (outcome_of f (fst p), snd p)"

datatype export_call =
    GossipInit bytes bytes string
  | GossipPublish "nat option" u8 bytes
  | GossipConnectPeer "nat option" "string + bytes" string
  | GossipDisconnectPeer string
  | GossipGetPeers
  | GossipGetSession string
  | GossipGetNodeIdentity
  | GossipRotateKeys bytes bytes
  | GossipVerifyEnvelope "nat option" bytes
  | GossipEncodeEnvelope "nat option" u8 bytes
  | GossipDecodeEnvelope bytes
  | GossipGetStats "nat option"
  | GossipProcessHandshakeBytes "nat option" "string + bytes" bytes string bytes
  | GossipBuildHandshakeAck "nat option" "string + bytes" string bytes
  | GossipBuildFinishAck "nat option" string bytes
  | GossipNowMs "nat option"
  | GossipVerifySignature bytes bytes bytes bytes
  | GossipGetVersion
  | GossipInitWithLineage string bytes
  | GossipRotateKeysUnderId "nat option" bytes bytes string "bytes option"
  | GossipRecoverLineage "nat option" bytes bytes bytes string "bytes option"
  | GossipGetKeyLineage
  | GossipVerifyKeyLineage bytes
  | GossipVerifyEnvelopeFromLineage "nat option" bytes bytes
  | GossipKeyCommitment bytes

fun component_call ::
    "('k, 'p, 'c, 's, 'd) crypto \<Rightarrow> codec \<Rightarrow> json \<Rightarrow> export_call \<Rightarrow> ('k, 'd) globals \<Rightarrow>
     outcome \<times> ('k, 'd) globals" where
  "component_call cr bc js (GossipInit kr sr cfg) g = deliver (\<lambda>_. VUnit) (gossip_init cr js kr sr cfg g)"
| "component_call cr bc js (GossipPublish clock t payload) g = deliver VBytes (gossip_publish cr clock t payload g)"
| "component_call cr bc js (GossipConnectPeer clock rand a) g = deliver VBytes (gossip_connect_peer bc clock rand a g)"
| "component_call cr bc js (GossipDisconnectPeer a) g = deliver (\<lambda>_. VUnit) (gossip_disconnect_peer a g)"
| "component_call cr bc js GossipGetPeers g = deliver VText (gossip_get_peers js g)"
| "component_call cr bc js (GossipGetSession a) g = deliver VText (gossip_get_session js a g)"
| "component_call cr bc js GossipGetNodeIdentity g = deliver VText (gossip_get_node_identity cr js g)"
| "component_call cr bc js (GossipRotateKeys kr sr) g = deliver VText (gossip_rotate_keys cr kr sr g)"
| "component_call cr bc js (GossipVerifyEnvelope clock b) g = deliver VBool (gossip_verify_envelope cr bc clock b g)"
| "component_call cr bc js (GossipEncodeEnvelope clock t payload) g =
     deliver VBytes (gossip_encode_envelope cr bc clock t payload g)"
| "component_call cr bc js (GossipDecodeEnvelope b) g = deliver VText (gossip_decode_envelope bc js b g)"
| "component_call cr bc js (GossipGetStats clock) g = deliver VText (gossip_get_stats js clock g)"
| "component_call cr bc js (GossipProcessHandshakeBytes clock rand rng a b) g =
     deliver VReply (gossip_process_handshake_bytes cr bc clock rand rng a b g)"
| "component_call cr bc js (GossipBuildHandshakeAck clock rand a b) g =
     deliver VBytes (gossip_build_handshake_ack cr bc clock rand a b g)"
| "component_call cr bc js (GossipBuildFinishAck clock a b) g =
     deliver VBytes (gossip_build_finish_ack cr bc clock a b g)"
| "component_call cr bc js (GossipNowMs clock) g = (Returned (VTime (gossip_now_ms clock)), g)"
| "component_call cr bc js (GossipVerifySignature pk m s ctx) g =
     deliver VBool (gossip_verify_signature cr pk m s ctx, g)"
| "component_call cr bc js GossipGetVersion g = (Returned (VText gossip_get_version), g)"
| "component_call cr bc js (GossipInitWithLineage cfg lb) g =
     deliver (\<lambda>_. VUnit) (gossip_init_with_lineage cr bc js cfg lb g)"
| "component_call cr bc js (GossipRotateKeysUnderId clock ks ss ep c) g =
     deliver VBytes (gossip_rotate_keys_under_id cr bc clock ks ss ep c g)"
| "component_call cr bc js (GossipRecoverLineage clock lb ks ss ep c) g =
     deliver VBytes (gossip_recover_lineage cr bc clock lb ks ss ep c, g)"
| "component_call cr bc js GossipGetKeyLineage g = deliver VBytes (gossip_get_key_lineage bc g)"
| "component_call cr bc js (GossipVerifyKeyLineage lb) g =
     deliver VText (gossip_verify_key_lineage cr bc js lb, g)"
| "component_call cr bc js (GossipVerifyEnvelopeFromLineage clock eb lb) g =
     deliver VBool (gossip_verify_envelope_from_lineage cr bc clock eb lb g)"
| "component_call cr bc js (GossipKeyCommitment ss) g = deliver VBytes (gossip_key_commitment cr ss, g)"

section \<open>The component as a state machine\<close>

text \<open>The same hash maps, visited in another order.\<close>

definition reordered :: "('k, 'd) engine \<Rightarrow> ('k, 'd) engine \<Rightarrow> bool" where
  "reordered e e' \<longleftrightarrow>
     (\<exists>ses pen comp ded quo.
        mset ses = mset (sessions e) \<and> mset pen = mset (pending (handshakes e)) \<and>
        mset comp = mset (completed (handshakes e)) \<and> mset ded = mset (dc_entries (dedup e)) \<and>
        mset quo = mset (qt_acks (quorum e)) \<and>
        e' = e\<lparr>sessions := ses, handshakes := \<lparr>pending = pen, completed = comp\<rparr>,
               dedup := (dedup e)\<lparr>dc_entries := ded\<rparr>, quorum := (quorum e)\<lparr>qt_acks := quo\<rparr>\<rparr>)"

inductive component_step ::
    "('k, 'p, 'c, 's, 'd) crypto \<Rightarrow> codec \<Rightarrow> json \<Rightarrow> ('k, 'd) globals \<Rightarrow> ('k, 'd) globals \<Rightarrow> bool"
  for cr bc js where
  Call: "component_call cr bc js c g = (r, g') \<Longrightarrow> component_step cr bc js g g'"
| Reorder: "gossip_state g = Some e \<Longrightarrow> reordered e e' \<Longrightarrow>
    component_step cr bc js g (g\<lparr>gossip_state := Some e'\<rparr>)"

inductive reachable :: "('k, 'p, 'c, 's, 'd) crypto \<Rightarrow> codec \<Rightarrow> json \<Rightarrow> ('k, 'd) globals \<Rightarrow> bool"
  for cr bc js where
  Start: "reachable cr bc js globals_init"
| Step: "reachable cr bc js g \<Longrightarrow> component_step cr bc js g g' \<Longrightarrow> reachable cr bc js g'"

inductive_cases component_stepE: "component_step cr bc js g g'"

section \<open>Reachable states\<close>

text \<open>Any step relation, any predicate that starts true and is kept, holds in every reachable state.\<close>

locale invariant =
  fixes reach :: "'s \<Rightarrow> bool" and step :: "'s \<Rightarrow> 's \<Rightarrow> bool" and start :: 's and I :: "'s \<Rightarrow> bool"
  assumes reach_induct: "\<lbrakk>reach s; P start; \<And>s s'. reach s \<Longrightarrow> P s \<Longrightarrow> step s s' \<Longrightarrow> P s'\<rbrakk> \<Longrightarrow> P s"
    and starts: "I start"
    and kept: "I s \<Longrightarrow> step s s' \<Longrightarrow> I s'"
begin

lemma holds: "reach s \<Longrightarrow> I s"
  by (rule reach_induct [where P = I]) (auto simp: starts kept)

end

lemma reordered_inv:
  assumes "engine_inv e" and "reordered e e'"
  shows "engine_inv e'"
proof -
  obtain ses pen comp ded quo where
    m: "mset ses = mset (sessions e)" "mset pen = mset (pending (handshakes e))"
       "mset comp = mset (completed (handshakes e))" "mset ded = mset (dc_entries (dedup e))"
       "mset quo = mset (qt_acks (quorum e))"
    and e': "e' = e\<lparr>sessions := ses, handshakes := \<lparr>pending = pen, completed = comp\<rparr>,
               dedup := (dedup e)\<lparr>dc_entries := ded\<rparr>, quorum := (quorum e)\<lparr>qt_acks := quo\<rparr>\<rparr>"
    using assms(2) unfolding reordered_def by blast
  note inv = engine_invD [OF assms(1)]
  have hi: "hm_inv (sessions e)" "hm_inv (pending (handshakes e))" "hm_inv (completed (handshakes e))"
    "hm_inv (dc_entries (dedup e))" "hm_inv (qt_acks (quorum e))"
    using inv by (simp_all add: sessions_inv_def manager_inv_def dedup_inv_def quorum_inv_def)
  note p = hm_get_perm [OF hi(1) m(1) [symmetric]] hm_get_perm [OF hi(2) m(2) [symmetric]]
    hm_get_perm [OF hi(3) m(3) [symmetric]] hm_get_perm [OF hi(4) m(4) [symmetric]]
    hm_get_perm [OF hi(5) m(5) [symmetric]]
  have len: "length ses = length (sessions e)" by (rule mset_eq_length) (rule m(1))
  show ?thesis
    using assms(1) len
    by (simp add: e' engine_inv_def sessions_inv_def manager_inv_def dedup_inv_def quorum_inv_def mesh_inv_def
        counts_inv_def sessions_get_def sessions_count_def hm_len_def p)
qed

lemma reordered_identity: "reordered e e' \<Longrightarrow> identity e' = identity e"
  by (auto simp: reordered_def)

text \<open>Queries leave the state as it is.\<close>

lemma query_good:
  assumes "globals_inv cr g" and "\<And>e. q e \<noteq> Panic"
  shows "good cr (with_engine (\<lambda>e. (q e, e)) g)"
  using assms
  by (cases "gossip_state g")
     (auto simp: with_engine_def with_engine_and_def good_def globals_inv_def split: option.splits)

lemma json_queries_not_Panic [simp]:
  "get_peers_json js e \<noteq> Panic" "get_session_json js a e \<noteq> Panic" "get_node_identity_json cr js e \<noteq> Panic"
  "engine_encode_envelope cr bc t p now e \<noteq> Panic" "decode_envelope_to_json bc js b \<noteq> Panic"
  by (auto simp: get_peers_json_def get_session_json_def get_node_identity_json_def public_view_def
      engine_encode_envelope_def encode_envelope_def decode_envelope_to_json_def split: option.splits)

lemma lineage_recover_not_Panic:
  assumes "lineage_inv cr l"
  shows "lineage_recover cr next c now l \<noteq> Panic"
  using build_and_apply_not_Panic [OF assms] by (simp add: lineage_recover_def)

lemma stateless_not_Panic [simp]:
  "gossip_recover_lineage cr bc clock lb ks ss ep c \<noteq> Panic"
  "gossip_verify_key_lineage cr bc js lb \<noteq> Panic"
  "gossip_key_commitment cr ss \<noteq> Panic"
  "gossip_verify_signature cr pk m sg ctx \<noteq> Panic"
  by (auto simp: gossip_recover_lineage_def gossip_verify_key_lineage_def gossip_key_commitment_def
      key_commitment_for_seed_def gossip_verify_signature_def verify_signature_def lineage_recover_not_Panic
      dest!: lineage_decode_inv)

lemma deliver_good:
  "good cr p \<Longrightarrow> deliver f p = (r, g') \<Longrightarrow> r \<noteq> Trapped \<and> globals_inv cr g'"
  by (cases "(f, fst p)" rule: outcome_of.cases) (auto simp: deliver_def good_def)

lemma good_stateless [simp]: "r \<noteq> Panic \<Longrightarrow> good cr (r, g) \<longleftrightarrow> globals_inv cr g"
  by (simp add: good_def)

lemmas call_defs = gossip_publish_def gossip_connect_peer_def gossip_disconnect_peer_def gossip_get_peers_def
  gossip_get_session_def gossip_get_node_identity_def gossip_verify_envelope_def gossip_encode_envelope_def
  gossip_decode_envelope_def gossip_get_stats_def gossip_process_handshake_bytes_def
  gossip_build_handshake_ack_def gossip_build_finish_ack_def

lemmas call_good = kept_publish.api.runs_good kept_connect.api.runs_good kept_disconnect.api.runs_good
  kept_verify.api.runs_good kept_process.api.runs_good kept_stats.api.runs_good kept_ack.api.runs_good
  kept_finish.api.runs_good query_good gossip_init_good gossip_init_with_lineage_good
  gossip_rotate_keys_good gossip_rotate_keys_under_id_good gossip_get_key_lineage_good
  gossip_verify_envelope_from_lineage_good

text \<open>No export traps, and every export keeps the invariant.\<close>

lemma component_call_good:
  assumes "globals_inv cr g" and "key_size_laws cr" and "lineage_ser_total bc"
    and "component_call cr bc js c g = (r, g')"
  shows "r \<noteq> Trapped \<and> globals_inv cr g'"
  using assms(1,4)
  by (cases c)
     (auto simp: call_defs intro!: call_good assms(1-3) elim!: deliver_good [rotated])

lemma component_step_inv:
  assumes "globals_inv cr g" and "key_size_laws cr" and "lineage_ser_total bc" and "component_step cr bc js g g'"
  shows "globals_inv cr g'"
  using assms(4)
proof cases
  case (Call c r)
  then show ?thesis using component_call_good [OF assms(1-3)] by blast
next
  case (Reorder e e')
  then show ?thesis
    using globals_inv_Some [OF assms(1) Reorder(2)] reordered_inv reordered_identity
    by (fastforce simp: globals_inv_def agrees_def)
qed

interpretation comp: invariant "reachable cr bc js" "component_step cr bc js" globals_init
  "\<lambda>g. key_size_laws cr \<longrightarrow> lineage_ser_total bc \<longrightarrow> globals_inv cr g" for cr bc js
proof
  fix P s
  assume r: "reachable cr bc js s" and start: "P globals_init"
    and step: "\<And>s s'. reachable cr bc js s \<Longrightarrow> P s \<Longrightarrow> component_step cr bc js s s' \<Longrightarrow> P s'"
  from r show "P s" by (induction rule: reachable.induct) (rule start, rule step)
qed (auto intro: component_step_inv)

end
