(* ===== verification/Network.thy ===== *)
theory Network
  imports Component
begin

text \<open>
  Two components and a host between them: \<open>do_handshake\<close> of \<^verbatim>\<open>wasmtime-test/src/main.rs\<close> drives the
  four messages of a handshake between two nodes through their exported calls. The lemmas show that
  it succeeds and what both nodes hold afterwards, and that a message a node signs is accepted by a
  node that holds its lineage.
\<close>

datatype harness_error = CallFailed gossip_error | UnexpectedNone string | UnexpectedSome string | NodeTrapped

text \<open>The random bytes and clock readings of the five calls of a handshake.\<close>

record handshake_env =
  he_clock1 :: "nat option"
  he_clock2 :: "nat option"
  he_clock3 :: "nat option"
  he_clock4 :: "nat option"
  he_clock5 :: "nat option"
  he_client_nonce :: "string + bytes"
  he_server_nonce :: "string + bytes"
  he_coins :: bytes

text \<open>One call of the host on one of the nodes: an error ends the run (\<open>?\<close>).\<close>

fun hosted :: "'a res \<times> 's \<Rightarrow> ('a \<Rightarrow> 's \<Rightarrow> harness_error option \<times> 'r) \<Rightarrow> ('s \<Rightarrow> 'r) \<Rightarrow> harness_error option \<times> 'r" where
  "hosted (Ok x, s) k fin = k x s"
| "hosted (Err e, s) k fin = (Some (CallFailed e), fin s)"
| "hosted (Panic, s) k fin = (Some NodeTrapped, fin s)"

definition do_handshake ::
    "('k, 'p, 'c, 's, 'd) crypto \<Rightarrow> codec \<Rightarrow> handshake_env \<Rightarrow> string \<Rightarrow> string \<Rightarrow>
     ('k, 'd) globals \<Rightarrow> ('k, 'd) globals \<Rightarrow> harness_error option \<times> ('k, 'd) globals \<times> ('k, 'd) globals" where
  "do_handshake cr bc env client_addr server_addr client server =
     hosted (gossip_connect_peer bc (he_clock1 env) (he_client_nonce env) server_addr client) (\<lambda>probe client.
     hosted (gossip_process_handshake_bytes cr bc (he_clock2 env) (he_server_nonce env) (he_coins env)
              client_addr probe server) (\<lambda>reply server.
     case reply of
       None \<Rightarrow> (Some (UnexpectedNone ''server returned None for probe''), client, server)
     | Some ack \<Rightarrow>
     hosted (gossip_process_handshake_bytes cr bc (he_clock3 env) (he_client_nonce env) (he_coins env)
              server_addr ack client) (\<lambda>reply client.
     case reply of
       None \<Rightarrow> (Some (UnexpectedNone ''client returned None for ack''), client, server)
     | Some finish \<Rightarrow>
     hosted (gossip_process_handshake_bytes cr bc (he_clock4 env) (he_server_nonce env) (he_coins env)
              client_addr finish server) (\<lambda>reply server.
     case reply of
       None \<Rightarrow> (Some (UnexpectedNone ''server returned None for finish''), client, server)
     | Some finish_ack \<Rightarrow>
     hosted (gossip_process_handshake_bytes cr bc (he_clock5 env) (he_client_nonce env) (he_coins env)
              server_addr finish_ack client) (\<lambda>done client.
     if done \<noteq> None
     then (Some (UnexpectedSome ''client returned Some bytes after finish_ack''), client, server)
     else (None, client, server))
       (\<lambda>client. (client, server))) (\<lambda>server. (client, server)))
       (\<lambda>client. (client, server))) (\<lambda>server. (client, server)))
       (\<lambda>client. (client, server))"

section \<open>The handshake between two engines\<close>

lemma process_handshake_kinds:
  "classify_incoming b = KindHandshakeProbe \<Longrightarrow>
     process_probe_build_ack cr bc rand a b (identity e) t (handshakes e) = (Ok x, m) \<Longrightarrow>
     process_handshake_bytes cr bc rand rng a b t e = (Ok (Some x), e\<lparr>handshakes := m\<rparr>)"
  "classify_incoming b = KindHandshakeAck \<Longrightarrow>
     process_ack_build_finish cr bc rng a b (identity e) t (handshakes e) = (Ok x, m) \<Longrightarrow>
     process_handshake_bytes cr bc rand rng a b t e = (Ok (Some x), e\<lparr>handshakes := m\<rparr>)"
  "classify_incoming b = KindHandshakeFinish \<Longrightarrow>
     process_finish_build_finish_ack cr bc a b (identity e) t (handshakes e) = (Ok (x, s), m) \<Longrightarrow>
     process_handshake_bytes cr bc rand rng a b t e = (Ok (Some x), complete_handshake a s (e\<lparr>handshakes := m\<rparr>))"
  "classify_incoming b = KindHandshakeFinishAck \<Longrightarrow>
     process_finish_ack cr bc a b t (handshakes e) = (Ok s, m) \<Longrightarrow>
     process_handshake_bytes cr bc rand rng a b t e = (Ok None, complete_handshake a s (e\<lparr>handshakes := m\<rparr>))"
  by (simp_all add: process_handshake_bytes_def on_handshakes_def)

definition clocks_fresh :: "handshake_env \<Rightarrow> bool" where
  "clocks_fresh env \<longleftrightarrow>
     fresh_timestamp (current_time_unix_ms (he_clock2 env)) (current_time_unix_ms (he_clock1 env)) \<and>
     fresh_timestamp (current_time_unix_ms (he_clock3 env)) (current_time_unix_ms (he_clock2 env)) \<and>
     fresh_timestamp (current_time_unix_ms (he_clock4 env)) (current_time_unix_ms (he_clock3 env)) \<and>
     fresh_timestamp (current_time_unix_ms (he_clock5 env)) (current_time_unix_ms (he_clock4 env))"

text \<open>The engines of both nodes carry the five manager steps: the driver runs them to the end.\<close>

lemma do_handshake_steps:
  assumes env: "he_client_nonce env = Inr cn" "he_server_nonce env = Inr sn"
    and client: "gossip_state client = Some ec" "sessions_get sa (sessions ec) = None"
    and server: "gossip_state server = Some es"
    and kinds: "classify_incoming probe = KindHandshakeProbe" "classify_incoming ack = KindHandshakeAck"
      "classify_incoming fin = KindHandshakeFinish" "classify_incoming fack = KindHandshakeFinishAck"
    and s: "build_probe bc (Inr cn) sa (identity ec) (current_time_unix_ms (he_clock1 env)) (handshakes ec) = (Ok probe, mc1)"
      "process_probe_build_ack cr bc (Inr sn) ca probe (identity es) (current_time_unix_ms (he_clock2 env)) (handshakes es) = (Ok ack, ms1)"
      "process_ack_build_finish cr bc (he_coins env) sa ack (identity ec) (current_time_unix_ms (he_clock3 env)) mc1 = (Ok fin, mc2)"
      "process_finish_build_finish_ack cr bc ca fin (identity es) (current_time_unix_ms (he_clock4 env)) ms1 = (Ok (fack, ss), ms2)"
      "process_finish_ack cr bc sa fack (current_time_unix_ms (he_clock5 env)) mc2 = (Ok sc, mc3)"
  shows "do_handshake cr bc env ca sa client server =
      (None, client\<lparr>gossip_state := Some (complete_handshake sa sc (ec\<lparr>handshakes := mc3\<rparr>))\<rparr>,
       server\<lparr>gossip_state := Some (complete_handshake ca ss (es\<lparr>handshakes := ms2\<rparr>))\<rparr>)"
proof -
  let ?ec = "complete_handshake sa sc (ec\<lparr>handshakes := mc3\<rparr>)"
  let ?es = "complete_handshake ca ss (es\<lparr>handshakes := ms2\<rparr>)"
  have p: "connect_peer bc (Inr cn) sa (current_time_unix_ms (he_clock1 env)) ec = (Ok probe, ec\<lparr>handshakes := mc1\<rparr>)"
    using client(2) s(1) by (simp add: connect_peer_def on_handshakes_def)
  have a: "process_handshake_bytes cr bc (Inr sn) (he_coins env) ca probe (current_time_unix_ms (he_clock2 env)) es =
      (Ok (Some ack), es\<lparr>handshakes := ms1\<rparr>)"
    by (rule process_handshake_kinds(1) [OF kinds(1) s(2)])
  have f: "process_handshake_bytes cr bc (Inr cn) (he_coins env) sa ack (current_time_unix_ms (he_clock3 env)) (ec\<lparr>handshakes := mc1\<rparr>) =
      (Ok (Some fin), ec\<lparr>handshakes := mc2\<rparr>)"
    using process_handshake_kinds(2) [OF kinds(2), where e = "ec\<lparr>handshakes := mc1\<rparr>"] s(3) by simp
  have fa: "process_handshake_bytes cr bc (Inr sn) (he_coins env) ca fin (current_time_unix_ms (he_clock4 env)) (es\<lparr>handshakes := ms1\<rparr>) =
      (Ok (Some fack), ?es)"
    using process_handshake_kinds(3) [OF kinds(3), where e = "es\<lparr>handshakes := ms1\<rparr>"] s(4) by simp
  have d: "process_handshake_bytes cr bc (Inr cn) (he_coins env) sa fack (current_time_unix_ms (he_clock5 env)) (ec\<lparr>handshakes := mc2\<rparr>) =
      (Ok None, ?ec)"
    using process_handshake_kinds(4) [OF kinds(4), where e = "ec\<lparr>handshakes := mc2\<rparr>"] s(5) by simp
  show ?thesis
    using client(1) server
    by (simp add: do_handshake_def gossip_connect_peer_def gossip_process_handshake_bytes_def env
        with_engine_def with_engine_and_def p a f fa d)
qed

lemma do_handshake_run:
  assumes laws: "bincode_laws bc" "layout_laws bc" "kem_laws cr" "sig_laws cr" "externals_total cr bc" "key_size_laws cr"
    and env: "he_client_nonce env = Inr cn" "he_server_nonce env = Inr sn" "clocks_fresh env"
    and client: "gossip_state client = Some ec" "sessions_get sa (sessions ec) = None"
    and server: "gossip_state server = Some es"
  obtains ec' es' sc ss where
    "do_handshake cr bc env ca sa client server =
      (None, client\<lparr>gossip_state := Some ec'\<rparr>, server\<lparr>gossip_state := Some es'\<rparr>)"
    and "sessions ec' = sessions_insert sc (sessions ec)" and "sessions es' = sessions_insert ss (sessions es)"
    and "config ec' = config ec" and "config es' = config es" and "dedup ec' = dedup ec" and "dedup es' = dedup es"
    and "sr_peer_addr sc = sa" and "sr_peer_addr ss = ca"
    and "sr_session_id sc = sr_session_id ss" and "sr_transcript_hash sc = sr_transcript_hash ss"
    and "sr_peer_sig_public_key sc = sig_public_key_bytes cr (identity es)" and "sr_peer_node_id sc = ni_node_id (identity es)"
    and "sr_peer_sig_public_key ss = sig_public_key_bytes cr (identity ec)" and "sr_peer_node_id ss = ni_node_id (identity ec)"
proof -
  let ?t = "\<lambda>c. current_time_unix_ms (c env)"
  have keys: "length (sig_public_key_bytes cr i) = 1952" for i :: "('a, 'e) node_identity"
    using canonical_bytes_size(2) [OF laws(6), of i] by (simp add: SIG_PK_LEN_def)
  note clk = env(3) [unfolded clocks_fresh_def]
  obtain probe ack fin fack mc1 ms1 mc2 ms2 mc3 sc ss where
    s: "build_probe bc (Inr cn) sa (identity ec) (?t he_clock1) (handshakes ec) = (Ok probe, mc1)"
       "process_probe_build_ack cr bc (Inr sn) ca probe (identity es) (?t he_clock2) (handshakes es) = (Ok ack, ms1)"
       "process_ack_build_finish cr bc (he_coins env) sa ack (identity ec) (?t he_clock3) mc1 = (Ok fin, mc2)"
       "process_finish_build_finish_ack cr bc ca fin (identity es) (?t he_clock4) ms1 = (Ok (fack, ss), ms2)"
       "process_finish_ack cr bc sa fack (?t he_clock5) mc2 = (Ok sc, mc3)"
    and eq: "sr_session_id sc = sr_session_id ss \<and> sr_transcript_hash sc = sr_transcript_hash ss \<and>
       sr_peer_addr sc = sa \<and> sr_peer_addr ss = ca \<and> sr_is_active sc \<and> sr_is_active ss \<and>
       sr_peer_sig_public_key sc = sig_public_key_bytes cr (identity es) \<and> sr_peer_node_id sc = ni_node_id (identity es) \<and>
       sr_peer_sig_public_key ss = sig_public_key_bytes cr (identity ec) \<and> sr_peer_node_id ss = ni_node_id (identity ec)"
    and wire: "\<exists>p. ser_probe bc p = Inr probe \<and> probe_magic p = HANDSHAKE_PROBE_MAGIC"
       "\<exists>k. ser_ack bc k = Inr ack \<and> ack_magic k = HANDSHAKE_ACK_MAGIC"
       "\<exists>f. ser_finish bc f = Inr fin \<and> fin_magic f = HANDSHAKE_FINISH_MAGIC"
       "\<exists>g. ser_finish_ack bc g = Inr fack \<and> fack_magic g = HANDSHAKE_FINISH_ACK_MAGIC"
    using honest_exchange [OF laws(1,3,4,5) keys keys, of "?t he_clock2" "?t he_clock1" "?t he_clock3"
        "?t he_clock4" "?t he_clock5" cn sa "identity ec" "handshakes ec" sn ca "identity es" "handshakes es" "he_coins env"] clk
    by blast
  have kinds: "classify_incoming probe = KindHandshakeProbe" "classify_incoming ack = KindHandshakeAck"
    "classify_incoming fin = KindHandshakeFinish" "classify_incoming fack = KindHandshakeFinishAck"
    using wire laws(2) by (auto simp: layout_laws_def intro: magic_first_classify)
  note run = do_handshake_steps [OF env(1,2) client server kinds s]
  from that [OF run] eq show thesis by simp
qed

lemma do_handshake_succeeds:
  assumes laws: "bincode_laws bc" "layout_laws bc" "kem_laws cr" "sig_laws cr" "externals_total cr bc" "key_size_laws cr"
    and env: "he_client_nonce env = Inr cn" "he_server_nonce env = Inr sn" "clocks_fresh env"
    and client: "gossip_state client = Some ec" "sessions_get sa (sessions ec) = None"
    and server: "gossip_state server = Some es"
  shows "\<exists>ec' es' sc ss. do_handshake cr bc env ca sa client server =
      (None, client\<lparr>gossip_state := Some ec'\<rparr>, server\<lparr>gossip_state := Some es'\<rparr>) \<and>
    sessions_get sa (sessions ec') = Some sc \<and> sessions_get ca (sessions es') = Some ss \<and>
    sr_session_id sc = sr_session_id ss \<and> sr_transcript_hash sc = sr_transcript_hash ss \<and>
    sr_peer_sig_public_key sc = sig_public_key_bytes cr (identity es) \<and> sr_peer_node_id sc = ni_node_id (identity es) \<and>
    sr_peer_sig_public_key ss = sig_public_key_bytes cr (identity ec) \<and> sr_peer_node_id ss = ni_node_id (identity ec)"
proof -
  obtain ec' es' sc ss where r: "do_handshake cr bc env ca sa client server =
      (None, client\<lparr>gossip_state := Some ec'\<rparr>, server\<lparr>gossip_state := Some es'\<rparr>)"
    "sessions ec' = sessions_insert sc (sessions ec)" "sessions es' = sessions_insert ss (sessions es)"
    "sr_peer_addr sc = sa" "sr_peer_addr ss = ca"
    "sr_session_id sc = sr_session_id ss" "sr_transcript_hash sc = sr_transcript_hash ss"
    "sr_peer_sig_public_key sc = sig_public_key_bytes cr (identity es)" "sr_peer_node_id sc = ni_node_id (identity es)"
    "sr_peer_sig_public_key ss = sig_public_key_bytes cr (identity ec)" "sr_peer_node_id ss = ni_node_id (identity ec)"
    by (rule do_handshake_run [OF laws env client server])
  then have "sessions_get sa (sessions ec') = Some sc" "sessions_get ca (sessions es') = Some ss"
    by (simp_all add: ses.get_ins)
  with r show ?thesis by blast
qed

text \<open>Whatever happens, both nodes stay in good order.\<close>

lemma hosted_rule:
  assumes "good cr call" and "\<And>x g. globals_inv cr g \<Longrightarrow> R (k x g)" and "\<And>e g. globals_inv cr g \<Longrightarrow> R (Some e, fin g)"
  shows "R (hosted call k fin)"
proof (cases call)
  case (Pair r g)
  with assms show ?thesis by (cases r) (auto simp: good_def)
qed

definition both_inv :: "('k, 'p, 'c, 's, 'd) crypto \<Rightarrow> 'e \<times> ('k, 'd) globals \<times> ('k, 'd) globals \<Rightarrow> bool" where
  "both_inv cr p \<longleftrightarrow> globals_inv cr (fst (snd p)) \<and> globals_inv cr (snd (snd p))"

lemma both_inv_intros:
  "globals_inv cr c \<Longrightarrow> globals_inv cr s \<Longrightarrow> both_inv cr (r, c, s)"
  "both_inv cr a \<Longrightarrow> (\<And>y. both_inv cr (b y)) \<Longrightarrow> both_inv cr (case x of None \<Rightarrow> a | Some y \<Rightarrow> b y)"
  "both_inv cr a \<Longrightarrow> both_inv cr a' \<Longrightarrow> both_inv cr (if p then a else a')"
  by (auto simp: both_inv_def split: option.split)

lemma do_handshake_inv:
  assumes "globals_inv cr client" and "globals_inv cr server" and "do_handshake cr bc env ca sa client server = (r, c, s)"
  shows "globals_inv cr c \<and> globals_inv cr s"
proof -
  have "both_inv cr (do_handshake cr bc env ca sa client server)"
    unfolding do_handshake_def call_defs
    by (intro hosted_rule [where R = "both_inv cr" and cr = cr] both_inv_intros call_good; (assumption | rule assms))
  then show ?thesis using assms(3) by (simp add: both_inv_def)
qed

section \<open>Envelopes and lineages\<close>

text \<open>What an encoded envelope of a node contains.\<close>

lemma gossip_encode_envelope_Ok:
  assumes "gossip_encode_envelope cr bc clock t payload g = (Ok b, g')" and "gossip_state g = Some e"
  obtains pt env where "from_u8 t = Some pt"
    and "build_envelope cr pt payload (identity e) (rc_default_ttl (config e)) (current_time_unix_ms clock) = Ok env"
    and "ser_envelope bc env = Inr b" and "g' = g"
  using assms
  by (auto simp: gossip_encode_envelope_def with_engine_def with_engine_and_def engine_encode_envelope_def
      payload_type_of_def encode_envelope_def split: option.splits)

lemma gossip_get_key_lineage_Ok:
  "gossip_get_key_lineage bc g = (Ok b, g') \<longleftrightarrow> (\<exists>l. lineage g = Some l \<and> lineage_encode bc l = Ok b \<and> g' = g)"
  by (auto simp: gossip_get_key_lineage_def with_lineage_def split: option.splits)

text \<open>Checking an envelope against a lineage that decodes, in an initialized node.\<close>

lemma verify_from_lineage_eq:
  assumes "lineage_decode cr bc lb = Ok l" and "gossip_state g = Some e" and "de_envelope bc eb = Inr env"
  shows "gossip_verify_envelope_from_lineage cr bc clock eb lb g =
    (case check_envelope_sender l env of
       Ok _ \<Rightarrow>
         if verify_envelope cr env (config e) (current_time_unix_ms clock) = Ok True
         then (Ok True, g\<lparr>gossip_state := Some (receive_message e)\<rparr>)
         else (verify_envelope cr env (config e) (current_time_unix_ms clock), g\<lparr>gossip_state := Some (drop_message e)\<rparr>)
     | Err err \<Rightarrow> (Err err, g\<lparr>gossip_state := Some (drop_message e)\<rparr>)
     | Panic \<Rightarrow> (Panic, g))"
  using assms
  by (auto simp: gossip_verify_envelope_from_lineage_def with_engine_def with_engine_and_def decode_envelope_def
      verify_envelope_bytes_cases split: res.splits)

lemma own_envelope_accepted:
  assumes laws: "bincode_laws bc" "lineage_codec_laws bc" "sig_laws cr"
    and a: "globals_inv cr a" "gossip_state a = Some ea"
    and enc: "gossip_encode_envelope cr bc clock t payload a = (Ok eb, a')"
    and lin: "gossip_get_key_lineage bc a = (Ok lb, a'')" "length lb \<le> MAX_LINEAGE_BYTES"
    and b: "gossip_state b = Some e" "length payload \<le> rc_max_message_bytes (config e)"
    and ttl: "rc_default_ttl (config ea) \<noteq> 0"
    and clk: "unat (current_time_unix_ms clock') \<le>
      unat (current_time_unix_ms clock) + unat (rc_replay_window_ms (config e))"
  shows "gossip_verify_envelope_from_lineage cr bc clock' eb lb b =
    (Ok True, b\<lparr>gossip_state := Some (receive_message e)\<rparr>)"
proof -
  obtain pt env where env: "build_envelope cr pt payload (identity ea) (rc_default_ttl (config ea))
      (current_time_unix_ms clock) = Ok env" and ser: "ser_envelope bc env = Inr eb"
    using gossip_encode_envelope_Ok [OF enc a(2)] by metis
  obtain l where l: "lineage a = Some l" "lineage_encode bc l = Ok lb"
    using lin(1) by (auto simp: gossip_get_key_lineage_Ok)
  then have "lineage_inv cr l" and ag: "agrees cr ea l" using globals_inv_Some [OF a] by auto
  from lineage_decode_encode [OF laws(2) this(1) l(2) lin(2)] have dec: "lineage_decode cr bc lb = Ok l" .
  have "check_envelope_sender l env = Ok ()"
    using env ag by (auto simp: build_envelope_Ok check_envelope_sender_Ok agrees_def)
  moreover have "verify_envelope cr env (config e) (current_time_unix_ms clock') = Ok True"
    by (rule build_then_verify [OF laws(3) env ttl b(2) clk])
  ultimately show ?thesis
    by (simp add: verify_from_lineage_eq [OF dec b(1) bincode_lawsD(1) [OF laws(1) ser]])
qed

text \<open>An envelope signed with any other key than the lineage's current one is refused and counted.\<close>

lemma stale_key_refused:
  assumes "lineage_decode cr bc lb = Ok l" and "gossip_state g = Some e" and "de_envelope bc eb = Inr env"
    and "env_sender_public_key env \<noteq> current_sig_public_key l"
  shows "\<exists>err. gossip_verify_envelope_from_lineage cr bc clock eb lb g =
    (Err (IdentityError err), g\<lparr>gossip_state := Some (drop_message e)\<rparr>)"
  using assms(4) by (auto simp: verify_from_lineage_eq [OF assms(1-3)] check_envelope_sender_def
      current_sig_public_key_def check_def)

section \<open>Rotation and restart through the exports\<close>

text \<open>A rotation under the id goes through when the new key is the committed one, or none is committed.\<close>

lemma rotate_under_id_succeeds:
  assumes inv: "globals_inv cr g" and g: "gossip_state g = Some e" "lineage g = Some l"
    and laws: "sig_laws cr" "key_size_laws cr" "lineage_ser_total bc"
    and total: "\<And>kp m. \<exists>s. sig_sign_deterministic cr kp m = Inr s"
    and seeds: "identity_from_seed_bytes cr ks ss ep = Ok nx" "parse_commitment c = Ok c'"
    and who: "next_key_commitment l = None \<or> next_key_commitment l = Some (key_commitment cr (sig_public_key_bytes cr nx))"
  obtains b l' where
    "gossip_rotate_keys_under_id cr bc clock ks ss ep c g =
       (Ok b, g\<lparr>gossip_state := Some (e\<lparr>identity := nx\<lparr>ni_node_id := kl_node_id l\<rparr>\<rparr>), lineage := Some l'\<rparr>)"
    and "lineage_encode bc l' = Ok b" and "kl_node_id l' = kl_node_id l"
    and "current_sig_public_key l' = sig_public_key_bytes cr nx" and "next_key_commitment l' = c'"
    and "lineage_sequence l' = lineage_sequence l + 1"
proof -
  have ag: "agrees cr e l" using globals_inv_Some [OF inv g(1)] g(2) by auto
  obtain kem where kem: "kem_public_key_canonical_bytes cr nx = Ok kem" "length kem = KEM_PK_LEN"
    using canonical_bytes_size(1) [OF laws(2)] by blast
  have "case ks_next_key_commitment (kl_current l) of
      Some d \<Rightarrow> key_commitment cr (sig_public_key_bytes cr nx) = d
    | None \<Rightarrow> (\<exists>i. Some (identity e) = Some i \<and> sig_public_key_bytes cr i = ks_sig_public_key (kl_current l))"
    using who ag by (auto simp: next_key_commitment_def agrees_def current_sig_public_key_def)
  from build_and_apply_succeeds [OF laws(1) total kem canonical_bytes_size(2) [OF laws(2)] this]
  obtain r l' where ba: "build_and_apply cr (Some (identity e)) nx c' (current_time_unix_ms clock) l = Ok (r, l')"
    by blast
  note eff = build_and_apply_effect [OF ba]
  have rot: "rotate_keys_under_id cr nx c' (current_time_unix_ms clock) (e, l) =
      (Ok r, e\<lparr>identity := nx\<lparr>ni_node_id := kl_node_id l\<rparr>\<rparr>, l')"
    using ag eff by (simp add: rotate_keys_under_id_def lineage_rotate_def agrees_def current_sig_public_key_def ba)
  obtain b where b: "lineage_encode bc l' = Ok b" using lineage_encode_total [OF laws(3)] by blast
  have "gossip_rotate_keys_under_id cr bc clock ks ss ep c g =
      (Ok b, g\<lparr>gossip_state := Some (e\<lparr>identity := nx\<lparr>ni_node_id := kl_node_id l\<rparr>\<rparr>), lineage := Some l'\<rparr>)"
    by (simp add: gossip_rotate_keys_under_id_def seeds with_engine_and_def g rot b)
  with b eff that show thesis by blast
qed

text \<open>What a successful rotation went through.\<close>

lemma gossip_rotate_under_id_Ok:
  assumes "gossip_rotate_keys_under_id cr bc clock ks ss ep c g = (Ok lb, g')"
  obtains nx c' e l r e' l' where "identity_from_seed_bytes cr ks ss ep = Ok nx" and "parse_commitment c = Ok c'"
    and "gossip_state g = Some e" and "lineage g = Some l"
    and "rotate_keys_under_id cr nx c' (current_time_unix_ms clock) (e, l) = (Ok r, e', l')"
    and "lineage_encode bc l' = Ok lb" and "g' = g\<lparr>gossip_state := Some e', lineage := Some l'\<rparr>"
proof -
  obtain nx c' where ids: "identity_from_seed_bytes cr ks ss ep = Ok nx" "parse_commitment c = Ok c'"
    using assms by (auto simp: gossip_rotate_keys_under_id_def then_do_Ok)
  obtain e where e: "gossip_state g = Some e"
    using assms by (cases "gossip_state g") (auto simp: gossip_rotate_keys_under_id_def with_engine_and_def ids)
  obtain l where l: "lineage g = Some l"
    using assms by (cases "lineage g") (auto simp: gossip_rotate_keys_under_id_def with_engine_and_def ids e)
  obtain q e' l' where run: "rotate_keys_under_id cr nx c' (current_time_unix_ms clock) (e, l) = (q, e', l')"
    by (cases "rotate_keys_under_id cr nx c' (current_time_unix_ms clock) (e, l)") auto
  note defs = gossip_rotate_keys_under_id_def with_engine_and_def ids e l run
  obtain r where q: "q = Ok r" using assms by (cases q) (auto simp: defs)
  obtain b where b: "lineage_encode bc l' = Ok b" using assms by (cases "lineage_encode bc l'") (auto simp: defs q)
  have "b = lb" "g' = g\<lparr>gossip_state := Some e', lineage := Some l'\<rparr>" using assms by (auto simp: defs q b)
  with ids e l run q b that show thesis by blast
qed

text \<open>A node restarted from its lineage and the seeds of its current keys.\<close>

lemma restart_from_lineage:
  assumes inv: "globals_inv cr g" and g: "gossip_state g = Some e" "lineage g = Some l"
    and laws: "lineage_codec_laws bc"
    and lb: "lineage_encode bc l = Ok lb" "length lb \<le> MAX_LINEAGE_BYTES"
    and cfg: "and_then (config_from_json js cfg) (resolve cr) = Ok rc" "rc_kem_seed rc = Some ks" "rc_sig_seed rc = Some ss"
    and seeds: "identity_of_seeds cr ks ss (rc_key_epoch rc) = Ok i"
      "sig_public_key_bytes cr i = sig_public_key_bytes cr (identity e)"
      "kem_public_key_canonical_bytes cr i = kem_public_key_canonical_bytes cr (identity e)"
  shows "gossip_init_with_lineage cr bc js cfg lb globals_init =
    (Ok (), \<lparr>gossip_state = Some (engine_new rc (i\<lparr>ni_node_id := ni_node_id (identity e)\<rparr>)), lineage = Some l\<rparr>)"
proof -
  have "lineage_inv cr l" and ag: "agrees cr e l" using globals_inv_Some [OF inv g(1)] g(2) by auto
  from lineage_decode_encode [OF laws this(1) lb] have dec: "lineage_decode cr bc lb = Ok l" .
  show ?thesis
    using ag seeds(2,3)
    by (simp add: gossip_init_with_lineage_def globals_init_def cfg seeds(1) dec agrees_def install_def
        with_lineage_def Let_def)
qed

end
