(* ===== verification/Instance.thy ===== *)
theory Instance
  imports Network
begin

text \<open>
  A concrete instance of the parameters that stand for other crates. It shows that the named laws
  can hold together and carries the worked examples of the properties. It is a model of the
  documented input/output behaviour (sizes, round trips, sign-then-verify, encapsulate-then-
  decapsulate), with no claim of secrecy.
\<close>

section \<open>Encoders and decoders\<close>

type_synonym 'a dec = "bytes \<Rightarrow> ('a \<times> bytes) option"

text \<open>A decoder undoes an encoder and returns what follows.\<close>

definition undoes :: "'a dec \<Rightarrow> ('a \<Rightarrow> bytes) \<Rightarrow> bool" where
  "undoes d e \<longleftrightarrow> (\<forall>x r. d (e x @ r) = Some (x, r))"

lemma undoesD: "undoes d e \<Longrightarrow> d (e x @ r) = Some (x, r)"
  by (simp add: undoes_def)

text \<open>Lists, one marker byte in front of each element and a final zero.\<close>

fun enc_list :: "('a \<Rightarrow> bytes) \<Rightarrow> 'a list \<Rightarrow> bytes" where
  "enc_list e [] = [0]"
| "enc_list e (x # xs) = 1 # e x @ enc_list e xs"

fun dec_list :: "nat \<Rightarrow> 'a dec \<Rightarrow> 'a list dec" where
  "dec_list 0 d bs = None"
| "dec_list (Suc n) d [] = None"
| "dec_list (Suc n) d (b # bs) =
     (if b = 0 then Some ([], bs)
      else case d bs of None \<Rightarrow> None
        | Some (x, r) \<Rightarrow> (case dec_list n d r of None \<Rightarrow> None | Some (xs, r') \<Rightarrow> Some (x # xs, r')))"

definition dec_list' :: "'a dec \<Rightarrow> 'a list dec" where
  "dec_list' d bs = dec_list (length bs) d bs"

lemma length_enc_list: "length xs < length (enc_list e xs)"
  by (induction xs) auto

lemma dec_list_enc: "undoes d e \<Longrightarrow> length xs < n \<Longrightarrow> dec_list n d (enc_list e xs @ r) = Some (xs, r)"
proof (induction xs arbitrary: n)
  case Nil
  then show ?case by (cases n) auto
next
  case (Cons x xs)
  then show ?case by (cases n) (auto simp: undoesD)
qed

lemma undoes_list: "undoes d e \<Longrightarrow> undoes (dec_list' d) (enc_list e)"
  unfolding undoes_def [of "dec_list' d"] dec_list'_def
  by (auto intro!: dec_list_enc simp: trans_less_add1 length_enc_list)

text \<open>Pairs, bytes, words, strings, options.\<close>

definition enc_pair :: "('a \<Rightarrow> bytes) \<Rightarrow> ('b \<Rightarrow> bytes) \<Rightarrow> 'a \<times> 'b \<Rightarrow> bytes" where
  "enc_pair e f p = e (fst p) @ f (snd p)"

definition dec_pair :: "'a dec \<Rightarrow> 'b dec \<Rightarrow> ('a \<times> 'b) dec" where
  "dec_pair d f bs = (case d bs of None \<Rightarrow> None
     | Some (x, r) \<Rightarrow> (case f r of None \<Rightarrow> None | Some (y, r') \<Rightarrow> Some ((x, y), r')))"

lemma undoes_pair: "undoes d e \<Longrightarrow> undoes d' e' \<Longrightarrow> undoes (dec_pair d d') (enc_pair e e')"
  by (simp add: undoes_def enc_pair_def dec_pair_def)

definition enc_map :: "('b \<Rightarrow> 'a) \<Rightarrow> ('a \<Rightarrow> bytes) \<Rightarrow> 'b \<Rightarrow> bytes" where
  "enc_map f e x = e (f x)"

definition dec_map :: "('a \<Rightarrow> 'b) \<Rightarrow> 'a dec \<Rightarrow> 'b dec" where
  "dec_map g d bs = map_option (\<lambda>(x, r). (g x, r)) (d bs)"

lemma undoes_map: "undoes d e \<Longrightarrow> (\<And>x. g (f x) = x) \<Longrightarrow> undoes (dec_map g d) (enc_map f e)"
  by (simp add: undoes_def enc_map_def dec_map_def)

definition enc_u8 :: "u8 \<Rightarrow> bytes" where "enc_u8 b = [b]"

fun dec_u8 :: "u8 dec" where
  "dec_u8 [] = None"
| "dec_u8 (b # bs) = Some (b, bs)"

lemma undoes_u8: "undoes dec_u8 enc_u8"
  by (simp add: undoes_def enc_u8_def)

definition dec_u64 :: "u64 dec" where
  "dec_u64 bs = (if length bs < 8 then None else Some (from_le_bytes (take 8 bs), drop 8 bs))"

lemma undoes_u64: "undoes dec_u64 to_le_bytes"
  by (simp add: undoes_def dec_u64_def)

definition chars :: "bytes \<Rightarrow> string" where
  "chars b = map (\<lambda>w. char_of (unat w)) b"

lemma chars_as_bytes [simp]: "chars (as_bytes s) = s"
  by (simp add: chars_def as_bytes_def o_def unat_byte_of)

lemma as_bytes_chars [simp]: "as_bytes (chars b) = b"
proof -
  have "byte_of (char_of (unat w)) = w" for w :: u8
    by (rule word_unat_eq_iff [THEN iffD2]) (use unsigned_less [of w, where ?'a = nat] in \<open>simp add: unat_byte_of\<close>)
  then show ?thesis by (simp add: as_bytes_def chars_def o_def)
qed

abbreviation enc_bytes :: "bytes \<Rightarrow> bytes" where "enc_bytes \<equiv> enc_list enc_u8"
abbreviation dec_bytes :: "bytes dec" where "dec_bytes \<equiv> dec_list' dec_u8"
abbreviation enc_str :: "string \<Rightarrow> bytes" where "enc_str \<equiv> enc_map as_bytes enc_bytes"
abbreviation dec_str :: "string dec" where "dec_str \<equiv> dec_map chars dec_bytes"

definition list_of_option :: "'a option \<Rightarrow> 'a list" where
  "list_of_option x = (case x of None \<Rightarrow> [] | Some y \<Rightarrow> [y])"

definition option_of_list :: "'a list \<Rightarrow> 'a option" where
  "option_of_list xs = (case xs of [] \<Rightarrow> None | x # _ \<Rightarrow> Some x)"

abbreviation enc_opt :: "bytes option \<Rightarrow> bytes" where "enc_opt \<equiv> enc_map list_of_option (enc_list enc_bytes)"
abbreviation dec_opt :: "bytes option dec" where "dec_opt \<equiv> dec_map option_of_list (dec_list' dec_bytes)"

lemma undoes_bytes: "undoes dec_bytes enc_bytes"
  by (intro undoes_list undoes_u8)

lemma undoes_str: "undoes dec_str enc_str"
  by (intro undoes_map undoes_bytes) simp

lemma undoes_opt: "undoes dec_opt enc_opt"
  by (intro undoes_map undoes_list undoes_bytes) (simp add: list_of_option_def option_of_list_def split: option.splits)

lemmas undoes_rules = undoes_pair undoes_bytes undoes_str undoes_u8 undoes_u64 undoes_opt

section \<open>The messages\<close>

text \<open>
  A message is written as its fields; a handshake message has its magic in front, as a
  length-prefixed vector, and its fields read backwards from the end.
\<close>

definition enc_envelope :: "gossip_envelope \<Rightarrow> bytes" where
  "enc_envelope = enc_map
     (\<lambda>e. (env_version e, env_message_id e, env_sender_node_id e, env_sender_public_key e,
           as_u8 (env_payload_type e), env_payload e, env_signature e, env_timestamp_unix_ms e, env_ttl e))
     (enc_pair enc_u8 (enc_pair enc_bytes (enc_pair enc_str (enc_pair enc_bytes (enc_pair enc_u8
       (enc_pair enc_bytes (enc_pair enc_bytes (enc_pair to_le_bytes enc_u8))))))))"

definition dec_envelope :: "gossip_envelope dec" where
  "dec_envelope = dec_map
     (\<lambda>(v, i, n, k, t, p, s, ts, ttl).
        \<lparr>env_version = v, env_message_id = i, env_sender_node_id = n, env_sender_public_key = k,
         env_payload_type = (case from_u8 t of Some pt \<Rightarrow> pt | None \<Rightarrow> Transaction), env_payload = p,
         env_signature = s, env_timestamp_unix_ms = ts, env_ttl = ttl\<rparr>)
     (dec_pair dec_u8 (dec_pair dec_bytes (dec_pair dec_str (dec_pair dec_bytes (dec_pair dec_u8
       (dec_pair dec_bytes (dec_pair dec_bytes (dec_pair dec_u64 dec_u8))))))))"

lemma undoes_envelope: "undoes dec_envelope enc_envelope"
  unfolding dec_envelope_def enc_envelope_def by (intro undoes_map undoes_rules) simp

definition enc_probe :: "handshake_probe \<Rightarrow> bytes" where
  "enc_probe = enc_map
     (\<lambda>p. (probe_magic p, probe_version p, probe_client_nonce p, probe_endpoint p, probe_client_node_id p,
           probe_timestamp_unix_ms p))
     (enc_pair enc_bytes (enc_pair enc_u8 (enc_pair enc_bytes (enc_pair enc_str (enc_pair enc_str to_le_bytes)))))"

definition dec_probe :: "handshake_probe dec" where
  "dec_probe = dec_map
     (\<lambda>(m, v, n, e, i, t). \<lparr>probe_magic = m, probe_version = v, probe_client_nonce = n, probe_endpoint = e,
        probe_client_node_id = i, probe_timestamp_unix_ms = t\<rparr>)
     (dec_pair dec_bytes (dec_pair dec_u8 (dec_pair dec_bytes (dec_pair dec_str (dec_pair dec_str dec_u64)))))"

lemma undoes_probe: "undoes dec_probe enc_probe"
  unfolding dec_probe_def enc_probe_def by (intro undoes_map undoes_rules) simp

definition enc_ack :: "handshake_ack \<Rightarrow> bytes" where
  "enc_ack = enc_map
     (\<lambda>a. (ack_magic a, ack_version a, ack_client_nonce a, ack_server_nonce a, ack_hybrid_kem_public_key_json a,
           ack_ml_dsa_65_public_key a, ack_server_node_id a, ack_timestamp_unix_ms a))
     (enc_pair enc_bytes (enc_pair enc_u8 (enc_pair enc_bytes (enc_pair enc_bytes (enc_pair enc_str
       (enc_pair enc_bytes (enc_pair enc_str to_le_bytes)))))))"

definition dec_ack :: "handshake_ack dec" where
  "dec_ack = dec_map
     (\<lambda>(m, v, cn, sn, k, s, i, t). \<lparr>ack_magic = m, ack_version = v, ack_client_nonce = cn, ack_server_nonce = sn,
        ack_hybrid_kem_public_key_json = k, ack_ml_dsa_65_public_key = s, ack_server_node_id = i,
        ack_timestamp_unix_ms = t\<rparr>)
     (dec_pair dec_bytes (dec_pair dec_u8 (dec_pair dec_bytes (dec_pair dec_bytes (dec_pair dec_str
       (dec_pair dec_bytes (dec_pair dec_str dec_u64)))))))"

lemma undoes_ack: "undoes dec_ack enc_ack"
  unfolding dec_ack_def enc_ack_def by (intro undoes_map undoes_rules) simp

definition enc_finish :: "handshake_finish \<Rightarrow> bytes" where
  "enc_finish = enc_map
     (\<lambda>f. (fin_magic f, fin_version f, fin_kem_ciphertext_json f, fin_client_ml_dsa_65_public_key f,
           fin_client_node_id f, fin_timestamp_unix_ms f))
     (enc_pair enc_bytes (enc_pair enc_u8 (enc_pair enc_str (enc_pair enc_bytes (enc_pair enc_str to_le_bytes)))))"

definition dec_finish :: "handshake_finish dec" where
  "dec_finish = dec_map
     (\<lambda>(m, v, c, k, i, t). \<lparr>fin_magic = m, fin_version = v, fin_kem_ciphertext_json = c,
        fin_client_ml_dsa_65_public_key = k, fin_client_node_id = i, fin_timestamp_unix_ms = t\<rparr>)
     (dec_pair dec_bytes (dec_pair dec_u8 (dec_pair dec_str (dec_pair dec_bytes (dec_pair dec_str dec_u64)))))"

lemma undoes_finish: "undoes dec_finish enc_finish"
  unfolding dec_finish_def enc_finish_def by (intro undoes_map undoes_rules) simp

definition enc_finish_ack :: "handshake_finish_ack \<Rightarrow> bytes" where
  "enc_finish_ack = enc_map
     (\<lambda>f. (fack_magic f, fack_version f, fack_session_id f, fack_transcript_hash f, fack_server_mac f,
           fack_transcript_signature f, fack_timestamp_unix_ms f))
     (enc_pair enc_bytes (enc_pair enc_u8 (enc_pair enc_str (enc_pair enc_bytes (enc_pair enc_bytes
       (enc_pair enc_bytes to_le_bytes))))))"

definition dec_finish_ack :: "handshake_finish_ack dec" where
  "dec_finish_ack = dec_map
     (\<lambda>(m, v, i, h, c, s, t). \<lparr>fack_magic = m, fack_version = v, fack_session_id = i, fack_transcript_hash = h,
        fack_server_mac = c, fack_transcript_signature = s, fack_timestamp_unix_ms = t\<rparr>)
     (dec_pair dec_bytes (dec_pair dec_u8 (dec_pair dec_str (dec_pair dec_bytes (dec_pair dec_bytes
       (dec_pair dec_bytes dec_u64))))))"

lemma undoes_finish_ack: "undoes dec_finish_ack enc_finish_ack"
  unfolding dec_finish_ack_def enc_finish_ack_def by (intro undoes_map undoes_rules) simp

definition enc_rotation :: "key_rotation \<Rightarrow> bytes" where
  "enc_rotation = enc_map
     (\<lambda>r. (kr_version r, kr_node_id r, kr_sequence r, kr_prev_state_digest r, kr_new_kem_public_key r,
           kr_new_sig_public_key r, kr_new_key_epoch r, kr_next_key_commitment r, kr_timestamp_unix_ms r,
           kr_authorization r, kr_possession r))
     (enc_pair enc_u8 (enc_pair enc_str (enc_pair to_le_bytes (enc_pair enc_bytes (enc_pair enc_bytes
       (enc_pair enc_bytes (enc_pair enc_str (enc_pair enc_opt (enc_pair to_le_bytes
       (enc_pair enc_bytes enc_bytes))))))))))"

definition dec_rotation :: "key_rotation dec" where
  "dec_rotation = dec_map
     (\<lambda>(v, n, q, d, k, s, e, c, t, a, p). \<lparr>kr_version = v, kr_node_id = n, kr_sequence = q,
        kr_prev_state_digest = d, kr_new_kem_public_key = k, kr_new_sig_public_key = s, kr_new_key_epoch = e,
        kr_next_key_commitment = c, kr_timestamp_unix_ms = t, kr_authorization = a, kr_possession = p\<rparr>)
     (dec_pair dec_u8 (dec_pair dec_str (dec_pair dec_u64 (dec_pair dec_bytes (dec_pair dec_bytes
       (dec_pair dec_bytes (dec_pair dec_str (dec_pair dec_opt (dec_pair dec_u64
       (dec_pair dec_bytes dec_bytes))))))))))"

lemma undoes_rotation: "undoes dec_rotation enc_rotation"
  unfolding dec_rotation_def enc_rotation_def by (intro undoes_map undoes_rules) simp

definition enc_lineage :: "lineage_wire \<Rightarrow> bytes" where
  "enc_lineage = enc_map
     (\<lambda>w. (lw_version w, lw_inception_kem_public_key w, lw_inception_sig_public_key w,
           lw_inception_key_epoch w, lw_rotations w))
     (enc_pair enc_u8 (enc_pair enc_bytes (enc_pair enc_bytes (enc_pair enc_str (enc_list enc_rotation)))))"

definition dec_lineage :: "lineage_wire dec" where
  "dec_lineage = dec_map
     (\<lambda>(v, k, s, e, rs). \<lparr>lw_version = v, lw_inception_kem_public_key = k, lw_inception_sig_public_key = s,
        lw_inception_key_epoch = e, lw_rotations = rs\<rparr>)
     (dec_pair dec_u8 (dec_pair dec_bytes (dec_pair dec_bytes (dec_pair dec_str (dec_list' dec_rotation)))))"

lemma undoes_lineage: "undoes dec_lineage enc_lineage"
  unfolding dec_lineage_def enc_lineage_def
  by (intro undoes_map undoes_rules undoes_list undoes_rotation) simp

definition whole :: "'a dec \<Rightarrow> bytes \<Rightarrow> string + 'a" where
  "whole d b = (case d b of Some (x, _) \<Rightarrow> Inr x | None \<Rightarrow> Inl ''invalid data'')"

definition framed :: "('a \<Rightarrow> bytes) \<Rightarrow> ('a \<Rightarrow> bytes) \<Rightarrow> 'a \<Rightarrow> bytes" where
  "framed magic e v = to_le_bytes (word_of_nat (length (magic v))) @ magic v @ rev (e v)"

definition bc0 :: codec where
  "bc0 =
     \<lparr>ser_envelope = (\<lambda>v. Inr (enc_envelope v)), de_envelope = whole dec_envelope,
      ser_probe = (\<lambda>v. Inr (framed probe_magic enc_probe v)), de_probe = (\<lambda>b. whole dec_probe (rev b)),
      ser_ack = (\<lambda>v. Inr (framed ack_magic enc_ack v)), de_ack = (\<lambda>b. whole dec_ack (rev b)),
      ser_finish = (\<lambda>v. Inr (framed fin_magic enc_finish v)), de_finish = (\<lambda>b. whole dec_finish (rev b)),
      ser_finish_ack = (\<lambda>v. Inr (framed fack_magic enc_finish_ack v)),
      de_finish_ack = (\<lambda>b. whole dec_finish_ack (rev b)),
      ser_lineage = (\<lambda>v. Inr (enc_lineage v)),
      de_lineage = (\<lambda>lim b. if length b \<le> lim then whole dec_lineage b else Inl ''the size limit has been reached'')\<rparr>"

lemma whole_undoes: "undoes d e \<Longrightarrow> whole d (e v) = Inr v"
  using undoesD [of d e v "[]"] by (simp add: whole_def)

lemma whole_framed: "undoes d e \<Longrightarrow> whole d (rev (framed m e v)) = Inr v"
  by (simp add: whole_def framed_def undoesD)

lemma bincode_laws_bc0: "bincode_laws bc0"
  by (simp add: bincode_laws_def roundtrip_def bc0_def whole_undoes undoes_envelope whole_framed undoes_probe
      undoes_ack undoes_finish undoes_finish_ack)

lemma lineage_laws_bc0: "lineage_codec_laws bc0" "lineage_ser_total bc0"
  by (simp_all add: lineage_codec_laws_def lineage_ser_total_def bc0_def whole_undoes undoes_lineage)

lemma layout_laws_bc0: "layout_laws bc0"
  by (simp add: layout_laws_def magic_first_def bc0_def framed_def)

section \<open>Keys, hashes and signatures\<close>

definition pad :: "nat \<Rightarrow> bytes \<Rightarrow> bytes" where
  "pad n b = take n (b @ replicate n 0)"

lemma length_pad [simp]: "length (pad n b) = n"
  by (simp add: pad_def)

lemma hd_pad: "0 < n \<Longrightarrow> b \<noteq> [] \<Longrightarrow> hd (pad n b) = hd b"
  by (cases b; cases n) (simp_all add: pad_def)

definition hex_digit :: "nat \<Rightarrow> char" where
  "hex_digit n = ''0123456789abcdef'' ! n"

definition hex_value :: "char \<Rightarrow> nat" where
  "hex_value c = length (takeWhile (\<lambda>d. d \<noteq> c) ''0123456789abcdef'')"

fun hex_enc :: "bytes \<Rightarrow> string" where
  "hex_enc [] = []"
| "hex_enc (b # bs) = hex_digit (unat b div 16) # hex_digit (unat b mod 16) # hex_enc bs"

fun hex_dec :: "string \<Rightarrow> string + bytes" where
  "hex_dec [] = Inr []"
| "hex_dec [c] = Inl ''Odd number of digits''"
| "hex_dec (c # d # cs) =
     (if hex_value c < 16 \<and> hex_value d < 16
      then (case hex_dec cs of Inl e \<Rightarrow> Inl e | Inr bs \<Rightarrow> Inr (word_of_nat (16 * hex_value c + hex_value d) # bs))
      else Inl ''Invalid character'')"

lemma hex_value_digit: "n < 16 \<Longrightarrow> hex_value (hex_digit n) = n"
proof -
  have "\<forall>n \<in> set [0..<16]. hex_value (hex_digit n) = n" by code_simp
  then show "n < 16 \<Longrightarrow> hex_value (hex_digit n) = n" by simp
qed

lemma hex_dec_enc: "hex_dec (hex_enc b) = Inr b"
proof (induction b)
  case (Cons w ws)
  have "unat w div 16 < 16" using unsigned_less [of w, where ?'a = nat] by simp
  with Cons show ?case by (simp add: hex_value_digit)
qed simp

lemma length_hex_enc: "length (hex_enc b) = 2 * length b"
  by (induction b) auto

definition cr0 :: "(bytes, bytes, bytes, bytes, bytes) crypto" where
  "cr0 =
     \<lparr>sha256 = pad 32, hmac_sha256 = (\<lambda>k x. pad 32 (k @ x)), hkdf_sha256 = (\<lambda>i x. pad 32 (i @ x)),
      hex_encode = hex_enc, hex_decode = hex_dec,
      kem_generate = Inr, kem_from_secret_key_bytes = (\<lambda>x m. Inr (x @ m)),
      kem_public_key = (\<lambda>k. k), kem_pk_to_json = (\<lambda>p. Inr (chars p)), kem_pk_from_json = (\<lambda>s. Inr (as_bytes s)),
      kem_x25519_bytes = (\<lambda>p. Inr (pad 32 p)), kem_mlkem_bytes = (\<lambda>p. Inr (pad 1184 (drop 32 p))),
      kem_encapsulate_to = (\<lambda>coins p. Inr (coins, coins @ p)), kem_decapsulate = (\<lambda>k c. Inr (c @ k)),
      ss_as_32_bytes = (\<lambda>s. Inr (pad 32 s)), ct_to_json = (\<lambda>c. Inr (chars c)), ct_from_json = (\<lambda>s. Inr (as_bytes s)),
      ct_bincode = Inr,
      sig_generate = Inr, sig_from_secret_key_bytes = Inr, sig_public_key = pad 1952,
      sig_sign_deterministic = (\<lambda>k m. Inr (pad 1952 k @ m)),
      sig_verify = (\<lambda>pk m s. if s = pk @ m then SigOk else SigVerificationFailed)\<rparr>"

lemma laws_cr0: "hash_laws cr0" "hex_laws cr0" "sig_laws cr0" "kem_laws cr0" "key_size_laws cr0"
  by (simp_all add: cr0_def hash_laws_def array32_def hex_laws_def hex_dec_enc length_hex_enc sig_laws_def
      kem_laws_def key_size_laws_def)

lemma externals_total_0: "externals_total cr0 bc0"
  by (simp add: externals_total_def cr0_def bc0_def)

lemma sign_total_0: "\<exists>s. sig_sign_deterministic cr0 kp m = Inr s"
  by (simp add: cr0_def)

section \<open>Configurations and nodes\<close>

definition empty_config :: gossip_config where
  "empty_config =
     \<lparr>gc_node_id = None, gc_kem_seed_hex = None, gc_sig_seed_hex = None, gc_key_epoch = None,
      gc_mesh_n = None, gc_mesh_n_low = None, gc_mesh_n_high = None, gc_heartbeat_ms = None,
      gc_max_message_bytes = None, gc_dedup_cache_secs = None, gc_quorum_fraction = None,
      gc_replay_window_ms = None, gc_default_ttl = None\<rparr>"

definition seeded_config :: gossip_config where
  "seeded_config = empty_config\<lparr>gc_kem_seed_hex := Some (hex_enc (replicate 96 0)),
     gc_sig_seed_hex := Some (hex_enc (replicate 32 0))\<rparr>"

definition js0 :: json where
  "js0 =
     \<lparr>json_parse_config = (\<lambda>s. if s = ''{}'' then Inr empty_config
        else if s = ''{seeds}'' then Inr seeded_config else Inl ''expected value''),
      json_of_envelope = (\<lambda>_. Inr ''{}''), json_of_stats = (\<lambda>_. Inr ''{}''), json_of_peers = (\<lambda>_. Inr ''[]''),
      json_of_identity = (\<lambda>_. Inr ''{}''), json_of_object = (\<lambda>_. Inr ''{}'')\<rparr>"

definition rc0 :: resolved_config where
  "rc0 =
     \<lparr>rc_node_id_override = None, rc_kem_seed = None, rc_sig_seed = None, rc_key_epoch = ''ephemeral-runtime'',
      rc_mesh_n = 8, rc_mesh_n_low = 4, rc_mesh_n_high = 12, rc_heartbeat_ms = 700,
      rc_max_message_bytes = 1048576, rc_dedup_cache_secs = 60, rc_quorum_fraction = f64_round (67 / 100),
      rc_replay_window_ms = 30000, rc_default_ttl = 8\<rparr>"

text \<open>The node whose key material is the byte list \<open>k\<close>.\<close>

definition node0 :: "bytes \<Rightarrow> (bytes, bytes) node_identity" where
  "node0 k =
     \<lparr>ni_node_id = derive_node_id cr0 (pad 32 k @ pad 1184 (drop 32 k)) (pad 1952 k),
      ni_kem_keypair = k, ni_sig_keypair = k, ni_key_epoch = ''ephemeral-runtime''\<rparr>"

lemma node0_certified: "self_certified cr0 (node0 k)"
  by (simp add: self_certified_def node0_def kem_public_key_canonical_bytes_def kem_public_key_bytes_def cr0_def
      sig_public_key_bytes_def)

lemma generate_node0: "identity_generate cr0 k k ''ephemeral-runtime'' = Ok (node0 k)"
  by (simp add: identity_generate_def identity_of_keypairs_def node0_def kem_public_key_bytes_def cr0_def)

lemma resolve_0: "resolve cr0 empty_config = Ok rc0"
  by (simp add: resolve_def empty_config_def resolve_seed_def unwrap_or_def rc0_def Let_def) code_simp

definition lineage0 :: "bytes \<Rightarrow> key_lineage" where
  "lineage0 k =
     (let s = inception_state (pad 32 k @ pad 1184 (drop 32 k)) (pad 1952 k) ''ephemeral-runtime'' in
      \<lparr>kl_node_id = ni_node_id (node0 k), kl_inception = s, kl_rotations = [], kl_current = s\<rparr>)"

lemma node0_keys [simp]:
  "sig_public_key_bytes cr0 (node0 k) = pad 1952 k"
  "kem_public_key_canonical_bytes cr0 (node0 k) = Ok (pad 32 k @ pad 1184 (drop 32 k))"
  "ni_key_epoch (node0 k) = ''ephemeral-runtime''"
  by (simp_all add: node0_def kem_public_key_canonical_bytes_def kem_public_key_bytes_def cr0_def
      sig_public_key_bytes_def)

lemma from_identity_0: "from_identity cr0 (node0 k) = Ok (lineage0 k)"
proof -
  have "ni_node_id (node0 k) = derive_node_id cr0 (pad 32 k @ pad 1184 (drop 32 k)) (pad 1952 k)"
    by (simp add: node0_def)
  then show ?thesis
    by (simp add: from_identity_def inception_def lineage0_def check_key_lengths_def KEM_PK_LEN_def SIG_PK_LEN_def Let_def)
qed

text \<open>A component initialized with the default configuration.\<close>

definition running :: "bytes \<Rightarrow> (bytes, bytes) globals" where
  "running k = \<lparr>gossip_state = Some (engine_new rc0 (node0 k)), lineage = Some (lineage0 k)\<rparr>"

lemma init_0: "gossip_init cr0 js0 k k ''{}'' globals_init = (Ok (), running k)"
  by (simp add: gossip_init_def globals_init_def config_from_json_def js0_def resolve_0 generate_node0
      from_identity_0 install_def with_lineage_def running_def)
     (simp add: rc0_def generate_node0 from_identity_0 install_def with_lineage_def)

lemma reachable_0: "reachable cr0 bc0 js0 (running k)"
proof -
  have "component_call cr0 bc0 js0 (GossipInit k k ''{}'') globals_init = (Returned VUnit, running k)"
    by (simp add: init_0 deliver_def)
  then show ?thesis by (blast intro: reachable.intros component_step.Call)
qed

lemma running_inv: "globals_inv cr0 (running k)"
  using comp.holds [OF reachable_0] laws_cr0(5) lineage_laws_bc0(2) by blast

lemma running_fields [simp]:
  "gossip_state (running k) = Some (engine_new rc0 (node0 k))" "lineage (running k) = Some (lineage0 k)"
  by (simp_all add: running_def)

lemma engine_new_fields [simp]:
  "config (engine_new rc i) = rc" "identity (engine_new rc i) = i" "sessions (engine_new rc i) = sessions_new"
  "handshakes (engine_new rc i) = manager_new" "mesh_peers (engine_new rc i) = []"
  "dedup (engine_new rc i) = dedup_new (rc_dedup_cache_secs rc)"
  by (simp_all add: engine_new_def)

lemma resolve_seeded: "resolve cr0 seeded_config = Ok (rc0\<lparr>rc_kem_seed := Some (replicate 96 0), rc_sig_seed := Some (replicate 32 0)\<rparr>)"
proof -
  have "f64_in_unit (f64_round (67 / 100))" using resolve_config_ok [OF resolve_0] by (simp add: config_ok_def rc0_def)
  moreover have "hex_decode cr0 = hex_dec" by (simp add: cr0_def)
  ultimately show ?thesis
    by (simp add: resolve_def seeded_config_def empty_config_def resolve_seed_def unwrap_or_def rc0_def Let_def hex_dec_enc)
qed

lemma pad_zeros: "pad n (replicate m 0) = pad n []"
  by (simp add: pad_def replicate_add [symmetric] take_replicate)

lemma rc0_fields [simp]:
  "rc_default_ttl rc0 = 8" "rc_max_message_bytes rc0 = 1048576" "rc_replay_window_ms rc0 = 30000"
  "rc_key_epoch rc0 = ''ephemeral-runtime''" "rc_dedup_cache_secs rc0 = 60"
  by (simp_all add: rc0_def)

lemma lineage0_inv: "lineage_inv cr0 (lineage0 k)"
  using running_inv [of k] by (auto simp: globals_inv_def)

text \<open>The encoded lineage of a fresh node.\<close>

lemma length_enc_bytes [simp]: "length (enc_bytes xs) = 2 * length xs + 1"
  by (induction xs) (auto simp: enc_u8_def)

definition lineage_bytes0 :: "bytes \<Rightarrow> bytes" where
  "lineage_bytes0 k = enc_lineage
     \<lparr>lw_version = LINEAGE_VERSION, lw_inception_kem_public_key = pad 32 k @ pad 1184 (drop 32 k),
      lw_inception_sig_public_key = pad 1952 k, lw_inception_key_epoch = ''ephemeral-runtime'', lw_rotations = []\<rparr>"

lemma lineage_encode_0: "lineage_encode bc0 (lineage0 k) = Ok (lineage_bytes0 k)"
  by (simp add: lineage_encode_def lineage0_def inception_state_def Let_def bc0_def lineage_bytes0_def)

lemma length_lineage_bytes0: "length (lineage_bytes0 k) \<le> MAX_LINEAGE_BYTES"
  by (simp add: lineage_bytes0_def enc_lineage_def enc_map_def enc_pair_def enc_u8_def MAX_LINEAGE_BYTES_def)

lemma lineage_decode_0: "lineage_decode cr0 bc0 (lineage_bytes0 k) = Ok (lineage0 k)"
  by (rule lineage_decode_encode [OF lineage_laws_bc0(1) lineage0_inv lineage_encode_0 length_lineage_bytes0])

text \<open>The seeds of a second key pair.\<close>

definition seed_node :: "(bytes, bytes) node_identity" where
  "seed_node =
     \<lparr>ni_node_id = derive_node_id cr0 (pad 32 (replicate 96 7) @ pad 1184 (drop 32 (replicate 96 7))) (pad 1952 (replicate 32 7)),
      ni_kem_keypair = replicate 96 7, ni_sig_keypair = replicate 32 7, ni_key_epoch = ''epoch-2''\<rparr>"

lemma seed_node_epoch:
  "identity_from_seed_bytes cr0 (replicate 96 7) (replicate 32 7) ep = Ok (seed_node\<lparr>ni_key_epoch := ep\<rparr>)"
proof -
  have "replicate 32 (7 :: u8) @ replicate 64 7 = replicate 96 7" by (simp add: replicate_add [symmetric])
  then show ?thesis
    by (simp add: identity_from_seed_bytes_def from_seeds_def identity_of_keypairs_def
        kem_public_key_bytes_def seed_node_def cr0_def)
qed

lemma seed_node_0: "identity_from_seed_bytes cr0 (replicate 96 7) (replicate 32 7) ''epoch-2'' = Ok seed_node"
  by (subst seed_node_epoch) (simp add: seed_node_def)

section \<open>A rotated node\<close>

text \<open>The record that rotates the fresh node \<open>k\<close> to the seeds' keys at time \<open>now\<close>, with the
  commitment \<open>c\<close> to the key after that.\<close>

definition unsigned0 :: "bytes \<Rightarrow> bytes option \<Rightarrow> u64 \<Rightarrow> key_rotation" where
  "unsigned0 k c now = unsigned_rotation cr0 (pad 32 (replicate 96 7) @ pad 1184 (drop 32 (replicate 96 7))) seed_node c now (lineage0 k)"

definition rotation0 :: "bytes \<Rightarrow> bytes option \<Rightarrow> u64 \<Rightarrow> key_rotation" where
  "rotation0 k c now =
     (let m = rotation_signing_input (unsigned0 k c now) in
      (unsigned0 k c now)\<lparr>kr_authorization := pad 1952 k @ tagged_message SIG_CTX_KEY_ROTATION m,
        kr_possession := pad 1952 (replicate 32 7) @ tagged_message SIG_CTX_KEY_POSSESSION m\<rparr>)"

definition rotated0 :: "bytes \<Rightarrow> bytes option \<Rightarrow> u64 \<Rightarrow> key_lineage" where
  "rotated0 k c now = (lineage0 k)\<lparr>kl_rotations := [rotation0 k c now], kl_current := state_of_rotation (rotation0 k c now)\<rparr>"

lemma seed_node_keys [simp]:
  "sig_public_key_bytes cr0 seed_node = pad 1952 (replicate 32 7)"
  "kem_public_key_canonical_bytes cr0 seed_node = Ok (pad 32 (replicate 96 7) @ pad 1184 (drop 32 (replicate 96 7)))"
  by (simp_all add: seed_node_def kem_public_key_canonical_bytes_def kem_public_key_bytes_def cr0_def
      sig_public_key_bytes_def)

lemma seed_epoch: "ni_key_epoch seed_node = ''epoch-2''"
  by (simp add: seed_node_def)

lemma sign_0: "length ctx \<le> 255 \<Longrightarrow> sign cr0 i m ctx = Ok (pad 1952 (ni_sig_keypair i) @ tagged_message ctx m)"
  by (simp add: sign_def cr0_def)

lemma lineage0_state [simp]:
  "kl_rotations (lineage0 k) = []" "ks_next_key_commitment (kl_current (lineage0 k)) = None"
  "ks_sig_public_key (kl_current (lineage0 k)) = pad 1952 k" "kl_node_id (lineage0 k) = ni_node_id (node0 k)"
  "ks_sequence (kl_current (lineage0 k)) = 0"
  by (simp_all add: lineage0_def inception_state_def Let_def)

lemma verify_external_0:
  "length ctx \<le> 255 \<Longrightarrow> verify_external cr0 pk m (pk @ tagged_message ctx m) ctx = Ok True"
  by (simp add: verify_external_def cr0_def)

lemma rotation0_verifies:
  "verify_next cr0 (kl_node_id (lineage0 k)) (kl_current (lineage0 k)) (rotation0 k c now) =
     Ok (state_of_rotation (rotation0 k c now))"
proof -
  have f: "kr_version (unsigned0 k c now) = 1" "kr_node_id (unsigned0 k c now) = ni_node_id (node0 k)"
    "kr_sequence (unsigned0 k c now) = 1" "kr_new_sig_public_key (unsigned0 k c now) = pad 1952 (replicate 32 7)"
    "length (kr_new_kem_public_key (unsigned0 k c now)) = KEM_PK_LEN"
    "kr_prev_state_digest (unsigned0 k c now) = state_digest cr0 (ni_node_id (node0 k)) (kl_current (lineage0 k))"
    by (simp_all add: unsigned0_def unsigned_rotation_def KEM_PK_LEN_def)
  show ?thesis
    unfolding verify_next_Ok rotation0_def Let_def
    by (simp add: f authorized_by_def verify_external_0 SIG_PK_LEN_def)
qed

lemma rotate_0:
  "build_and_apply cr0 (Some (node0 k)) seed_node c now (lineage0 k) = Ok (rotation0 k c now, rotated0 k c now)"
proof -
  let ?u = "unsigned0 k c now" and ?m = "rotation_signing_input (unsigned0 k c now)"
  have keys: "ni_sig_keypair (node0 k) = k" "ni_sig_keypair seed_node = replicate 32 7"
    by (simp_all add: node0_def seed_node_def)
  have s: "sign cr0 (node0 k) ?m SIG_CTX_KEY_ROTATION = Ok (pad 1952 k @ tagged_message SIG_CTX_KEY_ROTATION ?m)"
    "sign cr0 seed_node ?m SIG_CTX_KEY_POSSESSION = Ok (pad 1952 (replicate 32 7) @ tagged_message SIG_CTX_KEY_POSSESSION ?m)"
    by (simp_all add: sign_0 keys)
  have "kr_sequence (rotation0 k c now) = ks_sequence (kl_current (lineage0 k)) + 1"
    by (simp add: rotation0_def Let_def unsigned0_def unsigned_rotation_def)
  then have ap: "apply_rotation cr0 (rotation0 k c now) (lineage0 k) = Ok (rotated0 k c now)"
    using rotation0_verifies [of k c now] by (simp add: apply_next rotated0_def)
  show ?thesis
    unfolding build_and_apply_def seed_node_keys(2) and_then.simps Let_def
      unsigned_rotation_def [symmetric] unsigned0_def [symmetric]
    using s ap by (simp add: rotation0_def Let_def)
qed

lemma rotated0_inv: "lineage_inv cr0 (rotated0 k c now)"
  by (rule build_and_apply_inv [OF rotate_0 lineage0_inv])

definition rotated_bytes0 :: "bytes \<Rightarrow> bytes option \<Rightarrow> u64 \<Rightarrow> bytes" where
  "rotated_bytes0 k c now = enc_lineage
     \<lparr>lw_version = LINEAGE_VERSION, lw_inception_kem_public_key = pad 32 k @ pad 1184 (drop 32 k),
      lw_inception_sig_public_key = pad 1952 k, lw_inception_key_epoch = ''ephemeral-runtime'',
      lw_rotations = [rotation0 k c now]\<rparr>"

lemma rotated_encode_0: "lineage_encode bc0 (rotated0 k c now) = Ok (rotated_bytes0 k c now)"
  by (simp add: lineage_encode_def rotated0_def lineage0_def inception_state_def Let_def bc0_def rotated_bytes0_def)

text \<open>The encoded rotated lineage is far below the limit.\<close>

lemma length_put_bytes [simp]: "length (put_bytes b) = 8 + length b"
  by (simp add: put_bytes_def)

lemma node0_id_length [simp]: "length (ni_node_id (node0 k)) = 64"
  by (simp add: node0_def derive_node_id_length laws_cr0)

lemma sha_length_0 [simp]: "length (sha256 cr0 x) = 32"
  by (rule hash_lawsD(1) [OF laws_cr0(1)])

lemma length_signing_input_0:
  "commitment_ok c \<Longrightarrow> length (rotation_signing_input (unsigned0 k c now)) \<le> 3381"
  by (cases c) (simp_all add: array32_def rotation_signing_input_def unsigned0_def unsigned_rotation_def ROTATION_SIGNING_TAG_def
      state_digest_def seed_epoch)

lemma length_rotated_bytes0:
  assumes "commitment_ok c"
  shows "length (rotated_bytes0 k c now) \<le> MAX_LINEAGE_BYTES"
proof -
  let ?r = "rotation0 k c now"
  have "length (kr_authorization ?r) \<le> 6000" "length (kr_possession ?r) \<le> 6000"
    using length_signing_input_0 [OF assms, of k now]
    by (simp_all add: rotation0_def Let_def tagged_message_def)
  moreover have "length (kr_node_id ?r) = 64" "length (kr_prev_state_digest ?r) = 32"
    "length (kr_new_kem_public_key ?r) = 1216" "length (kr_new_sig_public_key ?r) = 1952"
    "length (kr_new_key_epoch ?r) = 7" "kr_next_key_commitment ?r = c"
    by (simp_all add: rotation0_def Let_def unsigned0_def unsigned_rotation_def state_digest_def seed_epoch)
  moreover have "length (enc_opt c) \<le> 100" using assms by (cases c) (simp_all add: array32_def enc_map_def list_of_option_def)
  ultimately show ?thesis
    by (simp add: rotated_bytes0_def enc_lineage_def enc_rotation_def enc_map_def enc_pair_def enc_u8_def
        MAX_LINEAGE_BYTES_def)
qed

text \<open>Calls on a running component.\<close>

lemma encode_running: "\<exists>eb. gossip_encode_envelope cr0 bc0 clock 0 payload (running k) = (Ok eb, running k)"
  by (auto simp: gossip_encode_envelope_def with_engine_def with_engine_and_def engine_encode_envelope_def
      payload_type_of_def from_u8_def build_envelope_def Let_def sign_0 encode_envelope_def)
     (simp add: bc0_def running_def)

lemma rotate_running:
  "gossip_rotate_keys_under_id cr0 bc0 (Some 2000) (replicate 96 7) (replicate 32 7) ''epoch-2'' None (running k) =
     (Ok (rotated_bytes0 k None 2000),
      (running k)\<lparr>gossip_state := Some ((engine_new rc0 (node0 k))\<lparr>identity := seed_node\<lparr>ni_node_id := ni_node_id (node0 k)\<rparr>\<rparr>),
        lineage := Some (rotated0 k None 2000)\<rparr>)"
proof -
  have "rotate_keys_under_id cr0 seed_node None 2000 (engine_new rc0 (node0 k), lineage0 k) =
      (Ok (rotation0 k None 2000),
       (engine_new rc0 (node0 k))\<lparr>identity := seed_node\<lparr>ni_node_id := ni_node_id (node0 k)\<rparr>\<rparr>, rotated0 k None 2000)"
    by (simp add: rotate_keys_under_id_def lineage_rotate_def rotate_0) (simp add: rotated0_def)
  then show ?thesis
    by (simp add: gossip_rotate_keys_under_id_def seed_node_0 parse_commitment_def with_engine_and_def
        current_time_unix_ms_def rotated_encode_0)
qed

end
