(* ===== verification/Properties.thy ===== *)
theory Properties
  imports Instance
begin

text \<open>
  The properties of the single components, each with a worked example on the concrete instance where
  it has hypotheses. The properties that span components are in the root theory.
\<close>

section \<open>Key lineages\<close>

lemma chain_last: "chain (verify_next cr n) s (rs @ [r]) = Ok s' \<Longrightarrow> s' = state_of_rotation r"
  by (auto simp: chain_append verify_next_Ok)

text \<open>C8. A lineage that decodes is valid from end to end, whatever the bytes: the id is derived from
  the inception keys, every record verifies against the state its predecessors lead to, the sequence
  number is the number of records, and the current state is the one the last record sets.\<close>

theorem decoded_lineages_are_valid:
  assumes "lineage_decode cr bc b = Ok l"
  shows "length b \<le> MAX_LINEAGE_BYTES \<and>
      kl_node_id l = derive_node_id cr (ks_kem_public_key (kl_inception l)) (ks_sig_public_key (kl_inception l)) \<and>
      lineage_sequence l = word_of_nat (length (kl_rotations l)) \<and>
      kl_current l = (if kl_rotations l = [] then kl_inception l else state_of_rotation (last (kl_rotations l))) \<and>
      (\<forall>i < length (kl_rotations l). \<exists>s s'.
         chain (verify_next cr (kl_node_id l)) (kl_inception l) (take i (kl_rotations l)) = Ok s \<and>
         verify_next cr (kl_node_id l) s (kl_rotations l ! i) = Ok s')"
proof -
  have len: "length b \<le> MAX_LINEAGE_BYTES" using assms by (simp add: lineage_decode_def)
  note inv = lineage_decode_inv [OF assms]
  note ch = lineage_invD(1) [OF inv]
  have "kl_current l = (if kl_rotations l = [] then kl_inception l else state_of_rotation (last (kl_rotations l)))"
    using ch chain_last [of cr "kl_node_id l" "kl_inception l" "butlast (kl_rotations l)" "last (kl_rotations l)"]
    by auto
  moreover have "\<exists>s s'. chain (verify_next cr (kl_node_id l)) (kl_inception l) (take i (kl_rotations l)) = Ok s \<and>
      verify_next cr (kl_node_id l) s (kl_rotations l ! i) = Ok s'" if "i < length (kl_rotations l)" for i
    using rot.chain_nth [OF ch that] by metis
  ultimately show ?thesis
    using len lineage_invD(6) [OF inv] lineage_sequence_length [OF inv] by (simp add: lineage_sequence_def)
qed

lemma rotated_decode_0:
  "commitment_ok c \<Longrightarrow> lineage_decode cr0 bc0 (rotated_bytes0 k c now) = Ok (rotated0 k c now)"
  by (rule lineage_decode_encode [OF lineage_laws_bc0(1) rotated0_inv rotated_encode_0 length_rotated_bytes0])

theorem decoded_lineages_are_valid_witness:
  "lineage_sequence (rotated0 [1] None 2000) = 1 \<and>
   kl_current (rotated0 [1] None 2000) = state_of_rotation (rotation0 [1] None 2000)"
proof -
  have "kl_rotations (rotated0 [1] None 2000) = [rotation0 [1] None 2000]" by (simp add: rotated0_def)
  then show ?thesis using decoded_lineages_are_valid [OF rotated_decode_0 [of None "[1]" 2000]] by simp
qed

text \<open>C9. Decoding undoes encoding for every valid lineage within the size limit.\<close>

theorem lineage_encode_decode_roundtrip:
  assumes "lineage_codec_laws bc" and "lineage_inv cr l"
    and "lineage_encode bc l = Ok b" and "length b \<le> MAX_LINEAGE_BYTES"
  shows "lineage_decode cr bc b = Ok l"
  by (rule lineage_decode_encode [OF assms])

theorem lineage_encode_decode_roundtrip_witness:
  "lineage_decode cr0 bc0 (rotated_bytes0 [1] None 2000) = Ok (rotated0 [1] None 2000)"
  by (rule lineage_encode_decode_roundtrip [OF lineage_laws_bc0(1) rotated0_inv rotated_encode_0 length_rotated_bytes0]) simp

text \<open>C10. While a commitment is in force, only the committed key can follow: any record that extends
  the lineage introduces a key whose commitment is the announced one, carries no authorization of
  the current key, and two such records introduce the same key unless they exhibit a collision of
  SHA-256.\<close>

theorem only_the_committed_key_follows:
  assumes "next_key_commitment l = Some c"
    and "apply_rotation cr r l = Ok l1" and "r \<notin> set (kl_rotations l)"
    and "apply_rotation cr r' l = Ok l2" and "r' \<notin> set (kl_rotations l)"
  shows "key_commitment cr (current_sig_public_key l1) = c \<and> kr_authorization r = [] \<and>
    (current_sig_public_key l1 = current_sig_public_key l2 \<or>
     sha256_collision cr (COMMITMENT_TAG @ current_sig_public_key l1) (COMMITMENT_TAG @ current_sig_public_key l2))"
proof -
  have step: "key_commitment cr (current_sig_public_key l') = c \<and> kr_authorization q = []"
    if "apply_rotation cr q l = Ok l'" "q \<notin> set (kl_rotations l)" for q l'
    using apply_rotation_Ok [OF that(1)] that(2) assms(1)
    by (auto simp: verify_next_Ok authorized_by_def next_key_commitment_def current_sig_public_key_def state_of_rotation_def)
  from step [OF assms(2,3)] step [OF assms(4,5)]
  have eq: "key_commitment cr (current_sig_public_key l1) = key_commitment cr (current_sig_public_key l2)" by simp
  from step [OF assms(2,3)] key_commitment_binds [OF eq] show ?thesis by simp
qed

text \<open>The second rotation of the example, to a committed key.\<close>

lemma committed_rotation_0:
  assumes "c = key_commitment cr0 (pad 1952 [5])"
  obtains r l' where "apply_rotation cr0 r (rotated0 k (Some c) now) = Ok l'"
    and "r \<notin> set (kl_rotations (rotated0 k (Some c) now))" and "current_sig_public_key l' = pad 1952 [5]"
proof -
  let ?l = "rotated0 k (Some c) now"
  have cur: "ks_next_key_commitment (kl_current ?l) = Some c" "ks_sequence (kl_current ?l) = 1"
    "kl_rotations ?l = [rotation0 k (Some c) now]" "kr_sequence (rotation0 k (Some c) now) = 1"
    by (simp_all add: rotated0_def state_of_rotation_def rotation0_def Let_def unsigned0_def unsigned_rotation_def)
  have "\<exists>r l'. build_and_apply cr0 None (node0 [5]) None 3000 ?l = Ok (r, l')"
    by (rule build_and_apply_succeeds [OF laws_cr0(3) sign_total_0 node0_keys(2)])
       (simp_all add: KEM_PK_LEN_def SIG_PK_LEN_def cur assms [symmetric])
  then obtain r l' where ba: "build_and_apply cr0 None (node0 [5]) None 3000 ?l = Ok (r, l')" by blast
  from build_and_apply_Ok [OF ba] have ap: "apply_rotation cr0 r ?l = Ok l'"
    and "\<exists>kem. r\<lparr>kr_authorization := [], kr_possession := []\<rparr> = unsigned_rotation cr0 kem (node0 [5]) None 3000 ?l"
    by blast+
  then have "kr_sequence r = 2" by (cases r) (auto simp: unsigned_rotation_def cur)
  then have "r \<noteq> rotation0 k (Some c) now" using cur(4) by auto
  with ap build_and_apply_effect [OF ba] that [of r l'] cur(3,4) show thesis by auto
qed

theorem only_the_committed_key_follows_witness:
  "\<exists>r l'. apply_rotation cr0 r (rotated0 [1] (Some (key_commitment cr0 (pad 1952 [5]))) 2000) = Ok l' \<and>
     key_commitment cr0 (current_sig_public_key l') = key_commitment cr0 (pad 1952 [5])"
proof -
  let ?c = "key_commitment cr0 (pad 1952 [5])"
  obtain r l' where r: "apply_rotation cr0 r (rotated0 [1] (Some ?c) 2000) = Ok l'"
    "r \<notin> set (kl_rotations (rotated0 [1] (Some ?c) 2000))"
    using committed_rotation_0 [OF refl] by metis
  have "next_key_commitment (rotated0 [1] (Some ?c) 2000) = Some ?c"
    by (simp add: next_key_commitment_def rotated0_def state_of_rotation_def rotation0_def Let_def unsigned0_def
        unsigned_rotation_def)
  from only_the_committed_key_follows [OF this r r] r(1) show ?thesis by blast
qed

text \<open>C11. A record accepted by two lineages follows the same state of the same node in both, or the two
  hashed states are a collision of SHA-256: a rotation cannot be transplanted.\<close>

theorem record_binds_its_predecessor:
  assumes "verify_next cr n s r = Ok t" and "verify_next cr n' s' r = Ok t'"
    and "key_state_ok s" and "key_state_ok s'" and "vec_ok n"
  shows "n = n' \<and> (s = s' \<or> sha256_collision cr (state_bytes n s) (state_bytes n s'))"
proof -
  have "n = n'" and "state_digest cr n s = state_digest cr n s'" using assms(1,2) by (auto simp: verify_next_Ok)
  with state_digest_binds [OF assms(3,4,5,5)] show ?thesis by blast
qed

lemma key_state_ok_0: "key_state_ok (kl_current (lineage0 k))"
  by (simp add: key_state_ok_def lineage0_def inception_state_def Let_def vec_ok_def)

theorem record_binds_its_predecessor_witness:
  "\<exists>t. verify_next cr0 (kl_node_id (lineage0 [1])) (kl_current (lineage0 [1])) (rotation0 [1] None 2000) = Ok t \<and>
     kl_node_id (lineage0 [1]) = ni_node_id (node0 [1])"
  using record_binds_its_predecessor [OF rotation0_verifies [of "[1]" None 2000] rotation0_verifies [of "[1]" None 2000]
      key_state_ok_0 key_state_ok_0] rotation0_verifies [of "[1]" None 2000]
  by (simp add: vec_ok_def)



text \<open>C13. Applying a record at a sequence number the lineage already has: the same record again changes
  nothing, any other record is reported as a fork with that number and the node's id.\<close>

theorem known_sequence_is_replay_or_fork:
  assumes "lineage_inv cr l" and "vec_ok (kl_rotations l)" and "i < length (kl_rotations l)"
    and "kr_sequence r = word_of_nat (Suc i)"
  shows "apply_rotation cr r l =
    (if r = kl_rotations l ! i then Ok l
     else Err (IdentityError (''lineage fork: conflicting rotation at sequence ''
       @ dec (Suc i) @ '' for node '' @ kl_node_id l)))"
  by (rule apply_at_known [OF assms])

theorem known_sequence_is_replay_or_fork_witness:
  "apply_rotation cr0 (rotation0 [1] None 2000) (rotated0 [1] None 2000) = Ok (rotated0 [1] None 2000) \<and>
   (\<exists>e. apply_rotation cr0 (rotation0 [1] None 2001) (rotated0 [1] None 2000) = Err e)"
proof -
  have rots: "kl_rotations (rotated0 [1] None 2000) = [rotation0 [1] None 2000]" by (simp add: rotated0_def)
  have sq: "kr_sequence (rotation0 [1] None t) = word_of_nat (Suc 0)" and ts: "kr_timestamp_unix_ms (rotation0 [1] None t) = t" for t
    by (simp_all add: rotation0_def Let_def unsigned0_def unsigned_rotation_def)
  have "rotation0 [1] None 2001 \<noteq> rotation0 [1] None 2000"
    using ts [of 2000] ts [of 2001] by (auto dest: arg_cong [where f = kr_timestamp_unix_ms])
  then show ?thesis
    using known_sequence_is_replay_or_fork [OF rotated0_inv _ _ sq, of "[1]" None 2000] rots by (simp add: vec_ok_def)
qed

lemma recover_result:
  assumes "lineage_decode cr bc lb = Ok l" and "identity_from_seed_bytes cr ks ss ep = Ok nx" and "parse_commitment c = Ok c'"
    and "next_key_commitment l \<noteq> None"
  shows "gossip_recover_lineage cr bc clock lb ks ss ep c =
    and_then (build_and_apply cr None nx c' (current_time_unix_ms clock) l) (\<lambda>(r, l'). lineage_encode bc l')"
  using assms by (simp add: gossip_recover_lineage_def lineage_recover_def next_key_commitment_def)

text \<open>C14. Recovery without the current key. From a lineage with a commitment, the seeds of the committed
  key alone extend it: the returned bytes encode the same inception and the same records followed
  by one new record, which has no authorization and moves the lineage to the committed key and the
  new commitment under the same id; they decode to that lineage when they are within the size
  limit. Any other key is refused, and without a commitment every recovery is refused.\<close>

theorem recovery_needs_only_the_committed_key:
  assumes "sig_laws cr" and "key_size_laws cr" and "lineage_ser_total bc" and "lineage_codec_laws bc"
    and "\<forall>kp m. \<exists>s. sig_sign_deterministic cr kp m = Inr s"
    and "lineage_decode cr bc lb = Ok l"
    and "identity_from_seed_bytes cr ks ss ep = Ok nx" and "parse_commitment c = Ok c'"
  shows "case next_key_commitment l of
      None \<Rightarrow> \<exists>e. gossip_recover_lineage cr bc clock lb ks ss ep c = Err (IdentityError e)
    | Some d \<Rightarrow>
        if d = key_commitment cr (sig_public_key_bytes cr nx) then
          \<exists>b r l'. gossip_recover_lineage cr bc clock lb ks ss ep c = Ok b \<and>
            lineage_encode bc l' = Ok b \<and> kl_inception l' = kl_inception l \<and> kl_rotations l' = kl_rotations l @ [r] \<and>
            kl_current l' = state_of_rotation r \<and> kr_authorization r = [] \<and>
            kl_node_id l' = kl_node_id l \<and> lineage_sequence l' = lineage_sequence l + 1 \<and>
            current_sig_public_key l' = sig_public_key_bytes cr nx \<and> next_key_commitment l' = c' \<and>
            (length b \<le> MAX_LINEAGE_BYTES \<longrightarrow> lineage_decode cr bc b = Ok l')
        else \<exists>e. gossip_recover_lineage cr bc clock lb ks ss ep c = Err e"
proof (cases "next_key_commitment l")
  case None
  then show ?thesis
    by (simp add: gossip_recover_lineage_def assms(6-8) lineage_recover_def next_key_commitment_def)
next
  case (Some d)
  note rec = recover_result [OF assms(6-8), of clock]
  have inv: "lineage_inv cr l" by (rule lineage_decode_inv [OF assms(6)])
  show ?thesis
  proof (cases "d = key_commitment cr (sig_public_key_bytes cr nx)")
    case True
    obtain kem where kem: "kem_public_key_canonical_bytes cr nx = Ok kem" "length kem = KEM_PK_LEN"
      using canonical_bytes_size(1) [OF assms(2)] by blast
    obtain r l' where ba: "build_and_apply cr None nx c' (current_time_unix_ms clock) l = Ok (r, l')"
      using build_and_apply_succeeds [OF assms(1) _ kem canonical_bytes_size(2) [OF assms(2)]] assms(5) Some True
      unfolding next_key_commitment_def by fastforce
    obtain b where b: "lineage_encode bc l' = Ok b" using lineage_encode_total [OF assms(3)] by blast
    have "length b \<le> MAX_LINEAGE_BYTES \<longrightarrow> lineage_decode cr bc b = Ok l'"
      using lineage_decode_encode [OF assms(4) build_and_apply_inv [OF ba inv] b] by blast
    moreover have "gossip_recover_lineage cr bc clock lb ks ss ep c = Ok b" using rec Some ba b by simp
    ultimately show ?thesis
      using Some True b build_and_apply_effect [OF ba] build_and_apply_record(2) [OF ba] committed_key_only(2) [OF ba Some]
      by auto
  next
    case False
    have "build_and_apply cr None nx c' (current_time_unix_ms clock) l \<noteq> Ok x" for x
      using committed_key_only(1) [of cr None nx c' "current_time_unix_ms clock" l "fst x" "snd x" d] Some False by auto
    moreover have "build_and_apply cr None nx c' (current_time_unix_ms clock) l \<noteq> Panic" by (rule build_and_apply_not_Panic [OF inv])
    ultimately show ?thesis using rec Some False by (cases "build_and_apply cr None nx c' (current_time_unix_ms clock) l") auto
  qed
qed

theorem recovery_needs_only_the_committed_key_witness:
  "\<exists>b l' r. gossip_recover_lineage cr0 bc0 (Some 5)
       (rotated_bytes0 [1] (Some (key_commitment cr0 (pad 1952 (replicate 32 7)))) 2000)
       (replicate 96 7) (replicate 32 7) ''epoch-2'' None = Ok b \<and> lineage_encode bc0 l' = Ok b \<and>
     kl_rotations l' = kl_rotations (rotated0 [1] (Some (key_commitment cr0 (pad 1952 (replicate 32 7)))) 2000) @ [r] \<and>
     kl_node_id l' = ni_node_id (node0 [1])"
proof -
  let ?c = "Some (key_commitment cr0 (pad 1952 (replicate 32 7)))"
  have "next_key_commitment (rotated0 [1] ?c 2000) = ?c" "kl_node_id (rotated0 [1] ?c 2000) = ni_node_id (node0 [1])"
    by (simp_all add: next_key_commitment_def rotated0_def state_of_rotation_def rotation0_def Let_def unsigned0_def
        unsigned_rotation_def)
  moreover have "lineage_decode cr0 bc0 (rotated_bytes0 [1] ?c 2000) = Ok (rotated0 [1] ?c 2000)"
    by (rule rotated_decode_0) (simp add: array32_def key_commitment_def)
  ultimately show ?thesis
    using recovery_needs_only_the_committed_key [OF laws_cr0(3,5) lineage_laws_bc0(2,1) _ _ seed_node_0,
        of "rotated_bytes0 [1] ?c 2000" "rotated0 [1] ?c 2000" None None "Some 5"] sign_total_0
    by (auto simp: parse_commitment_def)
qed

section \<open>Handshake\<close>

text \<open>C20. The client completes a handshake only on a FinishAck that carries the hash of this client's
  own three messages, the MAC of that hash under the secret it encapsulated, and a signature of the
  hash under the key the server announced in the Ack; the session then records that key, that node
  id and that hash.\<close>

theorem client_completes_only_on_authentic_finish_ack:
  assumes "process_finish_ack cr bc a b t m = (Ok s, m')"
  shows "\<exists>g cn sn cb ss32 pb ab fb pk nid t0. de_finish_ack bc b = Inr g \<and>
     unat t \<le> unat (fack_timestamp_unix_ms g) + 30000 \<and>
     hm_get a (pending m) = Some (Client (FinishSent cn sn cb ss32 pb ab fb pk nid t0)) \<and>
     fack_transcript_hash g = sha256 cr (pb @ ab @ fb) \<and>
     fack_server_mac g = hmac_sha256 cr ss32 (fack_transcript_hash g) \<and>
     sig_verify cr pk (tagged_message SIG_CTX_HANDSHAKE (fack_transcript_hash g)) (fack_transcript_signature g) = SigOk \<and>
     sr_peer_addr s = a \<and> sr_peer_node_id s = nid \<and> sr_peer_sig_public_key s = pk \<and>
     sr_transcript_hash s = fack_transcript_hash g \<and> sr_is_active s"
  using assms
  unfolding process_finish_ack_Ok check_finish_ack_Ok fresh_iff compute_transcript_hash_def compute_server_mac_def
  by auto

text \<open>A complete exchange of the example nodes.\<close>

lemma exchange_0:
  obtains probe ack fin fack mc1 ms1 mc2 ms2 mc3 sc ss where
    "build_probe bc0 (Inr [1]) ''s'' (node0 [1]) 1000 manager_new = (Ok probe, mc1)"
    "process_probe_build_ack cr0 bc0 (Inr [2]) ''c'' probe (node0 [2]) 1001 manager_new = (Ok ack, ms1)"
    "process_ack_build_finish cr0 bc0 [3] ''s'' ack (node0 [1]) 1002 mc1 = (Ok fin, mc2)"
    "process_finish_build_finish_ack cr0 bc0 ''c'' fin (node0 [2]) 1003 ms1 = (Ok (fack, ss), ms2)"
    "process_finish_ack cr0 bc0 ''s'' fack 1004 mc2 = (Ok sc, mc3)"
    "sr_peer_sig_public_key sc = pad 1952 [2]" "sr_peer_addr sc = ''s''" "sr_peer_sig_public_key ss = pad 1952 [1]"
    "classify_incoming probe = KindHandshakeProbe" "classify_incoming ack = KindHandshakeAck"
    "classify_incoming fin = KindHandshakeFinish" "classify_incoming fack = KindHandshakeFinishAck"
proof -
  have keys: "length (sig_public_key_bytes cr0 (node0 k)) = 1952" for k by simp
  have clk: "fresh_timestamp 1001 1000" "fresh_timestamp 1002 1001" "fresh_timestamp 1003 1002" "fresh_timestamp 1004 1003"
    by (simp_all add: fresh_iff)
  obtain probe ack fin fack mc1 ms1 mc2 ms2 mc3 sc ss where
    x: "build_probe bc0 (Inr [1]) ''s'' (node0 [1]) 1000 manager_new = (Ok probe, mc1)"
    "process_probe_build_ack cr0 bc0 (Inr [2]) ''c'' probe (node0 [2]) 1001 manager_new = (Ok ack, ms1)"
    "process_ack_build_finish cr0 bc0 [3] ''s'' ack (node0 [1]) 1002 mc1 = (Ok fin, mc2)"
    "process_finish_build_finish_ack cr0 bc0 ''c'' fin (node0 [2]) 1003 ms1 = (Ok (fack, ss), ms2)"
    "process_finish_ack cr0 bc0 ''s'' fack 1004 mc2 = (Ok sc, mc3)"
    and sc: "sr_peer_sig_public_key sc = sig_public_key_bytes cr0 (node0 [2])" "sr_peer_addr sc = ''s''"
      "sr_peer_sig_public_key ss = sig_public_key_bytes cr0 (node0 [1])"
    and wire: "\<exists>p. ser_probe bc0 p = Inr probe \<and> probe_magic p = HANDSHAKE_PROBE_MAGIC"
       "\<exists>k. ser_ack bc0 k = Inr ack \<and> ack_magic k = HANDSHAKE_ACK_MAGIC"
       "\<exists>f. ser_finish bc0 f = Inr fin \<and> fin_magic f = HANDSHAKE_FINISH_MAGIC"
       "\<exists>g. ser_finish_ack bc0 g = Inr fack \<and> fack_magic g = HANDSHAKE_FINISH_ACK_MAGIC"
    using honest_exchange [OF bincode_laws_bc0 laws_cr0(4,3) externals_total_0 keys keys clk,
      of "[1]" "''s''" "[1]" manager_new "[2]" "''c''" "[2]" manager_new "[3]"]
    by blast
  have "classify_incoming probe = KindHandshakeProbe" "classify_incoming ack = KindHandshakeAck"
    "classify_incoming fin = KindHandshakeFinish" "classify_incoming fack = KindHandshakeFinishAck"
    using wire layout_laws_bc0 by (auto simp: layout_laws_def intro: magic_first_classify)
  with x sc show thesis by (intro that) simp_all
qed

theorem client_completes_only_on_authentic_finish_ack_witness:
  "\<exists>m b s m'. process_finish_ack cr0 bc0 ''s'' b 1004 m = (Ok s, m') \<and>
     (\<exists>g. de_finish_ack bc0 b = Inr g \<and> sr_transcript_hash s = fack_transcript_hash g)"
proof -
  obtain fack mc2 sc mc3 where ok: "process_finish_ack cr0 bc0 ''s'' fack 1004 mc2 = (Ok sc, mc3)"
    using exchange_0 by metis
  from client_completes_only_on_authentic_finish_ack [OF ok] ok show ?thesis by blast
qed

text \<open>C16. A Finish is used once: after the server has answered it, every further Finish of that peer is
  refused until a new Probe.\<close>

theorem finish_is_single_use:
  assumes "manager_inv m" and "process_finish_build_finish_ack cr bc a fb i t m = (Ok x, m')"
  shows "\<exists>e. fst (process_finish_build_finish_ack cr bc a fb' i' t' m') = Err e"
proof -
  obtain f where "check_finish bc t fb = Ok f"
    using assms(2) by (auto simp: process_finish_build_finish_ack_def split: res.splits)
  from finish_consumes [OF assms(1) this assms(2)] show ?thesis by (rule finish_needs_context)
qed

theorem finish_is_single_use_witness:
  "\<exists>m fb x m' e. process_finish_build_finish_ack cr0 bc0 ''c'' fb (node0 [2]) 1003 m = (Ok x, m') \<and>
     fst (process_finish_build_finish_ack cr0 bc0 ''c'' fb (node0 [2]) 1003 m') = Err e"
proof -
  obtain probe ack fin fack ss ms1 ms2 where
    p: "process_probe_build_ack cr0 bc0 (Inr [2]) ''c'' probe (node0 [2]) 1001 manager_new = (Ok ack, ms1)"
    and f: "process_finish_build_finish_ack cr0 bc0 ''c'' fin (node0 [2]) 1003 ms1 = (Ok (fack, ss), ms2)"
    using exchange_0 by metis
  have "manager_inv ms1" using ack_op.keeps_inv [OF manager_inv_new, of cr0 bc0 "Inr [2]" "''c''" probe "node0 [2]" 1001] p by simp
  from finish_is_single_use [OF this f, of fin "node0 [2]" 1003] f show ?thesis by blast
qed

text \<open>C17. Bytes from one peer never change what is pending or completed for another, whatever they are.\<close>

theorem peers_do_not_interfere:
  assumes "manager_inv m" and "b \<noteq> a"
  shows "hm_get b (pending (snd (process_incoming cr bc rand rng a bytes i now m))) = hm_get b (pending m) \<and>
    get_session b (snd (process_incoming cr bc rand rng a bytes i now m)) = get_session b m"
  using incoming_op.keeps_pending [OF assms] incoming_op.keeps_get_session [OF assms] by blast

theorem peers_do_not_interfere_witness:
  "hm_get ''b'' (pending (snd (process_incoming cr0 bc0 (Inr [1]) [2] ''a'' [9] (node0 [1]) 5
     (put_pending ''b'' (Client (ProbeSent [1] [2] 3)) manager_new)))) = Some (Client (ProbeSent [1] [2] 3))"
proof -
  have "manager_inv (put_pending ''b'' (Client (ProbeSent [1] [2] 3)) manager_new)"
    by (intro manager_inv_put_pending manager_inv_new) simp
  from peers_do_not_interfere [OF this, of "''b''" "''a''" cr0 bc0 "Inr [1]" "[2]" "[9]" "node0 [1]" 5] show ?thesis by simp
qed

text \<open>C18. Incoming bytes are dispatched by their magic: a kind of handshake message is chosen exactly
  when its magic follows the 8-byte length, and everything else is an envelope. (The order of the
  tests does not matter: no magic is a prefix of another.)\<close>

theorem dispatch_by_magic:
  "let p = (if length bs > 8 then drop 8 bs else bs) in
     (classify_incoming bs = KindHandshakeProbe) = starts_with p HANDSHAKE_PROBE_MAGIC \<and>
     (classify_incoming bs = KindHandshakeAck) = starts_with p HANDSHAKE_ACK_MAGIC \<and>
     (classify_incoming bs = KindHandshakeFinish) = starts_with p HANDSHAKE_FINISH_MAGIC \<and>
     (classify_incoming bs = KindHandshakeFinishAck) = starts_with p HANDSHAKE_FINISH_ACK_MAGIC"
  unfolding Let_def by (intro conjI classify_iff) simp_all

text \<open>C19. The comparison of MACs without early exit is equality.\<close>

theorem constant_time_eq_is_equality: "constant_time_eq a b = (a = b)"
  by (rule constant_time_eq_iff)

section \<open>Signatures and envelopes\<close>

text \<open>C21. An envelope is accepted exactly when its version is 1, its id is the hash of type and payload,
  it is not older than the replay window, its TTL is not 0, its payload is within the limit, and its
  signature verifies under the key it names; otherwise verification is an error, never
  \<open>Ok(false)\<close>.\<close>

theorem envelope_acceptance:
  "case verify_envelope cr env rc now of
     Ok b \<Rightarrow> b \<and> env_version env = 1 \<and>
       env_message_id env = sha256 cr (as_u8 (env_payload_type env) # env_payload env) \<and>
       unat now \<le> unat (env_timestamp_unix_ms env) + unat (rc_replay_window_ms rc) \<and>
       env_ttl env \<noteq> 0 \<and> length (env_payload env) \<le> rc_max_message_bytes rc \<and>
       sig_verify cr (env_sender_public_key env) (tagged_message SIG_CTX_MESSAGE (signing_input env)) (env_signature env) = SigOk
   | Err e \<Rightarrow> \<not> (env_version env = 1 \<and>
       env_message_id env = sha256 cr (as_u8 (env_payload_type env) # env_payload env) \<and>
       unat now \<le> unat (env_timestamp_unix_ms env) + unat (rc_replay_window_ms rc) \<and>
       env_ttl env \<noteq> 0 \<and> length (env_payload env) \<le> rc_max_message_bytes rc \<and>
       sig_verify cr (env_sender_public_key env) (tagged_message SIG_CTX_MESSAGE (signing_input env)) (env_signature env) = SigOk)
   | Panic \<Rightarrow> False"
  using verify_envelope_True [of cr env rc now] verify_envelope_cases [of cr env rc now]
  by (auto simp: compute_message_id_def)

section \<open>Deduplication and publishing\<close>

text \<open>C23. The cache refines a log that never forgets: for any sequence of insertions, queries and
  evictions with a clock that does not run backwards, the answers are those of the specification
  that remembers the last insertion of each id and calls it a duplicate while at most the TTL
  (\<open>ttl_secs * 1000\<close> in 64 bits) has passed. Eviction cannot be observed.\<close>

theorem dedup_refines_specification:
  assumes "sorted (map (\<lambda>x. unat (op_time x)) ops)"
  shows "dedup_run ops (dedup_new secs) = spec_run (secs * 1000) ops (\<lambda>_. None)"
  using dedup_run_refines [OF dedup_sim_new [of 0 secs], of ops] assms
  by (simp add: dedup_new_def o_def)

theorem dedup_refines_specification_witness:
  "dedup_run [OpInsert [1] 5, OpQuery [1] 1005, OpEvict 1006, OpQuery [1] 1006] (dedup_new 1) =
     [None, Some True, None, Some False]"
proof -
  have "spec_run (1 * 1000) [OpInsert [1] 5, OpQuery [1] 1005, OpEvict 1006, OpQuery [1] 1006] (\<lambda>_. None) =
      [None, Some True, None, Some False]"
    by (simp add: live_def)
  then show ?thesis
    using dedup_refines_specification [of "[OpInsert [1] 5, OpQuery [1] 1005, OpEvict 1006, OpQuery [1] 1006]" 1] by simp
qed

lemma build_envelope_Err: "build_envelope cr pt payload i ttl now = Err x \<Longrightarrow> \<exists>s. x = CryptoError s"
  by (auto simp: build_envelope_def Let_def sign_def context_too_long_def and_then_eq_Err check_eq_Err map_err_eq_Err
      split: if_splits)

text \<open>The second publication of a message whose id was inserted at \<open>t\<close>.\<close>

lemma republish:
  assumes "engine_inv e" and "from_u8 ty = Some pt" and "length payload \<le> rc_max_message_bytes (config e)"
    and "dedup e = dedup_insert (compute_message_id cr pt payload) t c" and "dedup_inv c"
  shows "(fst (publish cr ty payload t' e) = Err (EnvelopeError ''duplicate message'')) = live (dc_ttl_ms c) t' t"
proof (cases "live (dc_ttl_ms c) t' t")
  case True
  then have dup: "fst (is_duplicate (compute_message_id cr pt payload) t' (dedup e))"
    using dedup.fresh_after_insert [OF assms(5)] by (simp add: assms(4))
  show ?thesis using publish_duplicate [OF assms(2,3) dup] True by simp
next
  case False
  then have fresh: "\<not> fst (is_duplicate (compute_message_id cr pt payload) t' (dedup e))"
    using dedup.fresh_after_insert [OF assms(5)] by (simp add: assms(4))
  show ?thesis
    using publish_fresh [OF assms(2,3) fresh] False by (auto simp: Let_def split: res.splits dest: build_envelope_Err)
qed

text \<open>C24. A published message cannot be published again while at most the cache TTL has passed, and can
  afterwards: the second attempt is refused as a duplicate exactly then.\<close>

theorem published_messages_are_not_repeated:
  assumes "engine_inv e" and "publish cr ty payload t e = (Ok i, e')"
  shows "(fst (publish cr ty payload t' e') = Err (EnvelopeError ''duplicate message'')) =
    (unat t' \<le> unat t + unat (dc_ttl_ms (dedup e)))"
proof -
  obtain pt where pt: "from_u8 ty = Some pt" "length payload \<le> rc_max_message_bytes (config e)"
    "\<not> fst (is_duplicate (compute_message_id cr pt payload) t (dedup e))"
    using assms(2)
    by (cases rule: publish_cases [where t = ty and e = e and payload = payload and cr = cr and now = t])
       (auto simp: publish_simps)
  have e': "config e' = config e" "dedup e' = dedup_insert (compute_message_id cr pt payload) t (evict_expired t (dedup e))"
    using assms(2) publish_fresh [OF pt] by (auto simp: Let_def split: res.splits)
  have "engine_inv e'" using eng_publish.keeps_inv [OF assms(1), of cr ty payload t] assms(2) by simp
  from republish [OF this pt(1) _ e'(2)] engine_invD(4) [OF assms(1)] pt(2) e'(1) show ?thesis by (simp add: live_def)
qed

lemma publish_0: "\<exists>i e'. publish cr0 0 [42] 1000 (engine_new rc0 (node0 [1])) = (Ok i, e')"
proof -
  have ty: "from_u8 0 = Some Transaction" by (simp add: from_u8_def)
  have "\<not> fst (is_duplicate (compute_message_id cr0 Transaction [42]) 1000 (dedup_new 60))"
    by (simp add: is_duplicate_iff) (simp add: dedup_new_def)
  then show ?thesis
    using publish_fresh [OF ty, of "[42]" "engine_new rc0 (node0 [1])" cr0 1000]
    by (simp add: Let_def build_envelope_def sign_0)
qed

theorem published_messages_are_not_repeated_witness:
  "\<exists>i e'. publish cr0 0 [42] 1000 (engine_new rc0 (node0 [1])) = (Ok i, e') \<and>
     fst (publish cr0 0 [42] 61000 e') = Err (EnvelopeError ''duplicate message'') \<and>
     fst (publish cr0 0 [42] 61001 e') \<noteq> Err (EnvelopeError ''duplicate message'')"
proof -
  obtain i e' where p: "publish cr0 0 [42] 1000 (engine_new rc0 (node0 [1])) = (Ok i, e')" using publish_0 by blast
  have inv: "engine_inv (engine_new rc0 (node0 [1]))"
    by (rule engine_inv_new) (rule resolve_config_ok [OF resolve_0])
  have ttl: "unat (dc_ttl_ms (dedup_new 60)) = 60000" by (simp add: dedup_new_def)
  show ?thesis
    using published_messages_are_not_repeated [OF inv p, of 61000] published_messages_are_not_repeated [OF inv p, of 61001] p ttl
    by simp
qed

section \<open>Mesh and sessions\<close>

text \<open>C25. A heartbeat keeps the mesh peers it finds, and when they are fewer than \<open>mesh_n_low\<close> it fills the
  mesh up to \<open>mesh_n\<close>, as far as there are sessions; otherwise the mesh stays as it is.\<close>

theorem heartbeat_restores_mesh:
  assumes "engine_inv e"
  shows "\<exists>new. mesh_peers (heartbeat now e) = mesh_peers e @ new \<and>
    length (mesh_peers (heartbeat now e)) =
      (if length (mesh_peers e) < unat (rc_mesh_n_low (config e))
       then min (unat (rc_mesh_n (config e))) (sessions_count (sessions e))
       else length (mesh_peers e)) \<and>
    distinct (mesh_peers (heartbeat now e)) \<and>
    set (mesh_peers (heartbeat now e)) \<subseteq> {a. sessions_get a (sessions e) \<noteq> None}"
proof -
  have cfg: "config_ok (config e)" using engine_invD(1) [OF assms] .
  then have lo: "unat (rc_mesh_n_low (config e)) \<le> unat (rc_mesh_n (config e))" by (simp add: config_ok_def word_le_nat_alt)
  have "mesh_inv (heartbeat now e)" using engine_invD(6) [OF heartbeat_inv [OF assms]] .
  then have "distinct (mesh_peers (heartbeat now e))"
    "set (mesh_peers (heartbeat now e)) \<subseteq> {a. sessions_get a (sessions e) \<noteq> None}"
    by (simp_all add: mesh_inv_def)
  moreover have "length (mesh_peers (heartbeat now e)) =
      (if length (mesh_peers e) < unat (rc_mesh_n_low (config e))
       then min (unat (rc_mesh_n (config e))) (sessions_count (sessions e)) else length (mesh_peers e))"
    using unmeshed_props(4,5) [OF assms] lo by (auto simp: heartbeat_mesh [OF cfg])
  moreover have "\<exists>new. mesh_peers (heartbeat now e) = mesh_peers e @ new"
    using heartbeat_mesh [OF cfg, of now] by (auto split: if_splits)
  ultimately show ?thesis by blast
qed

definition session0 :: "string \<Rightarrow> session_record" where
  "session0 a = \<lparr>sr_session_id = ''id'', sr_peer_addr = a, sr_peer_node_id = ''n'', sr_peer_sig_public_key = [],
     sr_transcript_hash = [], sr_established_at_ms = 0, sr_is_active = True\<rparr>"

definition engine0 :: "(bytes, bytes) engine" where
  "engine0 = store_finished (session0 ''b'') (complete_handshake ''a'' (session0 ''a'') (engine_new rc0 (node0 [1])))"

lemma engine0_inv: "engine_inv engine0"
  unfolding engine0_def
  by (intro store_finished_inv complete_handshake_inv engine_inv_new resolve_config_ok [OF resolve_0])
     (simp_all add: session0_def)

lemma engine0_fields:
  "sessions engine0 = sessions_insert (session0 ''b'') (sessions_insert (session0 ''a'') sessions_new)"
  "config engine0 = rc0" "mesh_peers engine0 = [''a'']"
  by (simp_all add: engine0_def store_finished_def complete_handshake_def add_to_mesh_def sync_peer_stats_def Let_def rc0_def)

lemma engine0_count: "sessions_count (sessions engine0) = 2"
  by (simp add: engine0_fields(1) ses.cnt_ins ses.inv_ins ses.inv_empty ses.get_ins ses.get_empty session0_def)

theorem heartbeat_restores_mesh_witness:
  "length (mesh_peers engine0) = 1 \<and> length (mesh_peers (heartbeat 5 engine0)) = 2"
  using heartbeat_restores_mesh [OF engine0_inv, of 5] by (auto simp: engine0_fields(2,3) engine0_count) (simp_all add: rc0_def)

lemma in_progress_cases:
  assumes "in_progress ctx"
  obtains n p t where "ctx = Client (ProbeSent n p t)"
  | n s c k p a f q i t where "ctx = Client (FinishSent n s c k p a f q i t)"
  | n s p a t where "ctx = Server (AckSent n s p a t)"
  using assms by (cases ctx rule: in_progress.cases) auto

fun sent_at :: "handshake_context \<Rightarrow> u64" where
  "sent_at (Client (ProbeSent _ _ t)) = t"
| "sent_at (Client (FinishSent _ _ _ _ _ _ _ _ _ t)) = t"
| "sent_at (Server (AckSent _ _ _ _ t)) = t"
| "sent_at _ = 0"

lemma is_timed_out_iff: "in_progress ctx \<Longrightarrow> is_timed_out now ctx \<longleftrightarrow> unat (sent_at ctx) + 10000 < unat now"
  by (erule in_progress_cases)
     (simp_all add: not_le [symmetric] saturating_sub_le_iff HANDSHAKE_TIMEOUT_MS_def del: not_le)

text \<open>C26. A heartbeat forgets exactly the handshakes that have been waiting for more than 10 s (by their
  last step), counts them as failed, forgets the message ids whose TTL has passed, and keeps the
  acknowledgements of the remembered ids only.\<close>

theorem heartbeat_forgets_what_expired:
  assumes "engine_inv e"
  shows "hm_get a (pending (handshakes (heartbeat now e))) =
      (case hm_get a (pending (handshakes e)) of
         None \<Rightarrow> None
       | Some ctx \<Rightarrow> if unat (sent_at ctx) + 10000 < unat now then None else Some ctx) \<and>
    handshakes_failed (stats (heartbeat now e)) = handshakes_failed (stats e) +
      word_of_nat (card {b. \<exists>ctx. hm_get b (pending (handshakes e)) = Some ctx \<and> unat (sent_at ctx) + 10000 < unat now}) \<and>
    (hm_get i (dc_entries (dedup (heartbeat now e))) = Some ts) =
      (hm_get i (dc_entries (dedup e)) = Some ts \<and> unat now \<le> unat ts + unat (dc_ttl_ms (dedup e))) \<and>
    ack_set i (quorum (heartbeat now e)) =
      (if hm_get i (dc_entries (dedup (heartbeat now e))) = None then {||} else ack_set i (quorum e))"
proof -
  note inv = engine_invD [OF assms]
  have prog: "hm_get b (pending (handshakes e)) = Some ctx \<Longrightarrow> in_progress ctx" for b ctx
    using inv(2) by (simp add: manager_inv_def)
  have timed: "hm_get b (pending (handshakes e)) = Some ctx \<Longrightarrow> is_timed_out now ctx \<longleftrightarrow> unat (sent_at ctx) + 10000 < unat now" for b ctx
    using prog is_timed_out_iff by blast
  have same: "{b. \<exists>ctx. hm_get b (pending (handshakes e)) = Some ctx \<and> is_timed_out now ctx} =
      {b. \<exists>ctx. hm_get b (pending (handshakes e)) = Some ctx \<and> unat (sent_at ctx) + 10000 < unat now}"
    using timed by blast
  have "length (fst (evict_timed_out now (handshakes e))) =
      card {b. \<exists>ctx. hm_get b (pending (handshakes e)) = Some ctx \<and> unat (sent_at ctx) + 10000 < unat now}"
    using distinct_card [OF evicted_addrs(2) [OF inv(2), of now]] by (simp only: evicted_addrs(1) [OF inv(2)] same)
  then have failed: "handshakes_failed (stats (heartbeat now e)) = handshakes_failed (stats e) +
      word_of_nat (card {b. \<exists>ctx. hm_get b (pending (handshakes e)) = Some ctx \<and> unat (sent_at ctx) + 10000 < unat now})"
    by (auto simp: heartbeat_def Let_def graft_eq sync_peer_stats_def split: prod.splits)
  have "ack_set i (quorum (heartbeat now e)) =
      (if hm_get i (dc_entries (dedup (heartbeat now e))) = None then {||} else ack_set i (quorum e))"
    by (simp add: ack_set_prune [OF inv(5)] set_active_ids)
  moreover have "hm_get a (pending (handshakes (heartbeat now e))) =
      (case hm_get a (pending (handshakes e)) of
         None \<Rightarrow> None | Some ctx \<Rightarrow> if unat (sent_at ctx) + 10000 < unat now then None else Some ctx)"
    using timed by (simp add: evict_pending [OF inv(2)] split: option.splits)
  moreover have "(hm_get i (dc_entries (dedup (heartbeat now e))) = Some ts) =
      (hm_get i (dc_entries (dedup e)) = Some ts \<and> unat now \<le> unat ts + unat (dc_ttl_ms (dedup e)))"
    by (simp add: get_evict [OF inv(4)] live_def)
  ultimately show ?thesis using failed by blast
qed

theorem heartbeat_forgets_what_expired_witness:
  "hm_get ''p'' (pending (handshakes (heartbeat 20000
     (engine0\<lparr>handshakes := put_pending ''p'' (Client (ProbeSent [1] [2] 9999)) manager_new\<rparr>)))) = None"
proof -
  have "engine_inv (engine0\<lparr>handshakes := put_pending ''p'' (Client (ProbeSent [1] [2] 9999)) manager_new\<rparr>)"
    by (intro engine_inv_handshakes engine0_inv manager_inv_put_pending manager_inv_new) simp
  from heartbeat_forgets_what_expired [OF this, of "''p''" 20000] show ?thesis by simp
qed

text \<open>C27. Disconnecting a connected peer removes its session, its mesh entry, its handshake in progress and
  its completed handshake, and nothing of any other peer, and the two peer counters are exact
  afterwards; disconnecting a peer without a session is an error that changes nothing, so a
  handshake in progress stays.\<close>

theorem disconnect_forgets_the_peer:
  assumes "engine_inv e" and "disconnect_peer a e = (r, e')"
  shows "(r = Ok ()) = (sessions_get a (sessions e) \<noteq> None) \<and>
    (r = Err (PeerNotFound a)) = (sessions_get a (sessions e) = None) \<and>
    sessions_get a (sessions e') = None \<and> a \<notin> set (mesh_peers e') \<and>
    (r = Ok () \<longrightarrow> hm_get a (pending (handshakes e')) = None \<and> get_session a (handshakes e') = None \<and>
       unat (active_peers_stat (stats e')) = sessions_count (sessions e') mod 2 ^ 32 \<and>
       unat (mesh_peers_stat (stats e')) = length (mesh_peers e') mod 2 ^ 32) \<and>
    (r = Err (PeerNotFound a) \<longrightarrow> mesh_peers e' = mesh_peers e \<and> handshakes e' = handshakes e \<and> stats e' = stats e) \<and>
    (\<forall>b. b \<noteq> a \<longrightarrow> sessions_get b (sessions e') = sessions_get b (sessions e) \<and>
       (b \<in> set (mesh_peers e')) = (b \<in> set (mesh_peers e)) \<and>
       hm_get b (pending (handshakes e')) = hm_get b (pending (handshakes e)) \<and>
       get_session b (handshakes e') = get_session b (handshakes e))"
proof -
  note inv = engine_invD [OF assms(1)]
  have hm: "hm_inv (sessions e)" "hm_inv (pending (handshakes e))" "hm_inv (completed (handshakes e))"
    using inv by (simp_all add: sessions_inv_def manager_inv_def)
  show ?thesis
  proof (cases "sessions_get a (sessions e)")
    case None
    moreover have "a \<notin> set (mesh_peers e)" using inv(6) None by (auto simp: mesh_inv_def)
    ultimately show ?thesis
      using assms(2) hm by (auto simp: disconnect_peer_def sessions_remove_def sessions_get_def hm.get_remove)
  next
    case (Some s)
    then show ?thesis
      using assms(2) hm
      by (auto simp: disconnect_peer_def sessions_remove_def sessions_get_def hm.get_remove remove_from_mesh_def
          Let_def manager_remove_def get_session_def sync_peer_stats_def unat_of_nat take_bit_eq_mod)
  qed
qed

theorem disconnect_forgets_the_peer_witness:
  "fst (disconnect_peer ''a'' engine0) = Ok () \<and> mesh_peers (snd (disconnect_peer ''a'' engine0)) = [] \<and>
     hm_get ''a'' (pending (handshakes (snd (disconnect_peer ''a'' engine0)))) = None"
proof -
  obtain r e' where d: "disconnect_peer ''a'' engine0 = (r, e')" by force
  have some: "sessions_get ''a'' (sessions engine0) \<noteq> None" by (simp add: engine0_fields ses.get_ins session0_def)
  have no: "b \<notin> set (mesh_peers e')" for b
    using disconnect_forgets_the_peer [OF engine0_inv d] by (cases "b = ''a''") (auto simp: engine0_fields(3))
  then have "mesh_peers e' = []" using no [of "hd (mesh_peers e')"] by (cases "mesh_peers e'") auto
  with some show ?thesis using disconnect_forgets_the_peer [OF engine0_inv d] d by simp
qed

section \<open>Quorum and configuration\<close>

text \<open>C28. With the default fraction, a quorum among \<open>n\<close> peers means strictly more than two thirds of them
  have acknowledged, for every peer count an \<open>f64\<close> holds exactly, despite the rounding of \<open>0.67\<close> and
  of the product; and when all \<open>n\<close> have acknowledged there is a quorum.\<close>

theorem default_quorum_is_over_two_thirds:
  assumes "qt_quorum_fraction q = f64_round (67 / 100)" and "0 < n" and "n < 2 ^ 53" and "n \<le> usize_max"
  shows "(has_quorum usize_max m n q \<longrightarrow> 2 * n < 3 * ack_count m q) \<and>
    (n \<le> ack_count m q \<longrightarrow> has_quorum usize_max m n q)"
proof -
  have fr: "qt_quorum_fraction q = F64 default_fraction" using assms(1) by (simp add: f64_round_067)
  have "2 * n < 3 * required_acks usize_max q n" by (rule required_two_thirds [OF fr assms(2-4)])
  moreover have "required_acks usize_max q n \<le> n"
    by (rule required_le [OF fr _ _ assms(3)]) (simp_all add: default_fraction_def)
  ultimately show ?thesis using assms(2) by (auto simp: has_quorum_def)
qed

definition tracker0 :: quorum_tracker where
  "tracker0 = record_ack [7] ''c'' (record_ack [7] ''b'' (record_ack [7] ''a'' (quorum_new (f64_round (67 / 100)))))"

lemma tracker0_fraction: "qt_quorum_fraction tracker0 = f64_round (67 / 100)"
  by (simp add: tracker0_def) (simp add: quorum_new_def)

lemma tracker0_set: "ack_set [7] tracker0 = {|''a'', ''b'', ''c''|}"
proof -
  have "ack_set [7] (quorum_new f) = {||}" for f by (simp add: ack_set_def quorum_new_def)
  then show ?thesis by (auto simp: tracker0_def ack_set_record)
qed

lemma tracker0_count: "ack_count [7] tracker0 = 3"
  by (simp add: ack_count_set tracker0_set fcard_finsert_if)

theorem default_quorum_is_over_two_thirds_witness: "has_quorum 1000 [7] 3 tracker0"
  using default_quorum_is_over_two_thirds [OF tracker0_fraction, of 3 1000 "[7]"] tracker0_count by simp

text \<open>C29. Two messages that both have a quorum among the same peers share more than a third of the peers:
  at least one peer that acknowledged both is honest when at most a third are faulty.\<close>

theorem quorums_intersect:
  assumes "qt_quorum_fraction q = f64_round (67 / 100)" and "fcard peers = n" and "0 < n" and "n < 2 ^ 53"
    and "n \<le> usize_max"
    and "ack_set m q |\<subseteq>| peers" and "ack_set m' q |\<subseteq>| peers"
    and "has_quorum usize_max m n q" and "has_quorum usize_max m' n q"
  shows "n < 3 * fcard (ack_set m q |\<inter>| ack_set m' q)"
proof -
  have fr: "qt_quorum_fraction q = F64 default_fraction" using assms(1) by (simp add: f64_round_067)
  have "2 * n < 3 * required_acks usize_max q n" by (rule required_two_thirds [OF fr assms(3-5)])
  then have "2 * fcard peers < 3 * fcard (ack_set m q)" "2 * fcard peers < 3 * fcard (ack_set m' q)"
    using assms(2,3,8,9) by (auto simp: has_quorum_def ack_count_set split: if_splits)
  from two_thirds_intersect [OF assms(6,7) this] assms(2) show ?thesis by simp
qed

theorem quorums_intersect_witness: "3 < 3 * fcard (ack_set [7] tracker0 |\<inter>| ack_set [7] tracker0)"
proof -
  have q: "has_quorum 1000 [7] 3 tracker0"
    using required_le [of tracker0 default_fraction 3 1000] tracker0_fraction tracker0_count
    by (simp add: has_quorum_def f64_round_067 default_fraction_def)
  have c: "fcard {|''a'', ''b'', ''c''|} = 3" by (simp add: fcard_finsert_if)
  show ?thesis by (rule quorums_intersect [OF tracker0_fraction c _ _ _ _ _ q q]) (simp_all add: tracker0_set)
qed

text \<open>C30. A configuration that resolves is consistent: the mesh bounds are ordered, the quorum fraction is
  in the unit interval (a NaN is refused), a seed that is given is decoded and has its exact length,
  every other field that is given is taken over, and every field that is absent has its documented
  default.\<close>

theorem resolved_configurations_are_consistent:
  assumes "resolve cr gc = Ok rc"
  shows "rc_mesh_n_low rc \<le> rc_mesh_n rc \<and> rc_mesh_n rc \<le> rc_mesh_n_high rc \<and>
    f64_in_unit (rc_quorum_fraction rc) \<and>
    (case gc_kem_seed_hex gc of None \<Rightarrow> rc_kem_seed rc = None
     | Some hx \<Rightarrow> \<exists>s. hex_decode cr hx = Inr s \<and> length s = 96 \<and> rc_kem_seed rc = Some s) \<and>
    (case gc_sig_seed_hex gc of None \<Rightarrow> rc_sig_seed rc = None
     | Some hx \<Rightarrow> \<exists>s. hex_decode cr hx = Inr s \<and> length s = 32 \<and> rc_sig_seed rc = Some s) \<and>
    rc_node_id_override rc = gc_node_id gc \<and>
    rc_key_epoch rc = unwrap_or (gc_key_epoch gc) ''ephemeral-runtime'' \<and>
    rc_heartbeat_ms rc = unwrap_or (gc_heartbeat_ms gc) 700 \<and>
    rc_quorum_fraction rc = unwrap_or (gc_quorum_fraction gc) (f64_round (67 / 100)) \<and>
    rc_mesh_n rc = unwrap_or (gc_mesh_n gc) 8 \<and> rc_mesh_n_low rc = unwrap_or (gc_mesh_n_low gc) 4 \<and>
    rc_mesh_n_high rc = unwrap_or (gc_mesh_n_high gc) 12 \<and>
    rc_replay_window_ms rc = unwrap_or (gc_replay_window_ms gc) 30000 \<and>
    rc_default_ttl rc = unwrap_or (gc_default_ttl gc) 8 \<and>
    rc_dedup_cache_secs rc = unwrap_or (gc_dedup_cache_secs gc) 60 \<and>
    rc_max_message_bytes rc = unwrap_or (gc_max_message_bytes gc) 1048576"
  using resolve_config_ok [OF assms] resolve_Ok_defaults [OF assms] resolve_Ok_seeds [OF assms]
  by (auto simp: config_ok_def resolve_seed_Ok split: option.splits)

theorem resolved_configurations_are_consistent_witness:
  "\<exists>rc. resolve cr0 seeded_config = Ok rc \<and> rc_mesh_n_low rc \<le> rc_mesh_n rc \<and> f64_in_unit (rc_quorum_fraction rc) \<and>
     rc_kem_seed rc \<noteq> None \<and> rc_key_epoch rc = ''ephemeral-runtime'' \<and> rc_heartbeat_ms rc = 700"
  using resolved_configurations_are_consistent [OF resolve_seeded] resolve_seeded
  by (auto simp: seeded_config_def empty_config_def unwrap_or_def)

section \<open>Behaviour a host should know about\<close>

text \<open>C31. The server does not authenticate the client: a Finish that is accepted is also accepted with any
  other node id and any other signing key of the right size in it, and the session then names those.\<close>

theorem server_accepts_any_claimed_client:
  assumes "process_finish_build_finish_ack cr bc a fb i t m = (Ok (b, s), m')"
    and "de_finish bc fb = Inr f"
    and "de_finish bc fb' = Inr (f\<lparr>fin_client_node_id := nid, fin_client_ml_dsa_65_public_key := pk\<rparr>)"
    and "length pk = 1952" and "externals_total cr bc"
  shows "\<exists>b' s'. process_finish_build_finish_ack cr bc a fb' i t m = (Ok (b', s'), m') \<and>
    sr_peer_node_id s' = nid \<and> sr_peer_sig_public_key s' = pk"
proof -
  obtain cn sn pb ab t0 ct ss ss32 cb where h: "check_finish bc t fb = Ok f"
    "hm_get a (pending m) = Some (Server (AckSent cn sn pb ab t0))" "ct_from_json cr (fin_kem_ciphertext_json f) = Inr ct"
    "kem_decapsulate cr (ni_kem_keypair i) ct = Inr ss" "ss_as_32_bytes cr ss = Inr ss32" "ct_bincode cr ct = Inr cb"
    "m' = take_pending a m"
    using assms(1,2) by (auto simp: process_finish_Ok check_finish_Ok)
  let ?f = "f\<lparr>fin_client_node_id := nid, fin_client_ml_dsa_65_public_key := pk\<rparr>"
  let ?h = "compute_transcript_hash cr pb ab fb'"
  have cf: "check_finish bc t fb' = Ok ?f" using h(1) assms(3,4) by (simp add: check_finish_Ok)
  obtain sg where sg: "sign cr i ?h SIG_CTX_HANDSHAKE = Ok sg"
    using assms(5) unfolding externals_total_def sign_def by force
  obtain b' where "ser_finish_ack bc (finish_ack_msg (derive_session_id cr ss32 cn sn cb (ni_node_id i)) ?h
      (compute_server_mac cr ss32 ?h) sg t) = Inr b'"
    using assms(5) unfolding externals_total_def by blast
  then have "process_finish_build_finish_ack cr bc a fb' i t m =
      (Ok (b', \<lparr>sr_session_id = derive_session_id cr ss32 cn sn cb (ni_node_id i), sr_peer_addr = a,
        sr_peer_node_id = nid, sr_peer_sig_public_key = pk, sr_transcript_hash = ?h,
        sr_established_at_ms = t, sr_is_active = True\<rparr>), m')"
    unfolding process_finish_Ok using cf h sg by simp
  then show ?thesis by auto
qed

theorem server_accepts_any_claimed_client_witness:
  "\<exists>m fb b s m'. process_finish_build_finish_ack cr0 bc0 ''c'' fb (node0 [2]) 1003 m = (Ok (b, s), m') \<and>
     sr_peer_node_id s = ''somebody else'' \<and> sr_peer_sig_public_key s = pad 1952 [99]"
proof -
  obtain fin fack ss ms1 ms2 where ok: "process_finish_build_finish_ack cr0 bc0 ''c'' fin (node0 [2]) 1003 ms1 = (Ok (fack, ss), ms2)"
    using exchange_0 by metis
  then obtain f where f: "de_finish bc0 fin = Inr f" by (auto simp: process_finish_Ok check_finish_Ok)
  let ?f = "f\<lparr>fin_client_node_id := ''somebody else'', fin_client_ml_dsa_65_public_key := pad 1952 [99]\<rparr>"
  have "ser_finish bc0 ?f = Inr (framed fin_magic enc_finish ?f)" by (simp add: bc0_def)
  then have de: "de_finish bc0 (framed fin_magic enc_finish ?f) = Inr ?f" by (rule bincode_lawsD(4) [OF bincode_laws_bc0])
  have "\<exists>b' s'. process_finish_build_finish_ack cr0 bc0 ''c'' (framed fin_magic enc_finish ?f) (node0 [2]) 1003 ms1 =
      (Ok (b', s'), ms2) \<and> sr_peer_node_id s' = ''somebody else'' \<and> sr_peer_sig_public_key s' = pad 1952 [99]"
    by (rule server_accepts_any_claimed_client [OF ok f de _ externals_total_0]) simp
  then show ?thesis by blast
qed

text \<open>C32. The session id in a FinishAck is not authenticated: the client accepts the message with any
  other id in it and stores that id.\<close>

theorem client_accepts_any_session_id:
  assumes "process_finish_ack cr bc a b t m = (Ok s, m')" and "de_finish_ack bc b = Inr g"
    and "de_finish_ack bc b' = Inr (g\<lparr>fack_session_id := sid\<rparr>)"
  shows "process_finish_ack cr bc a b' t m = (Ok (s\<lparr>sr_session_id := sid\<rparr>), m')"
  using assms unfolding process_finish_ack_Ok check_finish_ack_Ok by auto

theorem client_accepts_any_session_id_witness:
  "\<exists>m b s m'. process_finish_ack cr0 bc0 ''s'' b 1004 m = (Ok s, m') \<and> sr_session_id s = ''made up''"
proof -
  obtain fack mc2 sc mc3 where ok: "process_finish_ack cr0 bc0 ''s'' fack 1004 mc2 = (Ok sc, mc3)"
    using exchange_0 by metis
  then obtain g where g: "de_finish_ack bc0 fack = Inr g" by (auto simp: process_finish_ack_Ok check_finish_ack_Ok)
  let ?g = "g\<lparr>fack_session_id := ''made up''\<rparr>"
  have "ser_finish_ack bc0 ?g = Inr (framed fack_magic enc_finish_ack ?g)" by (simp add: bc0_def)
  then have de: "de_finish_ack bc0 (framed fack_magic enc_finish_ack ?g) = Inr ?g"
    by (rule bincode_lawsD(5) [OF bincode_laws_bc0])
  have "sr_session_id (sc\<lparr>sr_session_id := ''made up''\<rparr>) = ''made up''" by simp
  with client_accepts_any_session_id [OF ok g de] show ?thesis by blast
qed

end
