(* ===== verification/Wasi.thy ===== *)
theory Wasi
  imports Component
begin

text \<open>
  \<^verbatim>\<open>witan/src/wasi_exports.rs\<close>: the C-ABI exports of the core module. Arguments are pointers and
  lengths into the linear memory, results are written as three 32-bit words into an out-slot, and
  what they point to is leaked to the host.

  The memory is its bytes and the blocks the allocator has handed out. A memory access has three
  outcomes: it runs, it traps (an access outside the linear memory, a failed \<open>expect\<close>, an
  allocation failure of the standard library), or it breaks the contract of the unsafe function it
  goes through, in which case nothing is known (\<open>Undefined\<close>).

  The allocator, the capacity the standard library chooses for a vector and \<open>serde_json\<close> are
  parameters.
\<close>

section \<open>Linear memory\<close>

type_synonym i32 = "32 word"
type_synonym i64 = "64 word"

record memory =
  mem_data :: bytes
  mem_blocks :: "(nat \<times> nat) list"

datatype 'a run = Ran 'a | Trap | Undefined

fun run_then :: "'a run \<Rightarrow> ('a \<Rightarrow> 'b run) \<Rightarrow> 'b run" where
  "run_then (Ran x) f = f x"
| "run_then Trap f = Trap"
| "run_then Undefined f = Undefined"

lemma run_then_Ran [simp]: "run_then r f = Ran y \<longleftrightarrow> (\<exists>x. r = Ran x \<and> f x = Ran y)"
  by (cases r) auto

definition read_mem :: "nat \<Rightarrow> nat \<Rightarrow> memory \<Rightarrow> bytes" where
  "read_mem a n m = take n (drop a (mem_data m))"

definition store :: "nat \<Rightarrow> bytes \<Rightarrow> memory \<Rightarrow> memory run" where
  "store a bs m =
     (if a + length bs \<le> length (mem_data m)
      then Ran (m\<lparr>mem_data := take a (mem_data m) @ bs @ drop (a + length bs) (mem_data m)\<rparr>)
      else Trap)"

definition le32 :: "i32 \<Rightarrow> bytes" where
  "le32 w = le_bytes 4 (unat w)"

text \<open>The largest size of a layout, and of a slice, on a 32-bit target.\<close>

definition isize_max :: nat where
  "isize_max = 2 ^ 31 - 1"

text \<open>
  The environment: \<open>h_alloc n m\<close> is \<open>std::alloc::alloc\<close> for \<open>n\<close> bytes of alignment 1 (\<open>None\<close> is
  the null pointer), \<open>h_capacity\<close> the capacity of the vector that holds a result, \<open>h_json_string\<close>
  is \<open>serde_json::to_string\<close> of a string.
\<close>

record environment =
  h_alloc :: "nat \<Rightarrow> memory \<Rightarrow> (nat \<times> memory) option"
  h_capacity :: "bytes \<Rightarrow> nat"
  h_json_string :: "string \<Rightarrow> string + string"

section \<open>Allocator exports\<close>

definition wasi_alloc :: "environment \<Rightarrow> i32 \<Rightarrow> memory \<Rightarrow> (i32 \<times> memory) run" where
  "wasi_alloc h sz m =
     (if unat sz > isize_max then Trap
      else if sz = 0 then Undefined
      else case h_alloc h (unat sz) m of
          None \<Rightarrow> Ran (0, m)
        | Some (p, m') \<Rightarrow> Ran (word_of_nat p, m'))"

definition wasi_free :: "i32 \<Rightarrow> i32 \<Rightarrow> memory \<Rightarrow> memory run" where
  "wasi_free ptr len m =
     (if ptr = 0 \<or> len = 0 then Ran m
      else if unat len > isize_max then Trap
      else if (unat ptr, unat len) \<in> set (mem_blocks m)
      then Ran (m\<lparr>mem_blocks := remove1 (unat ptr, unat len) (mem_blocks m)\<rparr>)
      else Undefined)"

section \<open>Helpers\<close>

text \<open>A vector whose buffer outlives it: its address is dangling (1) when nothing was allocated.\<close>

definition leak :: "environment \<Rightarrow> nat \<Rightarrow> bytes \<Rightarrow> memory \<Rightarrow> (i32 \<times> memory) run" where
  "leak h cap data m =
     (if cap = 0 then Ran (1, m)
      else case h_alloc h cap m of
          None \<Rightarrow> Trap
        | Some (p, m') \<Rightarrow> run_then (store p data m') (\<lambda>m''. Ran (word_of_nat p, m'')))"

definition error_variant :: "gossip_error \<Rightarrow> string" where
  "error_variant e =
     (case e of
        NotInitialized \<Rightarrow> ''NotInitialized''
      | AlreadyInitialized \<Rightarrow> ''AlreadyInitialized''
      | ConfigError _ \<Rightarrow> ''ConfigError''
      | IdentityError _ \<Rightarrow> ''IdentityError''
      | HandshakeError _ \<Rightarrow> ''HandshakeError''
      | SessionNotFound _ \<Rightarrow> ''SessionNotFound''
      | EnvelopeError _ \<Rightarrow> ''EnvelopeError''
      | SignatureInvalid \<Rightarrow> ''SignatureInvalid''
      | ReplayDetected \<Rightarrow> ''ReplayDetected''
      | TtlExpired \<Rightarrow> ''TtlExpired''
      | PeerNotFound _ \<Rightarrow> ''PeerNotFound''
      | QuorumNotReached \<Rightarrow> ''QuorumNotReached''
      | SerializationError _ \<Rightarrow> ''SerializationError''
      | CryptoError _ \<Rightarrow> ''CryptoError''
      | InvalidInput _ \<Rightarrow> ''InvalidInput'')"

definition dquote :: string where
  "dquote = [CHR 0x22]"

definition error_json :: "environment \<Rightarrow> gossip_error \<Rightarrow> bytes" where
  "error_json h e =
     (let detail_json = (case h_json_string h (error_fmt e) of Inr s \<Rightarrow> s | Inl _ \<Rightarrow> dquote @ ''unknown'' @ dquote) in
      as_bytes (''{'' @ dquote @ ''error'' @ dquote @ '':'' @ dquote @ error_variant e @ dquote @ '','' @ dquote @ ''detail''
        @ dquote @ '':'' @ detail_json @ ''}''))"

definition error_to_leaked_json :: "environment \<Rightarrow> gossip_error \<Rightarrow> memory \<Rightarrow> (i32 \<times> i32 \<times> memory) run" where
  "error_to_leaked_json h e m =
     (let bytes = error_json h e in
      run_then (leak h (h_capacity h bytes) bytes m) (\<lambda>(ptr, m'). Ran (ptr, word_of_nat (length bytes), m')))"

text \<open>\<open>ptr::write\<close> of an \<open>i32\<close> needs a non-null, 4-aligned pointer.\<close>

definition write_out :: "i32 \<Rightarrow> i32 \<Rightarrow> i32 \<Rightarrow> i32 \<Rightarrow> memory \<Rightarrow> memory run" where
  "write_out out ok ptr len m =
     (if out = 0 \<or> unat out mod 4 \<noteq> 0 then Undefined
      else run_then (store (unat out) (le32 ok) m) (\<lambda>m.
           run_then (store (unat out + 4) (le32 ptr) m) (\<lambda>m.
           store (unat out + 8) (le32 len) m)))"

definition write_ok_bytes :: "environment \<Rightarrow> i32 \<Rightarrow> bytes \<Rightarrow> memory \<Rightarrow> memory run" where
  "write_ok_bytes h out data m =
     (let len = word_of_nat (length data) in
      run_then (leak h (h_capacity h data) data m) (\<lambda>(ptr, m'). write_out out 1 ptr len m'))"

definition write_ok_fixed :: "nat \<Rightarrow> environment \<Rightarrow> i32 \<Rightarrow> bytes \<Rightarrow> memory \<Rightarrow> memory run" where
  "write_ok_fixed n h out data m =
     run_then (leak h n data m) (\<lambda>(ptr, m'). write_out out 1 ptr (word_of_nat n) m')"

definition write_ok_unit :: "i32 \<Rightarrow> memory \<Rightarrow> memory run" where
  "write_ok_unit out m = write_out out 1 0 0 m"

definition write_err :: "environment \<Rightarrow> i32 \<Rightarrow> gossip_error \<Rightarrow> memory \<Rightarrow> memory run" where
  "write_err h out e m =
     run_then (error_to_leaked_json h e m) (\<lambda>(ptr, len, m'). write_out out 0 ptr len m')"

text \<open>\<open>slice::from_raw_parts\<close> needs a non-null pointer and at most \<open>isize::MAX\<close> bytes.\<close>

definition read_bytes :: "i32 \<Rightarrow> i32 \<Rightarrow> memory \<Rightarrow> bytes run" where
  "read_bytes ptr len m =
     (if len = 0 then Ran []
      else if ptr = 0 \<or> unat len > isize_max then Undefined
      else if unat ptr + unat len \<le> length (mem_data m) then Ran (read_mem (unat ptr) (unat len) m)
      else Trap)"

text \<open>\<open>std::str::from_utf8\<close>: the well-formed byte sequences of the Unicode standard.\<close>

definition continuation :: "u8 \<Rightarrow> bool" where
  "continuation b \<longleftrightarrow> 0x80 \<le> b \<and> b \<le> 0xBF"

fun utf8 :: "bytes \<Rightarrow> bool" where
  "utf8 [] = True"
| "utf8 (a # bs) =
     (if a < 0x80 then utf8 bs
      else if 0xC2 \<le> a \<and> a \<le> 0xDF then
        (case bs of b # cs \<Rightarrow> continuation b \<and> utf8 cs | _ \<Rightarrow> False)
      else if 0xE0 \<le> a \<and> a \<le> 0xEF then
        (case bs of b # c # cs \<Rightarrow>
           continuation b \<and> continuation c \<and> (a = 0xE0 \<longrightarrow> 0xA0 \<le> b) \<and> (a = 0xED \<longrightarrow> b \<le> 0x9F) \<and> utf8 cs
         | _ \<Rightarrow> False)
      else if 0xF0 \<le> a \<and> a \<le> 0xF4 then
        (case bs of b # c # d # cs \<Rightarrow>
           continuation b \<and> continuation c \<and> continuation d \<and> (a = 0xF0 \<longrightarrow> 0x90 \<le> b) \<and> (a = 0xF4 \<longrightarrow> b \<le> 0x8F) \<and> utf8 cs
         | _ \<Rightarrow> False)
      else False)"

definition text_of :: "bytes \<Rightarrow> string" where
  "text_of b = map (\<lambda>w. char_of (unat w)) b"

definition read_str :: "i32 \<Rightarrow> i32 \<Rightarrow> memory \<Rightarrow> string run" where
  "read_str ptr len m =
     run_then (read_bytes ptr len m) (\<lambda>bytes. Ran (if utf8 bytes then text_of bytes else ''''))"

section \<open>Exports\<close>

text \<open>
  Every export has the same shape: read the arguments, call the function of \<^verbatim>\<open>api.rs\<close>, write its value with
  the writer of its type or its error with \<open>write_err\<close>. A panic of the call is a trap.
\<close>

type_synonym ('k, 'd) instance_state = "('k, 'd) globals \<times> memory"

definition respond ::
    "environment \<Rightarrow> i32 \<Rightarrow> ('a \<Rightarrow> memory \<Rightarrow> memory run) \<Rightarrow> 'a res \<times> ('k, 'd) globals \<Rightarrow> memory \<Rightarrow>
     ('k, 'd) instance_state run" where
  "respond h out write p m =
     (case p of
        (Ok v, g) \<Rightarrow> run_then (write v m) (\<lambda>m'. Ran (g, m'))
      | (Err e, g) \<Rightarrow> run_then (write_err h out e m) (\<lambda>m'. Ran (g, m'))
      | (Panic, g) \<Rightarrow> Trap)"

definition gossip_init_wasi ::
    "environment \<Rightarrow> ('k, 'p, 'c, 's, 'd) crypto \<Rightarrow> json \<Rightarrow> bytes \<Rightarrow> bytes \<Rightarrow> i32 \<Rightarrow> i32 \<Rightarrow> i32 \<Rightarrow>
     ('k, 'd) instance_state \<Rightarrow> ('k, 'd) instance_state run" where
  "gossip_init_wasi h cr js kem_rng sig_rng cfg_ptr cfg_len out s =
     (case s of (g, m) \<Rightarrow>
      run_then (read_str cfg_ptr cfg_len m) (\<lambda>cfg.
      respond h out (\<lambda>_. write_ok_unit out) (gossip_init cr js kem_rng sig_rng cfg g) m))"

definition gossip_publish_wasi ::
    "environment \<Rightarrow> ('k, 'p, 'c, 's, 'd) crypto \<Rightarrow> nat option \<Rightarrow> i32 \<Rightarrow> i32 \<Rightarrow> i32 \<Rightarrow> i32 \<Rightarrow>
     ('k, 'd) instance_state \<Rightarrow> ('k, 'd) instance_state run" where
  "gossip_publish_wasi h cr clock pt payload_ptr payload_len out s =
     (case s of (g, m) \<Rightarrow>
      run_then (read_bytes payload_ptr payload_len m) (\<lambda>payload.
      respond h out (write_ok_fixed 32 h out) (gossip_publish cr clock (ucast pt) payload g) m))"

definition gossip_connect_peer_wasi ::
    "environment \<Rightarrow> codec \<Rightarrow> nat option \<Rightarrow> string + bytes \<Rightarrow> i32 \<Rightarrow> i32 \<Rightarrow> i32 \<Rightarrow>
     ('k, 'd) instance_state \<Rightarrow> ('k, 'd) instance_state run" where
  "gossip_connect_peer_wasi h bc clock rand addr_ptr addr_len out s =
     (case s of (g, m) \<Rightarrow>
      run_then (read_str addr_ptr addr_len m) (\<lambda>addr.
      respond h out (write_ok_bytes h out) (gossip_connect_peer bc clock rand addr g) m))"

definition gossip_disconnect_peer_wasi ::
    "environment \<Rightarrow> i32 \<Rightarrow> i32 \<Rightarrow> i32 \<Rightarrow>
     ('k, 'd) instance_state \<Rightarrow> ('k, 'd) instance_state run" where
  "gossip_disconnect_peer_wasi h addr_ptr addr_len out s =
     (case s of (g, m) \<Rightarrow>
      run_then (read_str addr_ptr addr_len m) (\<lambda>addr.
      respond h out (\<lambda>_. write_ok_unit out) (gossip_disconnect_peer addr g) m))"

definition gossip_get_peers_wasi ::
    "environment \<Rightarrow> json \<Rightarrow> i32 \<Rightarrow>
     ('k, 'd) instance_state \<Rightarrow> ('k, 'd) instance_state run" where
  "gossip_get_peers_wasi h js out s =
     (case s of (g, m) \<Rightarrow>
      respond h out (\<lambda>s. write_ok_bytes h out (as_bytes s)) (gossip_get_peers js g) m)"

definition gossip_get_node_identity_wasi ::
    "environment \<Rightarrow> ('k, 'p, 'c, 's, 'd) crypto \<Rightarrow> json \<Rightarrow> i32 \<Rightarrow>
     ('k, 'd) instance_state \<Rightarrow> ('k, 'd) instance_state run" where
  "gossip_get_node_identity_wasi h cr js out s =
     (case s of (g, m) \<Rightarrow>
      respond h out (\<lambda>s. write_ok_bytes h out (as_bytes s)) (gossip_get_node_identity cr js g) m)"

definition gossip_verify_envelope_wasi ::
    "environment \<Rightarrow> ('k, 'p, 'c, 's, 'd) crypto \<Rightarrow> codec \<Rightarrow> nat option \<Rightarrow> i32 \<Rightarrow> i32 \<Rightarrow> i32 \<Rightarrow>
     ('k, 'd) instance_state \<Rightarrow> ('k, 'd) instance_state run" where
  "gossip_verify_envelope_wasi h cr bc clock bytes_ptr bytes_len out s =
     (case s of (g, m) \<Rightarrow>
      run_then (read_bytes bytes_ptr bytes_len m) (\<lambda>bytes.
      respond h out (\<lambda>valid. write_out out 1 (if valid then 1 else 0) 0) (gossip_verify_envelope cr bc clock bytes g) m))"

definition gossip_encode_envelope_wasi ::
    "environment \<Rightarrow> ('k, 'p, 'c, 's, 'd) crypto \<Rightarrow> codec \<Rightarrow> nat option \<Rightarrow> i32 \<Rightarrow> i32 \<Rightarrow> i32 \<Rightarrow> i32 \<Rightarrow>
     ('k, 'd) instance_state \<Rightarrow> ('k, 'd) instance_state run" where
  "gossip_encode_envelope_wasi h cr bc clock pt payload_ptr payload_len out s =
     (case s of (g, m) \<Rightarrow>
      run_then (read_bytes payload_ptr payload_len m) (\<lambda>payload.
      respond h out (write_ok_bytes h out) (gossip_encode_envelope cr bc clock (ucast pt) payload g) m))"

definition gossip_decode_envelope_wasi ::
    "environment \<Rightarrow> codec \<Rightarrow> json \<Rightarrow> i32 \<Rightarrow> i32 \<Rightarrow> i32 \<Rightarrow>
     ('k, 'd) instance_state \<Rightarrow> ('k, 'd) instance_state run" where
  "gossip_decode_envelope_wasi h bc js bytes_ptr bytes_len out s =
     (case s of (g, m) \<Rightarrow>
      run_then (read_bytes bytes_ptr bytes_len m) (\<lambda>bytes.
      respond h out (\<lambda>s. write_ok_bytes h out (as_bytes s)) (gossip_decode_envelope bc js bytes g) m))"

definition gossip_get_stats_wasi ::
    "environment \<Rightarrow> json \<Rightarrow> nat option \<Rightarrow> i32 \<Rightarrow>
     ('k, 'd) instance_state \<Rightarrow> ('k, 'd) instance_state run" where
  "gossip_get_stats_wasi h js clock out s =
     (case s of (g, m) \<Rightarrow>
      respond h out (\<lambda>s. write_ok_bytes h out (as_bytes s)) (gossip_get_stats js clock g) m)"

definition gossip_process_handshake_bytes_wasi ::
    "environment \<Rightarrow> ('k, 'p, 'c, 's, 'd) crypto \<Rightarrow> codec \<Rightarrow> nat option \<Rightarrow> string + bytes \<Rightarrow> bytes \<Rightarrow> i32 \<Rightarrow> i32 \<Rightarrow> i32 \<Rightarrow> i32 \<Rightarrow> i32 \<Rightarrow>
     ('k, 'd) instance_state \<Rightarrow> ('k, 'd) instance_state run" where
  "gossip_process_handshake_bytes_wasi h cr bc clock rand rng addr_ptr addr_len bytes_ptr bytes_len out s =
     (case s of (g, m) \<Rightarrow>
      run_then (read_str addr_ptr addr_len m) (\<lambda>addr.
      run_then (read_bytes bytes_ptr bytes_len m) (\<lambda>bytes.
      respond h out (\<lambda>r. case r of Some response \<Rightarrow> write_ok_bytes h out response | None \<Rightarrow> write_out out 1 0 0)
        (gossip_process_handshake_bytes cr bc clock rand rng addr bytes g) m)))"

definition gossip_build_handshake_ack_wasi ::
    "environment \<Rightarrow> ('k, 'p, 'c, 's, 'd) crypto \<Rightarrow> codec \<Rightarrow> nat option \<Rightarrow> string + bytes \<Rightarrow> i32 \<Rightarrow> i32 \<Rightarrow> i32 \<Rightarrow> i32 \<Rightarrow> i32 \<Rightarrow>
     ('k, 'd) instance_state \<Rightarrow> ('k, 'd) instance_state run" where
  "gossip_build_handshake_ack_wasi h cr bc clock rand addr_ptr addr_len probe_ptr probe_len out s =
     (case s of (g, m) \<Rightarrow>
      run_then (read_str addr_ptr addr_len m) (\<lambda>addr.
      run_then (read_bytes probe_ptr probe_len m) (\<lambda>probe.
      respond h out (write_ok_bytes h out) (gossip_build_handshake_ack cr bc clock rand addr probe g) m)))"

definition gossip_build_finish_ack_wasi ::
    "environment \<Rightarrow> ('k, 'p, 'c, 's, 'd) crypto \<Rightarrow> codec \<Rightarrow> nat option \<Rightarrow> i32 \<Rightarrow> i32 \<Rightarrow> i32 \<Rightarrow> i32 \<Rightarrow> i32 \<Rightarrow>
     ('k, 'd) instance_state \<Rightarrow> ('k, 'd) instance_state run" where
  "gossip_build_finish_ack_wasi h cr bc clock addr_ptr addr_len finish_ptr finish_len out s =
     (case s of (g, m) \<Rightarrow>
      run_then (read_str addr_ptr addr_len m) (\<lambda>addr.
      run_then (read_bytes finish_ptr finish_len m) (\<lambda>finish.
      respond h out (write_ok_bytes h out) (gossip_build_finish_ack cr bc clock addr finish g) m)))"

definition gossip_now_ms_wasi :: "nat option \<Rightarrow> i64" where
  "gossip_now_ms_wasi clock = gossip_now_ms clock"

definition gossip_get_version_wasi ::
    "environment \<Rightarrow> i32 \<Rightarrow> ('k, 'd) instance_state \<Rightarrow> ('k, 'd) instance_state run" where
  "gossip_get_version_wasi h out s =
     (case s of (g, m) \<Rightarrow>
      run_then (write_ok_bytes h out (as_bytes gossip_get_version) m) (\<lambda>m'. Ran (g, m')))"

definition gossip_get_session_wasi ::
    "environment \<Rightarrow> json \<Rightarrow> i32 \<Rightarrow> i32 \<Rightarrow> i32 \<Rightarrow>
     ('k, 'd) instance_state \<Rightarrow> ('k, 'd) instance_state run" where
  "gossip_get_session_wasi h js addr_ptr addr_len out s =
     (case s of (g, m) \<Rightarrow>
      run_then (read_str addr_ptr addr_len m) (\<lambda>addr.
      respond h out (\<lambda>s. write_ok_bytes h out (as_bytes s)) (gossip_get_session js addr g) m))"

section \<open>The exports as calls of the component\<close>

text \<open>A call of the core module with the pointers it gets, its effect, and the call of the component it stands
  for. (\<open>gossip_now_ms_wasi\<close> writes no out-slot.)\<close>

datatype wasi_call =
    WInit bytes bytes i32 i32
  | WPublish "nat option" i32 i32 i32
  | WConnectPeer "nat option" "string + bytes" i32 i32
  | WDisconnectPeer i32 i32
  | WGetPeers
  | WGetNodeIdentity
  | WVerifyEnvelope "nat option" i32 i32
  | WEncodeEnvelope "nat option" i32 i32 i32
  | WDecodeEnvelope i32 i32
  | WGetStats "nat option"
  | WProcessHandshakeBytes "nat option" "string + bytes" bytes i32 i32 i32 i32
  | WBuildHandshakeAck "nat option" "string + bytes" i32 i32 i32 i32
  | WBuildFinishAck "nat option" i32 i32 i32 i32
  | WGetVersion
  | WGetSession i32 i32

fun wasi_run ::
    "environment \<Rightarrow> ('k, 'p, 'c, 's, 'd) crypto \<Rightarrow> codec \<Rightarrow> json \<Rightarrow> wasi_call \<Rightarrow> i32 \<Rightarrow>
     ('k, 'd) instance_state \<Rightarrow> ('k, 'd) instance_state run" where
  "wasi_run h cr bc js (WInit kr sr p l) out = gossip_init_wasi h cr js kr sr p l out"
| "wasi_run h cr bc js (WPublish clock pt p l) out = gossip_publish_wasi h cr clock pt p l out"
| "wasi_run h cr bc js (WConnectPeer clock rand p l) out = gossip_connect_peer_wasi h bc clock rand p l out"
| "wasi_run h cr bc js (WDisconnectPeer p l) out = gossip_disconnect_peer_wasi h p l out"
| "wasi_run h cr bc js WGetPeers out = gossip_get_peers_wasi h js out"
| "wasi_run h cr bc js WGetNodeIdentity out = gossip_get_node_identity_wasi h cr js out"
| "wasi_run h cr bc js (WVerifyEnvelope clock p l) out = gossip_verify_envelope_wasi h cr bc clock p l out"
| "wasi_run h cr bc js (WEncodeEnvelope clock pt p l) out = gossip_encode_envelope_wasi h cr bc clock pt p l out"
| "wasi_run h cr bc js (WDecodeEnvelope p l) out = gossip_decode_envelope_wasi h bc js p l out"
| "wasi_run h cr bc js (WGetStats clock) out = gossip_get_stats_wasi h js clock out"
| "wasi_run h cr bc js (WProcessHandshakeBytes clock rand rng p l q k) out = gossip_process_handshake_bytes_wasi h cr bc clock rand rng p l q k out"
| "wasi_run h cr bc js (WBuildHandshakeAck clock rand p l q k) out = gossip_build_handshake_ack_wasi h cr bc clock rand p l q k out"
| "wasi_run h cr bc js (WBuildFinishAck clock p l q k) out = gossip_build_finish_ack_wasi h cr bc clock p l q k out"
| "wasi_run h cr bc js WGetVersion out = gossip_get_version_wasi h out"
| "wasi_run h cr bc js (WGetSession p l) out = gossip_get_session_wasi h js p l out"

fun decoded :: "wasi_call \<Rightarrow> memory \<Rightarrow> export_call run" where
  "decoded (WInit kr sr p l) m = run_then (read_str p l m) (\<lambda>x. Ran (GossipInit kr sr x))"
| "decoded (WPublish clock pt p l) m = run_then (read_bytes p l m) (\<lambda>x. Ran (GossipPublish clock (ucast pt) x))"
| "decoded (WConnectPeer clock rand p l) m = run_then (read_str p l m) (\<lambda>x. Ran (GossipConnectPeer clock rand x))"
| "decoded (WDisconnectPeer p l) m = run_then (read_str p l m) (\<lambda>x. Ran (GossipDisconnectPeer x))"
| "decoded WGetPeers m = Ran GossipGetPeers"
| "decoded WGetNodeIdentity m = Ran GossipGetNodeIdentity"
| "decoded (WVerifyEnvelope clock p l) m = run_then (read_bytes p l m) (\<lambda>x. Ran (GossipVerifyEnvelope clock x))"
| "decoded (WEncodeEnvelope clock pt p l) m = run_then (read_bytes p l m) (\<lambda>x. Ran (GossipEncodeEnvelope clock (ucast pt) x))"
| "decoded (WDecodeEnvelope p l) m = run_then (read_bytes p l m) (\<lambda>x. Ran (GossipDecodeEnvelope x))"
| "decoded (WGetStats clock) m = Ran (GossipGetStats clock)"
| "decoded (WProcessHandshakeBytes clock rand rng p l q k) m = run_then (read_str p l m) (\<lambda>x. run_then (read_bytes q k m) (\<lambda>y. Ran (GossipProcessHandshakeBytes clock rand rng x y)))"
| "decoded (WBuildHandshakeAck clock rand p l q k) m = run_then (read_str p l m) (\<lambda>x. run_then (read_bytes q k m) (\<lambda>y. Ran (GossipBuildHandshakeAck clock rand x y)))"
| "decoded (WBuildFinishAck clock p l q k) m = run_then (read_str p l m) (\<lambda>x. run_then (read_bytes q k m) (\<lambda>y. Ran (GossipBuildFinishAck clock x y)))"
| "decoded WGetVersion m = Ran GossipGetVersion"
| "decoded (WGetSession p l) m = run_then (read_str p l m) (\<lambda>x. Ran (GossipGetSession x))"

end
