(* ===== verification/Wasi_Facts.thy ===== *)
theory Wasi_Facts
  imports Wasi
begin

text \<open>
  What the C-ABI exports promise their host: the out-slot describes the outcome of the component call
  the export stands for, the rest of the host's memory is left alone, and nothing undefined happens
  as long as the out-slot is aligned and lies in a live block. The writers of the result types share
  one contract, the locale \<open>writer\<close>.
\<close>

section \<open>The allocator's contract\<close>

definition in_block :: "memory \<Rightarrow> nat \<Rightarrow> nat \<Rightarrow> bool" where
  "in_block m a n \<longleftrightarrow> (\<exists>(q, k) \<in> set (mem_blocks m). q \<le> a \<and> a + n \<le> q + k)"

definition mem_ok :: "memory \<Rightarrow> bool" where
  "mem_ok m \<longleftrightarrow> length (mem_data m) \<le> 2 ^ 32 \<and>
     (\<forall>(q, k) \<in> set (mem_blocks m). 0 < q \<and> 0 < k \<and> q + k \<le> length (mem_data m))"

text \<open>A new block is inside the memory, away from every live block, and leaves their contents alone.\<close>

definition alloc_laws :: "environment \<Rightarrow> bool" where
  "alloc_laws h \<longleftrightarrow> (\<forall>n m p m'. mem_ok m \<longrightarrow> 0 < n \<longrightarrow> h_alloc h n m = Some (p, m') \<longrightarrow>
     mem_ok m' \<and> mem_blocks m' = (p, n) # mem_blocks m \<and>
     (\<forall>(q, k) \<in> set (mem_blocks m). (p + n \<le> q \<or> q + k \<le> p) \<and> read_mem q k m' = read_mem q k m))"

definition environment_laws :: "environment \<Rightarrow> bool" where
  "environment_laws h \<longleftrightarrow> alloc_laws h \<and> (\<forall>b. length b \<le> h_capacity h b)"

section \<open>Reading and writing\<close>

definition read32 :: "nat \<Rightarrow> memory \<Rightarrow> i32" where
  "read32 a m = word_of_nat (nat_of_le (read_mem a 4 m))"

lemma length_le32 [simp]: "length (le32 w) = 4"
  by (simp add: le32_def)

lemma of_le32 [simp]: "word_of_nat (nat_of_le (le32 w)) = (w :: i32)"
proof -
  have "unat w < 256 ^ 4" using unsigned_less [of w, where ?'a = nat] by simp
  then show ?thesis by (simp add: le32_def nat_of_le_bytes)
qed

lemma store_facts:
  assumes "store a bs m = Ran m'"
  shows "mem_blocks m' = mem_blocks m" "length (mem_data m') = length (mem_data m)"
    "read_mem a (length bs) m' = bs"
    "b + n \<le> a \<or> a + length bs \<le> b \<Longrightarrow> read_mem b n m' = read_mem b n m"
  using assms by (auto simp: store_def read_mem_def drop_take min_def split: if_splits)

lemma store_runs: "a + length bs \<le> length (mem_data m) \<Longrightarrow> \<exists>m'. store a bs m = Ran m'"
  by (simp add: store_def)

lemma mem_ok_same: "mem_ok m \<Longrightarrow> mem_blocks m' = mem_blocks m \<Longrightarrow> length (mem_data m') = length (mem_data m) \<Longrightarrow> mem_ok m'"
  by (simp add: mem_ok_def)

lemma in_block_bound: "mem_ok m \<Longrightarrow> in_block m a n \<Longrightarrow> 0 < a \<and> a + n \<le> length (mem_data m)"
  by (fastforce simp: mem_ok_def in_block_def)

lemma read_mem_within:
  "q \<le> a \<Longrightarrow> a + n \<le> q + k \<Longrightarrow> read_mem a n m = take n (drop (a - q) (read_mem q k m))"
  by (simp add: read_mem_def drop_take min_def)

lemma alloc_facts:
  assumes "alloc_laws h" and "mem_ok m" and "0 < n" and "h_alloc h n m = Some (p, m')"
  shows "mem_ok m'" "mem_blocks m' = (p, n) # mem_blocks m"
    "in_block m a k \<Longrightarrow> read_mem a k m' = read_mem a k m"
    "in_block m a k \<Longrightarrow> p + n \<le> a \<or> a + k \<le> p"
    "0 < p" "p + n \<le> length (mem_data m')" "p < 2 ^ 32" "n < 2 ^ 32"
proof -
  have law: "mem_ok m' \<and> mem_blocks m' = (p, n) # mem_blocks m \<and>
     (\<forall>(q, k) \<in> set (mem_blocks m). (p + n \<le> q \<or> q + k \<le> p) \<and> read_mem q k m' = read_mem q k m)"
    using assms unfolding alloc_laws_def by blast
  then show "mem_ok m'" "mem_blocks m' = (p, n) # mem_blocks m" by simp_all
  then show p: "0 < p" "p + n \<le> length (mem_data m')" by (auto simp: mem_ok_def)
  with \<open>mem_ok m'\<close> assms(3) show "p < 2 ^ 32" "n < 2 ^ 32" by (auto simp: mem_ok_def)
  assume "in_block m a k"
  then obtain q l where q: "(q, l) \<in> set (mem_blocks m)" "q \<le> a" "a + k \<le> q + l" by (auto simp: in_block_def)
  with law have "p + n \<le> q \<or> q + l \<le> p" "read_mem q l m' = read_mem q l m" by auto
  with q(2,3) show "p + n \<le> a \<or> a + k \<le> p" "read_mem a k m' = read_mem a k m"
    by (auto simp: read_mem_within [OF q(2,3)])
qed

section \<open>Leaked buffers\<close>

definition holds_bytes :: "i32 \<Rightarrow> i32 \<Rightarrow> bytes \<Rightarrow> memory \<Rightarrow> bool" where
  "holds_bytes p l b m \<longleftrightarrow> unat l = length b \<and> read_mem (unat p) (length b) m = b"

lemma leak_facts:
  assumes "alloc_laws h" and "mem_ok m" and "length data \<le> cap" and "leak h cap data m = Ran (p, m')"
  shows "mem_ok m'" "set (mem_blocks m) \<subseteq> set (mem_blocks m')"
    "holds_bytes p (word_of_nat (length data)) data m'"
    "in_block m a n \<Longrightarrow> read_mem a n m' = read_mem a n m"
    "in_block m a n \<Longrightarrow> data \<noteq> [] \<Longrightarrow> unat p + length data \<le> a \<or> a + n \<le> unat p"
    "0 < cap \<Longrightarrow> 0 < unat p \<and> mem_blocks m' = (unat p, cap) # mem_blocks m \<and> (\<forall>k. (unat p, k) \<notin> set (mem_blocks m))"
proof -
  have "mem_ok m' \<and> set (mem_blocks m) \<subseteq> set (mem_blocks m') \<and>
      holds_bytes p (word_of_nat (length data)) data m' \<and>
      (\<forall>a n. in_block m a n \<longrightarrow> read_mem a n m' = read_mem a n m) \<and>
      (\<forall>a n. in_block m a n \<longrightarrow> data \<noteq> [] \<longrightarrow> unat p + length data \<le> a \<or> a + n \<le> unat p) \<and>
      (0 < cap \<longrightarrow> 0 < unat p \<and> mem_blocks m' = (unat p, cap) # mem_blocks m \<and> (\<forall>k. (unat p, k) \<notin> set (mem_blocks m)))"
  proof (cases "cap = 0")
    case True
    then show ?thesis using assms by (auto simp: leak_def holds_bytes_def read_mem_def)
  next
    case False
    then obtain q m1 where al: "h_alloc h cap m = Some (q, m1)" and st: "store q data m1 = Ran m'"
      and p: "p = word_of_nat q"
      using assms(4) by (auto simp: leak_def split: option.splits)
    from False have "0 < cap" by simp
    note f = alloc_facts [OF assms(1,2) this al]
    note s = store_facts [OF st]
    have up: "unat p = q" using f(7) by (simp add: p unat_of_nat take_bit_nat_eq_self)
    have len: "unat (word_of_nat (length data) :: i32) = length data"
      using f(8) assms(3) by (simp add: unat_of_nat take_bit_nat_eq_self)
    have keep: "read_mem a n m' = read_mem a n m" if "in_block m a n" for a n
      using f(3,4) [OF that] s(4) [of a n] assms(3) by auto
    have new: "(q, k) \<notin> set (mem_blocks m)" for k
    proof
      assume b: "(q, k) \<in> set (mem_blocks m)"
      then have "in_block m q k" by (auto simp: in_block_def)
      moreover have "0 < k" using b assms(2) by (auto simp: mem_ok_def)
      ultimately show False using f(4) \<open>0 < cap\<close> by fastforce
    qed
    show ?thesis
      using f(1,2,4,5) s(1,2,3) keep new assms(3)
      by (auto simp: holds_bytes_def up len intro: mem_ok_same dest: f(4))
  qed
  then show "mem_ok m'" "set (mem_blocks m) \<subseteq> set (mem_blocks m')"
    "holds_bytes p (word_of_nat (length data)) data m'"
    "in_block m a n \<Longrightarrow> read_mem a n m' = read_mem a n m"
    "in_block m a n \<Longrightarrow> data \<noteq> [] \<Longrightarrow> unat p + length data \<le> a \<or> a + n \<le> unat p"
    "0 < cap \<Longrightarrow> 0 < unat p \<and> mem_blocks m' = (unat p, cap) # mem_blocks m \<and> (\<forall>k. (unat p, k) \<notin> set (mem_blocks m))"
    by blast+
qed

section \<open>The out-slot\<close>

definition slot_ok :: "i32 \<Rightarrow> memory \<Rightarrow> bool" where
  "slot_ok out m \<longleftrightarrow> unat out mod 4 = 0 \<and> in_block m (unat out) 12"

definition slot_of :: "i32 \<Rightarrow> memory \<Rightarrow> i32 \<times> i32 \<times> i32" where
  "slot_of out m = (read32 (unat out) m, read32 (unat out + 4) m, read32 (unat out + 8) m)"

definition undisturbed :: "i32 \<Rightarrow> memory \<Rightarrow> memory \<Rightarrow> bool" where
  "undisturbed out m m' \<longleftrightarrow> set (mem_blocks m) \<subseteq> set (mem_blocks m') \<and>
     (\<forall>a n. in_block m a n \<longrightarrow> a + n \<le> unat out \<or> unat out + 12 \<le> a \<longrightarrow> read_mem a n m' = read_mem a n m)"

lemma slot_ok_mono: "slot_ok out m \<Longrightarrow> set (mem_blocks m) \<subseteq> set (mem_blocks m') \<Longrightarrow> slot_ok out m'"
  by (auto simp: slot_ok_def in_block_def)

lemma write_out_facts:
  assumes "mem_ok m" and "slot_ok out m"
  obtains m' where "write_out out a b c m = Ran m'" "slot_of out m' = (a, b, c)"
    "mem_blocks m' = mem_blocks m" "mem_ok m'"
    "\<And>x n. x + n \<le> unat out \<or> unat out + 12 \<le> x \<Longrightarrow> read_mem x n m' = read_mem x n m"
proof -
  let ?o = "unat out"
  have o: "0 < ?o" "?o + 12 \<le> length (mem_data m)" using in_block_bound [OF assms(1)] assms(2) by (auto simp: slot_ok_def)
  obtain m1 where s1: "store ?o (le32 a) m = Ran m1" using store_runs [of ?o "le32 a" m] o by auto
  note f1 = store_facts [OF s1]
  obtain m2 where s2: "store (?o + 4) (le32 b) m1 = Ran m2" using store_runs [of "?o + 4" "le32 b" m1] o f1(2) by auto
  note f2 = store_facts [OF s2]
  obtain m3 where s3: "store (?o + 8) (le32 c) m2 = Ran m3" using store_runs [of "?o + 8" "le32 c" m2] o f1(2) f2(2) by auto
  note f3 = store_facts [OF s3]
  have "out \<noteq> 0" using o(1) by auto
  then have run: "write_out out a b c m = Ran m3" using assms(2) s1 s2 s3 by (simp add: write_out_def slot_ok_def)
  have slot: "slot_of out m3 = (a, b, c)"
    using f1(3) f2(3) f3(3) f2(4) [of ?o 4] f3(4) [of ?o 4] f3(4) [of "?o + 4" 4] by (simp add: slot_of_def read32_def)
  have ok: "mem_ok m3" by (rule mem_ok_same [OF assms(1)]) (simp_all add: f1 f2 f3)
  have rest: "read_mem x n m3 = read_mem x n m" if "x + n \<le> ?o \<or> ?o + 12 \<le> x" for x n
    using that f1(4) [of x n] f2(4) [of x n] f3(4) [of x n] by auto
  show thesis by (rule that [OF run slot _ ok rest]) (simp_all add: f1 f2 f3)
qed

section \<open>What the host reads\<close>

text \<open>The error a value of the interface stands for.\<close>

fun error_of :: "wit_error \<Rightarrow> gossip_error" where
  "error_of WitNotInitialized = NotInitialized"
| "error_of WitAlreadyInitialized = AlreadyInitialized"
| "error_of (WitConfigError s) = ConfigError s"
| "error_of (WitIdentityError s) = IdentityError s"
| "error_of (WitHandshakeError s) = HandshakeError s"
| "error_of (WitSessionNotFound s) = SessionNotFound s"
| "error_of (WitEnvelopeError s) = EnvelopeError s"
| "error_of WitSignatureInvalid = SignatureInvalid"
| "error_of WitReplayDetected = ReplayDetected"
| "error_of WitTtlExpired = TtlExpired"
| "error_of (WitPeerNotFound s) = PeerNotFound s"
| "error_of WitQuorumNotReached = QuorumNotReached"
| "error_of (WitSerializationError s) = SerializationError s"
| "error_of (WitCryptoError s) = CryptoError s"
| "error_of (WitInvalidInput s) = InvalidInput s"

lemma error_of_from [simp]: "error_of (wit_error_from e) = e"
  by (cases e) simp_all

fun describes :: "environment \<Rightarrow> outcome \<Rightarrow> i32 \<times> i32 \<times> i32 \<Rightarrow> memory \<Rightarrow> bool" where
  "describes h (Returned VUnit) s m = (s = (1, 0, 0))"
| "describes h (Returned (VBytes b)) (ok, p, l) m = (ok = 1 \<and> holds_bytes p l b m)"
| "describes h (Returned (VText t)) (ok, p, l) m = (ok = 1 \<and> holds_bytes p l (as_bytes t) m)"
| "describes h (Returned (VBool v)) s m = (s = (1, if v then 1 else 0, 0))"
| "describes h (Returned (VReply None)) s m = (s = (1, 0, 0))"
| "describes h (Returned (VReply (Some b))) (ok, p, l) m = (ok = 1 \<and> holds_bytes p l b m)"
| "describes h (Returned (VTime t)) s m = False"
| "describes h (Failed w) (ok, p, l) m =
     (ok = 0 \<and> holds_bytes p l (error_json h (error_of w)) m)"
| "describes h Trapped s m = False"

text \<open>The bytes an export asks the allocator for, to leak a result: the capacity of the vector that holds a
  text, a byte string or an error message, the 32 bytes of a message id, nothing for the other
  values.\<close>

fun requested :: "environment \<Rightarrow> wasi_call \<Rightarrow> outcome \<Rightarrow> nat" where
  "requested h c (Returned (VBytes b)) = (case c of WPublish clock pt p l \<Rightarrow> 32 | _ \<Rightarrow> h_capacity h b)"
| "requested h c (Returned (VText t)) = h_capacity h (as_bytes t)"
| "requested h c (Returned (VReply r)) = (case r of Some b \<Rightarrow> h_capacity h b | None \<Rightarrow> 0)"
| "requested h c (Failed w) = h_capacity h (error_json h (error_of w))"
| "requested h c _ = 0"

text \<open>The allocator refuses a request of \<open>n\<close> bytes.\<close>

definition no_room :: "environment \<Rightarrow> nat \<Rightarrow> memory \<Rightarrow> bool" where
  "no_room h n m \<longleftrightarrow> n \<noteq> 0 \<and> h_alloc h n m = None"

text \<open>When the allocator refuses the \<open>n\<close> bytes the call traps, and otherwise the slot describes the outcome.\<close>

definition writes :: "environment \<Rightarrow> i32 \<Rightarrow> nat \<Rightarrow> memory \<Rightarrow> outcome \<Rightarrow> memory run \<Rightarrow> bool" where
  "writes h out n m r w \<longleftrightarrow>
     (if no_room h n m then w = Trap
      else \<exists>m'. w = Ran m' \<and> describes h r (slot_of out m') m' \<and> mem_ok m' \<and> undisturbed out m m')"

lemma leak_runs:
  assumes "alloc_laws h" and "mem_ok m" and "length data \<le> cap"
  shows "if no_room h cap m then leak h cap data m = Trap else \<exists>x. leak h cap data m = Ran x"
proof (cases "cap = 0 \<or> h_alloc h cap m = None")
  case False
  then obtain p m1 where al: "h_alloc h cap m = Some (p, m1)" by force
  from False have "0 < cap" by simp
  from alloc_facts(6) [OF assms(1,2) this al] assms(3) obtain m' where "store p data m1 = Ran m'"
    using store_runs [of p data m1] by auto
  with al False show ?thesis by (simp add: leak_def no_room_def)
qed (auto simp: leak_def no_room_def)

lemma leaked_slot:
  assumes "alloc_laws h" and "mem_ok m" and "slot_ok out m" and "length data \<le> cap"
    and "\<And>p m'. holds_bytes p (word_of_nat (length data)) data m' \<Longrightarrow>
      describes h r (ok, p, word_of_nat (length data)) m'"
  shows "writes h out cap m r (run_then (leak h cap data m) (\<lambda>(p, m'). write_out out ok p (word_of_nat (length data)) m'))"
proof (cases "no_room h cap m")
  case True
  then show ?thesis using leak_runs [OF assms(1,2,4)] by (simp add: writes_def)
next
  case False
  then obtain x where Ran: "leak h cap data m = Ran x" using leak_runs [OF assms(1,2,4)] by auto
  obtain p m1 where x: "x = (p, m1)" by force
  note l = leak_facts [OF assms(1,2,4) Ran [unfolded x]]
  obtain m' where w: "write_out out ok p (word_of_nat (length data)) m1 = Ran m'"
    "slot_of out m' = (ok, p, word_of_nat (length data))" "mem_blocks m' = mem_blocks m1" "mem_ok m'"
    "\<And>x n. x + n \<le> unat out \<or> unat out + 12 \<le> x \<Longrightarrow> read_mem x n m' = read_mem x n m1"
    using write_out_facts [OF l(1) slot_ok_mono [OF assms(3) l(2)], of ok p "word_of_nat (length data)"] by blast
  have "in_block m (unat out) 12" using assms(3) by (simp add: slot_ok_def)
  then have "read_mem (unat p) (length data) m' = read_mem (unat p) (length data) m1"
    using l(5) [of "unat out" 12] w(5) [of "unat p" "length data"] by (cases "data = []") (auto simp: read_mem_def)
  then have "describes h r (slot_of out m') m'" using l(3) assms(5) w(2) by (simp add: holds_bytes_def)
  moreover have "undisturbed out m m'" using l(2,4) w(3,5) by (auto simp: undisturbed_def)
  ultimately show ?thesis using Ran x w(1,4) False by (simp add: writes_def)
qed

lemma plain_slot:
  assumes "mem_ok m" and "slot_ok out m" and "\<And>m'. describes h r (a, b, c) m'"
  shows "writes h out 0 m r (write_out out a b c m)"
  using write_out_facts [OF assms(1,2), of a b c] assms(3) unfolding writes_def undisturbed_def no_room_def by (metis subset_refl)

lemma write_err_writes:
  assumes "environment_laws h" and "mem_ok m" and "slot_ok out m"
  shows "writes h out (h_capacity h (error_json h e)) m (Failed (wit_error_from e)) (write_err h out e m)"
proof -
  have "write_err h out e m = run_then (leak h (h_capacity h (error_json h e)) (error_json h e) m)
      (\<lambda>(p, m'). write_out out 0 p (word_of_nat (length (error_json h e))) m')"
    by (cases "leak h (h_capacity h (error_json h e)) (error_json h e) m")
       (auto simp: write_err_def error_to_leaked_json_def Let_def)
  then show ?thesis using assms by (auto simp: environment_laws_def intro!: leaked_slot)
qed

text \<open>The same for a whole export, which also moves the global state to \<open>g\<close>.\<close>

definition answers ::
    "environment \<Rightarrow> i32 \<Rightarrow> nat \<Rightarrow> memory \<Rightarrow> outcome \<Rightarrow> ('k, 'd) globals \<Rightarrow> ('k, 'd) instance_state run \<Rightarrow> bool" where
  "answers h out n m r g w \<longleftrightarrow>
     (if no_room h n m then w = Trap
      else \<exists>m'. w = Ran (g, m') \<and> describes h r (slot_of out m') m' \<and> mem_ok m' \<and> undisturbed out m m')"

lemma answers_writes: "writes h out n m r w \<Longrightarrow> answers h out n m r g (run_then w (\<lambda>m'. Ran (g, m')))"
  by (auto simp: writes_def answers_def split: if_splits)

section \<open>The contract of the writers\<close>

locale writer =
  fixes put :: "environment \<Rightarrow> i32 \<Rightarrow> 'a \<Rightarrow> memory \<Rightarrow> memory run"
    and shown :: "'a \<Rightarrow> wit_value" and fits :: "'a \<Rightarrow> bool" and needs :: "environment \<Rightarrow> 'a \<Rightarrow> nat"
  assumes write_value: "\<lbrakk>environment_laws h; mem_ok m; slot_ok out m; fits v\<rbrakk> \<Longrightarrow>
    writes h out (needs h v) m (Returned (shown v)) (put h out v m)"
begin

lemma respond_writes:
  assumes "environment_laws h" and "mem_ok m" and "slot_ok out m"
    and "\<And>v. fst p = Ok v \<Longrightarrow> fits v" and "deliver shown p = (r, g')" and "r \<noteq> Trapped"
    and "\<And>v. r = Returned (shown v) \<Longrightarrow> n = needs h v" and "\<And>w. r = Failed w \<Longrightarrow> n = h_capacity h (error_json h (error_of w))"
  shows "answers h out n m r g' (respond h out (put h out) p m)"
proof -
  obtain q where p: "p = (q, g')" using assms(5) by (cases p) (auto simp: deliver_def)
  show ?thesis
  proof (cases q)
    case (Ok v)
    then have "writes h out n m r (put h out v m)" using write_value [OF assms(1-3), of v] assms(4,5,7) p by (auto simp: deliver_def)
    then show ?thesis by (simp add: respond_def p Ok answers_writes)
  next
    case (Err e)
    then have "writes h out n m r (write_err h out e m)" using write_err_writes [OF assms(1-3), of e] assms(5,8) p by (auto simp: deliver_def)
    then show ?thesis by (simp add: respond_def p Err answers_writes)
  next
    case Panic
    then show ?thesis using assms p by (simp add: deliver_def)
  qed
qed

end

interpretation w_unit: writer "\<lambda>h out _. write_ok_unit out" "\<lambda>_. VUnit" "\<lambda>_. True" "\<lambda>_ _. 0"
  by unfold_locales (simp add: write_ok_unit_def plain_slot)

interpretation w_bytes: writer write_ok_bytes VBytes "\<lambda>_. True" h_capacity
  by unfold_locales (auto simp: write_ok_bytes_def environment_laws_def Let_def intro!: leaked_slot)

interpretation w_text: writer "\<lambda>h out s. write_ok_bytes h out (as_bytes s)" VText "\<lambda>_. True" "\<lambda>h s. h_capacity h (as_bytes s)"
  by unfold_locales
     (auto simp: write_ok_bytes_def environment_laws_def Let_def simp del: length_as_bytes intro!: leaked_slot)

interpretation w_fixed: writer "write_ok_fixed n" VBytes "\<lambda>b. length b = n" "\<lambda>_ _. n" for n
  by unfold_locales (auto simp: write_ok_fixed_def environment_laws_def intro!: leaked_slot)

interpretation w_bool: writer "\<lambda>h out v. write_out out 1 (if v then 1 else 0) 0" VBool "\<lambda>_. True" "\<lambda>_ _. 0"
  by unfold_locales (simp add: plain_slot)

interpretation w_reply: writer
  "\<lambda>h out r. case r of Some b \<Rightarrow> write_ok_bytes h out b | None \<Rightarrow> write_out out 1 0 0" VReply "\<lambda>_. True"
  "\<lambda>h r. case r of Some b \<Rightarrow> h_capacity h b | None \<Rightarrow> 0"
  by unfold_locales
     (auto simp: write_ok_bytes_def environment_laws_def Let_def split: option.splits intro!: leaked_slot plain_slot)

lemma published_id_length:
  assumes "hash_laws cr" and "fst (gossip_publish cr clock t payload g) = Ok i"
  shows "length i = 32"
proof -
  obtain e where e: "gossip_state g = Some e" and p: "fst (publish cr t payload (current_time_unix_ms clock) e) = Ok i"
    using assms(2) by (cases "gossip_state g") (auto simp: gossip_publish_def with_engine_def with_engine_and_def split: prod.splits)
  have "\<exists>pt. i = compute_message_id cr pt payload"
    by (rule publish_cases [where t = t and e = e and payload = payload and cr = cr and now = "current_time_unix_ms clock"])
       (use p in \<open>auto simp: publish_simps Let_def split: res.splits\<close>)
  then show ?thesis using assms(1) by (auto simp: compute_message_id_def hash_laws_def array32_def)
qed

section \<open>Every export\<close>

lemmas wasi_defs = gossip_init_wasi_def gossip_publish_wasi_def gossip_connect_peer_wasi_def gossip_disconnect_peer_wasi_def
  gossip_get_peers_wasi_def gossip_get_node_identity_wasi_def gossip_verify_envelope_wasi_def gossip_encode_envelope_wasi_def
  gossip_decode_envelope_wasi_def gossip_get_stats_wasi_def gossip_process_handshake_bytes_wasi_def
  gossip_build_handshake_ack_wasi_def gossip_build_finish_ack_wasi_def gossip_get_session_wasi_def

lemma wasi_run_answers:
  assumes "environment_laws h" and "hash_laws cr" and "mem_ok m" and "slot_ok out m"
    and "decoded c m = Ran x" and "component_call cr bc js x g = (r, g')" and "r \<noteq> Trapped"
  shows "answers h out (requested h c r) m r g' (wasi_run h cr bc js c out (g, m))"
proof (cases c)
  case WGetVersion
  have "writes h out (h_capacity h (as_bytes gossip_get_version)) m (Returned (VText gossip_get_version)) (write_ok_bytes h out (as_bytes gossip_get_version) m)"
    by (rule w_text.write_value [OF assms(1,3,4)]) simp
  with WGetVersion assms(5,6) show ?thesis by (auto simp: gossip_get_version_wasi_def intro: answers_writes)
qed (use assms(5,6) in \<open>auto simp: wasi_defs intro!: w_unit.respond_writes w_bytes.respond_writes w_text.respond_writes
       w_bool.respond_writes w_reply.respond_writes w_fixed.respond_writes assms(1,3,4,7)
       elim: published_id_length [OF assms(2)]\<close>)

text \<open>Freeing a leaked buffer with its address and length is what the interface asks the host to do.\<close>

lemma free_leaked:
  assumes "alloc_laws h" and "mem_ok m" and "length data \<le> cap" and "leak h cap data m = Ran (p, m')"
    and "data \<noteq> []" and "length data \<le> isize_max"
  shows "wasi_free p (word_of_nat (length data)) m' =
    (if cap = length data then Ran (m'\<lparr>mem_blocks := mem_blocks m\<rparr>) else Undefined)"
proof -
  note l = leak_facts [OF assms(1-4)]
  have len: "unat (word_of_nat (length data) :: i32) = length data" using l(3) by (simp add: holds_bytes_def)
  have pos: "0 < cap" "length data \<noteq> 0" using assms(3,5) by (cases data; simp)+
  note b = l(6) [OF pos(1)]
  have "p \<noteq> 0" "(word_of_nat (length data) :: i32) \<noteq> 0" using b len pos(2) by auto
  then show ?thesis using b len assms(6) by (auto simp: wasi_free_def)
qed

end
