(* ===== verification/Host_Properties.thy ===== *)
theory Host_Properties
  imports Properties Wasi_Facts
begin

text \<open>
  What a host sees: the properties of the C-ABI of the core module, and behaviour a host has to know
  about because the interface does not announce it.
\<close>

section \<open>A concrete environment\<close>

text \<open>An allocator that appends to the memory, and vectors without spare capacity.\<close>

definition h0 :: environment where
  "h0 =
     \<lparr>h_alloc = (\<lambda>n m. if mem_data m = [] \<or> 2 ^ 32 < length (mem_data m) + n then None
        else Some (length (mem_data m),
          m\<lparr>mem_data := mem_data m @ replicate n 0, mem_blocks := (length (mem_data m), n) # mem_blocks m\<rparr>)),
      h_capacity = length,
      h_json_string = (\<lambda>s. Inr (dquote @ s @ dquote))\<rparr>"

lemma environment_laws_0: "environment_laws h0"
proof -
  have "alloc_laws h0"
    unfolding alloc_laws_def
  proof (intro allI impI)
    fix n m p m'
    assume ok: "mem_ok m" and n: "0 < n" and al: "h_alloc h0 n m = Some (p, m')"
    then have m': "p = length (mem_data m)" "mem_data m \<noteq> []" "length (mem_data m) + n \<le> 2 ^ 32"
      "mem_data m' = mem_data m @ replicate n 0" "mem_blocks m' = (p, n) # mem_blocks m"
      by (auto simp: h0_def split: if_splits)
    have "(p + n \<le> q \<or> q + k \<le> p) \<and> read_mem q k m' = read_mem q k m" if "(q, k) \<in> set (mem_blocks m)" for q k
      using that ok m'(1,4) by (auto simp: mem_ok_def read_mem_def)
    moreover have "mem_ok m'" using ok n m' by (auto simp: mem_ok_def)
    ultimately show "mem_ok m' \<and> mem_blocks m' = (p, n) # mem_blocks m \<and>
        (\<forall>(q, k) \<in> set (mem_blocks m). (p + n \<le> q \<or> q + k \<le> p) \<and> read_mem q k m' = read_mem q k m)"
      using m'(5) by blast
  qed
  then show ?thesis by (simp add: environment_laws_def h0_def)
qed

text \<open>A memory with one block of the host: an out-slot at 16 and an argument at 28.\<close>

definition mem0 :: memory where
  "mem0 = \<lparr>mem_data = replicate 28 0 @ as_bytes ''node-b'' @ replicate 30 0, mem_blocks = [(16, 48)]\<rparr>"

lemma mem0_ok: "mem_ok mem0" "slot_ok 16 mem0"
  by (simp_all add: mem_ok_def slot_ok_def in_block_def mem0_def)

lemma read_mem0: "read_str 28 6 mem0 = Ran ''node-b''"
proof -
  have "read_bytes 28 6 mem0 = Ran (as_bytes ''node-b'')"
    by (simp add: read_bytes_def isize_max_def mem0_def read_mem_def as_bytes_def)
  moreover have "utf8 (as_bytes ''node-b'')" by code_simp
  moreover have "text_of (as_bytes ''node-b'') = ''node-b''" by code_simp
  ultimately show ?thesis by (simp add: read_str_def)
qed

section \<open>The C-ABI\<close>

text \<open>C33. The legacy C-ABI and the component interface agree: in a reachable state, with an aligned
  out-slot inside a live block, an export of the core module does exactly what the component call
  with the decoded arguments does to the state, the out-slot describes the same outcome (value or
  error, with the bytes at the pointer and length it names), and every other byte of the host's
  blocks is as before. The call traps exactly when the allocator refuses the bytes the result needs:
  the capacity of the vector that holds a text, a byte string or an error message, 32 bytes for a
  message id, and nothing for the other values, which therefore never trap. Nothing undefined
  happens.\<close>

theorem c_abi_matches_component:
  assumes "reachable cr bc js g" and "key_size_laws cr" and "lineage_ser_total bc" and "hash_laws cr"
    and "environment_laws h" and "mem_ok m" and "slot_ok out m"
    and "decoded c m = Ran x" and "component_call cr bc js x g = (r, g')"
  shows "if requested h c r \<noteq> 0 \<and> h_alloc h (requested h c r) m = None
    then wasi_run h cr bc js c out (g, m) = Trap
    else \<exists>m'. wasi_run h cr bc js c out (g, m) = Ran (g', m') \<and> describes h r (slot_of out m') m' \<and>
       mem_ok m' \<and> undisturbed out m m'"
proof -
  have "globals_inv cr g" using comp.holds [OF assms(1)] assms(2,3) by blast
  from component_call_good [OF this assms(2,3,9)] have "r \<noteq> Trapped" by blast
  from wasi_run_answers [OF assms(5,4,6-9) this] show ?thesis unfolding answers_def no_room_def .
qed

theorem c_abi_matches_component_witness:
  "\<exists>m'. wasi_run h0 cr0 bc0 js0 (WDisconnectPeer 28 6) 16 (running [1], mem0) = Ran (running [1], m') \<and>
     describes h0 (Failed (WitPeerNotFound ''node-b'')) (slot_of 16 m') m'"
proof -
  have d: "decoded (WDisconnectPeer 28 6) mem0 = Ran (GossipDisconnectPeer ''node-b'')" by (simp add: read_mem0)
  have "sessions_remove ''node-b'' (sessions (engine_new rc0 (node0 [1]))) = (None, sessions (engine_new rc0 (node0 [1])))"
    by (simp add: sessions_remove_def sessions_new_def engine_new_def hm_remove_def hm_get_def hm_empty_def)
  then have g: "gossip_disconnect_peer ''node-b'' (running [1]) = (Err (PeerNotFound ''node-b''), running [1])"
    by (simp add: gossip_disconnect_peer_def with_engine_def with_engine_and_def disconnect_peer_def)
  then have c: "component_call cr0 bc0 js0 (GossipDisconnectPeer ''node-b'') (running [1]) =
      (Failed (WitPeerNotFound ''node-b''), running [1])"
    by (simp add: deliver_def)
  have "length (error_json h0 (PeerNotFound ''node-b'')) \<le> 1000"
    by (simp add: error_json_def error_variant_def dquote_def) (simp add: h0_def dquote_def)
  then have "h_alloc h0 (requested h0 (WDisconnectPeer 28 6) (Failed (WitPeerNotFound ''node-b''))) mem0 \<noteq> None"
    by (simp add: h0_def mem0_def)
  with c_abi_matches_component [OF reachable_0 laws_cr0(5) lineage_laws_bc0(2) laws_cr0(1) environment_laws_0 mem0_ok d c]
  show ?thesis by (auto split: if_splits)
qed

lemma wasi_free_blocks:
  "mem_blocks m' = mem_blocks m \<Longrightarrow> wasi_free p l m' =
     (case wasi_free p l m of Ran x \<Rightarrow> Ran (m'\<lparr>mem_blocks := mem_blocks x\<rparr>) | Trap \<Rightarrow> Trap | Undefined \<Rightarrow> Undefined)"
  by (simp add: wasi_free_def)

text \<open>C34. A result can be given back with \<open>wasi_free(ptr, len)\<close>, as the interface asks, exactly when the
  vector that held it had no spare capacity: the block of a vector with spare capacity is larger
  than \<open>len\<close>, and freeing it with that length is undefined behaviour.\<close>

theorem results_without_spare_capacity_can_be_freed:
  assumes "environment_laws h" and "mem_ok m" and "slot_ok out m"
    and "write_ok_bytes h out data m = Ran m'" and "slot_of out m' = (1, p, l)"
    and "data \<noteq> []" and "length data \<le> isize_max"
  shows "wasi_free p l m' =
    (if h_capacity h data = length data then Ran (m'\<lparr>mem_blocks := mem_blocks m\<rparr>) else Undefined)"
proof -
  obtain q m1 where l: "leak h (h_capacity h data) data m = Ran (q, m1)"
    and w: "write_out out 1 q (word_of_nat (length data)) m1 = Ran m'"
    using assms(4) by (auto simp: write_ok_bytes_def)
  have laws: "alloc_laws h" "length data \<le> h_capacity h data" using assms(1) by (auto simp: environment_laws_def)
  note f = leak_facts [OF laws(1) assms(2) laws(2) l]
  have "slot_of out m' = (1, q, word_of_nat (length data)) \<and> mem_blocks m' = mem_blocks m1"
    by (rule write_out_facts [OF f(1) slot_ok_mono [OF assms(3) f(2)], of 1 q "word_of_nat (length data)"]) (simp add: w)
  then show ?thesis
    using assms(5) free_leaked [OF laws(1) assms(2) laws(2) l assms(6,7)] wasi_free_blocks [of m' m1] by simp
qed

theorem results_without_spare_capacity_can_be_freed_witness:
  "\<exists>m' p l. write_ok_bytes (h0\<lparr>h_capacity := \<lambda>b. 2 * length b\<rparr>) 16 [7] mem0 = Ran m' \<and>
     slot_of 16 m' = (1, p, l) \<and> wasi_free p l m' = Undefined"
proof -
  let ?h = "h0\<lparr>h_capacity := \<lambda>b. 2 * length b\<rparr>"
  have al: "h_alloc ?h = h_alloc h0" by simp
  have "alloc_laws ?h"
    using conjunct1 [OF environment_laws_0 [unfolded environment_laws_def]] by (simp only: alloc_laws_def al)
  then have laws: "environment_laws ?h" by (simp add: environment_laws_def)
  have cap: "length [7 :: u8] \<le> h_capacity ?h [7]" "h_capacity ?h [7] \<noteq> length [7 :: u8]" by simp_all
  have "\<exists>x. leak ?h (h_capacity ?h [7]) [7] mem0 = Ran x"
    by (simp add: leak_def h0_def store_def mem0_def)
  then obtain q m1 where l: "leak ?h (h_capacity ?h [7]) [7] mem0 = Ran (q, m1)" by force
  note f = leak_facts [OF conjunct1 [OF laws [unfolded environment_laws_def]] mem0_ok(1) cap(1) l]
  obtain m' where w: "write_out 16 1 q (word_of_nat (length [7 :: u8])) m1 = Ran m'"
    and sl: "slot_of 16 m' = (1, q, word_of_nat (length [7 :: u8]))"
    by (rule write_out_facts [OF f(1) slot_ok_mono [OF mem0_ok(2) f(2)]], rule that)
  have run: "write_ok_bytes ?h 16 [7] mem0 = Ran m'" using l w by (simp add: write_ok_bytes_def)
  have "wasi_free q (word_of_nat (length [7 :: u8])) m' = Undefined"
    using results_without_spare_capacity_can_be_freed [OF laws mem0_ok run sl] cap(2) by (simp add: isize_max_def)
  with run sl show ?thesis by blast
qed

section \<open>Envelopes\<close>

text \<open>C35. The timestamp, the TTL and the sender id of an envelope are not authenticated: an accepted
  envelope stays accepted with any other sender id, any non-zero TTL and any timestamp the replay
  window allows, so it can be replayed for ever by stamping it anew. A timestamp in the future is
  always inside the window.\<close>

theorem restamped_envelopes_are_accepted:
  assumes "verify_envelope cr env rc now = Ok True" and "ttl \<noteq> 0"
    and "unat now' \<le> unat ts + unat (rc_replay_window_ms rc)"
  shows "verify_envelope cr (env\<lparr>env_timestamp_unix_ms := ts, env_ttl := ttl, env_sender_node_id := nid\<rparr>) rc now' = Ok True"
proof -
  have "signing_input (env\<lparr>env_timestamp_unix_ms := ts, env_ttl := ttl, env_sender_node_id := nid\<rparr>) = signing_input env"
    by (simp add: signing_input_def)
  with assms show ?thesis by (simp add: verify_envelope_True)
qed

theorem restamped_envelopes_are_accepted_witness:
  "\<exists>env. build_envelope cr0 Transaction [42] (node0 [1]) 8 1000 = Ok env \<and>
     verify_envelope cr0 env rc0 900000 = Err ReplayDetected \<and>
     verify_envelope cr0 (env\<lparr>env_timestamp_unix_ms := 1000000, env_ttl := 1, env_sender_node_id := ''nobody''\<rparr>) rc0 900000 = Ok True"
proof -
  obtain env where env: "build_envelope cr0 Transaction [42] (node0 [1]) 8 1000 = Ok env"
    by (simp add: build_envelope_def Let_def sign_0)
  have rc: "rc_max_message_bytes rc0 = 1048576" "rc_replay_window_ms rc0 = 30000" by (simp_all add: rc0_def)
  have ok: "verify_envelope cr0 env rc0 1000 = Ok True"
    by (rule build_then_verify [OF laws_cr0(3) env]) (simp_all add: rc)
  have "env_timestamp_unix_ms env = 1000" using env by (auto simp: build_envelope_Ok)
  then have "verify_envelope cr0 env rc0 900000 = Err ReplayDetected"
    using ok by (simp add: verify_envelope_def rc saturating_sub_def)
  with env restamped_envelopes_are_accepted [OF ok, of 1 900000 1000000 "''nobody''"] rc show ?thesis by simp
qed

text \<open>C36. A publication that fails while signing has already marked the message as seen: nothing was
  published, and a retry within the cache TTL is refused as a duplicate, even when signing works
  again.\<close>

theorem failed_publication_blocks_the_retry:
  assumes "engine_inv e" and "publish cr ty payload t e = (Err (CryptoError s), e')"
    and "sha256 cr' = sha256 cr" and "unat t' \<le> unat t + unat (dc_ttl_ms (dedup e))"
  shows "messages_published (stats e') = messages_published (stats e) \<and>
    fst (publish cr' ty payload t' e') = Err (EnvelopeError ''duplicate message'')"
proof -
  obtain pt where pt: "from_u8 ty = Some pt" "length payload \<le> rc_max_message_bytes (config e)"
    "\<not> fst (is_duplicate (compute_message_id cr pt payload) t (dedup e))"
    using assms(2)
    by (cases rule: publish_cases [where t = ty and e = e and payload = payload and cr = cr and now = t])
       (auto simp: publish_simps)
  have e': "config e' = config e" "stats e' = stats e"
    "dedup e' = dedup_insert (compute_message_id cr' pt payload) t (evict_expired t (dedup e))"
    using assms(2,3) publish_fresh [OF pt] by (auto simp: Let_def compute_message_id_def split: res.splits)
  have "engine_inv e'" using eng_publish.keeps_inv [OF assms(1), of cr ty payload t] assms(2) by simp
  from republish [OF this pt(1) _ e'(3)] engine_invD(4) [OF assms(1)] pt(2) e'(1,2) assms(4) show ?thesis by (simp add: live_def)
qed

theorem failed_publication_blocks_the_retry_witness:
  "\<exists>e'. publish (cr0\<lparr>sig_sign_deterministic := \<lambda>_ _. Inl ''rng''\<rparr>) 0 [42] 1000 (engine_new rc0 (node0 [1])) =
       (Err (CryptoError ''ML-DSA-65 sign failed: rng''), e') \<and>
     fst (publish cr0 0 [42] 2000 e') = Err (EnvelopeError ''duplicate message'')"
proof -
  let ?cr = "cr0\<lparr>sig_sign_deterministic := \<lambda>_ _. Inl ''rng''\<rparr>"
  have ty: "from_u8 0 = Some Transaction" by (simp add: from_u8_def)
  have fresh: "\<not> fst (is_duplicate (compute_message_id ?cr Transaction [42]) 1000 (dedup_new 60))"
    by (simp add: is_duplicate_iff) (simp add: dedup_new_def)
  then have "\<exists>e'. publish ?cr 0 [42] 1000 (engine_new rc0 (node0 [1])) = (Err (CryptoError ''ML-DSA-65 sign failed: rng''), e')"
    using publish_fresh [OF ty, of "[42]" "engine_new rc0 (node0 [1])" ?cr 1000]
    by (simp add: Let_def build_envelope_def sign_def)
  then obtain e' where p: "publish ?cr 0 [42] 1000 (engine_new rc0 (node0 [1])) = (Err (CryptoError ''ML-DSA-65 sign failed: rng''), e')"
    by blast
  have inv: "engine_inv (engine_new rc0 (node0 [1]))" by (rule engine_inv_new) (rule resolve_config_ok [OF resolve_0])
  have ttl: "unat (dc_ttl_ms (dedup_new 60)) = 60000" by (simp add: dedup_new_def)
  from failed_publication_blocks_the_retry [OF inv p, of cr0 2000] p ttl show ?thesis by simp
qed

section \<open>Lineages and sessions\<close>

text \<open>C37. Nothing bounds a lineage while it grows, but decoding does: a rotation can succeed and return
  a lineage over the limit, which no node accepts any more, neither to verify envelopes nor to
  restart from.\<close>

theorem oversized_lineages_are_unusable:
  assumes "gossip_rotate_keys_under_id cr bc clock ks ss ep c g = (Ok lb, g')" and "MAX_LINEAGE_BYTES < length lb"
  shows "gossip_get_key_lineage bc g' = (Ok lb, g') \<and>
    (\<exists>e. gossip_verify_key_lineage cr bc js lb = Err (InvalidInput e)) \<and>
    (\<exists>e. gossip_verify_envelope_from_lineage cr bc clock' eb lb b = (Err (InvalidInput e), b)) \<and>
    fst (gossip_init_with_lineage cr bc js cfg lb globals_init) \<noteq> Ok ()"
proof -
  have "\<exists>l'. lineage g' = Some l' \<and> lineage_encode bc l' = Ok lb"
    by (rule gossip_rotate_under_id_Ok [OF assms(1)]) simp
  then have get: "gossip_get_key_lineage bc g' = (Ok lb, g')" by (auto simp: gossip_get_key_lineage_Ok)
  obtain e where dec: "lineage_decode cr bc lb = Err (InvalidInput e)" using assms(2) by (simp add: lineage_decode_def)
  have "gossip_init_with_lineage cr bc js cfg lb globals_init \<noteq> (Ok (), x)" for x
    by (auto simp: gossip_init_with_lineage_def globals_init_def then_do_Ok dec split: option.splits)
  then have "fst (gossip_init_with_lineage cr bc js cfg lb globals_init) \<noteq> Ok ()" by (metis prod.collapse)
  with get dec show ?thesis
    by (simp add: gossip_verify_key_lineage_def gossip_verify_envelope_from_lineage_def)
qed

lemma length_enc_elem: "x \<in> set xs \<Longrightarrow> length (e x) \<le> length (enc_list e xs)"
  by (induction xs) auto

lemma length_enc_lineage_epoch: "r \<in> set (lw_rotations w) \<Longrightarrow> length (kr_new_key_epoch r) \<le> length (enc_lineage w)"
proof -
  assume r: "r \<in> set (lw_rotations w)"
  have "length (kr_new_key_epoch r) \<le> length (enc_rotation r)" by (simp add: enc_rotation_def enc_map_def enc_pair_def)
  also have "\<dots> \<le> length (enc_list enc_rotation (lw_rotations w))" by (rule length_enc_elem [OF r])
  finally show ?thesis by (simp add: enc_lineage_def enc_map_def enc_pair_def)
qed

theorem oversized_lineages_are_unusable_witness:
  "\<exists>ep lb g'. gossip_rotate_keys_under_id cr0 bc0 (Some 2000) (replicate 96 7) (replicate 32 7) ep None (running [1]) = (Ok lb, g') \<and>
     (\<exists>e. gossip_verify_key_lineage cr0 bc0 js0 lb = Err (InvalidInput e))"
proof -
  obtain ep :: string where long: "MAX_LINEAGE_BYTES < length ep" using Ex_list_of_length by (metis lessI)
  let ?nx = "seed_node\<lparr>ni_key_epoch := ep\<rparr>"
  have sd: "identity_from_seed_bytes cr0 (replicate 96 7) (replicate 32 7) ep = Ok ?nx"
    by (rule seed_node_epoch)
  have pc: "parse_commitment None = Ok None" by (simp add: parse_commitment_def)
  have none: "next_key_commitment (lineage0 [1]) = None" by (simp add: next_key_commitment_def)
  obtain lb g' where rot: "gossip_rotate_keys_under_id cr0 bc0 (Some 2000) (replicate 96 7) (replicate 32 7) ep None (running [1]) = (Ok lb, g')"
    by (rule rotate_under_id_succeeds [OF running_inv running_fields laws_cr0(3,5) lineage_laws_bc0(2) sign_total_0 sd pc])
       (use none that in blast)+
  then obtain r e' l' where run: "rotate_keys_under_id cr0 ?nx None 2000 (engine_new rc0 (node0 [1]), lineage0 [1]) = (Ok r, e', l')"
    and enc: "lineage_encode bc0 l' = Ok lb"
    by (rule gossip_rotate_under_id_Ok) (use that in \<open>simp add: sd pc current_time_unix_ms_def\<close>)
  note ba = rotate_keys_under_id_Ok(1) [OF run]
  have "kr_new_key_epoch r = ep" by (rule build_and_apply_Ok [OF ba]) (cases r, simp add: unsigned_rotation_def)
  moreover have "r \<in> set (kl_rotations l')" using build_and_apply_effect [OF ba] by simp
  ultimately have "length ep \<le> length lb"
    using enc length_enc_lineage_epoch [of r] by (auto simp: lineage_encode_def Let_def bc0_def)
  with long have "MAX_LINEAGE_BYTES < length lb" by simp
  from oversized_lineages_are_unusable [OF rot this] rot show ?thesis by blast
qed

text \<open>C38. The two ways to finish a handshake as a server differ. Both store the same session, count the
  completed handshake and update the number of active peers; but \<open>gossip_build_finish_ack\<close> does not
  offer the peer to the mesh, while \<open>gossip_process_handshake_bytes\<close> on the same message adds the peer when
  the mesh has room and updates the number of mesh peers.\<close>

theorem build_finish_ack_leaves_mesh:
  assumes "gossip_state g = Some e" and "gossip_build_finish_ack cr bc clock a fb g = (Ok b, g1)"
    and "gossip_process_handshake_bytes cr bc clock rand rng a fb g = (Ok (Some b), g2)"
    and "classify_incoming fb = KindHandshakeFinish"
  shows "\<exists>e1 e2. gossip_state g1 = Some e1 \<and> gossip_state g2 = Some e2 \<and> sessions e1 = sessions e2 \<and>
    (\<exists>s. sessions e1 = sessions_insert s (sessions e) \<and> sr_peer_addr s = a) \<and> sessions_get a (sessions e1) \<noteq> None \<and>
    handshakes_completed (stats e1) = handshakes_completed (stats e) + 1 \<and>
    handshakes_completed (stats e2) = handshakes_completed (stats e) + 1 \<and>
    active_peers_stat (stats e1) = word_of_nat (sessions_count (sessions e1)) \<and>
    active_peers_stat (stats e2) = word_of_nat (sessions_count (sessions e2)) \<and>
    mesh_peers e1 = mesh_peers e \<and> mesh_peers_stat (stats e1) = mesh_peers_stat (stats e) \<and>
    mesh_peers_stat (stats e2) = word_of_nat (length (mesh_peers e2)) \<and>
    mesh_peers e2 = (if a \<notin> set (mesh_peers e) \<and> length (mesh_peers e) < unat (rc_mesh_n_high (config e))
                     then mesh_peers e @ [a] else mesh_peers e)"
proof -
  obtain s m where p: "process_finish_build_finish_ack cr bc a fb (identity e) (current_time_unix_ms clock) (handshakes e) = (Ok (b, s), m)"
    and g1: "g1 = g\<lparr>gossip_state := Some (store_finished s (e\<lparr>handshakes := m\<rparr>))\<rparr>"
    using assms(1,2)
    by (auto simp: gossip_build_finish_ack_def with_engine_def with_engine_and_def on_handshakes_def then_do_Ok split: prod.splits)
  have g2: "g2 = g\<lparr>gossip_state := Some (complete_handshake a s (e\<lparr>handshakes := m\<rparr>))\<rparr>"
    using assms(1,3) process_handshake_kinds(3) [OF assms(4) p, of rand rng]
    by (simp add: gossip_process_handshake_bytes_def with_engine_def with_engine_and_def)
  have "sr_peer_addr s = a" using p by (auto simp: process_finish_Ok)
  then show ?thesis
    by (auto simp: g1 g2 store_finished_def complete_handshake_def add_to_mesh_def sync_peer_stats_def Let_def ses.get_ins)
qed

theorem build_finish_ack_leaves_mesh_witness:
  "\<exists>g fb b g1 g2 e1 e2. gossip_build_finish_ack cr0 bc0 (Some 1003) ''c'' fb g = (Ok b, g1) \<and>
     gossip_process_handshake_bytes cr0 bc0 (Some 1003) (Inr [2]) [3] ''c'' fb g = (Ok (Some b), g2) \<and>
     gossip_state g1 = Some e1 \<and> gossip_state g2 = Some e2 \<and> mesh_peers e1 = [] \<and> mesh_peers e2 = [''c''] \<and>
     handshakes_completed (stats e1) = 1 \<and> handshakes_completed (stats e2) = 1"
proof -
  obtain fin fack ss ms1 ms2 where f: "process_finish_build_finish_ack cr0 bc0 ''c'' fin (node0 [2]) 1003 ms1 = (Ok (fack, ss), ms2)"
    and kind: "classify_incoming fin = KindHandshakeFinish"
    using exchange_0 by metis
  let ?e = "(engine_new rc0 (node0 [2]))\<lparr>handshakes := ms1\<rparr>"
  let ?g = "(running [2])\<lparr>gossip_state := Some ?e\<rparr>"
  have g: "gossip_state ?g = Some ?e" by simp
  have t: "current_time_unix_ms (Some 1003) = 1003" by (simp add: current_time_unix_ms_def)
  obtain g1 where 1: "gossip_build_finish_ack cr0 bc0 (Some 1003) ''c'' fin ?g = (Ok fack, g1)"
    using f by (simp add: gossip_build_finish_ack_def with_engine_def with_engine_and_def on_handshakes_def t)
  obtain g2 where 2: "gossip_process_handshake_bytes cr0 bc0 (Some 1003) (Inr [2]) [3] ''c'' fin ?g = (Ok (Some fack), g2)"
    using process_handshake_kinds(3) [OF kind, of cr0 bc0 "''c''" ?e 1003 fack ss ms2] f
    by (simp add: gossip_process_handshake_bytes_def with_engine_def with_engine_and_def t)
  have "unat (rc_mesh_n_high rc0) = 12" by (simp add: rc0_def)
  with build_finish_ack_leaves_mesh [OF g 1 2 kind] obtain e1 e2 where
    "gossip_state g1 = Some e1" "gossip_state g2 = Some e2" "mesh_peers e1 = []" "mesh_peers e2 = [''c'']"
    "handshakes_completed (stats e1) = 1" "handshakes_completed (stats e2) = 1"
    by (auto simp: engine_new_def stats_default_def)
  with 1 2 show ?thesis by blast
qed

end
