(* ===== verification/Node.thy ===== *)
theory Node
  imports Network
begin

text \<open>
  \<^verbatim>\<open>wasmtime-test/src/node.rs\<close>: a node of the test host, a component instance with an address. Its
  methods call the exports through generated bindings; an error of the interface becomes a host error
  that keeps the error and names the call, a trap ends the call. What the host parses (\<open>serde_json\<close>
  into an untyped value) is a parameter: an object is the list of its fields with scalar values (no
  host reads another), \<open>hj_array\<close> tells an array and its length from other values.
\<close>

section \<open>Nodes and host errors\<close>

type_synonym json_object = "(string \<times> json_value) list"

record host_json =
  hj_render :: "json_object \<Rightarrow> string"
  hj_object :: "string \<Rightarrow> string + json_object"
  hj_list :: "string \<Rightarrow> string + json_object list"
  hj_array :: "string \<Rightarrow> string + nat option"

record ('k, 'd) gossip_node =
  nd_addr :: string
  nd_store :: "('k, 'd) globals"

datatype node_error = CallError string wit_error | CallTrapped string | BadJson string string | BadLength string nat
  | HandshakeFailed harness_error | LoadFailed string

text \<open>What wasmtime makes of the bytes of a component: whether it loads, links against WASI and can be
  instantiated through the current bindings and through those of witan 0.2.1. The bytes are taken to
  be the component these theories model, built from the sources: an instance of any other component
  would behave otherwise. A fresh instance has empty globals.\<close>

record wasm_image =
  img_from_binary :: "string + unit"
  img_add_to_linker :: "string + unit"
  img_instantiate :: "string + unit"
  img_instantiate_legacy :: "string + unit"

definition node_fresh :: "string \<Rightarrow> ('k, 'd) gossip_node" where
  "node_fresh addr = \<lparr>nd_addr = addr, nd_store = globals_init\<rparr>"

definition node_new :: "wasm_image \<Rightarrow> string \<Rightarrow> node_error + ('k, 'd) gossip_node" where
  "node_new img addr =
     (case img_from_binary img of
        Inl e \<Rightarrow> Inl (LoadFailed (addr @ '': loading component: '' @ e))
      | Inr _ \<Rightarrow>
          (case img_add_to_linker img of
             Inl e \<Rightarrow> Inl (LoadFailed (addr @ '': linking WASI: '' @ e))
           | Inr _ \<Rightarrow>
               (case img_instantiate img of
                  Inl e \<Rightarrow> Inl (LoadFailed (addr @ '': instantiating component: '' @ e))
                | Inr _ \<Rightarrow> Inr (node_fresh addr))))"

text \<open>\<open>err(context, e)\<close>, after the call through the bindings.\<close>

fun node_result :: "string \<Rightarrow> 'a res \<Rightarrow> node_error + 'a" where
  "node_result ctx (Ok x) = Inr x"
| "node_result ctx (Err e) = Inl (CallError ctx (wit_error_from e))"
| "node_result ctx Panic = Inl (CallTrapped ctx)"

definition invoke ::
    "string \<Rightarrow> (('k, 'd) globals \<Rightarrow> 'a res \<times> ('k, 'd) globals) \<Rightarrow> ('k, 'd) gossip_node \<Rightarrow> (node_error + 'a) \<times> ('k, 'd) gossip_node" where
  "invoke ctx f n = (case f (nd_store n) of (r, g) \<Rightarrow> (node_result ctx r, n\<lparr>nd_store := g\<rparr>))"

fun parsed :: "string \<Rightarrow> (string \<Rightarrow> string + 'b) \<Rightarrow> (node_error + string) \<times> 'n \<Rightarrow> (node_error + 'b) \<times> 'n" where
  "parsed what f (Inr s, n) = (case f s of Inr v \<Rightarrow> Inr v | Inl e \<Rightarrow> Inl (BadJson what e), n)"
| "parsed what f (Inl e, n) = (Inl e, n)"

section \<open>Methods\<close>

definition node_init ::
    "('k, 'p, 'c, 's, 'd) crypto \<Rightarrow> json \<Rightarrow> bytes \<Rightarrow> bytes \<Rightarrow> string \<Rightarrow> ('k, 'd) gossip_node \<Rightarrow> (node_error + unit) \<times> ('k, 'd) gossip_node" where
  "node_init cr js kem_rng sig_rng config_json = invoke ''gossip_init'' (gossip_init cr js kem_rng sig_rng config_json)"

definition node_get_version ::
    "('k, 'd) gossip_node \<Rightarrow> (node_error + string) \<times> ('k, 'd) gossip_node" where
  "node_get_version = invoke ''gossip_get_version'' (\<lambda>g. (Ok gossip_get_version, g))"

definition node_now_ms ::
    "nat option \<Rightarrow> ('k, 'd) gossip_node \<Rightarrow> (node_error + u64) \<times> ('k, 'd) gossip_node" where
  "node_now_ms clock = invoke ''gossip_now_ms'' (\<lambda>g. (Ok (gossip_now_ms clock), g))"

definition node_get_node_identity ::
    "('k, 'p, 'c, 's, 'd) crypto \<Rightarrow> json \<Rightarrow> host_json \<Rightarrow> ('k, 'd) gossip_node \<Rightarrow> (node_error + json_object) \<times> ('k, 'd) gossip_node" where
  "node_get_node_identity cr js hj n =
     parsed ''parsing node identity JSON'' (hj_object hj) (invoke ''gossip_get_node_identity'' (gossip_get_node_identity cr js) n)"

definition node_rotate_keys ::
    "('k, 'p, 'c, 's, 'd) crypto \<Rightarrow> bytes \<Rightarrow> bytes \<Rightarrow> ('k, 'd) gossip_node \<Rightarrow> (node_error + string) \<times> ('k, 'd) gossip_node" where
  "node_rotate_keys cr kem_rng sig_rng = invoke ''gossip_rotate_keys'' (gossip_rotate_keys cr kem_rng sig_rng)"

definition node_connect_peer ::
    "codec \<Rightarrow> nat option \<Rightarrow> string + bytes \<Rightarrow> string \<Rightarrow> ('k, 'd) gossip_node \<Rightarrow> (node_error + bytes) \<times> ('k, 'd) gossip_node" where
  "node_connect_peer bc clock rand peer_addr = invoke ''gossip_connect_peer'' (gossip_connect_peer bc clock rand peer_addr)"

definition node_process_handshake_bytes ::
    "('k, 'p, 'c, 's, 'd) crypto \<Rightarrow> codec \<Rightarrow> nat option \<Rightarrow> string + bytes \<Rightarrow> bytes \<Rightarrow> string \<Rightarrow> bytes \<Rightarrow> ('k, 'd) gossip_node \<Rightarrow> (node_error + bytes option) \<times> ('k, 'd) gossip_node" where
  "node_process_handshake_bytes cr bc clock rand rng peer_addr b = 
     invoke ''gossip_process_handshake_bytes'' (gossip_process_handshake_bytes cr bc clock rand rng peer_addr b)"

definition node_disconnect_peer ::
    "string \<Rightarrow> ('k, 'd) gossip_node \<Rightarrow> (node_error + unit) \<times> ('k, 'd) gossip_node" where
  "node_disconnect_peer peer_addr = invoke ''gossip_disconnect_peer'' (gossip_disconnect_peer peer_addr)"

definition node_get_peers ::
    "json \<Rightarrow> host_json \<Rightarrow> ('k, 'd) gossip_node \<Rightarrow> (node_error + json_object list) \<times> ('k, 'd) gossip_node" where
  "node_get_peers js hj n =
     parsed ''parsing peers JSON'' (hj_list hj) (invoke ''gossip_get_peers'' (gossip_get_peers js) n)"

definition node_get_session ::
    "json \<Rightarrow> host_json \<Rightarrow> string \<Rightarrow> ('k, 'd) gossip_node \<Rightarrow> (node_error + json_object) \<times> ('k, 'd) gossip_node" where
  "node_get_session js hj peer_addr n =
     parsed ''parsing session JSON'' (hj_object hj) (invoke ''gossip_get_session'' (gossip_get_session js peer_addr) n)"

definition node_publish ::
    "('k, 'p, 'c, 's, 'd) crypto \<Rightarrow> nat option \<Rightarrow> u8 \<Rightarrow> bytes \<Rightarrow> ('k, 'd) gossip_node \<Rightarrow> (node_error + bytes) \<times> ('k, 'd) gossip_node" where
  "node_publish cr clock payload_type payload n =
     (case invoke ''gossip_publish'' (gossip_publish cr clock payload_type payload) n of
        (Inr i, n') \<Rightarrow> (if length i = 32 then Inr i else Inl (BadLength ''expected a 32-byte message ID'' (length i)), n')
      | (Inl e, n') \<Rightarrow> (Inl e, n'))"

definition node_encode_envelope ::
    "('k, 'p, 'c, 's, 'd) crypto \<Rightarrow> codec \<Rightarrow> nat option \<Rightarrow> u8 \<Rightarrow> bytes \<Rightarrow> ('k, 'd) gossip_node \<Rightarrow> (node_error + bytes) \<times> ('k, 'd) gossip_node" where
  "node_encode_envelope cr bc clock payload_type payload = 
     invoke ''gossip_encode_envelope'' (gossip_encode_envelope cr bc clock payload_type payload)"

definition node_decode_envelope ::
    "codec \<Rightarrow> json \<Rightarrow> host_json \<Rightarrow> bytes \<Rightarrow> ('k, 'd) gossip_node \<Rightarrow> (node_error + json_object) \<times> ('k, 'd) gossip_node" where
  "node_decode_envelope bc js hj b n =
     parsed ''parsing envelope JSON'' (hj_object hj) (invoke ''gossip_decode_envelope'' (gossip_decode_envelope bc js b) n)"

definition node_verify_envelope ::
    "('k, 'p, 'c, 's, 'd) crypto \<Rightarrow> codec \<Rightarrow> nat option \<Rightarrow> bytes \<Rightarrow> ('k, 'd) gossip_node \<Rightarrow> (node_error + bool) \<times> ('k, 'd) gossip_node" where
  "node_verify_envelope cr bc clock b = invoke ''gossip_verify_envelope'' (gossip_verify_envelope cr bc clock b)"

definition node_verify_signature ::
    "('k, 'p, 'c, 's, 'd) crypto \<Rightarrow> bytes \<Rightarrow> bytes \<Rightarrow> bytes \<Rightarrow> bytes \<Rightarrow> ('k, 'd) gossip_node \<Rightarrow> (node_error + bool) \<times> ('k, 'd) gossip_node" where
  "node_verify_signature cr pk message sg ctx = 
     invoke ''gossip_verify_signature'' (\<lambda>g. (gossip_verify_signature cr pk message sg ctx, g))"

definition node_get_stats ::
    "json \<Rightarrow> host_json \<Rightarrow> nat option \<Rightarrow> ('k, 'd) gossip_node \<Rightarrow> (node_error + json_object) \<times> ('k, 'd) gossip_node" where
  "node_get_stats js hj clock n =
     parsed ''parsing stats JSON'' (hj_object hj) (invoke ''gossip_get_stats'' (gossip_get_stats js clock) n)"

definition node_init_with_lineage ::
    "('k, 'p, 'c, 's, 'd) crypto \<Rightarrow> codec \<Rightarrow> json \<Rightarrow> string \<Rightarrow> bytes \<Rightarrow> ('k, 'd) gossip_node \<Rightarrow> (node_error + unit) \<times> ('k, 'd) gossip_node" where
  "node_init_with_lineage cr bc js config_json lb = 
     invoke ''gossip_init_with_lineage'' (gossip_init_with_lineage cr bc js config_json lb)"

definition node_rotate_keys_under_id ::
    "('k, 'p, 'c, 's, 'd) crypto \<Rightarrow> codec \<Rightarrow> nat option \<Rightarrow> bytes \<Rightarrow> bytes \<Rightarrow> string \<Rightarrow> bytes option \<Rightarrow> ('k, 'd) gossip_node \<Rightarrow> (node_error + bytes) \<times> ('k, 'd) gossip_node" where
  "node_rotate_keys_under_id cr bc clock kem_seed sig_seed key_epoch commitment = 
     invoke ''gossip_rotate_keys_under_id'' (gossip_rotate_keys_under_id cr bc clock kem_seed sig_seed key_epoch commitment)"

definition node_get_key_lineage ::
    "codec \<Rightarrow> ('k, 'd) gossip_node \<Rightarrow> (node_error + bytes) \<times> ('k, 'd) gossip_node" where
  "node_get_key_lineage bc = invoke ''gossip_get_key_lineage'' (gossip_get_key_lineage bc)"

definition node_verify_key_lineage ::
    "('k, 'p, 'c, 's, 'd) crypto \<Rightarrow> codec \<Rightarrow> json \<Rightarrow> host_json \<Rightarrow> bytes \<Rightarrow> ('k, 'd) gossip_node \<Rightarrow> (node_error + json_object) \<times> ('k, 'd) gossip_node" where
  "node_verify_key_lineage cr bc js hj lb n =
     parsed ''parsing lineage summary JSON'' (hj_object hj) (invoke ''gossip_verify_key_lineage'' (\<lambda>g. (gossip_verify_key_lineage cr bc js lb, g)) n)"

definition node_verify_envelope_from_lineage ::
    "('k, 'p, 'c, 's, 'd) crypto \<Rightarrow> codec \<Rightarrow> nat option \<Rightarrow> bytes \<Rightarrow> bytes \<Rightarrow> ('k, 'd) gossip_node \<Rightarrow> (node_error + bool) \<times> ('k, 'd) gossip_node" where
  "node_verify_envelope_from_lineage cr bc clock eb lb = 
     invoke ''gossip_verify_envelope_from_lineage'' (gossip_verify_envelope_from_lineage cr bc clock eb lb)"

definition node_recover_lineage ::
    "('k, 'p, 'c, 's, 'd) crypto \<Rightarrow> codec \<Rightarrow> nat option \<Rightarrow> bytes \<Rightarrow> bytes \<Rightarrow> bytes \<Rightarrow> string \<Rightarrow> bytes option \<Rightarrow> ('k, 'd) gossip_node \<Rightarrow> (node_error + bytes) \<times> ('k, 'd) gossip_node" where
  "node_recover_lineage cr bc clock lb kem_seed sig_seed key_epoch commitment = 
     invoke ''gossip_recover_lineage'' (\<lambda>g. (gossip_recover_lineage cr bc clock lb kem_seed sig_seed key_epoch commitment, g))"

definition node_key_commitment ::
    "('k, 'p, 'c, 's, 'd) crypto \<Rightarrow> bytes \<Rightarrow> ('k, 'd) gossip_node \<Rightarrow> (node_error + bytes) \<times> ('k, 'd) gossip_node" where
  "node_key_commitment cr sig_seed = invoke ''gossip_key_commitment'' (\<lambda>g. (gossip_key_commitment cr sig_seed, g))"

end
