(* ===== verification/Scenario.thy ===== *)
theory Scenario
  imports Node
begin

text \<open>
  Steps 17 to 20 of \<^verbatim>\<open>wasmtime-test/src/main.rs\<close>: a node rotates its keys under its id, restarts, rotates to
  a committed key, loses that key and is recovered, while two other nodes verify what it signs. The
  program prints and exits on the first failure, so its value is a verdict. Every call that reads the
  clock gets a reading of its own, \<open>clk i\<close> for the \<open>i\<close>-th.
\<close>

section \<open>Checks\<close>

datatype verdict = AllPassed | Exited string

text \<open>\<open>check!(label, result)\<close>; \<open>if cond { eprintln!(..); exit(1) }\<close>; \<open>if call.is_ok() { exit(1) }\<close>.\<close>

fun checked :: "string \<Rightarrow> (node_error + 'a) \<times> 'n \<Rightarrow> ('a \<Rightarrow> 'n \<Rightarrow> verdict) \<Rightarrow> verdict" where
  "checked label (Inr x, n) k = k x n"
| "checked label (Inl e, n) k = Exited label"

definition require :: "bool \<Rightarrow> string \<Rightarrow> verdict \<Rightarrow> verdict" where
  "require c msg k = (if c then k else Exited msg)"

fun refused :: "string \<Rightarrow> (node_error + 'a) \<times> 'n \<Rightarrow> ('n \<Rightarrow> verdict) \<Rightarrow> verdict" where
  "refused msg (Inr x, n) k = Exited msg"
| "refused msg (Inl e, n) k = k n"

text \<open>\<open>value["key"]\<close> is null for a missing key.\<close>

definition field :: "json_object \<Rightarrow> string \<Rightarrow> json_value" where
  "field v key = (case map_of v key of Some x \<Rightarrow> x | None \<Rightarrow> JNull)"

section \<open>Seeds\<close>

definition seed :: "u8 \<Rightarrow> bytes \<times> bytes" where
  "seed n = (replicate 32 n @ replicate 64 (n + 100), replicate 32 (n + 200))"

definition config_for :: "('k, 'p, 'c, 's, 'd) crypto \<Rightarrow> host_json \<Rightarrow> u8 \<Rightarrow> string" where
  "config_for cr hj n =
     (case seed n of (kem, sig) \<Rightarrow>
      hj_render hj
        [(''kem_seed_hex'', JStr (hex_encode cr kem)),
         (''sig_seed_hex'', JStr (hex_encode cr sig)),
         (''key_epoch'', JStr (''epoch-'' @ dec (unat n)))])"

section \<open>The steps\<close>

type_synonym ('k, 'd) node_step = "('k, 'd) gossip_node \<Rightarrow> ('k, 'd) gossip_node \<Rightarrow> verdict"

definition step_20 ::
    "('k, 'p, 'c, 's, 'd) crypto \<Rightarrow> codec \<Rightarrow> json \<Rightarrow> host_json \<Rightarrow> wasm_image \<Rightarrow> (nat \<Rightarrow> nat option) \<Rightarrow>
     json_object \<Rightarrow> bytes \<Rightarrow> bytes \<Rightarrow> ('k, 'd) node_step" where
  "step_20 cr bc js hj img clk id_before lineage2 env_key3 node_b node_c =
     (case seed 9 of (kem9, sig9) \<Rightarrow>
      case seed 4 of (kem4, sig4) \<Rightarrow>
      refused ''recovery to an uncommitted key was accepted''
        (node_recover_lineage cr bc (clk 20) lineage2 kem9 sig9 ''epoch-9'' None node_c) (\<lambda>node_c.
      checked ''recover lineage to key 4 (stateless)''
        (node_recover_lineage cr bc (clk 21) lineage2 kem4 sig4 ''epoch-4'' None node_c) (\<lambda>recovered node_c.
      checked ''node-b verifies the recovered lineage''
        (node_verify_key_lineage cr bc js hj recovered node_b) (\<lambda>summary3 node_b.
      require (field summary3 ''node_id'' = field id_before ''node_id'' \<and> field summary3 ''sequence'' = JU64 3)
        ''recovered lineage summary wrong''
      (checked ''instantiate node-d (recovered)'' (node_new img ''node-d'', ()) (\<lambda>node_d3 _.
      checked ''node-d gossip_init_with_lineage (seed 4)''
        (node_init_with_lineage cr bc js (config_for cr hj 4) recovered node_d3) (\<lambda>_ node_d3.
      checked ''node-d identity after recovery'' (node_get_node_identity cr js hj node_d3) (\<lambda>id_recovered node_d3.
      require (field id_recovered ''node_id'' = field id_before ''node_id'') ''recovered node has a different id''
      (checked ''recovered node-d signs with key 4''
        (node_encode_envelope cr bc (clk 22) 2 (as_bytes ''vote-5'') node_d3) (\<lambda>env_key4 node_d3.
      checked ''node-b accepts it against the recovered lineage''
        (node_verify_envelope_from_lineage cr bc (clk 23) env_key4 recovered node_b) (\<lambda>ok node_b.
      require ok ''recovered node's envelope rejected''
      (refused ''the lost key 3 is still accepted after recovery''
        (node_verify_envelope_from_lineage cr bc (clk 24) env_key3 recovered node_b) (\<lambda>node_b.
      AllPassed)))))))))))))"

definition step_19 ::
    "('k, 'p, 'c, 's, 'd) crypto \<Rightarrow> codec \<Rightarrow> json \<Rightarrow> host_json \<Rightarrow> wasm_image \<Rightarrow> (nat \<Rightarrow> nat option) \<Rightarrow>
     json_object \<Rightarrow> bytes \<Rightarrow> ('k, 'd) gossip_node \<Rightarrow> ('k, 'd) node_step" where
  "step_19 cr bc js hj img clk id_before lineage1 node_d2 node_b node_c =
     (case seed 3 of (kem3, sig3) \<Rightarrow>
      case seed 4 of (kem4, sig4) \<Rightarrow>
      checked ''commitment to key 4'' (node_key_commitment cr sig4 node_d2) (\<lambda>c4 node_d2.
      checked ''node-d rotates to committed key 3, committing to key 4''
        (node_rotate_keys_under_id cr bc (clk 15) kem3 sig3 ''epoch-3'' (Some c4) node_d2) (\<lambda>lineage2 node_d2.
      checked ''node-c verifies the lineage'' (node_verify_key_lineage cr bc js hj lineage2 node_c) (\<lambda>summary2 node_c.
      require (field summary2 ''node_id'' = field id_before ''node_id'' \<and> field summary2 ''sequence'' = JU64 2)
        ''lineage summary wrong after committed rotation''
      (checked ''node-d signs with key 3''
        (node_encode_envelope cr bc (clk 16) 2 (as_bytes ''vote-4'') node_d2) (\<lambda>env_key3 node_d2.
      checked ''node-b accepts it against the updated lineage''
        (node_verify_envelope_from_lineage cr bc (clk 17) env_key3 lineage2 node_b) (\<lambda>ok node_b.
      require ok ''committed-key envelope rejected''
      (refused ''stale lineage accepted the new key''
        (node_verify_envelope_from_lineage cr bc (clk 18) env_key3 lineage1 node_b) (\<lambda>node_b.
      step_20 cr bc js hj img clk id_before lineage2 env_key3 node_b node_c)))))))))"

definition step_18 ::
    "('k, 'p, 'c, 's, 'd) crypto \<Rightarrow> codec \<Rightarrow> json \<Rightarrow> host_json \<Rightarrow> wasm_image \<Rightarrow> (nat \<Rightarrow> nat option) \<Rightarrow>
     json_object \<Rightarrow> json_object \<Rightarrow> bytes \<Rightarrow> ('k, 'd) node_step" where
  "step_18 cr bc js hj img clk id_before id_after lineage1 node_b node_c =
     (checked ''instantiate node-d (restart)'' (node_new img ''node-d'', ()) (\<lambda>node_d2 _.
      refused ''restart on the retired seeds was accepted''
        (node_init_with_lineage cr bc js (config_for cr hj 1) lineage1 node_d2) (\<lambda>node_d2.
      checked ''node-d gossip_init_with_lineage (seed 2)''
        (node_init_with_lineage cr bc js (config_for cr hj 2) lineage1 node_d2) (\<lambda>_ node_d2.
      checked ''node-d identity after restart'' (node_get_node_identity cr js hj node_d2) (\<lambda>id_restart node_d2.
      require (field id_restart ''node_id'' = field id_before ''node_id'' \<and>
          field id_restart ''sig_public_key_hex'' = field id_after ''sig_public_key_hex'')
        ''restarted node has the wrong id or key''
      (checked ''restarted node-d signs''
        (node_encode_envelope cr bc (clk 12) 2 (as_bytes ''vote-3'') node_d2) (\<lambda>env_restart node_d2.
      checked ''node-c accepts it against the lineage''
        (node_verify_envelope_from_lineage cr bc (clk 13) env_restart lineage1 node_c) (\<lambda>ok node_c.
      require ok ''restarted node's envelope rejected''
      (step_19 cr bc js hj img clk id_before lineage1 node_d2 node_b node_c)))))))))"

definition step_17 ::
    "('k, 'p, 'c, 's, 'd) crypto \<Rightarrow> codec \<Rightarrow> json \<Rightarrow> host_json \<Rightarrow> wasm_image \<Rightarrow> (nat \<Rightarrow> nat option) \<Rightarrow> ('k, 'd) node_step" where
  "step_17 cr bc js hj img clk node_b node_c =
     (checked ''instantiate node-d'' (node_new img ''node-d'', ()) (\<lambda>node_d _.
      checked ''node-d gossip_init (seed 1)'' (node_init cr js [] [] (config_for cr hj 1) node_d) (\<lambda>_ node_d.
      checked ''node-d identity'' (node_get_node_identity cr js hj node_d) (\<lambda>id_before node_d.
      checked ''node-d signs with key 1''
        (node_encode_envelope cr bc (clk 1) 2 (as_bytes ''vote-1'') node_d) (\<lambda>env_old_key node_d.
      case seed 2 of (kem2, sig2) \<Rightarrow>
      case seed 3 of (_, sig3) \<Rightarrow>
      checked ''commitment to key 3'' (node_key_commitment cr sig3 node_d) (\<lambda>c3 node_d.
      checked ''node-d rotates to key 2 under its id, committing to key 3''
        (node_rotate_keys_under_id cr bc (clk 2) kem2 sig2 ''epoch-2'' (Some c3) node_d) (\<lambda>lineage1 node_d.
      checked ''node-d identity after rotation'' (node_get_node_identity cr js hj node_d) (\<lambda>id_after node_d.
      require (\<not> (field id_after ''node_id'' \<noteq> field id_before ''node_id'' \<or>
          field id_after ''sig_public_key_hex'' = field id_before ''sig_public_key_hex''))
        ''rotation must keep node_id and change the signing key''
      (checked ''node-c verifies the lineage (stateless)''
        (node_verify_key_lineage cr bc js hj lineage1 node_c) (\<lambda>summary node_c.
      require (field summary ''node_id'' = field id_before ''node_id'' \<and> field summary ''sequence'' = JU64 1)
        ''lineage summary wrong''
      (checked ''node-d signs with key 2''
        (node_encode_envelope cr bc (clk 3) 2 (as_bytes ''vote-2'') node_d) (\<lambda>env_new_key node_d.
      checked ''node-b accepts the new-key envelope against the lineage''
        (node_verify_envelope_from_lineage cr bc (clk 4) env_new_key lineage1 node_b) (\<lambda>ok node_b.
      require ok ''current-key envelope rejected''
      (checked ''node-b's plain 0.2.1 verifier also accepts it''
        (node_verify_envelope cr bc (clk 5) env_new_key node_b) (\<lambda>ok node_b.
      require ok ''rotated envelope broke the existing verifier''
      (refused ''retired-key envelope accepted against the lineage''
        (node_verify_envelope_from_lineage cr bc (clk 6) env_old_key lineage1 node_b) (\<lambda>node_b.
      case seed 9 of (kem9, sig9) \<Rightarrow>
      refused ''rotation to an uncommitted key was accepted''
        (node_rotate_keys_under_id cr bc (clk 7) kem9 sig9 ''epoch-9'' None node_d) (\<lambda>node_d.
      checked ''node-d lineage after refused rotation'' (node_get_key_lineage bc node_d) (\<lambda>unchanged node_d.
      require (unchanged = lineage1) ''refused rotation changed the lineage''
      (step_18 cr bc js hj img clk id_before id_after lineage1 node_b node_c))))))))))))))))))))"

end
