(* ===== verification/Validator.thy ===== *)
theory Validator
  imports Scenario "HOL-Library.Word"
begin

unbundle bit_operations_syntax

text \<open>
  \<^verbatim>\<open>witan/src/bin/validate_api.rs\<close>: twenty tests over the library's own API, each counted as passed or
  failed. A failed \<open>expect\<close> ends the program, which is \<open>Panic\<close>. Key material, nonces and clock readings
  are numbered by the test that draws them.
\<close>

record ('k, 'd) validator =
  v_globals :: "('k, 'd) globals"
  v_passed :: nat
  v_failed :: nat

record validator_env =
  ve_keys :: "nat \<Rightarrow> bytes \<times> bytes"
  ve_nonce :: "nat \<Rightarrow> string + bytes"
  ve_coins :: "nat \<Rightarrow> bytes"
  ve_clock :: "nat \<Rightarrow> nat option"

section \<open>Counting\<close>

definition pass :: "('k, 'd) validator \<Rightarrow> ('k, 'd) validator" where
  "pass v = v\<lparr>v_passed := v_passed v + 1\<rparr>"

definition fail :: "('k, 'd) validator \<Rightarrow> ('k, 'd) validator" where
  "fail v = v\<lparr>v_failed := v_failed v + 1\<rparr>"

definition tick :: "bool \<Rightarrow> ('k, 'd) validator \<Rightarrow> ('k, 'd) validator" where
  "tick ok v = (if ok then pass v else fail v)"

text \<open>A call of the API, \<open>match call { Ok(x) => .., Err(e) => .. }\<close>, and \<open>expect\<close> on a result.\<close>

definition on_globals ::
    "(('k, 'd) globals \<Rightarrow> 'a res \<times> ('k, 'd) globals) \<Rightarrow> ('k, 'd) validator \<Rightarrow> 'a res \<times> ('k, 'd) validator" where
  "on_globals f v = (case f (v_globals v) of (r, g) \<Rightarrow> (r, v\<lparr>v_globals := g\<rparr>))"

fun matched :: "'a res \<times> 'v \<Rightarrow> ('a \<Rightarrow> 'v \<Rightarrow> 'w res) \<Rightarrow> (gossip_error \<Rightarrow> 'v \<Rightarrow> 'w res) \<Rightarrow> 'w res" where
  "matched (Ok x, v) k h = k x v"
| "matched (Err e, v) k h = h e v"
| "matched (Panic, v) k h = Panic"

definition or_fail :: "gossip_error \<Rightarrow> ('k, 'd) validator \<Rightarrow> ('k, 'd) validator res" where
  "or_fail e v = Ok (fail v)"

fun parse_expect :: "string + 'a \<Rightarrow> ('a \<Rightarrow> 'w res) \<Rightarrow> 'w res" where
  "parse_expect (Inr x) k = k x"
| "parse_expect (Inl e) k = Panic"

fun expect :: "'a res \<Rightarrow> ('a \<Rightarrow> 'w res) \<Rightarrow> 'w res" where
  "expect (Ok x) k = k x"
| "expect (Err e) k = Panic"
| "expect Panic k = Panic"

text \<open>\<open>value["key"].as_str().unwrap_or("")\<close>, \<open>value["key"].as_u64().unwrap_or(0)\<close>, the test on ids.\<close>

definition str_or_empty :: "json_object \<Rightarrow> string \<Rightarrow> string" where
  "str_or_empty v key = (case field v key of JStr s \<Rightarrow> s | _ \<Rightarrow> [])"

definition u64_or_zero :: "json_object \<Rightarrow> string \<Rightarrow> u64" where
  "u64_or_zero v key = (case field v key of JU64 n \<Rightarrow> n | _ \<Rightarrow> 0)"

definition is_ascii_hexdigit :: "char \<Rightarrow> bool" where
  "is_ascii_hexdigit c \<longleftrightarrow> c \<in> set ''0123456789abcdefABCDEF''"

definition valid_id :: "string \<Rightarrow> bool" where
  "valid_id s \<longleftrightarrow> length s = 64 \<and> list_all is_ascii_hexdigit s"

section \<open>The tests\<close>

definition test_1 :: "('k, 'd) validator \<Rightarrow> ('k, 'd) validator res" where
  "test_1 v = Ok (tick (gossip_get_version \<noteq> []) v)"

definition test_2 ::
    "('k, 'p, 'c, 's, 'd) crypto \<Rightarrow> json \<Rightarrow> validator_env \<Rightarrow> ('k, 'd) validator \<Rightarrow> ('k, 'd) validator res" where
  "test_2 cr js env v =
     matched (on_globals (gossip_init cr js (fst (ve_keys env 2)) (snd (ve_keys env 2)) ''{}'') v) (\<lambda>_ v. Ok (pass v)) or_fail"

definition test_3 ::
    "('k, 'p, 'c, 's, 'd) crypto \<Rightarrow> json \<Rightarrow> host_json \<Rightarrow> ('k, 'd) validator \<Rightarrow> ('k, 'd) validator res" where
  "test_3 cr js hj v =
     matched (on_globals (gossip_get_node_identity cr js) v)
       (\<lambda>json v. parse_expect (hj_object hj json) (\<lambda>parsed. Ok (tick (valid_id (str_or_empty parsed ''node_id'')) v))) or_fail"

definition publish_test ::
    "('k, 'p, 'c, 's, 'd) crypto \<Rightarrow> nat option \<Rightarrow> payload_type \<Rightarrow> string \<Rightarrow> ('k, 'd) validator \<Rightarrow> ('k, 'd) validator res" where
  "publish_test cr clock ty payload v =
     matched (on_globals (gossip_publish cr clock (as_u8 ty) (as_bytes payload)) v)
       (\<lambda>msg_id v. Ok (tick (length msg_id = 32) v)) or_fail"

definition test_4 ::
    "('k, 'p, 'c, 's, 'd) crypto \<Rightarrow> validator_env \<Rightarrow> ('k, 'd) validator \<Rightarrow> ('k, 'd) validator res" where
  "test_4 cr env = publish_test cr (ve_clock env 4) Transaction ''tx-payload-data''"

definition test_5 ::
    "('k, 'p, 'c, 's, 'd) crypto \<Rightarrow> validator_env \<Rightarrow> ('k, 'd) validator \<Rightarrow> ('k, 'd) validator res" where
  "test_5 cr env = publish_test cr (ve_clock env 5) BlockProposal ''block-proposal-data''"

definition test_6 ::
    "('k, 'p, 'c, 's, 'd) crypto \<Rightarrow> validator_env \<Rightarrow> ('k, 'd) validator \<Rightarrow> ('k, 'd) validator res" where
  "test_6 cr env = publish_test cr (ve_clock env 6) FinalityVote ''finality-vote-data''"

definition test_7 ::
    "('k, 'p, 'c, 's, 'd) crypto \<Rightarrow> validator_env \<Rightarrow> ('k, 'd) validator \<Rightarrow> ('k, 'd) validator res" where
  "test_7 cr env = publish_test cr (ve_clock env 7) StateSync ''state-sync-data''"

definition test_8 ::
    "('k, 'p, 'c, 's, 'd) crypto \<Rightarrow> validator_env \<Rightarrow> ('k, 'd) validator \<Rightarrow> ('k, 'd) validator res" where
  "test_8 cr env = publish_test cr (ve_clock env 8) PeerDiscovery ''peer-discovery-data''"

definition test_9 ::
    "('k, 'p, 'c, 's, 'd) crypto \<Rightarrow> codec \<Rightarrow> validator_env \<Rightarrow> ('k, 'd) validator \<Rightarrow> (bytes \<times> ('k, 'd) validator) res" where
  "test_9 cr bc env v =
     matched (on_globals (gossip_encode_envelope cr bc (ve_clock env 9) (as_u8 Transaction) (as_bytes ''encode-test-payload'')) v)
       (\<lambda>bytes v. if bytes \<noteq> [] then Ok (bytes, pass v) else Ok ([], fail v)) (\<lambda>_ v. Ok ([], fail v))"

definition test_10 ::
    "codec \<Rightarrow> json \<Rightarrow> host_json \<Rightarrow> bytes \<Rightarrow> ('k, 'd) validator \<Rightarrow> ('k, 'd) validator res" where
  "test_10 bc js hj envelope_bytes v =
     (if envelope_bytes = [] then Ok (fail v)
      else matched (on_globals (gossip_decode_envelope bc js envelope_bytes) v)
        (\<lambda>json v. parse_expect (hj_object hj json) (\<lambda>parsed. Ok (tick (u64_or_zero parsed ''version'' = 1) v))) or_fail)"

definition test_11 ::
    "('k, 'p, 'c, 's, 'd) crypto \<Rightarrow> codec \<Rightarrow> validator_env \<Rightarrow> bytes \<Rightarrow> ('k, 'd) validator \<Rightarrow> ('k, 'd) validator res" where
  "test_11 cr bc env envelope_bytes v =
     (if envelope_bytes = [] then Ok (fail v)
      else matched (on_globals (gossip_verify_envelope cr bc (ve_clock env 11) envelope_bytes) v)
        (\<lambda>ok v. Ok (tick ok v)) or_fail)"

text \<open>\<open>for b in tampered[len - 16..].iter_mut() { *b ^= 0xFF }\<close>\<close>

definition tampered :: "bytes \<Rightarrow> bytes" where
  "tampered b =
     (if 16 \<le> length b then take (length b - 16) b @ map (\<lambda>x. x XOR 0xFF) (drop (length b - 16) b) else b)"

definition test_12 ::
    "('k, 'p, 'c, 's, 'd) crypto \<Rightarrow> codec \<Rightarrow> validator_env \<Rightarrow> bytes \<Rightarrow> ('k, 'd) validator \<Rightarrow> ('k, 'd) validator res" where
  "test_12 cr bc env envelope_bytes v =
     (if envelope_bytes = [] then Ok (fail v)
      else matched (on_globals (gossip_verify_envelope cr bc (ve_clock env 12) (tampered envelope_bytes)) v)
        (\<lambda>ok v. Ok (tick (\<not> ok) v)) (\<lambda>_ v. Ok (pass v)))"

definition test_13 ::
    "json \<Rightarrow> host_json \<Rightarrow> validator_env \<Rightarrow> ('k, 'd) validator \<Rightarrow> ('k, 'd) validator res" where
  "test_13 js hj env v =
     matched (on_globals (gossip_get_stats js (ve_clock env 13)) v)
       (\<lambda>json v. parse_expect (hj_object hj json) (\<lambda>parsed. Ok (tick (5 \<le> u64_or_zero parsed ''messages_published'') v))) or_fail"

definition test_14 :: "json \<Rightarrow> host_json \<Rightarrow> ('k, 'd) validator \<Rightarrow> ('k, 'd) validator res" where
  "test_14 js hj v =
     matched (on_globals (gossip_get_peers js) v)
       (\<lambda>json v. parse_expect (hj_array hj json) (\<lambda>parsed. Ok (tick (parsed \<noteq> None) v))) or_fail"

definition test_15 ::
    "codec \<Rightarrow> validator_env \<Rightarrow> ('k, 'd) validator \<Rightarrow> (bytes \<times> ('k, 'd) validator) res" where
  "test_15 bc env v =
     matched (on_globals (gossip_connect_peer bc (ve_clock env 15) (ve_nonce env 15) ''test-peer-15:9000'') v)
       (\<lambda>probe_bytes v. if probe_bytes \<noteq> [] then Ok (probe_bytes, pass v) else Ok ([], fail v)) (\<lambda>_ v. Ok ([], fail v))"

definition test_16 ::
    "('k, 'p, 'c, 's, 'd) crypto \<Rightarrow> codec \<Rightarrow> validator_env \<Rightarrow> bytes \<Rightarrow> ('k, 'd) validator \<Rightarrow> ('k, 'd) validator res" where
  "test_16 cr bc env probe_bytes v =
     (if probe_bytes = [] then Ok (fail v)
      else
        expect (identity_generate cr (fst (ve_keys env 16)) (snd (ve_keys env 16)) ''test'') (\<lambda>server_identity.
        matched (fst (process_incoming cr bc (ve_nonce env 16) (ve_coins env 16) ''test-peer-15:9000'' probe_bytes server_identity
                   (current_time_unix_ms (ve_clock env 16)) manager_new), v)
          (\<lambda>ack_bytes v.
             if ack_bytes \<noteq> []
             then matched (on_globals (gossip_process_handshake_bytes cr bc (ve_clock env 116) (ve_nonce env 116) (ve_coins env 116)
                             ''test-peer-15:9000'' ack_bytes) (pass v)) (\<lambda>_ v. Ok v) (\<lambda>_ v. Ok v)
             else Ok (fail v))
          or_fail))"

text \<open>The closure of test 17: five calls on two managers.\<close>

definition roundtrip_17 ::
    "('k, 'p, 'c, 's, 'd) crypto \<Rightarrow> codec \<Rightarrow> validator_env \<Rightarrow> ('k, 'd) node_identity \<Rightarrow> ('k, 'd) node_identity \<Rightarrow>
     unit res \<times> handshake_manager \<times> handshake_manager" where
  "roundtrip_17 cr bc env alice bob =
     (let now_ms = current_time_unix_ms (ve_clock env 17);
          incoming = (\<lambda>n. process_incoming cr bc (ve_nonce env n) (ve_coins env n)) in
      case create_identity_probe bc (current_time_unix_ms (ve_clock env 117)) (ve_nonce env 17) ''bob'' alice manager_new of
        (Err e, a) \<Rightarrow> (Err e, a, manager_new) | (Panic, a) \<Rightarrow> (Panic, a, manager_new)
      | (Ok probe, a) \<Rightarrow>
     (case incoming 117 ''alice'' probe bob now_ms manager_new of
        (Err e, b) \<Rightarrow> (Err e, a, b) | (Panic, b) \<Rightarrow> (Panic, a, b)
      | (Ok ack, b) \<Rightarrow>
     (case incoming 217 ''bob'' ack alice now_ms a of
        (Err e, a) \<Rightarrow> (Err e, a, b) | (Panic, a) \<Rightarrow> (Panic, a, b)
      | (Ok finish, a) \<Rightarrow>
     (case incoming 317 ''alice'' finish bob now_ms b of
        (Err e, b) \<Rightarrow> (Err e, a, b) | (Panic, b) \<Rightarrow> (Panic, a, b)
      | (Ok finish_ack, b) \<Rightarrow>
     (case incoming 417 ''bob'' finish_ack alice now_ms a of
        (Err e, a) \<Rightarrow> (Err e, a, b) | (Panic, a) \<Rightarrow> (Panic, a, b)
      | (Ok _, a) \<Rightarrow> (Ok (), a, b))))))"

text \<open>\<open>&s[..16]\<close> panics on a shorter string.\<close>

definition test_17 ::
    "('k, 'p, 'c, 's, 'd) crypto \<Rightarrow> codec \<Rightarrow> validator_env \<Rightarrow> ('k, 'd) validator \<Rightarrow> ('k, 'd) validator res" where
  "test_17 cr bc env v =
     expect (identity_generate cr (fst (ve_keys env 17)) (snd (ve_keys env 17)) ''test'') (\<lambda>alice.
     expect (identity_generate cr (fst (ve_keys env 117)) (snd (ve_keys env 117)) ''test'') (\<lambda>bob.
     case roundtrip_17 cr bc env alice bob of
       (Panic, _) \<Rightarrow> Panic
     | (Err e, _) \<Rightarrow> Ok (fail v)
     | (Ok _, alice_hs, bob_hs) \<Rightarrow>
         (if manager_is_handshake_complete ''bob'' alice_hs \<and> manager_is_handshake_complete ''alice'' bob_hs
          then (case (get_session ''bob'' alice_hs, get_session ''alice'' bob_hs) of
                  (Some a, Some b) \<Rightarrow>
                    (if length (sr_session_id a) < 16 \<or> sr_session_id a \<noteq> sr_session_id b \<and> length (sr_session_id b) < 16
                     then Panic else Ok (tick (sr_session_id a = sr_session_id b) v))
                | _ \<Rightarrow> Ok (fail v))
          else Ok (fail v))))"

definition test_18 :: "json \<Rightarrow> ('k, 'd) validator \<Rightarrow> ('k, 'd) validator res" where
  "test_18 js v =
     matched (on_globals (gossip_get_session js ''nonexistent-peer:9999'') v) (\<lambda>json v. Ok (pass v))
       (\<lambda>e v. case e of SessionNotFound _ \<Rightarrow> Ok (pass v) | PeerNotFound _ \<Rightarrow> Ok (pass v) | _ \<Rightarrow> Ok (fail v))"

definition test_19 ::
    "('k, 'p, 'c, 's, 'd) crypto \<Rightarrow> validator_env \<Rightarrow> ('k, 'd) validator \<Rightarrow> (string \<times> ('k, 'd) validator) res" where
  "test_19 cr env v =
     matched (on_globals (gossip_rotate_keys cr (fst (ve_keys env 19)) (snd (ve_keys env 19))) v)
       (\<lambda>new_id v. if valid_id new_id then Ok (new_id, pass v) else Ok ([], fail v)) (\<lambda>_ v. Ok ([], fail v))"

definition test_20 ::
    "('k, 'p, 'c, 's, 'd) crypto \<Rightarrow> json \<Rightarrow> host_json \<Rightarrow> string \<Rightarrow> ('k, 'd) validator \<Rightarrow> ('k, 'd) validator res" where
  "test_20 cr js hj new_node_id v =
     matched (on_globals (gossip_get_node_identity cr js) v)
       (\<lambda>json v. parse_expect (hj_object hj json) (\<lambda>parsed.
          let current_id = str_or_empty parsed ''node_id'' in
          if valid_id current_id
          then Ok (tick (new_node_id \<noteq> [] \<and> current_id = new_node_id \<or> new_node_id = []) v)
          else Ok (fail v))) or_fail"

section \<open>The program\<close>

text \<open>The process exits with success when nothing failed; its value is the two counters.\<close>

definition validate ::
    "('k, 'p, 'c, 's, 'd) crypto \<Rightarrow> codec \<Rightarrow> json \<Rightarrow> host_json \<Rightarrow> validator_env \<Rightarrow> (nat \<times> nat) res" where
  "validate cr bc js hj env =
     and_then (test_1 (\<lparr>v_globals = globals_init, v_passed = 0, v_failed = 0\<rparr> :: ('k, 'd) validator)) (\<lambda>v.
     and_then (test_2 cr js env v) (\<lambda>v.
     and_then (test_3 cr js hj v) (\<lambda>v.
     and_then (test_4 cr env v) (\<lambda>v.
     and_then (test_5 cr env v) (\<lambda>v.
     and_then (test_6 cr env v) (\<lambda>v.
     and_then (test_7 cr env v) (\<lambda>v.
     and_then (test_8 cr env v) (\<lambda>v.
     and_then (test_9 cr bc env v) (\<lambda>(envelope_bytes, v).
     and_then (test_10 bc js hj envelope_bytes v) (\<lambda>v.
     and_then (test_11 cr bc env envelope_bytes v) (\<lambda>v.
     and_then (test_12 cr bc env envelope_bytes v) (\<lambda>v.
     and_then (test_13 js hj env v) (\<lambda>v.
     and_then (test_14 js hj v) (\<lambda>v.
     and_then (test_15 bc env v) (\<lambda>(probe_bytes, v).
     and_then (test_16 cr bc env probe_bytes v) (\<lambda>v.
     and_then (test_17 cr bc env v) (\<lambda>v.
     and_then (test_18 js v) (\<lambda>v.
     and_then (test_19 cr env v) (\<lambda>(new_node_id, v).
     and_then (test_20 cr js hj new_node_id v) (\<lambda>v.
     Ok (v_passed v, v_failed v)))))))))))))))))))))"

end
