(* ===== verification/Mesh.thy ===== *)
theory Mesh
  imports Scenario
begin

text \<open>
  Steps 1 to 16 of \<^verbatim>\<open>wasmtime-test/src/main.rs\<close>: three nodes start, shake hands pairwise, list their peers,
  exchange a message, report and disconnect; then a host built from an older interface drives the
  component. The last step goes on with the rotation scenario, so \<open>run_tests\<close> is the whole program
  after loading. Values that are only printed are bound and not used.
\<close>

text \<open>The random bytes the nodes draw at their start, and what the three handshakes read.\<close>

record mesh_env =
  me_keys :: "string \<Rightarrow> bytes \<times> bytes"
  me_handshake :: "nat \<Rightarrow> handshake_env"

section \<open>Helpers\<close>

text \<open>\<open>do_handshake\<close> on two nodes.\<close>

definition node_handshake ::
    "('k, 'p, 'c, 's, 'd) crypto \<Rightarrow> codec \<Rightarrow> handshake_env \<Rightarrow> ('k, 'd) gossip_node \<Rightarrow> ('k, 'd) gossip_node \<Rightarrow>
     (node_error + unit) \<times> ('k, 'd) gossip_node \<times> ('k, 'd) gossip_node" where
  "node_handshake cr bc env client server =
     (case do_handshake cr bc env (nd_addr client) (nd_addr server) (nd_store client) (nd_store server) of
        (r, c, s) \<Rightarrow> (case r of None \<Rightarrow> Inr () | Some e \<Rightarrow> Inl (HandshakeFailed e),
                    client\<lparr>nd_store := c\<rparr>, server\<lparr>nd_store := s\<rparr>))"

definition mesh_config :: "host_json \<Rightarrow> string \<Rightarrow> string" where
  "mesh_config hj addr =
     hj_render hj
       [(''node_addr'', JStr addr), (''max_peers'', JU64 16), (''fanout'', JU64 3),
        (''heartbeat_interval_ms'', JU64 1000), (''message_ttl'', JU64 8), (''replay_window_ms'', JU64 30000),
        (''key_epoch'', JStr ''epoch-1'')]"

definition tx_payload :: bytes where
  "tx_payload = as_bytes ''hello from node-a: test transaction payload''"

definition lists_addr :: "string \<Rightarrow> json_object list \<Rightarrow> bool" where
  "lists_addr addr peers \<longleftrightarrow> list_ex (\<lambda>p. map_of p ''addr'' = Some (JStr addr)) peers"

text \<open>\<open>legacy_0_2_1::smoke\<close> of \<^verbatim>\<open>node.rs\<close>: the calls go through bindings of the older interface, which has
  these functions with the same types.\<close>

definition smoke ::
    "('k, 'p, 'c, 's, 'd) crypto \<Rightarrow> codec \<Rightarrow> json \<Rightarrow> wasm_image \<Rightarrow> bytes \<times> bytes \<Rightarrow> nat option \<Rightarrow> node_error + string \<times> bytes" where
  "smoke cr bc js img keys clock =
     (case (img_from_binary img, img_add_to_linker img, img_instantiate_legacy img) of
        (Inl e, _, _) \<Rightarrow> Inl (LoadFailed e)
      | (_, Inl e, _) \<Rightarrow> Inl (LoadFailed e)
      | (_, _, Inl e) \<Rightarrow> Inl (LoadFailed e)
      | _ \<Rightarrow>
     (case invoke ''legacy gossip_init'' (gossip_init cr js (fst keys) (snd keys) ''{}'') (node_fresh [] :: ('k, 'd) gossip_node) of
        (Inl e, _) \<Rightarrow> Inl e
      | (Inr _, n) \<Rightarrow>
          (case node_get_version n of
             (Inl e, _) \<Rightarrow> Inl e
           | (Inr version, n) \<Rightarrow>
               (case invoke ''legacy gossip_encode_envelope''
                       (gossip_encode_envelope cr bc clock 0 (as_bytes ''legacy host'')) n of
                  (Inl e, _) \<Rightarrow> Inl e
                | (Inr envelope, _) \<Rightarrow> Inr (version, envelope)))))"

section \<open>The steps\<close>

definition step_16 ::
    "('k, 'p, 'c, 's, 'd) crypto \<Rightarrow> codec \<Rightarrow> json \<Rightarrow> host_json \<Rightarrow> wasm_image \<Rightarrow> (nat \<Rightarrow> nat option) \<Rightarrow> mesh_env \<Rightarrow> ('k, 'd) node_step" where
  "step_16 cr bc js hj img clk env node_b node_c =
     (checked ''0.2.1-bindings host instantiates, inits and signs''
        (smoke cr bc js img (me_keys env ''legacy'') (clk 36), ()) (\<lambda>(legacy_version, legacy_env) _.
      checked ''node-b verifies the 0.2.1-host envelope''
        (node_verify_envelope cr bc (clk 37) legacy_env node_b) (\<lambda>ok node_b.
      require ok ''envelope from the 0.2.1-bindings host did not verify''
      (step_17 cr bc js hj img clk node_b node_c))))"

definition step_13 ::
    "('k, 'p, 'c, 's, 'd) crypto \<Rightarrow> codec \<Rightarrow> json \<Rightarrow> host_json \<Rightarrow> wasm_image \<Rightarrow> (nat \<Rightarrow> nat option) \<Rightarrow> mesh_env \<Rightarrow>
     ('k, 'd) gossip_node \<Rightarrow> ('k, 'd) node_step" where
  "step_13 cr bc js hj img clk env node_a node_b node_c =
     (checked ''node-a disconnect_peer(node-b)'' (node_disconnect_peer ''node-b'' node_a) (\<lambda>_ node_a.
      checked ''node-a get_peers (after disconnect)'' (node_get_peers js hj node_a) (\<lambda>peers_a_after node_a.
      require (\<not> lists_addr ''node-b'' peers_a_after) ''node-a still lists node-b as a peer after disconnect''
      (checked ''node-a final get_stats'' (node_get_stats js hj (clk 35) node_a) (\<lambda>final_stats_a node_a.
      step_16 cr bc js hj img clk env node_b node_c)))))"

definition step_8 ::
    "('k, 'p, 'c, 's, 'd) crypto \<Rightarrow> codec \<Rightarrow> json \<Rightarrow> host_json \<Rightarrow> wasm_image \<Rightarrow> (nat \<Rightarrow> nat option) \<Rightarrow> mesh_env \<Rightarrow>
     ('k, 'd) gossip_node \<Rightarrow> ('k, 'd) node_step" where
  "step_8 cr bc js hj img clk env node_a node_b node_c =
     (checked ''node-a publish'' (node_publish cr (clk 28) 1 tx_payload node_a) (\<lambda>msg_id node_a.
      checked ''node-a encode_envelope'' (node_encode_envelope cr bc (clk 29) 1 tx_payload node_a) (\<lambda>envelope_bytes node_a.
      checked ''node-b verify_envelope'' (node_verify_envelope cr bc (clk 30) envelope_bytes node_b) (\<lambda>b_valid node_b.
      require b_valid ''node-b: envelope verification returned false''
      (checked ''node-c verify_envelope'' (node_verify_envelope cr bc (clk 31) envelope_bytes node_c) (\<lambda>c_valid node_c.
      require c_valid ''node-c: envelope verification returned false''
      (checked ''node-a get_stats'' (node_get_stats js hj (clk 32) node_a) (\<lambda>stats_a node_a.
      checked ''node-b get_stats'' (node_get_stats js hj (clk 33) node_b) (\<lambda>stats_b node_b.
      checked ''node-c get_stats'' (node_get_stats js hj (clk 34) node_c) (\<lambda>stats_c node_c.
      step_13 cr bc js hj img clk env node_a node_b node_c))))))))))"

definition step_7 ::
    "('k, 'p, 'c, 's, 'd) crypto \<Rightarrow> codec \<Rightarrow> json \<Rightarrow> host_json \<Rightarrow> wasm_image \<Rightarrow> (nat \<Rightarrow> nat option) \<Rightarrow> mesh_env \<Rightarrow>
     ('k, 'd) gossip_node \<Rightarrow> ('k, 'd) node_step" where
  "step_7 cr bc js hj img clk env node_a node_b node_c =
     (checked ''node-a get_peers'' (node_get_peers js hj node_a) (\<lambda>peers_a node_a.
      checked ''node-b get_peers'' (node_get_peers js hj node_b) (\<lambda>peers_b node_b.
      checked ''node-c get_peers'' (node_get_peers js hj node_c) (\<lambda>peers_c node_c.
      require (\<not> length peers_a < 2) ''node-a should have two peers''
      (require (\<not> length peers_b < 2) ''node-b should have two peers''
      (require (\<not> length peers_c < 2) ''node-c should have two peers''
      (step_8 cr bc js hj img clk env node_a node_b node_c)))))))"

definition step_4 ::
    "('k, 'p, 'c, 's, 'd) crypto \<Rightarrow> codec \<Rightarrow> json \<Rightarrow> host_json \<Rightarrow> wasm_image \<Rightarrow> (nat \<Rightarrow> nat option) \<Rightarrow> mesh_env \<Rightarrow>
     ('k, 'd) gossip_node \<Rightarrow> ('k, 'd) node_step" where
  "step_4 cr bc js hj img clk env node_a node_b node_c =
     (checked ''handshake node-a, node-b'' (node_handshake cr bc (me_handshake env 4) node_a node_b) (\<lambda>_ (node_a, node_b).
      checked ''handshake node-a, node-c'' (node_handshake cr bc (me_handshake env 5) node_a node_c) (\<lambda>_ (node_a, node_c).
      checked ''handshake node-b, node-c'' (node_handshake cr bc (me_handshake env 6) node_b node_c) (\<lambda>_ (node_b, node_c).
      step_7 cr bc js hj img clk env node_a node_b node_c))))"

definition start_node ::
    "('k, 'p, 'c, 's, 'd) crypto \<Rightarrow> json \<Rightarrow> host_json \<Rightarrow> mesh_env \<Rightarrow> ('k, 'd) gossip_node \<Rightarrow>
     (node_error + unit) \<times> ('k, 'd) gossip_node" where
  "start_node cr js hj env n =
     node_init cr js (fst (me_keys env (nd_addr n))) (snd (me_keys env (nd_addr n))) (mesh_config hj (nd_addr n)) n"

definition run_tests ::
    "('k, 'p, 'c, 's, 'd) crypto \<Rightarrow> codec \<Rightarrow> json \<Rightarrow> host_json \<Rightarrow> wasm_image \<Rightarrow> (nat \<Rightarrow> nat option) \<Rightarrow> mesh_env \<Rightarrow> verdict" where
  "run_tests cr bc js hj img clk env =
     (checked ''instantiate node-a'' (node_new img ''node-a'' :: node_error + ('k, 'd) gossip_node, ()) (\<lambda>node_a _.
      checked ''instantiate node-b'' (node_new img ''node-b'', ()) (\<lambda>node_b _.
      checked ''instantiate node-c'' (node_new img ''node-c'', ()) (\<lambda>node_c _.
      checked ''node-a get_version'' (node_get_version node_a) (\<lambda>ver_a node_a.
      checked ''node-b get_version'' (node_get_version node_b) (\<lambda>ver_b node_b.
      checked ''node-c get_version'' (node_get_version node_c) (\<lambda>ver_c node_c.
      checked ''node-a gossip_init'' (start_node cr js hj env node_a) (\<lambda>_ node_a.
      checked ''node-b gossip_init'' (start_node cr js hj env node_b) (\<lambda>_ node_b.
      checked ''node-c gossip_init'' (start_node cr js hj env node_c) (\<lambda>_ node_c.
      checked ''node-a get_node_identity'' (node_get_node_identity cr js hj node_a) (\<lambda>id_a node_a.
      checked ''node-b get_node_identity'' (node_get_node_identity cr js hj node_b) (\<lambda>id_b node_b.
      checked ''node-c get_node_identity'' (node_get_node_identity cr js hj node_c) (\<lambda>id_c node_c.
      step_4 cr bc js hj img clk env node_a node_b node_c)))))))))))))"

section \<open>The program\<close>

text \<open>\<open>main\<close>: the usage check, reading the file, and the tests. The file system and wasmtime are parameters.
  The process exits with 1 after a usage message or a failed check; an unreadable file is the \<open>Err\<close> that
  \<open>main\<close> returns.\<close>

datatype run = Usage | ReadError string | Tested verdict

definition main_run ::
    "('k, 'p, 'c, 's, 'd) crypto \<Rightarrow> codec \<Rightarrow> json \<Rightarrow> host_json \<Rightarrow> (string \<Rightarrow> string + bytes) \<Rightarrow> (bytes \<Rightarrow> wasm_image) \<Rightarrow>
     (nat \<Rightarrow> nat option) \<Rightarrow> mesh_env \<Rightarrow> string list \<Rightarrow> run" where
  "main_run cr bc js hj read wasmtime clk env args =
     (if length args \<noteq> 2 then Usage
      else
        (case read (args ! 1) of
           Inl e \<Rightarrow> ReadError (''Failed to read WASM file: '' @ args ! 1)
         | Inr wasm_bytes \<Rightarrow> Tested (run_tests cr bc js hj (wasmtime wasm_bytes) clk env)))"

end
