(* ===== verification/Scenario_Facts.thy ===== *)
theory Scenario_Facts
  imports Scenario
begin

text \<open>
  What each call of the rotation scenario does, for any lawful crates: the lemmas follow a node by the
  key it runs on and the lineage it holds, and its messages by the key that signed them.
\<close>

section \<open>Laws of the host's crates\<close>

text \<open>\<open>serde_json\<close>: what is rendered can be parsed back, field by field.\<close>

definition seed_config :: "string \<Rightarrow> string \<Rightarrow> string \<Rightarrow> gossip_config" where
  "seed_config kem sig epoch =
     \<lparr>gc_node_id = None, gc_kem_seed_hex = Some kem, gc_sig_seed_hex = Some sig, gc_key_epoch = Some epoch,
      gc_mesh_n = None, gc_mesh_n_low = None, gc_mesh_n_high = None, gc_heartbeat_ms = None,
      gc_max_message_bytes = None, gc_dedup_cache_secs = None, gc_quorum_fraction = None,
      gc_replay_window_ms = None, gc_default_ttl = None\<rparr>"

definition host_json_laws :: "json \<Rightarrow> host_json \<Rightarrow> bool" where
  "host_json_laws js hj \<longleftrightarrow>
     (\<forall>v. \<exists>s. json_of_identity js v = Inr s \<and> hj_object hj s = Inr
        [(''node_id'', JStr (nip_node_id v)), (''kem_public_key_json'', JStr (nip_kem_public_key_json v)),
         (''sig_public_key_hex'', JStr (nip_sig_public_key_hex v)), (''key_epoch'', JStr (nip_key_epoch v))]) \<and>
     (\<forall>v. \<exists>s. json_of_object js v = Inr s \<and> hj_object hj s = Inr v) \<and>
     (\<forall>a b c. json_parse_config js (hj_render hj
        [(''kem_seed_hex'', JStr a), (''sig_seed_hex'', JStr b), (''key_epoch'', JStr c)]) = Inr (seed_config a b c))"

text \<open>The seeds of the scenario are valid secret keys; \<open>kk n\<close> and \<open>sk n\<close> are the key pairs they give.\<close>

definition seeds_ok :: "('k, 'p, 'c, 's, 'd) crypto \<Rightarrow> (u8 \<Rightarrow> 'k) \<Rightarrow> (u8 \<Rightarrow> 'd) \<Rightarrow> bool" where
  "seeds_ok cr kk sk \<longleftrightarrow> (\<forall>n. kem_from_secret_key_bytes cr (replicate 32 n) (replicate 64 (n + 100)) = Inr (kk n) \<and>
     sig_from_secret_key_bytes cr (replicate 32 (n + 200)) = Inr (sk n))"

text \<open>A valid lineage with few records and short epoch labels is encoded within the limit: its keys,
  commitments (a \<open>[u8; 32]\<close> in the source) and signatures have fixed sizes.\<close>

definition short_epochs :: "key_lineage \<Rightarrow> bool" where
  "short_epochs l \<longleftrightarrow> length (ks_key_epoch (kl_inception l)) \<le> 16 \<and>
     (\<forall>r \<in> set (kl_rotations l). length (kr_new_key_epoch r) \<le> 16 \<and> commitment_ok (kr_next_key_commitment r))"

definition lineage_size_law :: "('k, 'p, 'c, 's, 'd) crypto \<Rightarrow> codec \<Rightarrow> bool" where
  "lineage_size_law cr bc \<longleftrightarrow> (\<forall>l b. lineage_inv cr l \<longrightarrow> short_epochs l \<longrightarrow> length (kl_rotations l) \<le> 3 \<longrightarrow>
     lineage_encode bc l = Ok b \<longrightarrow> length b \<le> MAX_LINEAGE_BYTES)"

definition lab_laws ::
    "('k, 'p, 'c, 's, 'd) crypto \<Rightarrow> codec \<Rightarrow> json \<Rightarrow> host_json \<Rightarrow> (u8 \<Rightarrow> 'k) \<Rightarrow> (u8 \<Rightarrow> 'd) \<Rightarrow> bool" where
  "lab_laws cr bc js hj kk sk \<longleftrightarrow>
     hash_laws cr \<and> hex_laws cr \<and> sig_laws cr \<and> key_size_laws cr \<and> bincode_laws bc \<and> lineage_codec_laws bc \<and>
     lineage_ser_total bc \<and> externals_total cr bc \<and> (\<forall>v. \<exists>b. ser_envelope bc v = Inr b) \<and>
     host_json_laws js hj \<and> seeds_ok cr kk sk \<and> lineage_size_law cr bc"

lemma lab_lawsD:
  assumes "lab_laws cr bc js hj kk sk"
  shows "hash_laws cr" "hex_laws cr" "sig_laws cr" "key_size_laws cr" "bincode_laws bc" "lineage_codec_laws bc"
    "lineage_ser_total bc" "externals_total cr bc" "\<exists>b. ser_envelope bc v = Inr b" "host_json_laws js hj"
    "seeds_ok cr kk sk" "lineage_size_law cr bc" "\<exists>s. sig_sign_deterministic cr kp m = Inr s"
  using assms by (auto simp: lab_laws_def externals_total_def)

section \<open>Seeds and configurations\<close>

definition pk :: "('k, 'p, 'c, 's, 'd) crypto \<Rightarrow> (u8 \<Rightarrow> 'd) \<Rightarrow> u8 \<Rightarrow> bytes" where
  "pk cr sk n = sig_public_key cr (sk n)"

definition seeded :: "('k, 'p, 'c, 's, 'd) crypto \<Rightarrow> (u8 \<Rightarrow> 'k) \<Rightarrow> (u8 \<Rightarrow> 'd) \<Rightarrow> u8 \<Rightarrow> string \<Rightarrow> ('k, 'd) node_identity" where
  "seeded cr kk sk n epoch =
     (case kem_public_key_bytes cr (kem_public_key cr (kk n)) of
        Ok b \<Rightarrow> \<lparr>ni_node_id = derive_node_id cr b (pk cr sk n), ni_kem_keypair = kk n, ni_sig_keypair = sk n, ni_key_epoch = epoch\<rparr>
      | _ \<Rightarrow> \<lparr>ni_node_id = [], ni_kem_keypair = kk n, ni_sig_keypair = sk n, ni_key_epoch = epoch\<rparr>)"

lemma seeded_fields [simp]:
  "ni_kem_keypair (seeded cr kk sk n ep) = kk n" "ni_sig_keypair (seeded cr kk sk n ep) = sk n"
  "ni_key_epoch (seeded cr kk sk n ep) = ep" "sig_public_key_bytes cr (seeded cr kk sk n ep) = pk cr sk n"
  by (simp_all add: seeded_def pk_def sig_public_key_bytes_def split: res.splits)

lemma seeds_give:
  assumes "lab_laws cr bc js hj kk sk"
  shows "identity_from_seed_bytes cr (fst (seed n)) (snd (seed n)) ep = Ok (seeded cr kk sk n ep)"
    and "identity_of_seeds cr (fst (seed n)) (snd (seed n)) ep = Ok (seeded cr kk sk n ep)"
    and "self_certified cr (seeded cr kk sk n ep)"
    and "gossip_key_commitment cr (snd (seed n)) = Ok (key_commitment cr (pk cr sk n))"
proof -
  note k = lab_lawsD(11) [OF assms, unfolded seeds_ok_def]
  obtain b where b: "kem_public_key_bytes cr (kem_public_key cr (kk n)) = Ok b"
    using canonical_bytes_size(1) [OF lab_lawsD(4) [OF assms], of "seeded cr kk sk n ep"]
    by (auto simp: kem_public_key_canonical_bytes_def)
  show "identity_from_seed_bytes cr (fst (seed n)) (snd (seed n)) ep = Ok (seeded cr kk sk n ep)"
    "identity_of_seeds cr (fst (seed n)) (snd (seed n)) ep = Ok (seeded cr kk sk n ep)"
    using k b by (simp_all add: identity_from_seed_bytes_def identity_of_seeds_def seed_def slice_def from_seeds_def
        identity_of_keypairs_def seeded_def pk_def)
  show "self_certified cr (seeded cr kk sk n ep)"
    using b by (simp add: self_certified_def seeded_def kem_public_key_canonical_bytes_def sig_public_key_bytes_def pk_def)
  show "gossip_key_commitment cr (snd (seed n)) = Ok (key_commitment cr (pk cr sk n))"
    using k by (simp add: gossip_key_commitment_def key_commitment_for_seed_def seed_def pk_def)
qed

lemma config_resolves:
  assumes "lab_laws cr bc js hj kk sk"
  obtains rc where "and_then (config_from_json js (config_for cr hj n)) (resolve cr) = Ok rc"
    and "rc_kem_seed rc = Some (fst (seed n))" and "rc_sig_seed rc = Some (snd (seed n))"
    and "rc_key_epoch rc = ''epoch-'' @ dec (unat n)" and "rc_default_ttl rc = 8"
proof -
  have "f64_in_unit (f64_round (67 / 100))" by (simp add: f64_round_067 default_fraction_def)
  moreover have "hex_decode cr (hex_encode cr b) = Inr b" for b using lab_lawsD(2) [OF assms] by (simp add: hex_laws_def)
  ultimately obtain rc where rc: "resolve cr (seed_config (hex_encode cr (fst (seed n))) (hex_encode cr (snd (seed n)))
      (''epoch-'' @ dec (unat n))) = Ok rc"
    and f: "rc_kem_seed rc = Some (fst (seed n))" "rc_sig_seed rc = Some (snd (seed n))"
      "rc_key_epoch rc = ''epoch-'' @ dec (unat n)" "rc_default_ttl rc = 8"
    by (simp add: resolve_def seed_config_def resolve_seed_def unwrap_or_def seed_def Let_def)
  have "config_from_json js (config_for cr hj n) =
      Ok (seed_config (hex_encode cr (fst (seed n))) (hex_encode cr (snd (seed n))) (''epoch-'' @ dec (unat n)))"
    using lab_lawsD(10) [OF assms] by (simp add: config_from_json_def config_for_def host_json_laws_def split: prod.splits)
  with rc f that show thesis by simp
qed

section \<open>A node by its key and lineage\<close>

definition node_at ::
    "('k, 'p, 'c, 's, 'd) crypto \<Rightarrow> (u8 \<Rightarrow> 'k) \<Rightarrow> (u8 \<Rightarrow> 'd) \<Rightarrow> u8 \<Rightarrow> key_lineage \<Rightarrow> ('k, 'd) gossip_node \<Rightarrow> bool" where
  "node_at cr kk sk n l nd \<longleftrightarrow> globals_inv cr (nd_store nd) \<and>
     (\<exists>e. gossip_state (nd_store nd) = Some e \<and> lineage (nd_store nd) = Some l \<and>
        ni_kem_keypair (identity e) = kk n \<and> ni_sig_keypair (identity e) = sk n \<and> rc_default_ttl (config e) = 8)"

lemma node_atE:
  assumes "node_at cr kk sk n l nd"
  obtains e where "globals_inv cr (nd_store nd)" "gossip_state (nd_store nd) = Some e" "lineage (nd_store nd) = Some l"
    "ni_kem_keypair (identity e) = kk n" "ni_sig_keypair (identity e) = sk n" "rc_default_ttl (config e) = 8"
    "lineage_inv cr l" "ni_node_id (identity e) = kl_node_id l" "current_sig_public_key l = pk cr sk n"
    "sig_public_key_bytes cr (identity e) = pk cr sk n"
    "kem_public_key_canonical_bytes cr (identity e) = Ok (current_kem_public_key l)"
proof -
  obtain e where e: "globals_inv cr (nd_store nd)" "gossip_state (nd_store nd) = Some e" "lineage (nd_store nd) = Some l"
    "ni_kem_keypair (identity e) = kk n" "ni_sig_keypair (identity e) = sk n" "rc_default_ttl (config e) = 8"
    using assms by (auto simp: node_at_def)
  have "lineage_inv cr l" "agrees cr e l" using globals_inv_Some [OF e(1,2)] e(3) by auto
  then show thesis using that e by (auto simp: agrees_def sig_public_key_bytes_def pk_def)
qed

text \<open>A node restarted on key \<open>n\<close> with a lineage that ends in it.\<close>

definition ends_in :: "('k, 'p, 'c, 's, 'd) crypto \<Rightarrow> (u8 \<Rightarrow> 'k) \<Rightarrow> (u8 \<Rightarrow> 'd) \<Rightarrow> u8 \<Rightarrow> key_lineage \<Rightarrow> bool" where
  "ends_in cr kk sk n l \<longleftrightarrow> current_sig_public_key l = pk cr sk n \<and>
     kem_public_key_bytes cr (kem_public_key cr (kk n)) = Ok (current_kem_public_key l)"

lemma node_at_ends_in: "node_at cr kk sk n l nd \<Longrightarrow> ends_in cr kk sk n l"
  by (erule node_atE) (simp add: ends_in_def kem_public_key_canonical_bytes_def)

lemma epoch_short: "length (''epoch-'' @ dec (unat (n :: u8))) \<le> 16"
proof -
  have "unat n < 1000" using unsigned_less [of n, where ?'a = nat] by simp
  then have "length (dec (unat n)) \<le> 3" by (subst dec.simps, subst dec.simps, subst dec.simps) auto
  then show ?thesis by simp
qed

lemma node_starts:
  assumes lab: "lab_laws cr bc js hj kk sk"
  obtains l nd where "node_init cr js kr sr (config_for cr hj n) (node_fresh a) = (Inr (), nd)"
    and "node_at cr kk sk n l nd" and "kl_rotations l = []" and "next_key_commitment l = None" and "short_epochs l"
proof -
  obtain rc where rc: "and_then (config_from_json js (config_for cr hj n)) (resolve cr) = Ok rc"
    "rc_kem_seed rc = Some (fst (seed n))" "rc_sig_seed rc = Some (snd (seed n))"
    "rc_key_epoch rc = ''epoch-'' @ dec (unat n)" "rc_default_ttl rc = 8"
    by (rule config_resolves [OF lab])
  let ?i = "seeded cr kk sk n (rc_key_epoch rc)"
  obtain l where l: "from_identity cr ?i = Ok l"
    using from_identity_succeeds [OF lab_lawsD(4) [OF lab] seeds_give(3) [OF lab]] by blast
  let ?g = "\<lparr>gossip_state = Some (engine_new rc ?i), lineage = Some l\<rparr>"
  have run: "gossip_init cr js kr sr (config_for cr hj n) globals_init = (Ok (), ?g)"
    by (simp add: gossip_init_def globals_init_def rc(1-3) seeds_give(2) [OF lab] l install_def with_lineage_def)
  have "globals_inv cr ?g" using gossip_init_good [OF globals_inv_init, of cr js kr sr "config_for cr hj n"] run by simp
  then have "node_at cr kk sk n l \<lparr>nd_addr = a, nd_store = ?g\<rparr>" by (simp add: node_at_def engine_new_def rc(5))
  moreover have "node_init cr js kr sr (config_for cr hj n) (node_fresh a) = (Inr (), \<lparr>nd_addr = a, nd_store = ?g\<rparr>)"
    by (simp add: node_init_def invoke_def node_fresh_def run)
  moreover have "kl_rotations l = []" "next_key_commitment l = None" "short_epochs l"
    using l epoch_short [of n]
    by (auto simp: from_identity_def inception_def Let_def inception_state_def next_key_commitment_def short_epochs_def rc(4))
  ultimately show thesis using that by blast
qed

lemma node_restarts:
  assumes lab: "lab_laws cr bc js hj kk sk" and dec: "lineage_decode cr bc lb = Ok l"
    and new: "nd_store nd = globals_init" and cur: "ends_in cr kk sk n l"
  obtains nd' where "node_init_with_lineage cr bc js (config_for cr hj n) lb nd = (Inr (), nd')" and "node_at cr kk sk n l nd'"
proof -
  obtain rc where rc: "and_then (config_from_json js (config_for cr hj n)) (resolve cr) = Ok rc"
    "rc_kem_seed rc = Some (fst (seed n))" "rc_sig_seed rc = Some (snd (seed n))" "rc_default_ttl rc = 8"
    by (rule config_resolves [OF lab])
  let ?i = "(seeded cr kk sk n (rc_key_epoch rc))\<lparr>ni_node_id := kl_node_id l\<rparr>"
  let ?g = "\<lparr>gossip_state = Some (engine_new rc ?i), lineage = Some l\<rparr>"
  have "kem_public_key_canonical_bytes cr (seeded cr kk sk n (rc_key_epoch rc)) = Ok (current_kem_public_key l)"
    using cur by (simp add: ends_in_def kem_public_key_canonical_bytes_def)
  then have run: "gossip_init_with_lineage cr bc js (config_for cr hj n) lb globals_init = (Ok (), ?g)"
    using cur by (simp add: gossip_init_with_lineage_def globals_init_def rc(1-3) seeds_give(2) [OF lab] dec ends_in_def
        install_def with_lineage_def Let_def)
  have "globals_inv cr ?g"
    using gossip_init_with_lineage_good [OF globals_inv_init, of cr bc js "config_for cr hj n" lb] run by simp
  then have "node_at cr kk sk n l (nd\<lparr>nd_store := ?g\<rparr>)" by (simp add: node_at_def engine_new_def rc(4))
  then show thesis using that by (simp add: node_init_with_lineage_def invoke_def new run)
qed

lemma restart_refused:
  assumes lab: "lab_laws cr bc js hj kk sk" and dec: "lineage_decode cr bc lb = Ok l"
    and new: "nd_store nd = globals_init" and other: "current_sig_public_key l \<noteq> pk cr sk n"
  shows "\<exists>e. node_init_with_lineage cr bc js (config_for cr hj n) lb nd = (Inl e, nd)"
proof -
  obtain rc where rc: "and_then (config_from_json js (config_for cr hj n)) (resolve cr) = Ok rc"
    "rc_kem_seed rc = Some (fst (seed n))" "rc_sig_seed rc = Some (snd (seed n))"
    by (rule config_resolves [OF lab])
  have "\<exists>err. gossip_init_with_lineage cr bc js (config_for cr hj n) lb globals_init = (Err err, globals_init)"
    using other by (simp add: gossip_init_with_lineage_def rc seeds_give(2) [OF lab] dec Let_def globals_init_def)
  moreover have "nd\<lparr>nd_store := globals_init\<rparr> = nd" using new by (cases nd) simp
  ultimately show ?thesis using new by (auto simp: node_init_with_lineage_def invoke_def)
qed

section \<open>Queries\<close>

lemma identity_view:
  assumes laws: "externals_total cr bc" "host_json_laws js hj" and st: "gossip_state (nd_store nd) = Some e"
  obtains v where "node_get_node_identity cr js hj nd = (Inr v, nd)" and "field v ''node_id'' = JStr (ni_node_id (identity e))"
    and "field v ''sig_public_key_hex'' = JStr (hex_encode cr (sig_public_key_bytes cr (identity e)))"
proof -
  obtain j where j: "kem_pk_to_json cr (kem_public_key cr (ni_kem_keypair (identity e))) = Inr j"
    using laws(1) unfolding externals_total_def by blast
  let ?v = "\<lparr>nip_node_id = ni_node_id (identity e), nip_kem_public_key_json = j,
    nip_sig_public_key_hex = hex_encode cr (sig_public_key_bytes cr (identity e)), nip_key_epoch = ni_key_epoch (identity e)\<rparr>"
  have pv: "public_view cr (identity e) = Ok ?v" by (simp add: public_view_def j sig_public_key_bytes_def)
  obtain t where t: "json_of_identity js ?v = Inr t" "hj_object hj t = Inr
      [(''node_id'', JStr (ni_node_id (identity e))), (''kem_public_key_json'', JStr j),
       (''sig_public_key_hex'', JStr (hex_encode cr (sig_public_key_bytes cr (identity e)))), (''key_epoch'', JStr (ni_key_epoch (identity e)))]"
    using laws(2) unfolding host_json_laws_def by fastforce
  have "gossip_get_node_identity cr js (nd_store nd) = (Ok t, nd_store nd)"
    using st by (simp add: gossip_get_node_identity_def with_engine_def with_engine_and_def get_node_identity_json_def pv t(1))
  then show thesis
    using that by (simp add: node_get_node_identity_def invoke_def t(2) field_def)
qed

lemma node_identity_view:
  assumes lab: "lab_laws cr bc js hj kk sk" and at: "node_at cr kk sk n l nd"
  obtains v where "node_get_node_identity cr js hj nd = (Inr v, nd)" and "field v ''node_id'' = JStr (kl_node_id l)"
    and "field v ''sig_public_key_hex'' = JStr (hex_encode cr (pk cr sk n))"
proof -
  obtain e where e: "gossip_state (nd_store nd) = Some e" "ni_node_id (identity e) = kl_node_id l"
    "sig_public_key_bytes cr (identity e) = pk cr sk n" by (rule node_atE [OF at])
  show thesis by (rule identity_view [OF lab_lawsD(8,10) [OF lab] e(1)]) (use that e(2,3) in simp)
qed

lemma lineage_summary:
  assumes lab: "lab_laws cr bc js hj kk sk" and dec: "lineage_decode cr bc lb = Ok l"
  obtains v where "node_verify_key_lineage cr bc js hj lb nd = (Inr v, nd)" and "field v ''node_id'' = JStr (kl_node_id l)"
    and "field v ''sequence'' = JU64 (lineage_sequence l)"
proof -
  let ?v = "[(''node_id'', JStr (kl_node_id l)), (''sequence'', JU64 (lineage_sequence l)),
      (''sig_public_key_hex'', JStr (hex_encode cr (current_sig_public_key l))),
      (''kem_public_key_hex'', JStr (hex_encode cr (current_kem_public_key l))),
      (''key_epoch'', JStr (current_key_epoch l)),
      (''next_key_commitment_hex'', case next_key_commitment l of None \<Rightarrow> JNull | Some c \<Rightarrow> JStr (hex_encode cr c))]"
  obtain t where t: "json_of_object js ?v = Inr t" "hj_object hj t = Inr ?v"
    using lab_lawsD(10) [OF lab] unfolding host_json_laws_def by blast
  have "gossip_verify_key_lineage cr bc js lb = Ok t" by (simp add: gossip_verify_key_lineage_def dec t(1))
  then show thesis using that by (simp add: node_verify_key_lineage_def invoke_def t(2) field_def)
qed

lemma node_commitment:
  assumes "lab_laws cr bc js hj kk sk"
  shows "node_key_commitment cr (snd (seed n)) nd = (Inr (key_commitment cr (pk cr sk n)), nd)"
  by (simp add: node_key_commitment_def invoke_def seeds_give(4) [OF assms])

lemma node_lineage:
  "node_at cr kk sk n l nd \<Longrightarrow> lineage_encode bc l = Ok lb \<Longrightarrow> node_get_key_lineage bc nd = (Inr lb, nd)"
  using gossip_get_key_lineage_Ok [of bc "nd_store nd" lb "nd_store nd"]
  by (auto simp: node_get_key_lineage_def invoke_def elim!: node_atE)

section \<open>Envelopes\<close>

text \<open>An encoded envelope of a key and of node \<open>i\<close>, made at a clock reading, that every receiver accepts in its
  window.\<close>

definition signed_by ::
    "('k, 'p, 'c, 's, 'd) crypto \<Rightarrow> codec \<Rightarrow> bytes \<Rightarrow> string \<Rightarrow> nat option \<Rightarrow> bytes \<Rightarrow> bool" where
  "signed_by cr bc key i clock eb \<longleftrightarrow> (\<exists>env. de_envelope bc eb = Inr env \<and> env_sender_node_id env = i \<and>
     env_sender_public_key env = key \<and>
     (\<forall>rc now. 64 \<le> rc_max_message_bytes rc \<longrightarrow>
        unat now \<le> unat (current_time_unix_ms clock) + unat (rc_replay_window_ms rc) \<longrightarrow> verify_envelope cr env rc now = Ok True))"

lemma encoded_envelope:
  assumes laws: "sig_laws cr" "bincode_laws bc" "externals_total cr bc" "\<And>v. \<exists>b. ser_envelope bc v = Inr b"
    and st: "gossip_state g = Some e" "rc_default_ttl (config e) = 8" and ty: "from_u8 t = Some pt" and small: "length payload \<le> 64"
  obtains eb where "gossip_encode_envelope cr bc clock t payload g = (Ok eb, g)"
    and "signed_by cr bc (sig_public_key_bytes cr (identity e)) (ni_node_id (identity e)) clock eb"
proof -
  obtain sg where "sign cr (identity e) (compute_message_id cr pt payload @ as_u8 pt # payload) SIG_CTX_MESSAGE = Ok sg"
    using laws(3) by (fastforce simp: sign_def externals_total_def)
  then obtain env where env: "build_envelope cr pt payload (identity e) 8 (current_time_unix_ms clock) = Ok env"
    by (auto simp: build_envelope_Ok)
  obtain eb where eb: "ser_envelope bc env = Inr eb" using laws(4) by blast
  have run: "gossip_encode_envelope cr bc clock t payload g = (Ok eb, g)"
    using st ty by (simp add: gossip_encode_envelope_def with_engine_def with_engine_and_def engine_encode_envelope_def
        payload_type_of_def env encode_envelope_def eb)
  have "verify_envelope cr env rc now = Ok True"
    if "64 \<le> rc_max_message_bytes rc" "unat now \<le> unat (current_time_unix_ms clock) + unat (rc_replay_window_ms rc)" for rc now
    by (rule build_then_verify [OF laws(1) env]) (use that small in auto)
  moreover have "env_sender_node_id env = ni_node_id (identity e)" "env_sender_public_key env = sig_public_key_bytes cr (identity e)"
    using env by (auto simp: build_envelope_Ok)
  ultimately have "signed_by cr bc (sig_public_key_bytes cr (identity e)) (ni_node_id (identity e)) clock eb"
    using bincode_lawsD(1) [OF laws(2) eb] by (auto simp: signed_by_def)
  with run that show thesis by blast
qed

lemma node_signs:
  assumes lab: "lab_laws cr bc js hj kk sk" and at: "node_at cr kk sk n l nd" and small: "length payload \<le> 64"
  obtains eb where "node_encode_envelope cr bc clock 2 payload nd = (Inr eb, nd)"
    and "signed_by cr bc (pk cr sk n) (kl_node_id l) clock eb"
proof -
  obtain e where e: "gossip_state (nd_store nd) = Some e" "ni_node_id (identity e) = kl_node_id l"
    "rc_default_ttl (config e) = 8" "sig_public_key_bytes cr (identity e) = pk cr sk n" by (rule node_atE [OF at])
  obtain pt where pt: "from_u8 2 = Some pt" by (simp add: from_u8_def)
  obtain eb where "gossip_encode_envelope cr bc clock 2 payload (nd_store nd) = (Ok eb, nd_store nd)"
    and "signed_by cr bc (sig_public_key_bytes cr (identity e)) (ni_node_id (identity e)) clock eb"
    by (rule encoded_envelope [OF lab_lawsD(3,5,8) [OF lab] lab_lawsD(9) [OF lab] e(1,3) pt small])
  with e show thesis using that by (simp add: node_encode_envelope_def invoke_def)
qed

text \<open>A node that receives, with room for the messages and a replay window of at least \<open>w\<close>.\<close>

definition receiver :: "nat \<Rightarrow> ('k, 'd) gossip_node \<Rightarrow> bool" where
  "receiver w nd \<longleftrightarrow> (\<exists>e. gossip_state (nd_store nd) = Some e \<and> 64 \<le> rc_max_message_bytes (config e) \<and>
     w \<le> unat (rc_replay_window_ms (config e)))"

lemma envelope_accepted:
  assumes "signed_by cr bc (pk cr sk n) i clock eb" and "receiver w nd"
    and "unat (current_time_unix_ms clock') \<le> unat (current_time_unix_ms clock) + w"
    and "lineage_decode cr bc lb = Ok l" and "kl_node_id l = i" and "current_sig_public_key l = pk cr sk n"
  obtains nd' where "node_verify_envelope_from_lineage cr bc clock' eb lb nd = (Inr True, nd')" and "receiver w nd'"
proof -
  obtain e where e: "gossip_state (nd_store nd) = Some e" "64 \<le> rc_max_message_bytes (config e)"
    "w \<le> unat (rc_replay_window_ms (config e))" using assms(2) by (auto simp: receiver_def)
  obtain env where env: "de_envelope bc eb = Inr env" "env_sender_node_id env = i" "env_sender_public_key env = pk cr sk n"
    "verify_envelope cr env (config e) (current_time_unix_ms clock') = Ok True"
    using assms(1,3) e(2,3) by (force simp: signed_by_def)
  have "check_envelope_sender l env = Ok ()" using env assms(5,6) by (simp add: check_envelope_sender_Ok)
  then have "gossip_verify_envelope_from_lineage cr bc clock' eb lb (nd_store nd) =
      (Ok True, (nd_store nd)\<lparr>gossip_state := Some (receive_message e)\<rparr>)"
    by (simp add: verify_from_lineage_eq [OF assms(4) e(1) env(1)] env(4))
  moreover have "receiver w (nd\<lparr>nd_store := (nd_store nd)\<lparr>gossip_state := Some (receive_message e)\<rparr>\<rparr>)"
    using e by (simp add: receiver_def receive_message_def)
  ultimately show thesis using that by (simp add: node_verify_envelope_from_lineage_def invoke_def)
qed

lemma envelope_refused:
  assumes "signed_by cr bc (pk cr sk n) i clock eb" and "receiver w nd"
    and "lineage_decode cr bc lb = Ok l" and "current_sig_public_key l \<noteq> pk cr sk n"
  obtains err nd' where "node_verify_envelope_from_lineage cr bc clock' eb lb nd = (Inl err, nd')" and "receiver w nd'"
proof -
  obtain e where e: "gossip_state (nd_store nd) = Some e" "64 \<le> rc_max_message_bytes (config e)"
    "w \<le> unat (rc_replay_window_ms (config e))" using assms(2) by (auto simp: receiver_def)
  obtain env where env: "de_envelope bc eb = Inr env" "env_sender_public_key env = pk cr sk n"
    using assms(1) by (auto simp: signed_by_def)
  obtain err where "gossip_verify_envelope_from_lineage cr bc clock' eb lb (nd_store nd) =
      (Err (IdentityError err), (nd_store nd)\<lparr>gossip_state := Some (drop_message e)\<rparr>)"
    using stale_key_refused [OF assms(3) e(1) env(1)] assms(4) env(2) by metis
  moreover have "receiver w (nd\<lparr>nd_store := (nd_store nd)\<lparr>gossip_state := Some (drop_message e)\<rparr>\<rparr>)"
    using e by (simp add: receiver_def drop_message_def)
  ultimately show thesis using that by (simp add: node_verify_envelope_from_lineage_def invoke_def)
qed

lemma envelope_verified:
  assumes "signed_by cr bc (pk cr sk n) i clock eb" and "receiver w nd"
    and "unat (current_time_unix_ms clock') \<le> unat (current_time_unix_ms clock) + w"
  obtains nd' where "node_verify_envelope cr bc clock' eb nd = (Inr True, nd')" and "receiver w nd'"
proof -
  obtain e where e: "gossip_state (nd_store nd) = Some e" "64 \<le> rc_max_message_bytes (config e)"
    "w \<le> unat (rc_replay_window_ms (config e))" using assms(2) by (auto simp: receiver_def)
  obtain env where env: "de_envelope bc eb = Inr env"
    "verify_envelope cr env (config e) (current_time_unix_ms clock') = Ok True"
    using assms(1,3) e(2,3) by (force simp: signed_by_def)
  have "gossip_verify_envelope cr bc clock' eb (nd_store nd) =
      (Ok True, (nd_store nd)\<lparr>gossip_state := Some (receive_message e)\<rparr>)"
    using e(1) env by (simp add: gossip_verify_envelope_def with_engine_def with_engine_and_def verify_envelope_bytes_cases)
  moreover have "receiver w (nd\<lparr>nd_store := (nd_store nd)\<lparr>gossip_state := Some (receive_message e)\<rparr>\<rparr>)"
    using e by (simp add: receiver_def receive_message_def)
  ultimately show thesis using that by (simp add: node_verify_envelope_def invoke_def)
qed

section \<open>Rotation and recovery\<close>

lemma encoded_lineage:
  assumes "lab_laws cr bc js hj kk sk" and "lineage_inv cr l" and "short_epochs l" and "length (kl_rotations l) \<le> 3"
    and "lineage_encode bc l = Ok lb"
  shows "lineage_decode cr bc lb = Ok l"
proof -
  have "length lb \<le> MAX_LINEAGE_BYTES" using lab_lawsD(12) [OF assms(1)] assms(2-5) unfolding lineage_size_law_def by blast
  from lineage_decode_encode [OF lab_lawsD(6) [OF assms(1)] assms(2,5) this] show ?thesis .
qed

lemma parse_commitment_ok: "parse_commitment c = Ok c' \<Longrightarrow> commitment_ok c'"
  by (auto simp: parse_commitment_def array32_def split: option.splits if_splits)

lemma extended_short:
  assumes "build_and_apply cr cur nx c' now l = Ok (r, l')" and "short_epochs l" and "length (ni_key_epoch nx) \<le> 16"
    and "parse_commitment c = Ok c'"
  shows "short_epochs l'"
proof -
  have "kr_new_key_epoch r = ni_key_epoch nx \<and> kr_next_key_commitment r = c'"
    by (rule build_and_apply_Ok [OF assms(1)]) (cases r, simp add: unsigned_rotation_def)
  with build_and_apply_effect [OF assms(1)] assms(2,3) parse_commitment_ok [OF assms(4)] show ?thesis by (auto simp: short_epochs_def)
qed

lemma commitment_parses:
  "lab_laws cr bc js hj kk sk \<Longrightarrow> parse_commitment (Some (key_commitment cr x)) = Ok (Some (key_commitment cr x))"
  using lab_lawsD(1) [of cr bc js hj kk sk] by (simp add: parse_commitment_def key_commitment_def hash_laws_def array32_def)

lemma node_rotates:
  assumes lab: "lab_laws cr bc js hj kk sk" and at: "node_at cr kk sk n l nd" and short: "short_epochs l"
    and few: "length (kl_rotations l) \<le> 2" and ep: "length ep \<le> 16" and c: "parse_commitment c = Ok c'"
    and who: "next_key_commitment l = None \<or> next_key_commitment l = Some (key_commitment cr (pk cr sk k))"
  obtains lb l' nd' where "node_rotate_keys_under_id cr bc clock (fst (seed k)) (snd (seed k)) ep c nd = (Inr lb, nd')"
    and "node_at cr kk sk k l' nd'" and "kl_node_id l' = kl_node_id l" and "next_key_commitment l' = c'"
    and "lineage_sequence l' = lineage_sequence l + 1" and "length (kl_rotations l') = Suc (length (kl_rotations l))"
    and "short_epochs l'" and "lineage_encode bc l' = Ok lb" and "lineage_decode cr bc lb = Ok l'"
proof -
  obtain e where e: "globals_inv cr (nd_store nd)" "gossip_state (nd_store nd) = Some e" "lineage (nd_store nd) = Some l"
    "rc_default_ttl (config e) = 8" by (rule node_atE [OF at])
  have who': "next_key_commitment l = None \<or>
      next_key_commitment l = Some (key_commitment cr (sig_public_key_bytes cr (seeded cr kk sk k ep)))" using who by simp
  obtain lb g' where rot: "gossip_rotate_keys_under_id cr bc clock (fst (seed k)) (snd (seed k)) ep c (nd_store nd) = (Ok lb, g')"
    by (rule rotate_under_id_succeeds [OF e(1-3) lab_lawsD(3,4,7) [OF lab] lab_lawsD(13) [OF lab] seeds_give(1) [OF lab] c who'])
       (use that in blast)
  then obtain r e' l' where run: "rotate_keys_under_id cr (seeded cr kk sk k ep) c' (current_time_unix_ms clock) (e, l) = (Ok r, e', l')"
    and enc: "lineage_encode bc l' = Ok lb" and g': "g' = (nd_store nd)\<lparr>gossip_state := Some e', lineage := Some l'\<rparr>"
    by (rule gossip_rotate_under_id_Ok) (use that in \<open>simp add: seeds_give(1) [OF lab] c e\<close>)
  note ba = rotate_keys_under_id_Ok(1) [OF run] and e' = rotate_keys_under_id_Ok(2) [OF run]
  note eff = build_and_apply_effect [OF ba]
  have inv: "globals_inv cr g'" using gossip_rotate_keys_under_id_good [OF e(1) lab_lawsD(7) [OF lab], of clock _ _ ep c] rot
    by (metis good_Ok)
  have at': "node_at cr kk sk k l' (nd\<lparr>nd_store := g'\<rparr>)" using inv e(4) by (simp add: node_at_def g' e')
  have short': "short_epochs l'" by (rule extended_short [OF ba short _ c]) (simp add: ep)
  have "lineage_inv cr l'" by (rule node_atE [OF at'])
  from encoded_lineage [OF lab this short' _ enc] eff few have dec: "lineage_decode cr bc lb = Ok l'" by simp
  have "node_rotate_keys_under_id cr bc clock (fst (seed k)) (snd (seed k)) ep c nd = (Inr lb, nd\<lparr>nd_store := g'\<rparr>)"
    by (simp add: node_rotate_keys_under_id_def invoke_def rot)
  with at' eff short' enc dec that show thesis by simp
qed

lemma rotation_refused:
  assumes lab: "lab_laws cr bc js hj kk sk" and at: "node_at cr kk sk n l nd" and c: "parse_commitment c = Ok c'"
    and com: "next_key_commitment l = Some d" and other: "d \<noteq> key_commitment cr (pk cr sk k)"
  shows "\<exists>e. node_rotate_keys_under_id cr bc clock (fst (seed k)) (snd (seed k)) ep c nd = (Inl e, nd)"
proof -
  obtain e where e: "gossip_state (nd_store nd) = Some e" "lineage (nd_store nd) = Some l" "lineage_inv cr l"
    by (rule node_atE [OF at])
  let ?run = "rotate_keys_under_id cr (seeded cr kk sk k ep) c' (current_time_unix_ms clock) (e, l)"
  have "fst ?run \<noteq> Ok r" for r
  proof
    assume "fst ?run = Ok r"
    then obtain e' l' where "?run = (Ok r, e', l')" by (metis prod.collapse)
    note ba = rotate_keys_under_id_Ok(1) [OF this]
    have "key_commitment cr (pk cr sk k) = d"
      using committed_key_only [OF ba com] by simp
    with other show False by simp
  qed
  moreover have "fst ?run \<noteq> Panic" using rotate_keys_under_id_not_Panic [OF e(3)] .
  ultimately obtain err where err: "fst ?run = Err err" by (cases "fst ?run") auto
  then have "?run = (Err err, e, l)" using rotate_keys_under_id_fails by (metis prod.collapse)
  then have "gossip_rotate_keys_under_id cr bc clock (fst (seed k)) (snd (seed k)) ep c (nd_store nd) = (Err err, nd_store nd)"
    using e by (simp add: gossip_rotate_keys_under_id_def seeds_give(1) [OF lab] c with_engine_and_def)
  then show ?thesis by (simp add: node_rotate_keys_under_id_def invoke_def)
qed

lemma node_recovers:
  assumes lab: "lab_laws cr bc js hj kk sk" and dec: "lineage_decode cr bc lb = Ok l" and short: "short_epochs l"
    and few: "length (kl_rotations l) \<le> 2" and ep: "length ep \<le> 16" and c: "parse_commitment c = Ok c'"
    and com: "next_key_commitment l = Some (key_commitment cr (pk cr sk k))"
  obtains lb' l' where "node_recover_lineage cr bc clock lb (fst (seed k)) (snd (seed k)) ep c nd = (Inr lb', nd)"
    and "kl_node_id l' = kl_node_id l" and "lineage_sequence l' = lineage_sequence l + 1"
    and "ends_in cr kk sk k l'" and "lineage_decode cr bc lb' = Ok l'"
proof -
  let ?nx = "seeded cr kk sk k ep"
  have cur: "ks_next_key_commitment (kl_current l) = Some (key_commitment cr (pk cr sk k))"
    using com by (simp add: next_key_commitment_def)
  obtain kem where kem: "kem_public_key_canonical_bytes cr ?nx = Ok kem" "length kem = KEM_PK_LEN"
    using canonical_bytes_size(1) [OF lab_lawsD(4) [OF lab]] by blast
  have "\<exists>r l'. build_and_apply cr None ?nx c' (current_time_unix_ms clock) l = Ok (r, l')"
    by (rule build_and_apply_succeeds [OF lab_lawsD(3) [OF lab] lab_lawsD(13) [OF lab] kem
        canonical_bytes_size(2) [OF lab_lawsD(4) [OF lab]]]) (simp add: cur)
  then obtain r l' where ba: "build_and_apply cr None ?nx c' (current_time_unix_ms clock) l = Ok (r, l')" by blast
  note eff = build_and_apply_effect [OF ba]
  obtain lb' where enc: "lineage_encode bc l' = Ok lb'" using lineage_encode_total [OF lab_lawsD(7) [OF lab]] by blast
  have inv: "lineage_inv cr l'" by (rule build_and_apply_inv [OF ba lineage_decode_inv [OF dec]])
  have "short_epochs l'" by (rule extended_short [OF ba short _ c]) (simp add: ep)
  from encoded_lineage [OF lab inv this _ enc] eff few have dec': "lineage_decode cr bc lb' = Ok l'" by simp
  have "gossip_recover_lineage cr bc clock lb (fst (seed k)) (snd (seed k)) ep c = Ok lb'"
    by (simp add: gossip_recover_lineage_def dec seeds_give(1) [OF lab] c lineage_recover_def cur ba enc)
  moreover have "ends_in cr kk sk k l'" using eff by (simp add: ends_in_def kem_public_key_canonical_bytes_def)
  ultimately show thesis using that [of lb' l'] eff dec' by (simp add: node_recover_lineage_def invoke_def)
qed

lemma recovery_refused:
  assumes lab: "lab_laws cr bc js hj kk sk" and dec: "lineage_decode cr bc lb = Ok l" and c: "parse_commitment c = Ok c'"
    and com: "next_key_commitment l = Some d" and other: "d \<noteq> key_commitment cr (pk cr sk k)"
  shows "\<exists>e. node_recover_lineage cr bc clock lb (fst (seed k)) (snd (seed k)) ep c nd = (Inl e, nd)"
proof -
  have "gossip_recover_lineage cr bc clock lb (fst (seed k)) (snd (seed k)) ep c \<noteq> Ok x" for x
  proof
    assume "gossip_recover_lineage cr bc clock lb (fst (seed k)) (snd (seed k)) ep c = Ok x"
    then obtain r l' where ba: "build_and_apply cr None (seeded cr kk sk k ep) c' (current_time_unix_ms clock) l = Ok (r, l')"
      using com by (auto simp: gossip_recover_lineage_def dec seeds_give(1) [OF lab] c lineage_recover_def next_key_commitment_def)
    have "key_commitment cr (pk cr sk k) = d" using committed_key_only [OF ba com] by simp
    with other show False by simp
  qed
  then obtain err where "gossip_recover_lineage cr bc clock lb (fst (seed k)) (snd (seed k)) ep c = Err err"
    by (cases "gossip_recover_lineage cr bc clock lb (fst (seed k)) (snd (seed k)) ep c") auto
  then show ?thesis by (simp add: node_recover_lineage_def invoke_def)
qed

section \<open>The scenario\<close>

text \<open>The keys of the scenario are different where it needs them to be, and so are the commitments to them.\<close>

definition keys_differ :: "('k, 'p, 'c, 's, 'd) crypto \<Rightarrow> (u8 \<Rightarrow> 'd) \<Rightarrow> bool" where
  "keys_differ cr sk \<longleftrightarrow> pk cr sk 1 \<noteq> pk cr sk 2 \<and> pk cr sk 2 \<noteq> pk cr sk 3 \<and> pk cr sk 3 \<noteq> pk cr sk 4 \<and>
     key_commitment cr (pk cr sk 9) \<noteq> key_commitment cr (pk cr sk 3) \<and>
     key_commitment cr (pk cr sk 9) \<noteq> key_commitment cr (pk cr sk 4)"

definition clocks_within :: "nat \<Rightarrow> (nat \<Rightarrow> nat option) \<Rightarrow> bool" where
  "clocks_within w clk \<longleftrightarrow> (\<forall>i j. unat (current_time_unix_ms (clk j)) \<le> unat (current_time_unix_ms (clk i)) + w)"

lemma clocks_withinD:
  "clocks_within w clk \<Longrightarrow> unat (current_time_unix_ms (clk j)) \<le> unat (current_time_unix_ms (clk i)) + w"
  by (simp add: clocks_within_def)

lemma parse_None [simp]: "parse_commitment None = Ok None"
  by (simp add: parse_commitment_def)

lemma hex_differs: "lab_laws cr bc js hj kk sk \<Longrightarrow> hex_encode cr a = hex_encode cr b \<Longrightarrow> a = b"
  using lab_lawsD(2) unfolding hex_laws_def by (metis sum.inject(2))

text \<open>The component loads, through both bindings.\<close>

definition loads :: "wasm_image \<Rightarrow> bool" where
  "loads img \<longleftrightarrow> img_from_binary img = Inr () \<and> img_add_to_linker img = Inr () \<and> img_instantiate img = Inr () \<and>
     img_instantiate_legacy img = Inr ()"

lemma node_new_loads: "loads img \<Longrightarrow> node_new img a = Inr (node_fresh a)"
  by (simp add: loads_def node_new_def)

lemma step_20_passes:
  assumes img: "loads img" and lab: "lab_laws cr bc js hj kk sk" and keys: "keys_differ cr sk" and clk: "clocks_within w clk"
    and lin: "lineage_decode cr bc lb2 = Ok l2" "short_epochs l2" "length (kl_rotations l2) = 2" "lineage_sequence l2 = 2"
      "next_key_commitment l2 = Some (key_commitment cr (pk cr sk 4))"
    and i: "field id_before ''node_id'' = JStr (kl_node_id l2)"
    and env: "signed_by cr bc (pk cr sk 3) (kl_node_id l2) clock env3" and b: "receiver w node_b"
  shows "step_20 cr bc js hj img clk id_before lb2 env3 node_b node_c = AllPassed"
proof -
  obtain err where 1: "node_recover_lineage cr bc (clk 20) lb2 (fst (seed 9)) (snd (seed 9)) ''epoch-9'' None node_c = (Inl err, node_c)"
    using recovery_refused [OF lab lin(1) parse_None lin(5), of 9 "clk 20" "''epoch-9''" node_c] keys by (auto simp: keys_differ_def)
  obtain lb3 l3 where 2: "node_recover_lineage cr bc (clk 21) lb2 (fst (seed 4)) (snd (seed 4)) ''epoch-4'' None node_c = (Inr lb3, node_c)"
    and l3: "kl_node_id l3 = kl_node_id l2" "lineage_sequence l3 = lineage_sequence l2 + 1" "ends_in cr kk sk 4 l3"
      "lineage_decode cr bc lb3 = Ok l3"
    by (rule node_recovers [OF lab lin(1,2) _ _ parse_None lin(5), of "''epoch-4''" "clk 21" node_c]) (use lin(3) that in auto)
  obtain v where 3: "node_verify_key_lineage cr bc js hj lb3 node_b = (Inr v, node_b)" and v: "field v ''node_id'' = JStr (kl_node_id l3)"
    "field v ''sequence'' = JU64 (lineage_sequence l3)" by (rule lineage_summary [OF lab l3(4)])
  obtain d3 where 4: "node_init_with_lineage cr bc js (config_for cr hj 4) lb3 (node_fresh ''node-d'') = (Inr (), d3)"
    and d3: "node_at cr kk sk 4 l3 d3" by (rule node_restarts [OF lab l3(4) _ l3(3), of "node_fresh ''node-d''"]) (simp add: node_fresh_def, rule that)
  obtain v' where 5: "node_get_node_identity cr js hj d3 = (Inr v', d3)" and v': "field v' ''node_id'' = JStr (kl_node_id l3)"
    by (rule node_identity_view [OF lab d3])
  obtain env4 where 6: "node_encode_envelope cr bc (clk 22) 2 (as_bytes ''vote-5'') d3 = (Inr env4, d3)"
    and s4: "signed_by cr bc (pk cr sk 4) (kl_node_id l3) (clk 22) env4"
    by (rule node_signs [OF lab d3, of "as_bytes ''vote-5''" "clk 22"]) (simp, rule that)
  have cur: "current_sig_public_key l3 = pk cr sk 4" using l3(3) by (simp add: ends_in_def)
  obtain b1 where 7: "node_verify_envelope_from_lineage cr bc (clk 23) env4 lb3 node_b = (Inr True, b1)" and b1: "receiver w b1"
    by (rule envelope_accepted [OF s4 b clocks_withinD [OF clk] l3(4) refl cur])
  have ne: "current_sig_public_key l3 \<noteq> pk cr sk 3" using keys cur by (auto simp: keys_differ_def)
  obtain err' b2 where 8: "node_verify_envelope_from_lineage cr bc (clk 24) env3 lb3 b1 = (Inl err', b2)"
    by (rule envelope_refused [OF env b1 l3(4) ne])
  show ?thesis
    by (simp add: step_20_def node_new_loads [OF img] case_prod_unfold 1 2 3 4 5 6 7 8 require_def v v' i l3(1,2) lin(4))
qed

lemma step_19_passes:
  assumes img: "loads img" and lab: "lab_laws cr bc js hj kk sk" and keys: "keys_differ cr sk" and clk: "clocks_within w clk"
    and d: "node_at cr kk sk 2 l1 node_d" and lin: "lineage_decode cr bc lb1 = Ok l1" "short_epochs l1"
      "length (kl_rotations l1) = 1" "lineage_sequence l1 = 1" "next_key_commitment l1 = Some (key_commitment cr (pk cr sk 3))"
    and i: "field id_before ''node_id'' = JStr (kl_node_id l1)" and b: "receiver w node_b"
  shows "step_19 cr bc js hj img clk id_before lb1 node_d node_b node_c = AllPassed"
proof -
  let ?c = "key_commitment cr (pk cr sk 4)"
  obtain lb2 l2 d2 where 1: "node_rotate_keys_under_id cr bc (clk 15) (fst (seed 3)) (snd (seed 3)) ''epoch-3'' (Some ?c) node_d = (Inr lb2, d2)"
    and d2: "node_at cr kk sk 3 l2 d2" and l2: "kl_node_id l2 = kl_node_id l1" "next_key_commitment l2 = Some ?c"
      "lineage_sequence l2 = lineage_sequence l1 + 1" "length (kl_rotations l2) = Suc (length (kl_rotations l1))"
      "short_epochs l2" "lineage_decode cr bc lb2 = Ok l2"
    by (rule node_rotates [OF lab d lin(2) _ _ commitment_parses [OF lab, of "pk cr sk 4"], where ep = "''epoch-3''" and k = 3 and clock = "clk 15"]) (use lin(3,5) that in auto)
  obtain v where 2: "node_verify_key_lineage cr bc js hj lb2 node_c = (Inr v, node_c)" and v: "field v ''node_id'' = JStr (kl_node_id l2)"
    "field v ''sequence'' = JU64 (lineage_sequence l2)" by (rule lineage_summary [OF lab l2(6)])
  obtain env3 where 3: "node_encode_envelope cr bc (clk 16) 2 (as_bytes ''vote-4'') d2 = (Inr env3, d2)"
    and s3: "signed_by cr bc (pk cr sk 3) (kl_node_id l2) (clk 16) env3"
    by (rule node_signs [OF lab d2, of "as_bytes ''vote-4''" "clk 16"]) (simp, rule that)
  have cur: "current_sig_public_key l2 = pk cr sk 3" "current_sig_public_key l1 = pk cr sk 2"
    using node_at_ends_in [OF d2] node_at_ends_in [OF d] by (simp_all add: ends_in_def)
  obtain b1 where 4: "node_verify_envelope_from_lineage cr bc (clk 17) env3 lb2 node_b = (Inr True, b1)" and b1: "receiver w b1"
    by (rule envelope_accepted [OF s3 b clocks_withinD [OF clk] l2(6) refl cur(1)])
  have ne: "current_sig_public_key l1 \<noteq> pk cr sk 3" using keys cur by (auto simp: keys_differ_def)
  obtain err b2 where 5: "node_verify_envelope_from_lineage cr bc (clk 18) env3 lb1 b1 = (Inl err, b2)" and b2: "receiver w b2"
    by (rule envelope_refused [OF s3 b1 lin(1) ne])
  have "step_20 cr bc js hj img clk id_before lb2 env3 b2 node_c = AllPassed"
    by (rule step_20_passes [OF img lab keys clk l2(6,5) _ _ l2(2) _ s3 b2]) (use l2 lin i in auto)
  then show ?thesis
    by (simp add: step_19_def case_prod_unfold node_commitment [OF lab] 1 2 3 4 5 require_def v i l2(1,3) lin(4))
qed

lemma step_18_passes:
  assumes img: "loads img" and lab: "lab_laws cr bc js hj kk sk" and keys: "keys_differ cr sk" and clk: "clocks_within w clk"
    and lin: "lineage_decode cr bc lb1 = Ok l1" "short_epochs l1" "length (kl_rotations l1) = 1" "lineage_sequence l1 = 1"
      "next_key_commitment l1 = Some (key_commitment cr (pk cr sk 3))" "ends_in cr kk sk 2 l1"
    and i: "field id_before ''node_id'' = JStr (kl_node_id l1)"
      "field id_after ''sig_public_key_hex'' = JStr (hex_encode cr (pk cr sk 2))"
    and bc': "receiver w node_b" "receiver w node_c"
  shows "step_18 cr bc js hj img clk id_before id_after lb1 node_b node_c = AllPassed"
proof -
  let ?d = "node_fresh ''node-d''"
  have new: "nd_store ?d = globals_init" by (simp add: node_fresh_def)
  have cur: "current_sig_public_key l1 = pk cr sk 2" using lin(6) by (simp add: ends_in_def)
  then have ne: "current_sig_public_key l1 \<noteq> pk cr sk 1" using keys by (auto simp: keys_differ_def)
  obtain err where 1: "node_init_with_lineage cr bc js (config_for cr hj 1) lb1 ?d = (Inl err, ?d)"
    using restart_refused [OF lab lin(1) new ne] by blast
  obtain d where 2: "node_init_with_lineage cr bc js (config_for cr hj 2) lb1 ?d = (Inr (), d)" and d: "node_at cr kk sk 2 l1 d"
    by (rule node_restarts [OF lab lin(1) new lin(6)])
  obtain v where 3: "node_get_node_identity cr js hj d = (Inr v, d)" and v: "field v ''node_id'' = JStr (kl_node_id l1)"
    "field v ''sig_public_key_hex'' = JStr (hex_encode cr (pk cr sk 2))" by (rule node_identity_view [OF lab d])
  obtain env where 4: "node_encode_envelope cr bc (clk 12) 2 (as_bytes ''vote-3'') d = (Inr env, d)"
    and s: "signed_by cr bc (pk cr sk 2) (kl_node_id l1) (clk 12) env"
    by (rule node_signs [OF lab d, of "as_bytes ''vote-3''" "clk 12"]) (simp, rule that)
  obtain c1 where 5: "node_verify_envelope_from_lineage cr bc (clk 13) env lb1 node_c = (Inr True, c1)"
    by (rule envelope_accepted [OF s bc'(2) clocks_withinD [OF clk] lin(1) refl cur])
  have "step_19 cr bc js hj img clk id_before lb1 d node_b c1 = AllPassed"
    by (rule step_19_passes [OF img lab keys clk d lin(1-5) i(1) bc'(1)])
  then show ?thesis by (simp add: step_18_def node_new_loads [OF img] 1 2 3 4 5 require_def v i)
qed

lemma step_17_passes:
  assumes img: "loads img" and lab: "lab_laws cr bc js hj kk sk" and keys: "keys_differ cr sk" and clk: "clocks_within w clk"
    and bc': "receiver w node_b" "receiver w node_c"
  shows "step_17 cr bc js hj img clk node_b node_c = AllPassed"
proof -
  obtain l0 d0 where 1: "node_init cr js [] [] (config_for cr hj 1) (node_fresh ''node-d'') = (Inr (), d0)"
    and d0: "node_at cr kk sk 1 l0 d0" and l0: "kl_rotations l0 = []" "next_key_commitment l0 = None" "short_epochs l0"
    by (rule node_starts [OF lab])
  obtain v0 where 2: "node_get_node_identity cr js hj d0 = (Inr v0, d0)" and v0: "field v0 ''node_id'' = JStr (kl_node_id l0)"
    "field v0 ''sig_public_key_hex'' = JStr (hex_encode cr (pk cr sk 1))" by (rule node_identity_view [OF lab d0])
  obtain env1 where 3: "node_encode_envelope cr bc (clk 1) 2 (as_bytes ''vote-1'') d0 = (Inr env1, d0)"
    and s1: "signed_by cr bc (pk cr sk 1) (kl_node_id l0) (clk 1) env1"
    by (rule node_signs [OF lab d0, of "as_bytes ''vote-1''" "clk 1"]) (simp, rule that)
  let ?c = "key_commitment cr (pk cr sk 3)"
  obtain lb1 l1 d1 where 4: "node_rotate_keys_under_id cr bc (clk 2) (fst (seed 2)) (snd (seed 2)) ''epoch-2'' (Some ?c) d0 = (Inr lb1, d1)"
    and d1: "node_at cr kk sk 2 l1 d1" and l1: "kl_node_id l1 = kl_node_id l0" "next_key_commitment l1 = Some ?c"
      "lineage_sequence l1 = lineage_sequence l0 + 1" "length (kl_rotations l1) = Suc (length (kl_rotations l0))"
      "short_epochs l1" "lineage_encode bc l1 = Ok lb1" "lineage_decode cr bc lb1 = Ok l1"
    by (rule node_rotates [OF lab d0 l0(3) _ _ commitment_parses [OF lab, of "pk cr sk 3"],
        where ep = "''epoch-2''" and k = 2 and clock = "clk 2"]) (use l0 that in auto)
  have "lineage_inv cr l0" by (rule node_atE [OF d0])
  from lineage_sequence_length [OF this] have "lineage_sequence l0 = 0" using l0(1) by (simp add: lineage_sequence_def)
  with l1(3) have sq: "lineage_sequence l1 = 1" by simp
  obtain v1 where 5: "node_get_node_identity cr js hj d1 = (Inr v1, d1)" and v1: "field v1 ''node_id'' = JStr (kl_node_id l1)"
    "field v1 ''sig_public_key_hex'' = JStr (hex_encode cr (pk cr sk 2))" by (rule node_identity_view [OF lab d1])
  obtain v where 6: "node_verify_key_lineage cr bc js hj lb1 node_c = (Inr v, node_c)" and v: "field v ''node_id'' = JStr (kl_node_id l1)"
    "field v ''sequence'' = JU64 (lineage_sequence l1)" by (rule lineage_summary [OF lab l1(7)])
  obtain env2 where 7: "node_encode_envelope cr bc (clk 3) 2 (as_bytes ''vote-2'') d1 = (Inr env2, d1)"
    and s2: "signed_by cr bc (pk cr sk 2) (kl_node_id l1) (clk 3) env2"
    by (rule node_signs [OF lab d1, of "as_bytes ''vote-2''" "clk 3"]) (simp, rule that)
  have ends: "ends_in cr kk sk 2 l1" by (rule node_at_ends_in [OF d1])
  then have cur: "current_sig_public_key l1 = pk cr sk 2" by (simp add: ends_in_def)
  obtain b1 where 8: "node_verify_envelope_from_lineage cr bc (clk 4) env2 lb1 node_b = (Inr True, b1)" and b1: "receiver w b1"
    by (rule envelope_accepted [OF s2 bc'(1) clocks_withinD [OF clk] l1(7) refl cur])
  obtain b2 where 9: "node_verify_envelope cr bc (clk 5) env2 b1 = (Inr True, b2)" and b2: "receiver w b2"
    by (rule envelope_verified [OF s2 b1 clocks_withinD [OF clk]])
  have ne: "current_sig_public_key l1 \<noteq> pk cr sk 1" using keys cur by (auto simp: keys_differ_def)
  obtain err b3 where 10: "node_verify_envelope_from_lineage cr bc (clk 6) env1 lb1 b2 = (Inl err, b3)" and b3: "receiver w b3"
    by (rule envelope_refused [OF s1 b2 l1(7) ne])
  obtain err' where 11: "node_rotate_keys_under_id cr bc (clk 7) (fst (seed 9)) (snd (seed 9)) ''epoch-9'' None d1 = (Inl err', d1)"
    using rotation_refused [OF lab d1 parse_None l1(2), of 9 "clk 7" "''epoch-9''"] keys by (auto simp: keys_differ_def)
  have 12: "node_get_key_lineage bc d1 = (Inr lb1, d1)" by (rule node_lineage [OF d1 l1(6)])
  have "hex_encode cr (pk cr sk 2) \<noteq> hex_encode cr (pk cr sk 1)" using keys hex_differs [OF lab] by (auto simp: keys_differ_def)
  moreover have "step_18 cr bc js hj img clk v0 v1 lb1 b3 node_c = AllPassed"
    by (rule step_18_passes [OF img lab keys clk l1(7,5) _ sq l1(2) ends _ v1(2) b3 bc'(2)]) (simp_all add: l0 l1 v0)
  ultimately show ?thesis
    by (simp del: One_nat_def add: step_17_def node_new_loads [OF img] case_prod_unfold node_commitment [OF lab] 1 2 3 4 5 6 7 8 9 10 11 12 require_def v v0 v1 l1(1) sq)
qed

end
