(* ===== verification/Mesh_Facts.thy ===== *)
theory Mesh_Facts
  imports Mesh Scenario_Facts
begin

text \<open>
  The three-node part of the test program, for any lawful crates: a node is followed by the set of
  peers it has sessions with.
\<close>

section \<open>Laws\<close>

text \<open>\<open>serde\<close> ignores the keys of a configuration that are no fields of it, and leaves out fields as \<open>None\<close>.
  Key generation does not fail.\<close>

definition settings :: "string option \<Rightarrow> u64 option \<Rightarrow> gossip_config" where
  "settings epoch window =
     \<lparr>gc_node_id = None, gc_kem_seed_hex = None, gc_sig_seed_hex = None, gc_key_epoch = epoch,
      gc_mesh_n = None, gc_mesh_n_low = None, gc_mesh_n_high = None, gc_heartbeat_ms = None,
      gc_max_message_bytes = None, gc_dedup_cache_secs = None, gc_quorum_fraction = None,
      gc_replay_window_ms = window, gc_default_ttl = None\<rparr>"

definition peer_object :: "peer_info \<Rightarrow> json_object" where
  "peer_object p =
     [(''addr'', JStr (pi_addr p)), (''node_id'', JStr (pi_node_id p)), (''session_id'', JStr (pi_session_id p)),
      (''established_at_ms'', JU64 (pi_established_at_ms p))]"

definition mesh_laws :: "('k, 'p, 'c, 's, 'd) crypto \<Rightarrow> codec \<Rightarrow> json \<Rightarrow> host_json \<Rightarrow> bool" where
  "mesh_laws cr bc js hj \<longleftrightarrow> layout_laws bc \<and> kem_laws cr \<and>
     (\<forall>r. (\<exists>k. kem_generate cr r = Inr k) \<and> (\<exists>k. sig_generate cr r = Inr k)) \<and>
     json_parse_config js ''{}'' = Inr (settings None None) \<and>
     (\<forall>a. json_parse_config js (mesh_config hj a) = Inr (settings (Some ''epoch-1'') (Some 30000))) \<and>
     (\<forall>ps. \<exists>s. json_of_peers js ps = Inr s \<and> hj_list hj s = Inr (map peer_object ps)) \<and>
     (\<forall>v. \<exists>s x. json_of_stats js v = Inr s \<and> hj_object hj s = Inr x)"

lemma mesh_lawsD:
  assumes "mesh_laws cr bc js hj"
  shows "layout_laws bc" "kem_laws cr" "\<exists>k. kem_generate cr r = Inr k" "\<exists>k. sig_generate cr r' = Inr k"
    "json_parse_config js ''{}'' = Inr (settings None None)"
    "json_parse_config js (mesh_config hj a) = Inr (settings (Some ''epoch-1'') (Some 30000))"
    "\<exists>s. json_of_peers js ps = Inr s \<and> hj_list hj s = Inr (map peer_object ps)"
    "\<exists>s x. json_of_stats js v = Inr s \<and> hj_object hj s = Inr x"
  using assms unfolding mesh_laws_def by blast+

section \<open>A node by its peers\<close>

definition peered :: "('k, 'p, 'c, 's, 'd) crypto \<Rightarrow> string set \<Rightarrow> ('k, 'd) gossip_node \<Rightarrow> bool" where
  "peered cr P nd \<longleftrightarrow> globals_inv cr (nd_store nd) \<and> (\<exists>e. gossip_state (nd_store nd) = Some e \<and>
     {a. sessions_get a (sessions e) \<noteq> None} = P \<and> 64 \<le> rc_max_message_bytes (config e) \<and>
     rc_replay_window_ms (config e) = 30000 \<and> rc_default_ttl (config e) = 8)"

definition unpublished :: "('k, 'd) gossip_node \<Rightarrow> bool" where
  "unpublished nd \<longleftrightarrow> (\<exists>e. gossip_state (nd_store nd) = Some e \<and> dc_entries (dedup e) = hm_empty)"

lemma peeredE:
  assumes "peered cr P nd"
  obtains e where "globals_inv cr (nd_store nd)" "gossip_state (nd_store nd) = Some e" "engine_inv e"
    "\<And>a. sessions_get a (sessions e) \<noteq> None \<longleftrightarrow> a \<in> P" "64 \<le> rc_max_message_bytes (config e)"
    "rc_replay_window_ms (config e) = 30000" "rc_default_ttl (config e) = 8"
  using assms globals_inv_Some unfolding peered_def by blast

lemma peered_receiver: "peered cr P nd \<Longrightarrow> receiver 30000 nd"
  by (auto simp: peered_def receiver_def)

text \<open>A call of an engine method that keeps configuration and sessions.\<close>

lemma peered_kept:
  assumes "peered cr P nd" and "gossip_state (nd_store nd) = Some e" and "globals_inv cr g'"
    and "gossip_state g' = Some e'" and "config e' = config e"
    and "\<And>a. sessions_get a (sessions e') \<noteq> None \<longleftrightarrow> a \<in> Q"
  shows "peered cr Q (nd\<lparr>nd_store := g'\<rparr>)"
  using assms unfolding peered_def by auto

text \<open>Starting.\<close>

lemma settings_resolve:
  obtains rc where "resolve cr (settings ep w) = Ok rc" and "rc_kem_seed rc = None" and "rc_default_ttl rc = 8"
    and "rc_max_message_bytes rc = 1048576" and "rc_replay_window_ms rc = unwrap_or w 30000"
proof -
  have "f64_in_unit (f64_round (67 / 100))" by (simp add: f64_round_067 default_fraction_def)
  then show thesis using that by (simp add: resolve_def settings_def resolve_seed_def unwrap_or_def Let_def)
qed

lemma generated_node:
  assumes lab: "lab_laws cr bc js hj kk sk" and mesh: "mesh_laws cr bc js hj"
    and cfg: "json_parse_config js s = Inr (settings ep w)" and w: "unwrap_or w 30000 = 30000"
  obtains nd where "invoke ctx (gossip_init cr js kr sr s) (node_fresh a) = (Inr (), nd)" and "nd_addr nd = a"
    and "peered cr {} nd" and "unpublished nd" and "messages_published (stats (the (gossip_state (nd_store nd)))) = 0"
proof -
  obtain rc where rc: "resolve cr (settings ep w) = Ok rc" "rc_kem_seed rc = None" "rc_default_ttl rc = 8"
    "rc_max_message_bytes rc = 1048576" "rc_replay_window_ms rc = unwrap_or w 30000" by (rule settings_resolve)
  obtain k d where kd: "kem_generate cr kr = Inr k" "sig_generate cr sr = Inr d" using mesh_lawsD(3,4) [OF mesh] by metis
  obtain b where b: "kem_public_key_bytes cr (kem_public_key cr k) = Ok b"
    using canonical_bytes_size(1) [OF lab_lawsD(4) [OF lab], of "\<lparr>ni_node_id = [], ni_kem_keypair = k, ni_sig_keypair = d, ni_key_epoch = []\<rparr>"]
    by (auto simp: kem_public_key_canonical_bytes_def)
  obtain i where i: "identity_generate cr kr sr (rc_key_epoch rc) = Ok i" and "self_certified cr i"
    using kd b by (simp add: identity_generate_def identity_of_keypairs_def self_certified_def
        kem_public_key_canonical_bytes_def sig_public_key_bytes_def)
  then obtain l where l: "from_identity cr i = Ok l"
    using from_identity_succeeds [OF lab_lawsD(4) [OF lab]] by blast
  let ?g = "\<lparr>gossip_state = Some (engine_new rc i), lineage = Some l\<rparr>"
  have run: "gossip_init cr js kr sr s globals_init = (Ok (), ?g)"
    by (simp add: gossip_init_def globals_init_def config_from_json_def cfg rc(1,2) i l install_def with_lineage_def)
  have "globals_inv cr ?g" using gossip_init_good [OF globals_inv_init, of cr js kr sr s] run by simp
  then have "peered cr {} \<lparr>nd_addr = a, nd_store = ?g\<rparr>" using rc w by (simp add: peered_def engine_new_def ses.get_empty)
  moreover have "unpublished \<lparr>nd_addr = a, nd_store = ?g\<rparr>" by (simp add: unpublished_def engine_new_def dedup_new_def)
  moreover have "messages_published (stats (engine_new rc i)) = 0" by (simp add: engine_new_def stats_default_def)
  ultimately show thesis using that [of "\<lparr>nd_addr = a, nd_store = ?g\<rparr>"] by (simp add: invoke_def node_fresh_def run)
qed

section \<open>Handshakes\<close>

definition handshake_env_ok :: "handshake_env \<Rightarrow> bool" where
  "handshake_env_ok env \<longleftrightarrow> clocks_fresh env \<and> (\<exists>n. he_client_nonce env = Inr n) \<and> (\<exists>n. he_server_nonce env = Inr n)"

lemma nodes_shake_hands:
  assumes lab: "lab_laws cr bc js hj kk sk" and mesh: "mesh_laws cr bc js hj" and env: "handshake_env_ok env"
    and c: "peered cr P c" and s: "peered cr Q s" and new: "nd_addr s \<notin> P"
  obtains c' s' where "node_handshake cr bc env c s = (Inr (), c', s')" and "nd_addr c' = nd_addr c" and "nd_addr s' = nd_addr s"
    and "peered cr (insert (nd_addr s) P) c'" and "peered cr (insert (nd_addr c) Q) s'" and "unpublished c \<Longrightarrow> unpublished c'"
proof -
  obtain ec where ec: "globals_inv cr (nd_store c)" "gossip_state (nd_store c) = Some ec"
    "\<And>a. sessions_get a (sessions ec) \<noteq> None \<longleftrightarrow> a \<in> P" by (rule peeredE [OF c]) (rule that)
  obtain es where es: "globals_inv cr (nd_store s)" "gossip_state (nd_store s) = Some es"
    "\<And>a. sessions_get a (sessions es) \<noteq> None \<longleftrightarrow> a \<in> Q" by (rule peeredE [OF s]) (rule that)
  have none: "sessions_get (nd_addr s) (sessions ec) = None" using ec(3) new by blast
  obtain cn sn where n: "he_client_nonce env = Inr cn" "he_server_nonce env = Inr sn" "clocks_fresh env"
    using env by (auto simp: handshake_env_ok_def)
  obtain ec' es' sc ss where run: "do_handshake cr bc env (nd_addr c) (nd_addr s) (nd_store c) (nd_store s) =
      (None, (nd_store c)\<lparr>gossip_state := Some ec'\<rparr>, (nd_store s)\<lparr>gossip_state := Some es'\<rparr>)"
    and f: "sessions ec' = sessions_insert sc (sessions ec)" "sessions es' = sessions_insert ss (sessions es)"
      "config ec' = config ec" "config es' = config es" "dedup ec' = dedup ec"
      "sr_peer_addr sc = nd_addr s" "sr_peer_addr ss = nd_addr c"
    by (rule do_handshake_run [OF lab_lawsD(5) [OF lab] mesh_lawsD(1,2) [OF mesh] lab_lawsD(3,8,4) [OF lab] n ec(2) none es(2)])
       (rule that)
  note inv = do_handshake_inv [OF ec(1) es(1) run]
  let ?c = "c\<lparr>nd_store := (nd_store c)\<lparr>gossip_state := Some ec'\<rparr>\<rparr>"
  let ?s = "s\<lparr>nd_store := (nd_store s)\<lparr>gossip_state := Some es'\<rparr>\<rparr>"
  have "peered cr (insert (nd_addr s) P) ?c"
    by (rule peered_kept [OF c ec(2) conjunct1 [OF inv], where e' = ec']) (use f ec(3) in \<open>auto simp: ses.get_ins\<close>)
  moreover have "peered cr (insert (nd_addr c) Q) ?s"
    by (rule peered_kept [OF s es(2) conjunct2 [OF inv], where e' = es']) (use f es(3) in \<open>auto simp: ses.get_ins\<close>)
  moreover have "unpublished c \<Longrightarrow> unpublished ?c" using ec(2) f(5) by (simp add: unpublished_def)
  ultimately show thesis using that [of ?c ?s] by (simp add: node_handshake_def run)
qed

section \<open>Calls on a node\<close>

lemma good_calls:
  assumes "globals_inv cr g"
  shows "good cr (gossip_publish cr' clock t payload g)" "good cr (gossip_get_stats js clock g)"
    "good cr (gossip_disconnect_peer a g)" "good cr (gossip_verify_envelope cr' bc clock b g)"
  unfolding call_defs by (rule call_good, rule assms)+

lemma peers_listed:
  assumes mesh: "mesh_laws cr bc js hj" and nd: "peered cr P nd"
  obtains ps where "node_get_peers js hj nd = (Inr ps, nd)" and "length ps = card P" and "\<And>a. lists_addr a ps \<longleftrightarrow> a \<in> P"
proof -
  obtain e where e: "gossip_state (nd_store nd) = Some e" "engine_inv e" "\<And>a. sessions_get a (sessions e) \<noteq> None \<longleftrightarrow> a \<in> P"
    by (rule peeredE [OF nd]) (rule that)
  have si: "sessions_inv (sessions e)" and act: "\<And>a r. sessions_get a (sessions e) = Some r \<Longrightarrow> sr_is_active r"
    using e(2) by (auto simp: engine_inv_def)
  let ?ps = "active_peers (sessions e)"
  obtain t where t: "json_of_peers js ?ps = Inr t" "hj_list hj t = Inr (map peer_object ?ps)" using mesh_lawsD(7) [OF mesh] by blast
  have "gossip_get_peers js (nd_store nd) = (Ok t, nd_store nd)"
    using e(1) by (simp add: gossip_get_peers_def with_engine_def with_engine_and_def get_peers_json_def t(1))
  then have run: "node_get_peers js hj nd = (Inr (map peer_object ?ps), nd)"
    by (simp add: node_get_peers_def invoke_def t(2))
  have "{a. sessions_get a (sessions e) \<noteq> None} = P" using e(3) by blast
  then have len: "length (map peer_object ?ps) = card P"
    using ses.length_peers [OF si act] ses.cnt_card [OF si] by simp
  have "lists_addr a (map peer_object ?ps) \<longleftrightarrow> a \<in> set (map pi_addr ?ps)" for a
    by (auto simp: lists_addr_def list_ex_iff peer_object_def)
  then have "lists_addr a (map peer_object ?ps) \<longleftrightarrow> a \<in> P" for a
    using ses.peer_addrs [OF si] act e(3) [of a] by auto
  with run len that show thesis by blast
qed

lemma message_published:
  assumes lab: "lab_laws cr bc js hj kk sk" and nd: "peered cr P nd" and un: "unpublished nd"
    and ty: "from_u8 t = Some pt" and small: "length payload \<le> 64"
  obtains i nd' where "node_publish cr clock t payload nd = (Inr i, nd')" and "peered cr P nd'"
proof -
  obtain e where e: "globals_inv cr (nd_store nd)" "gossip_state (nd_store nd) = Some e" "engine_inv e"
    "\<And>a. sessions_get a (sessions e) \<noteq> None \<longleftrightarrow> a \<in> P" "64 \<le> rc_max_message_bytes (config e)"
    by (rule peeredE [OF nd]) (rule that)
  let ?t = "current_time_unix_ms clock" and ?i = "compute_message_id cr pt payload"
  have "\<not> fst (is_duplicate ?i ?t (dedup e))"
    using un e(2) engine_invD(4) [OF e(3)] by (simp add: unpublished_def is_duplicate_iff)
  note fresh = publish_fresh [OF ty _ this]
  obtain sg where "sign cr (identity e) (?i @ as_u8 pt # payload) SIG_CTX_MESSAGE = Ok sg"
    using lab_lawsD(13) [OF lab] by (fastforce simp: sign_def)
  then obtain env where env: "build_envelope cr pt payload (identity e) (rc_default_ttl (config e)) ?t = Ok env"
    by (auto simp: build_envelope_Ok)
  obtain e' where run: "publish cr t payload ?t e = (Ok ?i, e')" and e': "config e' = config e" "sessions e' = sessions e"
    using fresh small e(5) env by (simp add: Let_def)
  then have g: "gossip_publish cr clock t payload (nd_store nd) = (Ok ?i, (nd_store nd)\<lparr>gossip_state := Some e'\<rparr>)"
    using e(2) by (simp add: gossip_publish_def with_engine_def with_engine_and_def)
  have "globals_inv cr ((nd_store nd)\<lparr>gossip_state := Some e'\<rparr>)"
    using good_calls(1) [OF e(1)] g by (metis good_Ok)
  from peered_kept [OF nd e(2) this, of e' P] e' e(4) have "peered cr P (nd\<lparr>nd_store := (nd_store nd)\<lparr>gossip_state := Some e'\<rparr>\<rparr>)" by simp
  moreover have "length ?i = 32" using hash_lawsD(1) [OF lab_lawsD(1) [OF lab]] by (simp add: compute_message_id_def)
  ultimately show thesis using that by (simp add: node_publish_def invoke_def g)
qed

lemma stats_reported:
  assumes mesh: "mesh_laws cr bc js hj" and nd: "peered cr P nd"
  obtains v nd' where "node_get_stats js hj clock nd = (Inr v, nd')" and "peered cr P nd'"
proof -
  obtain e where e: "globals_inv cr (nd_store nd)" "gossip_state (nd_store nd) = Some e"
    "\<And>a. sessions_get a (sessions e) \<noteq> None \<longleftrightarrow> a \<in> P" by (rule peeredE [OF nd]) (rule that)
  let ?e = "heartbeat (current_time_unix_ms clock) e"
  obtain t v where t: "json_of_stats js (stats ?e) = Inr t" "hj_object hj t = Inr v" using mesh_lawsD(8) [OF mesh] by blast
  have g: "gossip_get_stats js clock (nd_store nd) = (Ok t, (nd_store nd)\<lparr>gossip_state := Some ?e\<rparr>)"
    using e(2) t by (simp add: gossip_get_stats_def with_engine_def with_engine_and_def get_stats_json_def Let_def)
  have "globals_inv cr ((nd_store nd)\<lparr>gossip_state := Some ?e\<rparr>)"
    using good_calls(2) [OF e(1)] g by (metis good_Ok)
  from peered_kept [OF nd e(2) this, of ?e P] e(3) have "peered cr P (nd\<lparr>nd_store := (nd_store nd)\<lparr>gossip_state := Some ?e\<rparr>\<rparr>)" by simp
  then show thesis using that by (simp add: node_get_stats_def invoke_def g t(2))
qed

lemma peer_disconnected:
  assumes nd: "peered cr P nd" and a: "a \<in> P"
  obtains nd' where "node_disconnect_peer a nd = (Inr (), nd')" and "peered cr (P - {a}) nd'"
proof -
  obtain e where e: "globals_inv cr (nd_store nd)" "gossip_state (nd_store nd) = Some e" "engine_inv e"
    "\<And>a. sessions_get a (sessions e) \<noteq> None \<longleftrightarrow> a \<in> P" by (rule peeredE [OF nd]) (rule that)
  have si: "sessions_inv (sessions e)" using e(3) by (simp add: engine_inv_def)
  obtain r where r: "sessions_get a (sessions e) = Some r" using e(4) [of a] a by auto
  obtain m where rem: "sessions_remove a (sessions e) = (Some r, m)"
    using ses.rem_result [of a "sessions e"] r by (metis prod.collapse)
  obtain e' where run: "disconnect_peer a e = (Ok (), e')" and e': "config e' = config e"
      "sessions e' = m"
    by (simp add: disconnect_peer_def remove_from_mesh_def rem Let_def)
  have g: "gossip_disconnect_peer a (nd_store nd) = (Ok (), (nd_store nd)\<lparr>gossip_state := Some e'\<rparr>)"
    using e(2) run by (simp add: gossip_disconnect_peer_def with_engine_def with_engine_and_def)
  have "globals_inv cr ((nd_store nd)\<lparr>gossip_state := Some e'\<rparr>)"
    using good_calls(3) [OF e(1)] g by (metis good_Ok)
  from peered_kept [OF nd e(2) this, of e' "P - {a}"] e' e(4) ses.get_rem [OF si, of _ a] rem
  have "peered cr (P - {a}) (nd\<lparr>nd_store := (nd_store nd)\<lparr>gossip_state := Some e'\<rparr>\<rparr>)" by auto
  then show thesis using that by (simp add: node_disconnect_peer_def invoke_def g)
qed

lemma envelope_received:
  assumes "signed_by cr bc key i clock eb" and nd: "peered cr P nd"
    and "unat (current_time_unix_ms clock') \<le> unat (current_time_unix_ms clock) + 30000"
  obtains nd' where "node_verify_envelope cr bc clock' eb nd = (Inr True, nd')" and "peered cr P nd'"
proof -
  obtain e where e: "globals_inv cr (nd_store nd)" "gossip_state (nd_store nd) = Some e"
    "\<And>a. sessions_get a (sessions e) \<noteq> None \<longleftrightarrow> a \<in> P" "64 \<le> rc_max_message_bytes (config e)"
    "rc_replay_window_ms (config e) = 30000" by (rule peeredE [OF nd]) (rule that)
  obtain env where env: "de_envelope bc eb = Inr env" "verify_envelope cr env (config e) (current_time_unix_ms clock') = Ok True"
    using assms(1,3) e(4,5) by (force simp: signed_by_def)
  have g: "gossip_verify_envelope cr bc clock' eb (nd_store nd) = (Ok True, (nd_store nd)\<lparr>gossip_state := Some (receive_message e)\<rparr>)"
    using e(2) env by (simp add: gossip_verify_envelope_def with_engine_def with_engine_and_def verify_envelope_bytes_cases)
  have "globals_inv cr ((nd_store nd)\<lparr>gossip_state := Some (receive_message e)\<rparr>)"
    using good_calls(4) [OF e(1)] g by (metis good_Ok)
  from peered_kept [OF nd e(2) this, of "receive_message e" P] e(3)
  have "peered cr P (nd\<lparr>nd_store := (nd_store nd)\<lparr>gossip_state := Some (receive_message e)\<rparr>\<rparr>)" by (simp add: receive_message_def)
  then show thesis using that by (simp add: node_verify_envelope_def invoke_def g)
qed

lemma node_encodes:
  assumes lab: "lab_laws cr bc js hj kk sk" and nd: "peered cr P nd" and ty: "from_u8 t = Some pt" and small: "length payload \<le> 64"
  obtains eb key i where "gossip_encode_envelope cr bc clock t payload (nd_store nd) = (Ok eb, nd_store nd)"
    and "signed_by cr bc key i clock eb"
proof -
  obtain e where e: "gossip_state (nd_store nd) = Some e" "rc_default_ttl (config e) = 8" by (rule peeredE [OF nd]) (rule that)
  show thesis by (rule encoded_envelope [OF lab_lawsD(3,5,8) [OF lab] lab_lawsD(9) [OF lab] e ty small]) (rule that)
qed

section \<open>The steps\<close>

lemma smoke_succeeds:
  assumes img: "loads img" and lab: "lab_laws cr bc js hj kk sk" and mesh: "mesh_laws cr bc js hj"
  obtains ver eb key i where "smoke cr bc js img keys clock = Inr (ver, eb)" and "signed_by cr bc key i clock eb"
proof -
  obtain nd where nd: "invoke ''legacy gossip_init'' (gossip_init cr js (fst keys) (snd keys) ''{}'') (node_fresh []) = (Inr (), nd)"
    and p: "peered cr {} nd"
    by (rule generated_node [OF lab mesh mesh_lawsD(5) [OF mesh], of "''legacy gossip_init''" "fst keys" "snd keys" "[]"])
       (simp add: unwrap_or_def, rule that)
  have ty: "from_u8 0 = Some Transaction" by (simp add: from_u8_def)
  obtain eb key i where "gossip_encode_envelope cr bc clock 0 (as_bytes ''legacy host'') (nd_store nd) = (Ok eb, nd_store nd)"
    and "signed_by cr bc key i clock eb"
    by (rule node_encodes [OF lab p ty, of "as_bytes ''legacy host''"]) (simp add: as_bytes_def, rule that)
  moreover from calculation(1) have "invoke ''legacy gossip_encode_envelope'' (gossip_encode_envelope cr bc clock 0 (as_bytes ''legacy host'')) nd =
      (Inr eb, nd)" by (simp add: invoke_def)
  moreover have "node_get_version nd = (Inr gossip_get_version, nd)" by (simp add: node_get_version_def invoke_def)
  ultimately show thesis using that img by (simp add: smoke_def nd loads_def)
qed

lemma step_16_passes:
  assumes img: "loads img" and lab: "lab_laws cr bc js hj kk sk" and mesh: "mesh_laws cr bc js hj" and keys: "keys_differ cr sk"
    and clk: "clocks_within 30000 clk" and b: "peered cr Q node_b" and c: "peered cr R node_c"
  shows "step_16 cr bc js hj img clk env node_b node_c = AllPassed"
proof -
  obtain ver eb key i where s: "smoke cr bc js img (me_keys env ''legacy'') (clk 36) = Inr (ver, eb)" and sg: "signed_by cr bc key i (clk 36) eb"
    by (rule smoke_succeeds [OF img lab mesh])
  obtain b' where v: "node_verify_envelope cr bc (clk 37) eb node_b = (Inr True, b')" and b': "peered cr Q b'"
    by (rule envelope_received [OF sg b clocks_withinD [OF clk]])
  have "step_17 cr bc js hj img clk b' node_c = AllPassed"
    by (rule step_17_passes [OF img lab keys clk peered_receiver [OF b'] peered_receiver [OF c]])
  then show ?thesis by (simp add: step_16_def s v require_def)
qed

lemma step_13_passes:
  assumes img: "loads img" and lab: "lab_laws cr bc js hj kk sk" and mesh: "mesh_laws cr bc js hj" and keys: "keys_differ cr sk"
    and clk: "clocks_within 30000 clk" and a: "peered cr P node_a" "''node-b'' \<in> P" and b: "peered cr Q node_b" and c: "peered cr R node_c"
  shows "step_13 cr bc js hj img clk env node_a node_b node_c = AllPassed"
proof -
  obtain a1 where 1: "node_disconnect_peer ''node-b'' node_a = (Inr (), a1)" and a1: "peered cr (P - {''node-b''}) a1"
    by (rule peer_disconnected [OF a])
  obtain ps where 2: "node_get_peers js hj a1 = (Inr ps, a1)" and ps: "\<And>x. lists_addr x ps \<longleftrightarrow> x \<in> P - {''node-b''}"
    by (rule peers_listed [OF mesh a1]) (rule that)
  obtain v a2 where 3: "node_get_stats js hj (clk 35) a1 = (Inr v, a2)" by (rule stats_reported [OF mesh a1])
  show ?thesis
    by (simp add: step_13_def 1 2 3 require_def ps step_16_passes [OF img lab mesh keys clk b c])
qed

lemma step_8_passes:
  assumes img: "loads img" and lab: "lab_laws cr bc js hj kk sk" and mesh: "mesh_laws cr bc js hj" and keys: "keys_differ cr sk"
    and clk: "clocks_within 30000 clk" and a: "peered cr P node_a" "''node-b'' \<in> P" "unpublished node_a"
    and b: "peered cr Q node_b" and c: "peered cr R node_c"
  shows "step_8 cr bc js hj img clk env node_a node_b node_c = AllPassed"
proof -
  have ty: "from_u8 1 = Some BlockProposal" by (simp add: from_u8_def)
  have small: "length tx_payload \<le> 64" by (simp add: tx_payload_def as_bytes_def)
  obtain i a1 where 1: "node_publish cr (clk 28) 1 tx_payload node_a = (Inr i, a1)" and a1: "peered cr P a1"
    by (rule message_published [OF lab a(1,3) ty small])
  obtain eb key n where 2: "gossip_encode_envelope cr bc (clk 29) 1 tx_payload (nd_store a1) = (Ok eb, nd_store a1)"
    and sg: "signed_by cr bc key n (clk 29) eb" by (rule node_encodes [OF lab a1 ty small])
  obtain b1 where 3: "node_verify_envelope cr bc (clk 30) eb node_b = (Inr True, b1)" and b1: "peered cr Q b1"
    by (rule envelope_received [OF sg b clocks_withinD [OF clk]])
  obtain c1 where 4: "node_verify_envelope cr bc (clk 31) eb node_c = (Inr True, c1)" and c1: "peered cr R c1"
    by (rule envelope_received [OF sg c clocks_withinD [OF clk]])
  obtain va a2 where 5: "node_get_stats js hj (clk 32) a1 = (Inr va, a2)" and a2: "peered cr P a2" by (rule stats_reported [OF mesh a1])
  obtain vb b2 where 6: "node_get_stats js hj (clk 33) b1 = (Inr vb, b2)" and b2: "peered cr Q b2" by (rule stats_reported [OF mesh b1])
  obtain vc c2 where 7: "node_get_stats js hj (clk 34) c1 = (Inr vc, c2)" and c2: "peered cr R c2" by (rule stats_reported [OF mesh c1])
  have "node_encode_envelope cr bc (clk 29) 1 tx_payload a1 = (Inr eb, a1)" by (simp add: node_encode_envelope_def invoke_def 2)
  then show ?thesis
    by (simp add: step_8_def 1 3 4 5 6 7 require_def step_13_passes [OF img lab mesh keys clk a2 a(2) b2 c2])
qed

lemma step_4_passes:
  assumes img: "loads img" and lab: "lab_laws cr bc js hj kk sk" and mesh: "mesh_laws cr bc js hj" and keys: "keys_differ cr sk"
    and clk: "clocks_within 30000 clk" and env: "\<And>n. handshake_env_ok (me_handshake env n)"
    and new: "peered cr {} node_a" "peered cr {} node_b" "peered cr {} node_c" "unpublished node_a"
    and addr: "nd_addr node_a = ''node-a''" "nd_addr node_b = ''node-b''" "nd_addr node_c = ''node-c''"
  shows "step_4 cr bc js hj img clk env node_a node_b node_c = AllPassed"
proof -
  obtain a1 b1 where 1: "node_handshake cr bc (me_handshake env 4) node_a node_b = (Inr (), a1, b1)"
    and a1: "nd_addr a1 = ''node-a''" "peered cr {''node-b''} a1" "unpublished a1"
    and b1: "nd_addr b1 = ''node-b''" "peered cr {''node-a''} b1"
    by (rule nodes_shake_hands [OF lab mesh env new(1,2)]) (use new(4) addr that in auto)
  obtain a2 c1 where 2: "node_handshake cr bc (me_handshake env 5) a1 node_c = (Inr (), a2, c1)"
    and a2: "peered cr {''node-b'', ''node-c''} a2" "unpublished a2" and c1: "nd_addr c1 = ''node-c''" "peered cr {''node-a''} c1"
    by (rule nodes_shake_hands [OF lab mesh env a1(2) new(3)]) (use a1 addr that in \<open>auto simp: insert_commute\<close>)
  obtain b2 c2 where 3: "node_handshake cr bc (me_handshake env 6) b1 c1 = (Inr (), b2, c2)"
    and b2: "peered cr {''node-a'', ''node-c''} b2" and c2: "peered cr {''node-a'', ''node-b''} c2"
    by (rule nodes_shake_hands [OF lab mesh env b1(2) c1(2)]) (use b1 c1 that in \<open>auto simp: insert_commute\<close>)
  obtain pa where pa: "node_get_peers js hj a2 = (Inr pa, a2)" "length pa = card {''node-b'', ''node-c''}"
    by (rule peers_listed [OF mesh a2(1)]) (rule that)
  obtain pb where pb: "node_get_peers js hj b2 = (Inr pb, b2)" "length pb = card {''node-a'', ''node-c''}"
    by (rule peers_listed [OF mesh b2]) (rule that)
  obtain pc where pc: "node_get_peers js hj c2 = (Inr pc, c2)" "length pc = card {''node-a'', ''node-b''}"
    by (rule peers_listed [OF mesh c2]) (rule that)
  have "step_8 cr bc js hj img clk env a2 b2 c2 = AllPassed"
    by (rule step_8_passes [OF img lab mesh keys clk a2(1) _ a2(2) b2 c2]) simp
  then have "step_7 cr bc js hj img clk env a2 b2 c2 = AllPassed"
    using pa pb pc by (simp add: step_7_def require_def)
  then show ?thesis by (simp add: step_4_def 1 2 3)
qed

lemma run_tests_passes:
  assumes img: "loads img" and lab: "lab_laws cr bc js hj kk sk" and mesh: "mesh_laws cr bc js hj" and keys: "keys_differ cr sk"
    and clk: "clocks_within 30000 clk" and env: "\<And>n. handshake_env_ok (me_handshake env n)"
  shows "run_tests cr bc js hj img clk env = AllPassed"
proof -
  have start: "\<exists>nd. start_node cr js hj env (node_fresh a) = (Inr (), nd) \<and> nd_addr nd = a \<and> peered cr {} nd \<and> unpublished nd" for a
    by (rule generated_node [OF lab mesh mesh_lawsD(6) [OF mesh, of a], of "''gossip_init''" "fst (me_keys env a)" "snd (me_keys env a)" a])
       (auto simp: unwrap_or_def start_node_def node_init_def node_fresh_def)
  obtain a where a: "start_node cr js hj env (node_fresh ''node-a'') = (Inr (), a)" "nd_addr a = ''node-a''" "peered cr {} a" "unpublished a"
    using start by blast
  obtain b where b: "start_node cr js hj env (node_fresh ''node-b'') = (Inr (), b)" "nd_addr b = ''node-b''" "peered cr {} b"
    using start by blast
  obtain c where c: "start_node cr js hj env (node_fresh ''node-c'') = (Inr (), c)" "nd_addr c = ''node-c''" "peered cr {} c"
    using start by blast
  have view: "\<exists>v. node_get_node_identity cr js hj nd = (Inr v, nd)" if "peered cr {} nd" for nd
    using identity_view [OF lab_lawsD(8,10) [OF lab]] peeredE [OF that] by metis
  obtain va vb vc where v: "node_get_node_identity cr js hj a = (Inr va, a)" "node_get_node_identity cr js hj b = (Inr vb, b)"
    "node_get_node_identity cr js hj c = (Inr vc, c)" using view a(3) b(3) c(3) by metis
  have ver: "node_get_version n = (Inr gossip_get_version, n)" for n :: "('a, 'e) gossip_node"
    by (simp add: node_get_version_def invoke_def)
  have "step_4 cr bc js hj img clk env a b c = AllPassed"
    by (rule step_4_passes [OF img lab mesh keys clk env a(3) b(3) c(3) a(4) a(2) b(2) c(2)])
  then show ?thesis by (simp add: run_tests_def node_new_loads [OF img] ver a(1) b(1) c(1) v)
qed

end
