(* ===== verification/Validator_Facts.thy ===== *)
theory Validator_Facts
  imports Validator Mesh_Facts
begin

text \<open>
  The validator passes all its tests, for any lawful crates: the lemmas follow the counters, the ids
  published so far and the engine behind the API.
\<close>

section \<open>Laws\<close>

text \<open>Hexadecimal digits, the fields of rendered values, and that an encoding is not empty.\<close>

definition validator_laws :: "('k, 'p, 'c, 's, 'd) crypto \<Rightarrow> codec \<Rightarrow> json \<Rightarrow> host_json \<Rightarrow> bool" where
  "validator_laws cr bc js hj \<longleftrightarrow> (\<forall>b. list_all is_ascii_hexdigit (hex_encode cr b)) \<and>
     (\<forall>v b. ser_envelope bc v = Inr b \<longrightarrow> b \<noteq> []) \<and>
     (\<forall>v. \<exists>s x. json_of_envelope js v = Inr s \<and> hj_object hj s = Inr x \<and> field x ''version'' = JU64 (ucast (env_version v))) \<and>
     (\<forall>v. \<exists>s x. json_of_stats js v = Inr s \<and> hj_object hj s = Inr x \<and> field x ''messages_published'' = JU64 (messages_published v)) \<and>
     (\<forall>v. \<exists>s n. json_of_peers js v = Inr s \<and> hj_array hj s = Inr (Some n))"

lemma validator_lawsD:
  assumes "validator_laws cr bc js hj"
  shows "list_all is_ascii_hexdigit (hex_encode cr b)" "ser_envelope bc v = Inr b' \<Longrightarrow> b' \<noteq> []"
    "\<exists>s x. json_of_envelope js v = Inr s \<and> hj_object hj s = Inr x \<and> field x ''version'' = JU64 (ucast (env_version v))"
    "\<exists>s x. json_of_stats js st = Inr s \<and> hj_object hj s = Inr x \<and> field x ''messages_published'' = JU64 (messages_published st)"
    "\<exists>s n. json_of_peers js ps = Inr s \<and> hj_array hj s = Inr (Some n)"
  using assms unfolding validator_laws_def by blast+

text \<open>The envelope of test 9, with its last bytes inverted, does not carry a valid signature.\<close>

definition tampering_detected :: "('k, 'p, 'c, 's, 'd) crypto \<Rightarrow> codec \<Rightarrow> bool" where
  "tampering_detected cr bc \<longleftrightarrow> (\<forall>i :: ('k, 'd) node_identity. \<forall>t env b env'.
     build_envelope cr Transaction (as_bytes ''encode-test-payload'') i 8 t = Ok env \<longrightarrow>
     ser_envelope bc env = Inr b \<longrightarrow> de_envelope bc (tampered b) = Inr env' \<longrightarrow>
     sig_verify cr (env_sender_public_key env') (tagged_message SIG_CTX_MESSAGE (signing_input env')) (env_signature env') \<noteq> SigOk)"

text \<open>The five published messages have different ids.\<close>

definition published_ids :: "('k, 'p, 'c, 's, 'd) crypto \<Rightarrow> bytes list" where
  "published_ids cr =
     [compute_message_id cr Transaction (as_bytes ''tx-payload-data''),
      compute_message_id cr BlockProposal (as_bytes ''block-proposal-data''),
      compute_message_id cr FinalityVote (as_bytes ''finality-vote-data''),
      compute_message_id cr StateSync (as_bytes ''state-sync-data''),
      compute_message_id cr PeerDiscovery (as_bytes ''peer-discovery-data'')]"

section \<open>The state between tests\<close>

definition node_of :: "('k, 'd) validator \<Rightarrow> ('k, 'd) gossip_node" where
  "node_of v = \<lparr>nd_addr = [], nd_store = v_globals v\<rparr>"

definition track :: "('k, 'p, 'c, 's, 'd) crypto \<Rightarrow> nat \<Rightarrow> bytes set \<Rightarrow> u64 \<Rightarrow> ('k, 'd) validator \<Rightarrow> bool" where
  "track cr n S m v \<longleftrightarrow> v_passed v = n \<and> v_failed v = 0 \<and> peered cr {} (node_of v) \<and>
     (\<exists>e. gossip_state (v_globals v) = Some e \<and> (\<forall>i. hm_get i (dc_entries (dedup e)) \<noteq> None \<longrightarrow> i \<in> S) \<and>
        messages_published (stats e) = m)"

lemma trackE:
  assumes "track cr n S m v"
  obtains e where "globals_inv cr (v_globals v)" "gossip_state (v_globals v) = Some e" "engine_inv e"
    "\<And>a. sessions_get a (sessions e) = None" "64 \<le> rc_max_message_bytes (config e)"
    "rc_replay_window_ms (config e) = 30000" "rc_default_ttl (config e) = 8"
    "\<And>i. hm_get i (dc_entries (dedup e)) \<noteq> None \<Longrightarrow> i \<in> S" "messages_published (stats e) = m"
proof -
  have p: "peered cr {} (node_of v)" using assms by (simp add: track_def)
  obtain e where e: "globals_inv cr (nd_store (node_of v))" "gossip_state (nd_store (node_of v)) = Some e" "engine_inv e"
    "\<And>a. sessions_get a (sessions e) \<noteq> None \<longleftrightarrow> a \<in> {}" "64 \<le> rc_max_message_bytes (config e)"
    "rc_replay_window_ms (config e) = 30000" "rc_default_ttl (config e) = 8" by (rule peeredE [OF p]) (rule that)
  then have st: "gossip_state (v_globals v) = Some e" by (simp add: node_of_def)
  with assms have d: "(\<forall>i. hm_get i (dc_entries (dedup e)) \<noteq> None \<longrightarrow> i \<in> S) \<and> messages_published (stats e) = m"
    by (simp add: track_def)
  show thesis by (rule that [OF _ st e(3)]) (use e d in \<open>auto simp: node_of_def\<close>)
qed

lemma track_pass:
  assumes "track cr n S m v" and "gossip_state (v_globals v) = Some e"
    and "good cr (x, (v_globals v)\<lparr>gossip_state := Some e'\<rparr>)" and "config e' = config e" and "sessions e' = sessions e"
    and "\<And>i. hm_get i (dc_entries (dedup e')) \<noteq> None \<Longrightarrow> i \<in> S'" and "messages_published (stats e') = m'"
  shows "track cr (Suc n) S' m' (pass (v\<lparr>v_globals := (v_globals v)\<lparr>gossip_state := Some e'\<rparr>\<rparr>))"
  using assms by (auto simp: track_def pass_def peered_def node_of_def good_def)

lemma track_same: "track cr n S m v \<Longrightarrow> track cr (Suc n) S m (pass v)"
  by (simp add: track_def pass_def node_of_def)

lemma on_globals_run: "f (v_globals v) = (r, g) \<Longrightarrow> on_globals f v = (r, v\<lparr>v_globals := g\<rparr>)"
  by (simp add: on_globals_def)

lemma on_globals_query: "f (v_globals v) = (r, v_globals v) \<Longrightarrow> on_globals f v = (r, v)"
  by (simp add: on_globals_def)

section \<open>The first tests\<close>

lemma test_2_passes:
  assumes lab: "lab_laws cr bc js hj kk sk" and mesh: "mesh_laws cr bc js hj"
    and v: "v_globals v = globals_init" "v_passed v = n" "v_failed v = 0"
  obtains v' where "test_2 cr js env v = Ok v'" and "track cr (Suc n) {} 0 v'"
proof -
  obtain nd where nd: "invoke [] (gossip_init cr js (fst (ve_keys env 2)) (snd (ve_keys env 2)) ''{}'') (node_fresh []) = (Inr (), nd)"
    and a: "nd_addr nd = []" and p: "peered cr {} nd" "unpublished nd" and z: "messages_published (stats (the (gossip_state (nd_store nd)))) = 0"
    by (rule generated_node [OF lab mesh mesh_lawsD(5) [OF mesh], of "[]" "fst (ve_keys env 2)" "snd (ve_keys env 2)" "[]"])
       (simp add: unwrap_or_def, rule that)
  then have run: "gossip_init cr js (fst (ve_keys env 2)) (snd (ve_keys env 2)) ''{}'' globals_init = (Ok (), nd_store nd)"
    by (auto simp: invoke_def node_fresh_def split: prod.splits elim: node_result.elims)
  let ?v = "pass (v\<lparr>v_globals := nd_store nd\<rparr>)"
  have "node_of ?v = nd" using a by (simp add: node_of_def pass_def)
  then have "track cr (Suc n) {} 0 ?v"
    using p z v unfolding track_def unpublished_def by (auto simp: pass_def)
  moreover have "test_2 cr js env v = Ok ?v" by (simp add: test_2_def on_globals_run [where g = "nd_store nd"] v run)
  ultimately show thesis using that by blast
qed

text \<open>The id the API reports is well-formed whatever keys the node runs on.\<close>

lemma derived_id_valid:
  "lab_laws cr bc js hj kk sk \<Longrightarrow> validator_laws cr bc js hj \<Longrightarrow> valid_id (derive_node_id cr k d)"
  by (simp add: valid_id_def derive_node_id_length lab_lawsD) (simp add: derive_node_id_def validator_lawsD)

lemma reported_id:
  assumes lab: "lab_laws cr bc js hj kk sk" and val: "validator_laws cr bc js hj"
    and inv: "globals_inv cr (v_globals v)" and st: "gossip_state (v_globals v) = Some e"
  obtains t x where "on_globals (gossip_get_node_identity cr js) v = (Ok t, v)" and "hj_object hj t = Inr x"
    and "str_or_empty x ''node_id'' = ni_node_id (identity e)" and "valid_id (ni_node_id (identity e))"
proof -
  have n: "gossip_state (nd_store (node_of v)) = Some e" using st by (simp add: node_of_def)
  obtain x where x: "node_get_node_identity cr js hj (node_of v) = (Inr x, node_of v)" and f: "field x ''node_id'' = JStr (ni_node_id (identity e))"
    by (rule identity_view [OF lab_lawsD(8,10) [OF lab] n])
  obtain t where t: "gossip_get_node_identity cr js (v_globals v) = (Ok t, v_globals v)" and px: "hj_object hj t = Inr x"
    using x unfolding node_get_node_identity_def invoke_def
    by (cases "gossip_get_node_identity cr js (v_globals v)"; cases "fst (gossip_get_node_identity cr js (v_globals v))")
       (auto simp: node_of_def split: sum.splits)
  obtain l where l: "lineage_inv cr l" "kl_node_id l = ni_node_id (identity e)"
    using globals_inv_Some [OF inv st] by (auto simp: agrees_def)
  then have "valid_id (ni_node_id (identity e))"
    using derived_id_valid [OF lab val] by (metis lineage_inv_def)
  then show thesis using that [OF on_globals_query [of "gossip_get_node_identity cr js", OF t] px] f by (simp add: str_or_empty_def)
qed

lemma test_3_passes:
  assumes lab: "lab_laws cr bc js hj kk sk" and val: "validator_laws cr bc js hj" and v: "track cr n S m v"
  shows "test_3 cr js hj v = Ok (pass v)"
proof -
  obtain e where e: "globals_inv cr (v_globals v)" "gossip_state (v_globals v) = Some e" by (rule trackE [OF v]) (rule that)
  obtain t x where "on_globals (gossip_get_node_identity cr js) v = (Ok t, v)" "hj_object hj t = Inr x"
    "str_or_empty x ''node_id'' = ni_node_id (identity e)" "valid_id (ni_node_id (identity e))"
    by (rule reported_id [OF lab val e])
  then show ?thesis by (simp add: test_3_def tick_def)
qed

lemma publish_test_passes:
  assumes lab: "lab_laws cr bc js hj kk sk" and v: "track cr n S m v"
    and new: "compute_message_id cr pt (as_bytes p) \<notin> S" and small: "length p \<le> 64"
  obtains v' where "publish_test cr clock pt p v = Ok v'" and "track cr (Suc n) (insert (compute_message_id cr pt (as_bytes p)) S) (m + 1) v'"
proof -
  obtain e where e: "globals_inv cr (v_globals v)" "gossip_state (v_globals v) = Some e" "engine_inv e"
    "64 \<le> rc_max_message_bytes (config e)" "\<And>i. hm_get i (dc_entries (dedup e)) \<noteq> None \<Longrightarrow> i \<in> S" "messages_published (stats e) = m"
    by (rule trackE [OF v]) (rule that)
  let ?t = "current_time_unix_ms clock" and ?i = "compute_message_id cr pt (as_bytes p)"
  have dd: "dedup_inv (dedup e)" by (rule engine_invD(4) [OF e(3)])
  have "hm_get ?i (dc_entries (dedup e)) = None" using e(5) new by blast
  then have "\<not> fst (is_duplicate ?i ?t (dedup e))" using dd by (simp add: is_duplicate_iff)
  note fresh = publish_fresh [OF from_u8_as_u8 _ this]
  obtain sg where "sign cr (identity e) (?i @ as_u8 pt # as_bytes p) SIG_CTX_MESSAGE = Ok sg"
    using lab_lawsD(13) [OF lab] by (fastforce simp: sign_def)
  then obtain env where env: "build_envelope cr pt (as_bytes p) (identity e) (rc_default_ttl (config e)) ?t = Ok env"
    by (auto simp: build_envelope_Ok)
  define e' where "e' = e\<lparr>dedup := dedup_insert ?i ?t (evict_expired ?t (dedup e)),
    stats := (stats e)\<lparr>messages_published := messages_published (stats e) + 1\<rparr>\<rparr>"
  have run: "publish cr (as_u8 pt) (as_bytes p) ?t e = (Ok ?i, e')" using fresh small e(4) env by (simp add: Let_def e'_def)
  then have g: "gossip_publish cr clock (as_u8 pt) (as_bytes p) (v_globals v) = (Ok ?i, (v_globals v)\<lparr>gossip_state := Some e'\<rparr>)"
    using e(2) by (simp add: gossip_publish_def with_engine_def with_engine_and_def)
  have gd: "good cr (Ok ?i, (v_globals v)\<lparr>gossip_state := Some e'\<rparr>)" using good_calls(1) [OF e(1)] g by metis
  have ids: "j \<in> insert ?i S" if "hm_get j (dc_entries (dedup e')) \<noteq> None" for j
    using that dd e(5) [of j] by (auto simp: e'_def get_dedup_insert get_evict split: if_splits)
  have "track cr (Suc n) (insert ?i S) (m + 1) (pass (v\<lparr>v_globals := (v_globals v)\<lparr>gossip_state := Some e'\<rparr>\<rparr>))"
    by (rule track_pass [OF v e(2) gd _ _ ids]) (simp_all add: e'_def e(6))
  moreover have "length ?i = 32" using hash_lawsD(1) [OF lab_lawsD(1) [OF lab]] by (simp add: compute_message_id_def)
  ultimately show thesis using that by (simp add: publish_test_def on_globals_def g tick_def)
qed

section \<open>Envelopes\<close>

text \<open>The envelope of test 9.\<close>

definition envelope_9 :: "('k, 'p, 'c, 's, 'd) crypto \<Rightarrow> codec \<Rightarrow> validator_env \<Rightarrow> bytes \<Rightarrow> bool" where
  "envelope_9 cr bc env eb \<longleftrightarrow> eb \<noteq> [] \<and> (\<exists>key i. signed_by cr bc key i (ve_clock env 9) eb) \<and>
     (\<exists>(i :: ('k, 'd) node_identity) t v. build_envelope cr Transaction (as_bytes ''encode-test-payload'') i 8 t = Ok v \<and>
        ser_envelope bc v = Inr eb \<and> de_envelope bc eb = Inr v)"

lemma test_9_passes:
  assumes lab: "lab_laws cr bc js hj kk sk" and val: "validator_laws cr bc js hj" and v: "track cr n S m v"
  obtains eb where "test_9 cr bc env v = Ok (eb, pass v)" and "envelope_9 cr bc env eb"
proof -
  obtain e where e: "gossip_state (v_globals v) = Some e" "rc_default_ttl (config e) = 8" by (rule trackE [OF v]) (rule that)
  let ?p = "as_bytes ''encode-test-payload''"
  have small: "length ?p \<le> 64" by simp
  obtain eb where g: "gossip_encode_envelope cr bc (ve_clock env 9) (as_u8 Transaction) ?p (v_globals v) = (Ok eb, v_globals v)"
    and sg: "signed_by cr bc (sig_public_key_bytes cr (identity e)) (ni_node_id (identity e)) (ve_clock env 9) eb"
    by (rule encoded_envelope [OF lab_lawsD(3,5,8) [OF lab] lab_lawsD(9) [OF lab] e from_u8_as_u8 small])
  obtain pt x where x: "from_u8 (as_u8 Transaction) = Some pt"
    "build_envelope cr pt ?p (identity e) (rc_default_ttl (config e)) (current_time_unix_ms (ve_clock env 9)) = Ok x"
    "ser_envelope bc x = Inr eb" by (rule gossip_encode_envelope_Ok [OF g e(1)])
  have ne: "eb \<noteq> []" by (rule validator_lawsD(2) [OF val x(3)])
  have "build_envelope cr Transaction ?p (identity e) 8 (current_time_unix_ms (ve_clock env 9)) = Ok x"
    using x(2) e(2) x(1) [unfolded from_u8_as_u8] by simp
  then have "envelope_9 cr bc env eb"
    using ne sg x(3) bincode_lawsD(1) [OF lab_lawsD(5) [OF lab] x(3)] unfolding envelope_9_def by blast
  moreover have "test_9 cr bc env v = Ok (eb, pass v)" using ne g by (simp add: test_9_def on_globals_def)
  ultimately show thesis using that by blast
qed

lemma test_10_passes:
  assumes val: "validator_laws cr bc js hj" and v: "track cr n S m v" and eb: "envelope_9 cr bc env eb"
  shows "test_10 bc js hj eb v = Ok (pass v)"
proof -
  obtain e where e: "gossip_state (v_globals v) = Some e" by (rule trackE [OF v]) (rule that)
  obtain x where x: "de_envelope bc eb = Inr x" "env_version x = 1" and ne: "eb \<noteq> []"
    using eb by (auto simp: envelope_9_def build_envelope_Ok)
  obtain t y where t: "json_of_envelope js x = Inr t" "hj_object hj t = Inr y" "field y ''version'' = JU64 (ucast (env_version x))"
    using validator_lawsD(3) [OF val] by blast
  have "gossip_decode_envelope bc js eb (v_globals v) = (Ok t, v_globals v)"
    using e x(1) t(1) by (simp add: gossip_decode_envelope_def with_engine_def with_engine_and_def decode_envelope_to_json_def decode_envelope_def)
  then show ?thesis using ne t x(2) by (simp add: test_10_def on_globals_def u64_or_zero_def tick_def)
qed

lemma test_11_passes:
  assumes v: "track cr n S m v" and eb: "envelope_9 cr bc env eb" and clk: "clocks_within 30000 (ve_clock env)"
  obtains v' where "test_11 cr bc env eb v = Ok v'" and "track cr (Suc n) S m v'"
proof -
  obtain e where e: "globals_inv cr (v_globals v)" "gossip_state (v_globals v) = Some e" "64 \<le> rc_max_message_bytes (config e)"
    "rc_replay_window_ms (config e) = 30000" "\<And>i. hm_get i (dc_entries (dedup e)) \<noteq> None \<Longrightarrow> i \<in> S" "messages_published (stats e) = m"
    by (rule trackE [OF v]) (rule that)
  obtain key i where sg: "signed_by cr bc key i (ve_clock env 9) eb" and ne: "eb \<noteq> []" using eb by (auto simp: envelope_9_def)
  obtain x where x: "de_envelope bc eb = Inr x" "verify_envelope cr x (config e) (current_time_unix_ms (ve_clock env 11)) = Ok True"
    using sg e(3,4) clocks_withinD [OF clk] by (force simp: signed_by_def)
  have g: "gossip_verify_envelope cr bc (ve_clock env 11) eb (v_globals v) = (Ok True, (v_globals v)\<lparr>gossip_state := Some (receive_message e)\<rparr>)"
    using e(2) x by (simp add: gossip_verify_envelope_def with_engine_def with_engine_and_def verify_envelope_bytes_cases)
  have gd: "good cr (Ok True, (v_globals v)\<lparr>gossip_state := Some (receive_message e)\<rparr>)" using good_calls(4) [OF e(1)] g by metis
  have "track cr (Suc n) S m (pass (v\<lparr>v_globals := (v_globals v)\<lparr>gossip_state := Some (receive_message e)\<rparr>\<rparr>))"
    by (rule track_pass [OF v e(2) gd]) (use e(5,6) in \<open>auto simp: receive_message_def\<close>)
  then show thesis using that ne by (simp add: test_11_def on_globals_def g tick_def)
qed

lemma test_12_passes:
  assumes v: "track cr n S m v" and eb: "envelope_9 cr bc env eb" and tam: "tampering_detected cr bc"
  obtains v' where "test_12 cr bc env eb v = Ok v'" and "track cr (Suc n) S m v'"
proof -
  obtain e where e: "globals_inv cr (v_globals v)" "gossip_state (v_globals v) = Some e"
    "\<And>i. hm_get i (dc_entries (dedup e)) \<noteq> None \<Longrightarrow> i \<in> S" "messages_published (stats e) = m" by (rule trackE [OF v]) (rule that)
  have ne: "eb \<noteq> []" using eb by (simp add: envelope_9_def)
  let ?c = "ve_clock env 12" and ?t = "current_time_unix_ms (ve_clock env 12)"
  have "verify_envelope cr y (config e) ?t \<noteq> Ok True" if "de_envelope bc (tampered eb) = Inr y" for y
  proof
    assume "verify_envelope cr y (config e) ?t = Ok True"
    then have "sig_verify cr (env_sender_public_key y) (tagged_message SIG_CTX_MESSAGE (signing_input y)) (env_signature y) = SigOk"
      by (simp add: verify_envelope_True)
    with tam eb that show False unfolding tampering_detected_def envelope_9_def by blast
  qed
  then obtain r e' where run: "verify_envelope_bytes cr bc (tampered eb) ?t e = (r, e')" and r: "r \<noteq> Ok True"
      and e': "e' = e \<or> e' = drop_message e"
    unfolding verify_envelope_bytes_cases by (cases "de_envelope bc (tampered eb)") auto
  have g: "gossip_verify_envelope cr bc ?c (tampered eb) (v_globals v) = (r, (v_globals v)\<lparr>gossip_state := Some e'\<rparr>)"
    using e(2) run by (simp add: gossip_verify_envelope_def with_engine_def with_engine_and_def)
  have gd: "good cr (r, (v_globals v)\<lparr>gossip_state := Some e'\<rparr>)" using good_calls(4) [OF e(1)] g by metis
  have "track cr (Suc n) S m (pass (v\<lparr>v_globals := (v_globals v)\<lparr>gossip_state := Some e'\<rparr>\<rparr>))"
    by (rule track_pass [OF v e(2) gd]) (use e(3,4) e' in \<open>auto simp: drop_message_def\<close>)
  moreover have "r \<noteq> Panic" using gd by (simp add: good_def)
  ultimately show thesis using that ne r by (cases r) (auto simp: test_12_def on_globals_def g tick_def)
qed

section \<open>Reports\<close>

lemma heartbeat_published: "messages_published (stats (heartbeat now e)) = messages_published (stats e)"
  by (simp add: heartbeat_def Let_def graft_eq sync_peer_stats_def split: prod.splits)

lemma test_13_passes:
  assumes val: "validator_laws cr bc js hj" and v: "track cr n S m v" and five: "5 \<le> m"
  obtains v' where "test_13 js hj env v = Ok v'" and "track cr (Suc n) S m v'"
proof -
  obtain e where e: "globals_inv cr (v_globals v)" "gossip_state (v_globals v) = Some e" "engine_inv e"
    "\<And>i. hm_get i (dc_entries (dedup e)) \<noteq> None \<Longrightarrow> i \<in> S" "messages_published (stats e) = m" by (rule trackE [OF v]) (rule that)
  let ?e = "heartbeat (current_time_unix_ms (ve_clock env 13)) e"
  obtain t x where t: "json_of_stats js (stats ?e) = Inr t" "hj_object hj t = Inr x"
    "field x ''messages_published'' = JU64 (messages_published (stats ?e))" using validator_lawsD(4) [OF val] by blast
  have g: "gossip_get_stats js (ve_clock env 13) (v_globals v) = (Ok t, (v_globals v)\<lparr>gossip_state := Some ?e\<rparr>)"
    using e(2) t by (simp add: gossip_get_stats_def with_engine_def with_engine_and_def get_stats_json_def Let_def)
  have gd: "good cr (Ok t, (v_globals v)\<lparr>gossip_state := Some ?e\<rparr>)" using good_calls(2) [OF e(1)] g by metis
  have "track cr (Suc n) S m (pass (v\<lparr>v_globals := (v_globals v)\<lparr>gossip_state := Some ?e\<rparr>\<rparr>))"
    by (rule track_pass [OF v e(2) gd]) (use e(4,5) get_evict [OF engine_invD(4) [OF e(3)]] in \<open>auto simp: heartbeat_published\<close>)
  then show thesis using that five t e(5) by (simp add: test_13_def on_globals_def g u64_or_zero_def heartbeat_published tick_def)
qed

lemma test_14_passes:
  assumes val: "validator_laws cr bc js hj" and v: "track cr n S m v"
  shows "test_14 js hj v = Ok (pass v)"
proof -
  obtain e where e: "gossip_state (v_globals v) = Some e" by (rule trackE [OF v]) (rule that)
  obtain t k where t: "json_of_peers js (active_peers (sessions e)) = Inr t" "hj_array hj t = Inr (Some k)"
    using validator_lawsD(5) [OF val] by blast
  have "gossip_get_peers js (v_globals v) = (Ok t, v_globals v)"
    using e by (simp add: gossip_get_peers_def with_engine_def with_engine_and_def get_peers_json_def t(1))
  then show ?thesis using t(2) by (simp add: test_14_def on_globals_def tick_def)
qed

section \<open>Handshakes\<close>

lemma generated_identity:
  assumes lab: "lab_laws cr bc js hj kk sk" and mesh: "mesh_laws cr bc js hj"
  obtains i where "identity_generate cr kr sr ep = Ok i" and "self_certified cr i" and "length (sig_public_key_bytes cr i) = 1952"
proof -
  obtain k d where kd: "kem_generate cr kr = Inr k" "sig_generate cr sr = Inr d" using mesh_lawsD(3,4) [OF mesh] by metis
  obtain b where b: "kem_public_key_bytes cr (kem_public_key cr k) = Ok b"
    using canonical_bytes_size(1) [OF lab_lawsD(4) [OF lab], of "\<lparr>ni_node_id = [], ni_kem_keypair = k, ni_sig_keypair = d, ni_key_epoch = []\<rparr>"]
    by (auto simp: kem_public_key_canonical_bytes_def)
  obtain i where i: "identity_generate cr kr sr ep = Ok i" and c: "self_certified cr i"
    using kd b by (simp add: identity_generate_def identity_of_keypairs_def self_certified_def
        kem_public_key_canonical_bytes_def sig_public_key_bytes_def)
  show thesis by (rule that [OF i c]) (use canonical_bytes_size(2) [OF lab_lawsD(4) [OF lab], of i] in \<open>simp add: SIG_PK_LEN_def\<close>)
qed

text \<open>Tests 15 and 16: the probe of the engine and the answer of a fresh manager to it.\<close>

lemma engine_key_length:
  assumes "lab_laws cr bc js hj kk sk"
  shows "length (sig_public_key_bytes cr (i :: ('k, 'd) node_identity)) = 1952"
  using canonical_bytes_size(2) [OF lab_lawsD(4) [OF assms], of i] by (simp add: SIG_PK_LEN_def)

definition probe_15 :: "codec \<Rightarrow> validator_env \<Rightarrow> bytes \<Rightarrow> bool" where
  "probe_15 bc env b \<longleftrightarrow> (\<exists>p. ser_probe bc p = Inr b \<and> probe_magic p = HANDSHAKE_PROBE_MAGIC \<and> probe_version p = 1 \<and>
     probe_timestamp_unix_ms p = current_time_unix_ms (ve_clock env 15))"

lemma magic_nonempty:
  assumes "magic_first ser mg" and "ser v = Inr b"
  shows "b \<noteq> []"
proof -
  obtain r where "b = to_le_bytes (word_of_nat (length (mg v))) @ mg v @ r" using assms unfolding magic_first_def by blast
  then have "8 \<le> length b" by simp
  then show ?thesis by auto
qed

lemma test_15_passes:
  assumes lab: "lab_laws cr bc js hj kk sk" and mesh: "mesh_laws cr bc js hj" and v: "track cr n S m v"
    and nonce: "ve_nonce env 15 = Inr cn"
  obtains b v' where "test_15 bc env v = Ok (b, v')" and "probe_15 bc env b" and "b \<noteq> []" and "track cr (Suc n) S m v'"
proof -
  obtain e where e: "globals_inv cr (v_globals v)" "gossip_state (v_globals v) = Some e" "\<And>a. sessions_get a (sessions e) = None"
    "\<And>i. hm_get i (dc_entries (dedup e)) \<noteq> None \<Longrightarrow> i \<in> S" "messages_published (stats e) = m" by (rule trackE [OF v]) (rule that)
  let ?t = "current_time_unix_ms (ve_clock env 15)" and ?a = "''test-peer-15:9000''"
  obtain b where w: "ser_probe bc (probe_msg cn ?a (identity e) ?t) = Inr b" using lab_lawsD(8) [OF lab] unfolding externals_total_def by blast
  define m1 where "m1 = put_pending ?a (Client (ProbeSent cn b ?t)) (handshakes e)"
  have b: "build_probe bc (Inr cn) ?a (identity e) ?t (handshakes e) = (Ok b, m1)" using w by (simp add: build_probe_Ok m1_def)
  have ne: "b \<noteq> []" using w mesh_lawsD(1) [OF mesh] magic_nonempty [of "ser_probe bc"] unfolding layout_laws_def by blast
  have g: "gossip_connect_peer bc (ve_clock env 15) (ve_nonce env 15) ?a (v_globals v) = (Ok b, (v_globals v)\<lparr>gossip_state := Some (e\<lparr>handshakes := m1\<rparr>)\<rparr>)"
    using e(2,3) b nonce by (simp add: gossip_connect_peer_def with_engine_def with_engine_and_def connect_peer_def on_handshakes_def)
  have "good cr (gossip_connect_peer bc (ve_clock env 15) (ve_nonce env 15) ?a (v_globals v))"
    unfolding gossip_connect_peer_def by (rule kept_connect.api.runs_good [OF e(1)])
  then have gd: "good cr (Ok b, (v_globals v)\<lparr>gossip_state := Some (e\<lparr>handshakes := m1\<rparr>)\<rparr>)" using g by simp
  have "track cr (Suc n) S m (pass (v\<lparr>v_globals := (v_globals v)\<lparr>gossip_state := Some (e\<lparr>handshakes := m1\<rparr>)\<rparr>\<rparr>))"
    by (rule track_pass [OF v e(2) gd]) (use e(4,5) in auto)
  moreover have "probe_15 bc env b" using w unfolding probe_15_def by fastforce
  ultimately show thesis using that ne by (simp add: test_15_def on_globals_def g)
qed

text \<open>From here on it is enough that the engine is there.\<close>

definition alive :: "('k, 'p, 'c, 's, 'd) crypto \<Rightarrow> nat \<Rightarrow> ('k, 'd) validator \<Rightarrow> bool" where
  "alive cr n v \<longleftrightarrow> v_passed v = n \<and> v_failed v = 0 \<and> globals_inv cr (v_globals v) \<and> gossip_state (v_globals v) \<noteq> None"

lemma track_alive: "track cr n S m v \<Longrightarrow> alive cr n v"
  by (auto simp: track_def alive_def peered_def node_of_def)

lemma alive_pass: "alive cr n v \<Longrightarrow> alive cr (Suc n) (pass v)"
  by (simp add: alive_def pass_def)

lemma test_16_passes:
  assumes lab: "lab_laws cr bc js hj kk sk" and mesh: "mesh_laws cr bc js hj" and v: "alive cr n v"
    and b: "probe_15 bc env b" "b \<noteq> []" and nonce: "ve_nonce env 16 = Inr sn" and clk: "clocks_within 30000 (ve_clock env)"
  obtains v' where "test_16 cr bc env b v = Ok v'" and "alive cr (Suc n) v'"
proof -
  let ?a = "''test-peer-15:9000''" and ?t = "\<lambda>i. current_time_unix_ms (ve_clock env i)"
  obtain s where s: "identity_generate cr (fst (ve_keys env 16)) (snd (ve_keys env 16)) ''test'' = Ok s" by (rule generated_identity [OF lab mesh])
  obtain p where p: "ser_probe bc p = Inr b" "probe_magic p = HANDSHAKE_PROBE_MAGIC" "probe_version p = 1"
    "probe_timestamp_unix_ms p = ?t 15" using b(1) by (auto simp: probe_15_def)
  have fr: "fresh_timestamp (?t 16) (?t 15)" using clocks_withinD [OF clk] by (auto simp: fresh_iff)
  obtain j where j: "kem_pk_to_json cr (kem_public_key cr (ni_kem_keypair s)) = Inr j"
    using lab_lawsD(8) [OF lab] unfolding externals_total_def by blast
  obtain ack where w: "ser_ack bc (ack_msg cr (probe_client_nonce p) sn j s (?t 16)) = Inr ack"
    using lab_lawsD(8) [OF lab] unfolding externals_total_def by blast
  have ack: "\<exists>m1. process_probe_build_ack cr bc (Inr sn) ?a b s (?t 16) manager_new = (Ok ack, m1)"
    using bincode_lawsD(2) [OF lab_lawsD(5) [OF lab] p(1)] p fr j w by (simp add: process_probe_Ok)
  have ne: "ack \<noteq> []" using w mesh_lawsD(1) [OF mesh] magic_nonempty [of "ser_ack bc"] unfolding layout_laws_def by blast
  have "classify_incoming b = KindHandshakeProbe"
    using p(1,2) mesh_lawsD(1) [OF mesh] by (auto simp: layout_laws_def intro: magic_first_classify)
  then have in1: "fst (process_incoming cr bc (Inr sn) (ve_coins env 16) ?a b s (?t 16) manager_new) = Ok ack"
    using ack by (auto simp: process_incoming_def)
  let ?call = "gossip_process_handshake_bytes cr bc (ve_clock env 116) (ve_nonce env 116) (ve_coins env 116) ?a ack"
  obtain r g where g: "?call (v_globals v) = (r, g)" by (cases "?call (v_globals v)")
  have "good cr (?call (v_globals v))"
    unfolding gossip_process_handshake_bytes_def by (rule kept_process.api.runs_good) (use v in \<open>simp add: alive_def\<close>)
  then have gd: "globals_inv cr g" "r \<noteq> Panic" using g by (auto simp: good_def)
  obtain e where e: "gossip_state (v_globals v) = Some e" using v by (auto simp: alive_def)
  have "gossip_state g \<noteq> None"
    using g e by (auto simp: gossip_process_handshake_bytes_def with_engine_def with_engine_and_def split: prod.splits)
  with gd v have "alive cr (Suc n) (pass v\<lparr>v_globals := g\<rparr>)" by (simp add: alive_def pass_def)
  moreover have "on_globals ?call (pass v) = (r, pass v\<lparr>v_globals := g\<rparr>)" using g by (simp add: on_globals_def pass_def)
  then have "test_16 cr bc env b v = Ok (pass v\<lparr>v_globals := g\<rparr>)"
    using b(2) ne gd(2) by (cases r) (simp_all add: test_16_def s nonce in1)
  ultimately show thesis using that by blast
qed

text \<open>Test 17: a handshake between two managers.\<close>

lemma incoming_kinds:
  "classify_incoming b = KindHandshakeProbe \<Longrightarrow> process_incoming cr bc rand rng a b i t m = process_probe_build_ack cr bc rand a b i t m"
  "classify_incoming b = KindHandshakeAck \<Longrightarrow> process_incoming cr bc rand rng a b i t m = process_ack_build_finish cr bc rng a b i t m"
  "classify_incoming b = KindHandshakeFinish \<Longrightarrow> process_finish_build_finish_ack cr bc a b i t m = (Ok (x, s), m') \<Longrightarrow>
     process_incoming cr bc rand rng a b i t m = (Ok x, put_completed a s m')"
  "classify_incoming b = KindHandshakeFinishAck \<Longrightarrow> process_finish_ack cr bc a b t m = (Ok s, m') \<Longrightarrow>
     process_incoming cr bc rand rng a b i t m = (Ok [], put_completed a s m')"
  by (simp_all add: process_incoming_def)

lemma server_session_id_length:
  "hash_laws cr \<Longrightarrow> hex_laws cr \<Longrightarrow> process_finish_build_finish_ack cr bc a fb i t m = (Ok (b, s), m') \<Longrightarrow> length (sr_session_id s) = 64"
  by (auto simp: process_finish_Ok derive_session_id_length)

lemma managers_shake_hands:
  fixes alice bob :: "('k, 'd) node_identity"
  assumes lab: "lab_laws cr bc js hj kk sk" and mesh: "mesh_laws cr bc js hj" and clk: "clocks_within 30000 (ve_clock env)"
    and nonce: "ve_nonce env 17 = Inr cn" "ve_nonce env 117 = Inr sn"
  obtains ah bh sa sb where "roundtrip_17 cr bc env alice bob = (Ok (), ah, bh)" and "get_session ''bob'' ah = Some sa"
    and "get_session ''alice'' bh = Some sb" and "sr_session_id sa = sr_session_id sb" and "length (sr_session_id sb) = 64"
proof -
  let ?t = "current_time_unix_ms (ve_clock env 17)" and ?t1 = "current_time_unix_ms (ve_clock env 117)"
  have fr: "fresh_timestamp ?t ?t1" "fresh_timestamp ?t ?t" using clocks_withinD [OF clk] by (auto simp: fresh_iff)
  obtain probe ack fin fack mc1 ms1 mc2 ms2 mc3 sc ss where
    s: "build_probe bc (Inr cn) ''bob'' alice ?t1 manager_new = (Ok probe, mc1)"
       "process_probe_build_ack cr bc (Inr sn) ''alice'' probe bob ?t manager_new = (Ok ack, ms1)"
       "process_ack_build_finish cr bc (ve_coins env 217) ''bob'' ack alice ?t mc1 = (Ok fin, mc2)"
       "process_finish_build_finish_ack cr bc ''alice'' fin bob ?t ms1 = (Ok (fack, ss), ms2)"
       "process_finish_ack cr bc ''bob'' fack ?t mc2 = (Ok sc, mc3)"
    and eq: "sr_session_id sc = sr_session_id ss \<and> sr_transcript_hash sc = sr_transcript_hash ss \<and>
       sr_peer_addr sc = ''bob'' \<and> sr_peer_addr ss = ''alice'' \<and> sr_is_active sc \<and> sr_is_active ss \<and>
       sr_peer_sig_public_key sc = sig_public_key_bytes cr bob \<and> sr_peer_node_id sc = ni_node_id bob \<and>
       sr_peer_sig_public_key ss = sig_public_key_bytes cr alice \<and> sr_peer_node_id ss = ni_node_id alice"
    and wire: "\<exists>p. ser_probe bc p = Inr probe \<and> probe_magic p = HANDSHAKE_PROBE_MAGIC"
       "\<exists>k. ser_ack bc k = Inr ack \<and> ack_magic k = HANDSHAKE_ACK_MAGIC"
       "\<exists>f. ser_finish bc f = Inr fin \<and> fin_magic f = HANDSHAKE_FINISH_MAGIC"
       "\<exists>g. ser_finish_ack bc g = Inr fack \<and> fack_magic g = HANDSHAKE_FINISH_ACK_MAGIC"
    using honest_exchange [OF lab_lawsD(5) [OF lab] mesh_lawsD(2) [OF mesh] lab_lawsD(3,8) [OF lab] engine_key_length [OF lab]
        engine_key_length [OF lab] fr(1) fr(2) fr(2) fr(2), of cn "''bob''" alice manager_new sn "''alice''" bob manager_new
        "ve_coins env 217"] by blast
  have kinds: "classify_incoming probe = KindHandshakeProbe" "classify_incoming ack = KindHandshakeAck"
    "classify_incoming fin = KindHandshakeFinish" "classify_incoming fack = KindHandshakeFinishAck"
    using wire mesh_lawsD(1) [OF mesh] by (auto simp: layout_laws_def intro: magic_first_classify)
  let ?a = "put_completed ''bob'' sc mc3" and ?b = "put_completed ''alice'' ss ms2"
  have run: "roundtrip_17 cr bc env alice bob = (Ok (), ?a, ?b)"
    by (simp add: roundtrip_17_def Let_def create_identity_probe_def nonce s(1-3) incoming_kinds(1) [OF kinds(1)]
        incoming_kinds(2) [OF kinds(2)] incoming_kinds(3) [OF kinds(3) s(4)] incoming_kinds(4) [OF kinds(4) s(5)])
  have "get_session ''bob'' ?a = Some sc" "get_session ''alice'' ?b = Some ss" by (simp_all add: get_session_def put_completed_def)
  with run conjunct1 [OF eq] server_session_id_length [OF lab_lawsD(1,2) [OF lab] s(4)] that show thesis by blast
qed

lemma test_17_passes:
  assumes lab: "lab_laws cr bc js hj kk sk" and mesh: "mesh_laws cr bc js hj" and clk: "clocks_within 30000 (ve_clock env)"
    and nonce: "ve_nonce env 17 = Inr cn" "ve_nonce env 117 = Inr sn"
  shows "test_17 cr bc env v = Ok (pass v)"
proof -
  obtain alice where a: "identity_generate cr (fst (ve_keys env 17)) (snd (ve_keys env 17)) ''test'' = Ok alice" by (rule generated_identity [OF lab mesh])
  obtain bob where b: "identity_generate cr (fst (ve_keys env 117)) (snd (ve_keys env 117)) ''test'' = Ok bob" by (rule generated_identity [OF lab mesh])
  obtain ah bh sa sb where r: "roundtrip_17 cr bc env alice bob = (Ok (), ah, bh)" "get_session ''bob'' ah = Some sa"
    "get_session ''alice'' bh = Some sb" "sr_session_id sa = sr_session_id sb" "length (sr_session_id sb) = 64"
    by (rule managers_shake_hands [OF lab mesh clk nonce])
  then have "manager_is_handshake_complete ''bob'' ah" "manager_is_handshake_complete ''alice'' bh"
    by (simp_all add: manager_is_handshake_complete_def manager_is_complete_def get_session_def)
  with r a b show ?thesis by (simp add: test_17_def tick_def)
qed

section \<open>The last tests\<close>

lemma test_18_passes:
  assumes lab: "lab_laws cr bc js hj kk sk" and v: "alive cr n v"
  shows "test_18 js v = Ok (pass v)"
proof -
  obtain e where e: "gossip_state (v_globals v) = Some e" using v by (auto simp: alive_def)
  have j: "\<exists>t. json_of_object js x = Inr t" for x using lab_lawsD(10) [OF lab] unfolding host_json_laws_def by blast
  obtain r where g: "gossip_get_session js ''nonexistent-peer:9999'' (v_globals v) = (r, v_globals v)"
      and r: "(\<exists>t. r = Ok t) \<or> r = Err (SessionNotFound ''nonexistent-peer:9999'')"
  proof (cases "sessions_get ''nonexistent-peer:9999'' (sessions e)")
    case None
    then show thesis using that e by (simp add: gossip_get_session_def with_engine_def with_engine_and_def get_session_json_def)
  next
    case (Some s)
    obtain t where "get_session_json js ''nonexistent-peer:9999'' e = Ok t" using Some j by (force simp: get_session_json_def)
    then show thesis using that e by (simp add: gossip_get_session_def with_engine_def with_engine_and_def)
  qed
  then show ?thesis by (auto simp: test_18_def on_globals_def)
qed

lemma test_19_20_pass:
  assumes lab: "lab_laws cr bc js hj kk sk" and mesh: "mesh_laws cr bc js hj" and val: "validator_laws cr bc js hj" and v: "alive cr n v"
  obtains i v' where "test_19 cr env v = Ok (i, v')" and "test_20 cr js hj i v' = Ok (pass v')" and "alive cr (Suc n) v'"
proof -
  obtain e where inv: "globals_inv cr (v_globals v)" and e: "gossip_state (v_globals v) = Some e" using v by (auto simp: alive_def)
  obtain k where k: "identity_generate cr (fst (ve_keys env 19)) (snd (ve_keys env 19)) (rc_key_epoch (config e)) = Ok k"
    and c: "self_certified cr k" by (rule generated_identity [OF lab mesh])
  obtain l where l: "from_identity cr k = Ok l" using from_identity_succeeds [OF lab_lawsD(4) [OF lab] c] by blast
  let ?g = "(v_globals v)\<lparr>gossip_state := Some (e\<lparr>identity := k\<rparr>), lineage := Some l\<rparr>"
  have g: "gossip_rotate_keys cr (fst (ve_keys env 19)) (snd (ve_keys env 19)) (v_globals v) = (Ok (ni_node_id k), ?g)"
    using e k l by (simp add: gossip_rotate_keys_def with_engine_and_def rotate_keys_def)
  have inv': "globals_inv cr ?g"
    using gossip_rotate_keys_good [OF inv lab_lawsD(4) [OF lab], of "fst (ve_keys env 19)" "snd (ve_keys env 19)"] g by simp
  let ?v = "pass (v\<lparr>v_globals := ?g\<rparr>)"
  have a: "alive cr (Suc n) ?v" using v inv' by (simp add: alive_def pass_def)
  have st: "globals_inv cr (v_globals ?v)" "gossip_state (v_globals ?v) = Some (e\<lparr>identity := k\<rparr>)" using inv' by (simp_all add: pass_def)
  obtain t x where q: "on_globals (gossip_get_node_identity cr js) ?v = (Ok t, ?v)" "hj_object hj t = Inr x"
    "str_or_empty x ''node_id'' = ni_node_id k" "valid_id (ni_node_id k)"
    by (rule reported_id [OF lab val st]) (use that in simp)
  then have ne: "ni_node_id k \<noteq> []" by (auto simp: valid_id_def)
  show thesis
    by (rule that [OF _ _ a, of "ni_node_id k"]) (use q ne in \<open>simp_all add: test_19_def test_20_def on_globals_def [of "gossip_rotate_keys _ _ _"] g tick_def\<close>)
qed

section \<open>The program\<close>

text \<open>The random source works in the tests that need it.\<close>

definition nonces_drawn :: "validator_env \<Rightarrow> bool" where
  "nonces_drawn env \<longleftrightarrow> (\<forall>i \<in> {15, 16, 17, 117}. \<exists>n. ve_nonce env i = Inr n)"

text \<open>The five publications, one of each payload type.\<close>

lemma publish_tests_pass:
  assumes lab: "lab_laws cr bc js hj kk sk" and ids: "distinct (published_ids cr)" and v3: "track cr 3 {} 0 v3"
  obtains v4 v5 v6 v7 v8 where "test_4 cr env v3 = Ok v4" and "test_5 cr env v4 = Ok v5" and "test_6 cr env v5 = Ok v6"
    and "test_7 cr env v6 = Ok v7" and "test_8 cr env v7 = Ok v8" and "track cr 8 (set (published_ids cr)) 5 v8"
proof -
  note d = ids [unfolded published_ids_def, simplified]
  obtain v4 where 4: "test_4 cr env v3 = Ok v4" and v4: "track cr 4 {published_ids cr ! 0} 1 v4"
    by (rule publish_test_passes [OF lab v3, of Transaction "''tx-payload-data''" "ve_clock env 4"]) (use that in \<open>simp_all add: test_4_def published_ids_def numeral_eq_Suc\<close>)
  obtain v5 where 5: "test_5 cr env v4 = Ok v5" and v5: "track cr 5 (set (take 2 (published_ids cr))) 2 v5"
    by (rule publish_test_passes [OF lab v4, of BlockProposal "''block-proposal-data''" "ve_clock env 5"])
       (use that d in \<open>auto simp: test_5_def published_ids_def insert_commute\<close>)
  obtain v6 where 6: "test_6 cr env v5 = Ok v6" and v6: "track cr 6 (set (take 3 (published_ids cr))) 3 v6"
    by (rule publish_test_passes [OF lab v5, of FinalityVote "''finality-vote-data''" "ve_clock env 6"])
       (use that d in \<open>auto simp: test_6_def published_ids_def insert_commute\<close>)
  obtain v7 where 7: "test_7 cr env v6 = Ok v7" and v7: "track cr 7 (set (take 4 (published_ids cr))) 4 v7"
    by (rule publish_test_passes [OF lab v6, of StateSync "''state-sync-data''" "ve_clock env 7"])
       (use that d in \<open>auto simp: test_7_def published_ids_def insert_commute\<close>)
  obtain v8 where 8: "test_8 cr env v7 = Ok v8" and v8: "track cr 8 (set (published_ids cr)) 5 v8"
    by (rule publish_test_passes [OF lab v7, of PeerDiscovery "''peer-discovery-data''" "ve_clock env 8"])
       (use that d in \<open>auto simp: test_8_def published_ids_def insert_commute\<close>)
  from that [OF 4 5 6 7 8 v8] show thesis .
qed

lemma validate_passes:
  assumes lab: "lab_laws cr bc js hj kk sk" and mesh: "mesh_laws cr bc js hj" and val: "validator_laws cr bc js hj"
    and tam: "tampering_detected cr bc" and ids: "distinct (published_ids cr)"
    and clk: "clocks_within 30000 (ve_clock env)" and nonces: "nonces_drawn env"
  shows "validate cr bc js hj env = Ok (20, 0)"
proof -
  let ?v0 = "\<lparr>v_globals = globals_init, v_passed = 0, v_failed = 0\<rparr>"
  obtain n15 n16 n17 n117 where n: "ve_nonce env 15 = Inr n15" "ve_nonce env 16 = Inr n16" "ve_nonce env 17 = Inr n17" "ve_nonce env 117 = Inr n117"
    using nonces by (auto simp: nonces_drawn_def)
  have 1: "test_1 ?v0 = Ok (pass ?v0)" by (simp add: test_1_def tick_def gossip_get_version_def)
  obtain v2 where 2: "test_2 cr js env (pass ?v0) = Ok v2" and v2: "track cr (Suc 1) {} 0 v2"
    by (rule test_2_passes [OF lab mesh, of "pass ?v0" 1]) (simp_all add: pass_def)
  note 3 = test_3_passes [OF lab val v2] and v3 = track_same [OF v2]
  from v3 have v3': "track cr 3 {} 0 (pass v2)" by (simp add: numeral_eq_Suc)
  obtain v4 v5 v6 v7 v8 where 4: "test_4 cr env (pass v2) = Ok v4" and 5: "test_5 cr env v4 = Ok v5"
    and 6: "test_6 cr env v5 = Ok v6" and 7: "test_7 cr env v6 = Ok v7" and 8: "test_8 cr env v7 = Ok v8"
    and v8: "track cr 8 (set (published_ids cr)) 5 v8"
    by (rule publish_tests_pass [OF lab ids v3'])
  obtain eb where 9: "test_9 cr bc env v8 = Ok (eb, pass v8)" and eb: "envelope_9 cr bc env eb" by (rule test_9_passes [OF lab val v8])
  note v9 = track_same [OF v8]
  note 10 = test_10_passes [OF val v9 eb] and v10 = track_same [OF v9]
  obtain v11 where 11: "test_11 cr bc env eb (pass (pass v8)) = Ok v11" and v11: "track cr 11 (set (published_ids cr)) 5 v11"
    by (rule test_11_passes [OF v10 eb clk]) (use that in simp)
  obtain v12 where 12: "test_12 cr bc env eb v11 = Ok v12" and v12: "track cr 12 (set (published_ids cr)) 5 v12"
    by (rule test_12_passes [OF v11 eb tam]) (use that in simp)
  obtain v13 where 13: "test_13 js hj env v12 = Ok v13" and v13: "track cr 13 (set (published_ids cr)) 5 v13"
    by (rule test_13_passes [OF val v12, of env]) (use that in simp_all)
  note 14 = test_14_passes [OF val v13] and v14 = track_same [OF v13]
  obtain pb v15 where 15: "test_15 bc env (pass v13) = Ok (pb, v15)" and pb: "probe_15 bc env pb" "pb \<noteq> []" and v15: "track cr 15 (set (published_ids cr)) 5 v15"
    by (rule test_15_passes [OF lab mesh v14 n(1)]) (use that in simp)
  obtain v16 where 16: "test_16 cr bc env pb v15 = Ok v16" and v16: "alive cr 16 v16"
    by (rule test_16_passes [OF lab mesh track_alive [OF v15] pb n(2) clk]) (use that in simp)
  note 17 = test_17_passes [OF lab mesh clk n(3,4), of v16] and v17 = alive_pass [OF v16]
  note 18 = test_18_passes [OF lab v17] and v18 = alive_pass [OF v17]
  obtain i v19 where 19: "test_19 cr env (pass (pass v16)) = Ok (i, v19)" and 20: "test_20 cr js hj i v19 = Ok (pass v19)" and v19: "alive cr 19 v19"
    by (rule test_19_20_pass [OF lab mesh val v18, of env]) (use that in simp)
  from v19 have "v_passed (pass v19) = 20" "v_failed (pass v19) = 0" by (simp_all add: alive_def pass_def)
  then show ?thesis
    by (simp add: validate_def 1 2 3 4 5 6 7 8 9 10 11 12 13 14 15 16 17 18 19 20)
qed

end
