(* ===== verification/Scenario_Properties.thy ===== *)
theory Scenario_Properties
  imports Validator_Facts Instance
begin

text \<open>
  The test program of the host and the validator of the API, and an instance of their laws.
\<close>

section \<open>A concrete host\<close>

definition enc_value :: "json_value \<Rightarrow> bytes" where
  "enc_value v = (case v of JStr s \<Rightarrow> 0 # enc_str s | JU64 w \<Rightarrow> 1 # to_le_bytes w | JBool b \<Rightarrow> [2, of_bool b] | JNull \<Rightarrow> [3])"

fun dec_value :: "json_value dec" where
  "dec_value [] = None"
| "dec_value (t # bs) =
     (if t = 0 then dec_map JStr dec_str bs
      else if t = 1 then dec_map JU64 dec_u64 bs
      else if t = 2 then dec_map (\<lambda>b. JBool (b = 1)) dec_u8 bs
      else Some (JNull, bs))"

lemma undoes_value: "undoes dec_value enc_value"
  unfolding undoes_def
proof (intro allI)
  fix v r
  show "dec_value (enc_value v @ r) = Some (v, r)"
    using undoesD [OF undoes_str] undoesD [OF undoes_u64]
    by (cases v) (auto simp: enc_value_def dec_map_def)
qed

abbreviation enc_object :: "json_object \<Rightarrow> bytes" where "enc_object \<equiv> enc_list (enc_pair enc_str enc_value)"
abbreviation dec_object :: "json_object dec" where "dec_object \<equiv> dec_list' (dec_pair dec_str dec_value)"

lemma undoes_object: "undoes dec_object enc_object"
  by (intro undoes_list undoes_pair undoes_str undoes_value)

definition hj1 :: host_json where
  "hj1 = \<lparr>hj_render = (\<lambda>v. chars (enc_object v)), hj_object = (\<lambda>s. whole dec_object (as_bytes s)),
     hj_list = (\<lambda>s. whole (dec_list' dec_object) (as_bytes s)),
     hj_array = (\<lambda>s. map_sum id (\<lambda>ps. Some (length ps)) (whole (dec_list' dec_object) (as_bytes s)))\<rparr>"

definition str_field :: "json_object \<Rightarrow> string \<Rightarrow> string option" where
  "str_field v k = (case map_of v k of Some (JStr s) \<Rightarrow> Some s | _ \<Rightarrow> None)"

definition u64_field :: "json_object \<Rightarrow> string \<Rightarrow> u64 option" where
  "u64_field v k = (case map_of v k of Some (JU64 n) \<Rightarrow> Some n | _ \<Rightarrow> None)"

definition config_of_object :: "json_object \<Rightarrow> gossip_config" where
  "config_of_object v = (settings (str_field v ''key_epoch'') (u64_field v ''replay_window_ms''))
     \<lparr>gc_kem_seed_hex := str_field v ''kem_seed_hex'', gc_sig_seed_hex := str_field v ''sig_seed_hex''\<rparr>"

definition js1 :: json where
  "js1 = js0
     \<lparr>json_parse_config := (\<lambda>s. if s = ''{}'' then Inr (settings None None) else map_sum id config_of_object (hj_object hj1 s)),
      json_of_identity := (\<lambda>v. Inr (hj_render hj1
        [(''node_id'', JStr (nip_node_id v)), (''kem_public_key_json'', JStr (nip_kem_public_key_json v)),
         (''sig_public_key_hex'', JStr (nip_sig_public_key_hex v)), (''key_epoch'', JStr (nip_key_epoch v))])),
      json_of_peers := (\<lambda>ps. Inr (chars (enc_list enc_object (map peer_object ps)))),
      json_of_stats := (\<lambda>v. Inr (hj_render hj1 [(''messages_published'', JU64 (messages_published v))])),
      json_of_envelope := (\<lambda>v. Inr (hj_render hj1 [(''version'', JU64 (ucast (env_version v)))])),
      json_of_object := (\<lambda>v. Inr (hj_render hj1 v))\<rparr>"

lemma render_parse: "hj_object hj1 (hj_render hj1 v) = Inr v"
  by (simp add: hj1_def whole_undoes undoes_object)

lemma render_nonempty: "hj_render hj1 v \<noteq> ''{}''"
proof
  assume "hj_render hj1 v = ''{}''"
  then have "as_bytes (hj_render hj1 v) = as_bytes ''{}''" by simp
  then have "enc_object v = as_bytes ''{}''" by (simp add: hj1_def)
  moreover have "hd (enc_object v) \<in> {0, 1}" by (cases v) auto
  ultimately show False by (simp add: as_bytes_def byte_of_def)
qed

lemma parse_render: "json_parse_config js1 (hj_render hj1 v) = Inr (config_of_object v)"
  by (simp add: js1_def render_parse render_nonempty)

lemma host_json_laws_1: "host_json_laws js1 hj1"
  unfolding host_json_laws_def
  by (simp add: parse_render) (simp add: js1_def render_parse config_of_object_def str_field_def u64_field_def settings_def seed_config_def)

lemma mesh_laws_1: "mesh_laws cr0 bc0 js1 hj1"
proof -
  have "json_parse_config js1 (mesh_config hj1 a) = Inr (settings (Some ''epoch-1'') (Some 30000))" for a
    unfolding mesh_config_def parse_render by (simp add: config_of_object_def str_field_def u64_field_def settings_def)
  moreover have "\<exists>s. json_of_peers js1 ps = Inr s \<and> hj_list hj1 s = Inr (map peer_object ps)" for ps
    by (simp add: js1_def hj1_def whole_undoes undoes_list undoes_object)
  moreover have "\<exists>s x. json_of_stats js1 v = Inr s \<and> hj_object hj1 s = Inr x" for v
    by (simp add: js1_def render_parse)
  moreover have "json_parse_config js1 ''{}'' = Inr (settings None None)" by (simp add: js1_def)
  ultimately show ?thesis
    by (simp add: mesh_laws_def layout_laws_bc0 laws_cr0) (simp add: cr0_def)
qed

definition kk1 :: "u8 \<Rightarrow> bytes" where "kk1 n = replicate 32 n @ replicate 64 (n + 100)"
definition sk1 :: "u8 \<Rightarrow> bytes" where "sk1 n = replicate 32 (n + 200)"

lemma seeds_ok_1: "seeds_ok cr0 kk1 sk1"
  by (simp add: seeds_ok_def kk1_def sk1_def cr0_def)

text \<open>A signature of the instance is the key and the message, so a verified record is small.\<close>

lemma verified_length:
  "verify_external cr0 k m s ctx = Ok True \<Longrightarrow> length s = length k + 2 + length ctx + length m"
  by (auto simp: verify_external_def cr0_def tagged_message_def split: if_splits sig_outcome.splits)

lemma verified_record_length:
  assumes "verify_next cr0 n s r = Ok s'" and "length n = 64" and "length (ks_sig_public_key s) = SIG_PK_LEN"
    and "length (kr_new_key_epoch r) \<le> 16" and "commitment_ok (kr_next_key_commitment r)"
  shows "length (enc_rotation r) \<le> 40000"
proof -
  note v = assms(1) [unfolded verify_next_Ok SIG_PK_LEN_def KEM_PK_LEN_def]
  have c: "length (put_commitment (kr_next_key_commitment r)) \<le> 33" "length (enc_opt (kr_next_key_commitment r)) \<le> 100"
    using assms(5) by (cases "kr_next_key_commitment r"; simp add: array32_def enc_map_def list_of_option_def)+
  have d: "length (kr_prev_state_digest r) = 32" using v by (simp add: state_digest_def)
  have m: "length (rotation_signing_input r) \<le> 3500"
    using v c(1) d assms(2,4) by (simp add: rotation_signing_input_def ROTATION_SIGNING_TAG_def)
  have p: "length (kr_possession r) \<le> 5700"
    using v m verified_length [of "kr_new_sig_public_key r" "rotation_signing_input r" "kr_possession r" SIG_CTX_KEY_POSSESSION]
    by simp
  have a: "length (kr_authorization r) \<le> 5700"
    using v m assms(3) verified_length [of "ks_sig_public_key s" "rotation_signing_input r" "kr_authorization r" SIG_CTX_KEY_ROTATION]
    by (cases "ks_next_key_commitment s") (simp_all add: authorized_by_def SIG_PK_LEN_def)
  show ?thesis
    using v c(2) d p a assms(2,4) by (simp add: enc_rotation_def enc_map_def enc_pair_def enc_u8_def)
qed

lemma verified_chain_length:
  assumes "chain (verify_next cr0 n) s rs = Ok s'" and "length n = 64" and "length (ks_sig_public_key s) = SIG_PK_LEN"
    and "\<forall>r \<in> set rs. length (kr_new_key_epoch r) \<le> 16 \<and> commitment_ok (kr_next_key_commitment r)"
  shows "length (enc_list enc_rotation rs) \<le> 40001 * length rs + 1"
  using assms
proof (induction rs arbitrary: s)
  case (Cons r rs)
  then obtain t where t: "verify_next cr0 n s r = Ok t" "chain (verify_next cr0 n) t rs = Ok s'" by auto
  then have "length (ks_sig_public_key t) = SIG_PK_LEN" by (auto simp: verify_next_Ok state_of_rotation_def)
  from Cons.IH [OF t(2) Cons.prems(2) this] verified_record_length [OF t(1) Cons.prems(2,3)] Cons.prems(4) show ?case by simp
qed simp

lemma lineage_size_law_0: "lineage_size_law cr0 bc0"
  unfolding lineage_size_law_def
proof (intro allI impI)
  fix l b
  assume inv: "lineage_inv cr0 l" and short: "short_epochs l" and few: "length (kl_rotations l) \<le> 3"
    and enc: "lineage_encode bc0 l = Ok b"
  note i = inv [unfolded lineage_inv_def Let_def]
  have "length (kl_node_id l) = 64" using i by (simp add: derive_node_id_length [OF laws_cr0(1,2)])
  moreover have "\<forall>r \<in> set (kl_rotations l). length (kr_new_key_epoch r) \<le> 16 \<and> commitment_ok (kr_next_key_commitment r)"
    using short by (simp add: short_epochs_def)
  ultimately have "length (enc_list enc_rotation (kl_rotations l)) \<le> 40001 * length (kl_rotations l) + 1"
    using verified_chain_length i by blast
  with i short few enc show "length b \<le> MAX_LINEAGE_BYTES"
    by (auto simp: lineage_encode_def bc0_def enc_lineage_def enc_map_def enc_pair_def enc_u8_def MAX_LINEAGE_BYTES_def
        short_epochs_def KEM_PK_LEN_def SIG_PK_LEN_def)
qed

lemma lab_laws_1: "lab_laws cr0 bc0 js1 hj1 kk1 sk1"
  by (simp add: lab_laws_def laws_cr0 bincode_laws_bc0 lineage_laws_bc0 externals_total_0 host_json_laws_1 seeds_ok_1
      lineage_size_law_0) (simp add: bc0_def)

lemma keys_differ_1: "keys_differ cr0 sk1"
proof -
  have "pk cr0 sk1 n = pad 1952 (replicate 32 (n + 200))" for n by (simp add: pk_def sk1_def cr0_def)
  moreover have "hd (pad 1952 (replicate 32 (x :: u8))) = x" for x by (simp add: hd_pad)
  ultimately have h: "hd (pk cr0 sk1 n) = n + 200" for n by simp
  have "key_commitment cr0 (pk cr0 sk1 n) ! 28 = n + 200" for n
  proof -
    have "pk cr0 sk1 n \<noteq> []" by (simp add: pk_def sk1_def cr0_def pad_def)
    then show ?thesis
      using h [of n] by (simp add: key_commitment_def cr0_def COMMITMENT_TAG_def as_bytes_def pad_def hd_conv_nth nth_append)
  qed
  note c = this
  have "pk cr0 sk1 n = pk cr0 sk1 m \<longleftrightarrow> n = m" for n m by (metis h add_right_cancel)
  moreover have "key_commitment cr0 (pk cr0 sk1 n) = key_commitment cr0 (pk cr0 sk1 m) \<longleftrightarrow> n = m" for n m
    by (metis c add_right_cancel)
  ultimately show ?thesis by (simp add: keys_differ_def)
qed

text \<open>Clocks that advance by ten milliseconds a reading.\<close>

definition clk1 :: "nat \<Rightarrow> nat option" where
  "clk1 i = Some (5000 + 10 * (i mod 50))"

lemma clocks_within_1: "clocks_within 30000 clk1"
proof -
  have m: "i mod 50 < 50" for i :: nat by simp
  have "unat (current_time_unix_ms (clk1 i)) = 5000 + 10 * (i mod 50)" for i
  proof -
    have "5000 + 10 * (i mod 50) < 2 ^ 64" using m [of i] by simp
    then show ?thesis unfolding current_time_unix_ms_def clk1_def option.simps by (simp only: unat_of_nat) simp
  qed
  moreover have "10 * (j mod 50) \<le> (30000 :: nat) + 10 * (i mod 50)" for i j :: nat using m [of j] by simp
  ultimately show ?thesis by (simp add: clocks_within_def)
qed

section \<open>The test program\<close>

text \<open>C39. The whole test program runs to its end: three nodes with fresh random keys start with a
  configuration that has fields the component does not know, shake hands pairwise and list both
  others, one publishes and encodes a message the other two accept, it disconnects one peer and no
  longer lists it, an older host starts the component and its envelope is accepted. Then a fourth node
  signs, rotates under its id to a second key and commits to a third, is refused an uncommitted key
  (with its lineage unchanged), is refused a restart on the retired seeds, restarts on the new ones
  with the same id, rotates to the committed key, and after that key is lost is recovered with the one
  committed next; at every stage the other nodes accept what the current key signs and refuse what a
  retired or not yet announced key signs. The hypotheses are a readable file that wasmtime loads (and that is the
  component built from these sources), the documented behaviour of the crates, readings of the clock within the replay window of 30 seconds, fresh handshakes, and that the seeded keys differ.\<close>

theorem test_program_passes:
  assumes "read path = Inr wasm_bytes" and "loads (wasmtime wasm_bytes)"
    and "lab_laws cr bc js hj kk sk" and "mesh_laws cr bc js hj" and "keys_differ cr sk"
    and "clocks_within 30000 clk" and "\<And>n. handshake_env_ok (me_handshake env n)"
  shows "main_run cr bc js hj read wasmtime clk env [program, path] = Tested AllPassed"
  using run_tests_passes [OF assms(2-7)] assms(1) by (simp add: main_run_def)

text \<open>A file and an image that loads.\<close>

definition read1 :: "string \<Rightarrow> string + bytes" where
  "read1 path = (if path = ''witan.wasm'' then Inr [0, 97, 115, 109] else Inl ''not found'')"

definition wasmtime1 :: "bytes \<Rightarrow> wasm_image" where
  "wasmtime1 b = \<lparr>img_from_binary = (if b = [0, 97, 115, 109] then Inr () else Inl ''magic''), img_add_to_linker = Inr (),
     img_instantiate = Inr (), img_instantiate_legacy = Inr ()\<rparr>"

definition env1 :: mesh_env where
  "env1 = \<lparr>me_keys = (\<lambda>a. (as_bytes a, as_bytes a)), me_handshake = (\<lambda>n.
     \<lparr>he_clock1 = Some 1000, he_clock2 = Some 1010, he_clock3 = Some 1020, he_clock4 = Some 1030, he_clock5 = Some 1040,
      he_client_nonce = Inr (replicate 32 (word_of_nat n)), he_server_nonce = Inr (replicate 32 (word_of_nat (n + 100))),
      he_coins = replicate 32 3\<rparr>)\<rparr>"

theorem test_program_passes_witness:
  "main_run cr0 bc0 js1 hj1 read1 wasmtime1 clk1 env1 [''wasmtime-test'', ''witan.wasm''] = Tested AllPassed"
proof -
  have r: "read1 ''witan.wasm'' = Inr [0, 97, 115, 109]" by (simp add: read1_def)
  have l: "loads (wasmtime1 [0, 97, 115, 109])" by (simp add: loads_def wasmtime1_def)
  have "handshake_env_ok (me_handshake env1 n)" for n
    by (simp add: handshake_env_ok_def clocks_fresh_def fresh_iff env1_def current_time_unix_ms_def)
  then show ?thesis by (rule test_program_passes [where read = read1 and wasmtime = wasmtime1 and wasm_bytes = "[0, 97, 115, 109]", OF r l lab_laws_1 mesh_laws_1 keys_differ_1 clocks_within_1])
qed

section \<open>The validator of the API\<close>

text \<open>C40. The validator of the API passes its twenty tests and fails none: version, start, identity,
  publication of every payload type, encoding, decoding and verification of an envelope, refusal of a
  tampered one, counters, peers, a probe and its answer, a full handshake between two managers with
  one session id, an unknown session, a rotation and the new id. Beside the documented behaviour of
  the crates it needs that the ids of the five messages do not collide, that the tampered signature is
  not valid, and clock readings within 30 seconds of each other.\<close>

theorem validator_passes:
  assumes "lab_laws cr bc js hj kk sk" and "mesh_laws cr bc js hj" and "validator_laws cr bc js hj"
    and "tampering_detected cr bc" and "distinct (published_ids cr)"
    and "clocks_within 30000 (ve_clock env)" and "nonces_drawn env"
  shows "validate cr bc js hj env = Ok (20, 0)"
  by (rule validate_passes [OF assms])

text \<open>An encoding of envelopes with a checked trailer.\<close>

definition bc2 :: codec where
  "bc2 = bc0\<lparr>ser_envelope := (\<lambda>v. Inr (enc_envelope v @ replicate 16 0)),
     de_envelope := (\<lambda>b. if drop (length b - 16) b = replicate 16 0 then whole dec_envelope b else Inl ''invalid trailer'')\<rparr>"

lemma bc2_envelope: "roundtrip (ser_envelope bc2) (de_envelope bc2)"
  by (simp add: roundtrip_def bc2_def whole_def undoesD [OF undoes_envelope])

lemma bc2_laws: "bincode_laws bc2" "lineage_codec_laws bc2" "lineage_ser_total bc2" "layout_laws bc2" "externals_total cr0 bc2"
  "lineage_size_law cr0 bc2"
proof -
  show "bincode_laws bc2" using bincode_laws_bc0 bc2_envelope by (simp add: bincode_laws_def bc2_def)
  show "lineage_codec_laws bc2" "lineage_ser_total bc2"
    using lineage_laws_bc0 by (simp_all add: lineage_codec_laws_def lineage_ser_total_def bc2_def)
  show "layout_laws bc2" using layout_laws_bc0 by (simp add: layout_laws_def bc2_def)
  show "externals_total cr0 bc2" using externals_total_0 by (simp add: externals_total_def bc2_def)
  have "lineage_encode bc2 = lineage_encode bc0" by (intro ext) (simp add: lineage_encode_def bc2_def)
  then show "lineage_size_law cr0 bc2" using lineage_size_law_0 by (simp add: lineage_size_law_def)
qed

lemma lab_laws_2: "lab_laws cr0 bc2 js1 hj1 kk1 sk1"
  by (simp add: lab_laws_def laws_cr0 bc2_laws host_json_laws_1 seeds_ok_1) (simp add: bc2_def)

lemma mesh_laws_2: "mesh_laws cr0 bc2 js1 hj1"
  using mesh_laws_1 bc2_laws(4) by (simp add: mesh_laws_def)

lemma hex_enc_digits: "list_all is_ascii_hexdigit (hex_enc b)"
proof -
  have "\<forall>n \<in> set [0..<16]. is_ascii_hexdigit (hex_digit n)" by code_simp
  then have d: "is_ascii_hexdigit (hex_digit n)" if "n < 16" for n using that by simp
  have "unat w div 16 < 16" for w :: u8 using unsigned_less [of w, where ?'a = nat] by simp
  then show ?thesis by (induction b) (simp_all add: d)
qed

lemma validator_laws_2: "validator_laws cr0 bc2 js1 hj1"
proof -
  have "\<exists>s n. json_of_peers js1 ps = Inr s \<and> hj_array hj1 s = Inr (Some n)" for ps
    by (simp add: js1_def hj1_def whole_undoes undoes_list undoes_object)
  moreover have "list_all is_ascii_hexdigit (hex_encode cr0 b)" for b using hex_enc_digits by (simp add: cr0_def)
  moreover have "ser_envelope bc2 v = Inr b \<Longrightarrow> b \<noteq> []" for v b by (auto simp: bc2_def)
  moreover have "\<exists>s x. json_of_envelope js1 v = Inr s \<and> hj_object hj1 s = Inr x \<and> field x ''version'' = JU64 (ucast (env_version v))" for v
    by (simp add: js1_def render_parse field_def)
  moreover have "\<exists>s x. json_of_stats js1 v = Inr s \<and> hj_object hj1 s = Inr x \<and> field x ''messages_published'' = JU64 (messages_published v)" for v
    by (simp add: js1_def render_parse field_def)
  ultimately show ?thesis unfolding validator_laws_def by blast
qed

lemma tampering_detected_2: "tampering_detected cr0 bc2"
proof -
  have "de_envelope bc2 (tampered b) = Inl ''invalid trailer''" if "ser_envelope bc2 v = Inr b" for v b
    using that by (auto simp: bc2_def tampered_def)
  then show ?thesis unfolding tampering_detected_def by force
qed

lemma published_ids_0: "distinct (published_ids cr0)"
proof -
  have "hd (compute_message_id cr0 t p) = as_u8 t" for t p by (simp add: compute_message_id_def cr0_def hd_pad)
  then have "distinct (map hd (published_ids cr0))" by (simp add: published_ids_def)
  then show ?thesis by (simp only: distinct_map)
qed

definition env2 :: validator_env where
  "env2 = \<lparr>ve_keys = (\<lambda>n. ([word_of_nat n], [word_of_nat n])), ve_nonce = (\<lambda>n. Inr (replicate 32 (word_of_nat n))),
     ve_coins = (\<lambda>n. replicate 32 (word_of_nat n)), ve_clock = clk1\<rparr>"

theorem validator_passes_witness: "validate cr0 bc2 js1 hj1 env2 = Ok (20, 0)"
proof -
  have "clocks_within 30000 (ve_clock env2)" "nonces_drawn env2"
    using clocks_within_1 by (simp_all add: env2_def nonces_drawn_def)
  with validator_passes [OF lab_laws_2 mesh_laws_2 validator_laws_2 tampering_detected_2 published_ids_0] show ?thesis by blast
qed

end
