(* ===== verification/History.thy ===== *)
theory History
  imports Component
begin

text \<open>
  Histories of a network of components. A node is a component with its own global state; a history is
  the list of the calls the hosts made, each with the state it met and the outcome it had. Arguments
  are arbitrary, so whatever an attacker may deliver is covered. What a handshake in progress
  remembers is explained by earlier calls of the same node, and the counters of a node are the numbers
  of its calls of each kind.
\<close>

section \<open>Histories\<close>

record ('k, 'd) event =
  ev_node :: nat
  ev_call :: export_call
  ev_before :: "('k, 'd) globals"
  ev_outcome :: outcome

inductive history ::
    "('k, 'p, 'c, 's, 'd) crypto \<Rightarrow> codec \<Rightarrow> json \<Rightarrow> ('k, 'd) event list \<Rightarrow> (nat \<Rightarrow> ('k, 'd) globals) \<Rightarrow> bool"
  for cr bc js where
  Nothing: "history cr bc js [] (\<lambda>n. globals_init)"
| Called: "history cr bc js tr st \<Longrightarrow> component_call cr bc js c (st n) = (r, g') \<Longrightarrow>
    history cr bc js (tr @ [\<lparr>ev_node = n, ev_call = c, ev_before = st n, ev_outcome = r\<rparr>]) (st(n := g'))"
| Reordered: "history cr bc js tr st \<Longrightarrow> gossip_state (st n) = Some e \<Longrightarrow> reordered e e' \<Longrightarrow>
    history cr bc js tr (st(n := (st n)\<lparr>gossip_state := Some e'\<rparr>))"

text \<open>The history of a schedule of calls.\<close>

fun drive ::
    "('k, 'p, 'c, 's, 'd) crypto \<Rightarrow> codec \<Rightarrow> json \<Rightarrow> (nat \<times> export_call) list \<Rightarrow> (nat \<Rightarrow> ('k, 'd) globals) \<Rightarrow>
     ('k, 'd) event list \<times> (nat \<Rightarrow> ('k, 'd) globals)" where
  "drive cr bc js [] st = ([], st)"
| "drive cr bc js ((n, c) # calls) st =
     (case component_call cr bc js c (st n) of (r, g') \<Rightarrow>
      case drive cr bc js calls (st(n := g')) of (tr, st') \<Rightarrow>
      (\<lparr>ev_node = n, ev_call = c, ev_before = st n, ev_outcome = r\<rparr> # tr, st'))"

lemma history_drive:
  "history cr bc js tr st \<Longrightarrow> drive cr bc js calls st = (tr', st') \<Longrightarrow> history cr bc js (tr @ tr') st'"
proof (induction cr bc js calls st arbitrary: tr tr' st' rule: drive.induct)
  case (2 cr bc js n c calls st)
  obtain r g' where c: "component_call cr bc js c (st n) = (r, g')" by force
  obtain tr2 st2 where d: "drive cr bc js calls (st(n := g')) = (tr2, st2)" by force
  from "2.IH" [OF c [symmetric] history.Called [OF "2.prems"(1) c] d] "2.prems"(2) c d show ?case by simp
qed simp

lemma drive_calls: "drive cr bc js calls st = (tr, st') \<Longrightarrow> map (\<lambda>ev. (ev_node ev, ev_call ev)) tr = calls"
  by (induction cr bc js calls st arbitrary: tr st' rule: drive.induct) (auto split: prod.splits)

text \<open>The bytes of a peer a call delivers, and the bytes it answers with.\<close>

fun delivered :: "export_call \<Rightarrow> (string \<times> bytes) option" where
  "delivered (GossipProcessHandshakeBytes clock rand rng a b) = Some (a, b)"
| "delivered (GossipBuildHandshakeAck clock rand a b) = Some (a, b)"
| "delivered (GossipBuildFinishAck clock a b) = Some (a, b)"
| "delivered _ = None"

fun answer :: "outcome \<Rightarrow> bytes option" where
  "answer (Returned (VReply r)) = r"
| "answer (Returned (VBytes b)) = Some b"
| "answer _ = None"

text \<open>Node \<open>n\<close> opened a handshake with \<open>a\<close> by sending \<open>b\<close>; it got \<open>b\<close> from \<open>a\<close> and answered \<open>r\<close>.\<close>

definition opened :: "('k, 'd) event \<Rightarrow> nat \<Rightarrow> string \<Rightarrow> bytes \<Rightarrow> bool" where
  "opened ev n a b \<longleftrightarrow> ev_node ev = n \<and> (\<exists>clock rand. ev_call ev = GossipConnectPeer clock rand a) \<and>
     answer (ev_outcome ev) = Some b"

definition answered :: "('k, 'd) event \<Rightarrow> nat \<Rightarrow> string \<Rightarrow> bytes \<Rightarrow> bytes \<Rightarrow> bool" where
  "answered ev n a b r \<longleftrightarrow> ev_node ev = n \<and> delivered (ev_call ev) = Some (a, b) \<and> answer (ev_outcome ev) = Some r"

section \<open>The origin of a handshake in progress\<close>

text \<open>What a pending context says about the calls before it.\<close>

fun explained :: "('k, 'd) event list \<Rightarrow> nat \<Rightarrow> string \<Rightarrow> handshake_context \<Rightarrow> bool" where
  "explained tr n a (Client (ProbeSent cn pb t)) = (\<exists>k < length tr. opened (tr ! k) n a pb)"
| "explained tr n a (Client (FinishSent cn sn cb ss pb ab fb pk nid t)) =
     (\<exists>k0 k1. k0 < k1 \<and> k1 < length tr \<and> opened (tr ! k0) n a pb \<and> answered (tr ! k1) n a ab fb)"
| "explained tr n a (Server (AckSent cn sn pb ab t)) = (\<exists>k < length tr. answered (tr ! k) n a pb ab)"
| "explained tr n a _ = True"

text \<open>The contexts a call can add.\<close>

inductive added :: "export_call \<Rightarrow> outcome \<Rightarrow> handshake_manager \<Rightarrow> string \<Rightarrow> handshake_context \<Rightarrow> bool" where
  Probe: "answer r = Some pb \<Longrightarrow> added (GossipConnectPeer clock rand a) r m a (Client (ProbeSent cn pb t))"
| Ack: "delivered c = Some (a, pb) \<Longrightarrow> answer r = Some ab \<Longrightarrow> added c r m a (Server (AckSent cn sn pb ab t))"
| Finish: "delivered c = Some (a, ab) \<Longrightarrow> answer r = Some fb \<Longrightarrow>
    hm_get a (pending m) = Some (Client (ProbeSent cn pb t0)) \<Longrightarrow>
    added c r m a (Client (FinishSent cn sn cb ss pb ab fb pk nid t))"

text \<open>Every pending context of the second manager was pending in the first, or is new.\<close>

definition pending_from :: "(string \<Rightarrow> handshake_context \<Rightarrow> bool) \<Rightarrow> handshake_manager \<Rightarrow> handshake_manager \<Rightarrow> bool" where
  "pending_from new m m' \<longleftrightarrow>
     (\<forall>a ctx. hm_get a (pending m') = Some ctx \<longrightarrow> hm_get a (pending m) = Some ctx \<or> new a ctx)"

lemma pending_from_refl [simp, intro]: "pending_from new m m"
  by (simp add: pending_from_def)

lemma pending_from_take: "manager_inv m \<Longrightarrow> pending_from new m (take_pending a m)"
  by (auto simp: pending_from_def take_pending_def manager_inv_def hm.get_remove)

lemma pending_from_remove: "manager_inv m \<Longrightarrow> pending_from new m (manager_remove a m)"
  by (auto simp: pending_from_def manager_remove_def manager_inv_def hm.get_remove)

lemma pending_from_evict: "manager_inv m \<Longrightarrow> pending_from new m (snd (evict_timed_out now m))"
  by (auto simp: pending_from_def evict_timed_out_def manager_inv_def hm.get_retain_Some)

lemma pending_from_put: "new a ctx \<Longrightarrow> pending_from new m (put_pending a ctx m)"
  by (auto simp: pending_from_def put_pending_def hm.get_insert)

text \<open>A step that commits keeps the manager unless it succeeds; the others take the context out.\<close>

lemma pending_from_commit:
  assumes "\<And>x m'. commit r m = (Ok x, m') \<Longrightarrow> pending_from new m m'"
  shows "pending_from new m (snd (commit r m))"
  using assms by (cases r) auto

lemma pending_from_step:
  "manager_inv m \<Longrightarrow> pending_from new m (snd (process_finish_build_finish_ack cr bc a b i t m))"
  "manager_inv m \<Longrightarrow> pending_from new m (snd (process_finish_ack cr bc a b t m))"
  by (auto simp: process_finish_build_finish_ack_def process_finish_ack_def intro: pending_from_take split: res.splits)

lemma pending_from_probe:
  assumes "\<And>x m' cn t. build_probe bc rand a i now m = (Ok x, m') \<Longrightarrow> new a (Client (ProbeSent cn x t))"
  shows "pending_from new m (snd (build_probe bc rand a i now m))"
proof -
  have "pending_from new m m'" if "build_probe bc rand a i now m = (Ok x, m')" for x m'
    using that assms [OF that] by (auto simp: build_probe_Ok intro: pending_from_put)
  then show ?thesis unfolding build_probe_def by (rule pending_from_commit)
qed

lemma pending_from_ack:
  assumes "\<And>x m' cn sn t. process_probe_build_ack cr bc rand a b i now m = (Ok x, m') \<Longrightarrow> new a (Server (AckSent cn sn b x t))"
  shows "pending_from new m (snd (process_probe_build_ack cr bc rand a b i now m))"
proof -
  have "pending_from new m m'" if "process_probe_build_ack cr bc rand a b i now m = (Ok x, m')" for x m'
    using that assms [OF that] by (auto simp: process_probe_Ok intro: pending_from_put)
  then show ?thesis unfolding process_probe_build_ack_def by (rule pending_from_commit)
qed

lemma pending_from_finish:
  assumes "\<And>x m' cn sn cb ss pb pk nid t t0. process_ack_build_finish cr bc rng a b i now m = (Ok x, m') \<Longrightarrow>
      hm_get a (pending m) = Some (Client (ProbeSent cn pb t0)) \<Longrightarrow> new a (Client (FinishSent cn sn cb ss pb b x pk nid t))"
  shows "pending_from new m (snd (process_ack_build_finish cr bc rng a b i now m))"
proof -
  have "pending_from new m m'" if "process_ack_build_finish cr bc rng a b i now m = (Ok x, m')" for x m'
    using that assms [OF that] by (auto simp: process_ack_Ok intro: pending_from_put)
  then show ?thesis unfolding process_ack_build_finish_def by (rule pending_from_commit)
qed

subsection \<open>Calls on the engine\<close>

lemma keeps_handshakes [simp]:
  "handshakes (snd (publish cr t payload now e)) = handshakes e"
  "handshakes (snd (verify_envelope_bytes cr bc b now e)) = handshakes e"
  "handshakes (drop_message e) = handshakes e"
  "handshakes (store_finished s e) = handshakes e"
proof -
  show "handshakes (snd (publish cr t payload now e)) = handshakes e"
    by (cases rule: publish_cases [where t = t and e = e and payload = payload and cr = cr and now = now])
       (auto simp: publish_simps Let_def split: res.splits)
qed (simp_all add: verify_envelope_bytes_cases receive_message_def drop_message_def store_finished_def Let_def split: sum.splits)

lemma snd_then_do [simp]: "snd (then_do p (\<lambda>x s. (Ok (h x), s))) = snd p"
proof (cases p)
  case (Pair r s)
  then show ?thesis by (cases r) simp_all
qed

lemma handshakes_then_do:
  assumes "\<And>x s. handshakes (snd (f x s)) = handshakes s"
  shows "handshakes (snd (then_do p f)) = handshakes (snd p)"
  using assms by (cases "(p, f)" rule: then_do.cases) auto

lemma pending_from_process:
  assumes inv: "manager_inv (handshakes e)"
    and c: "c = GossipProcessHandshakeBytes clock rand rng a b" and r: "r = fst (process_handshake_bytes cr bc rand rng a b t e)"
  shows "pending_from (added c (outcome_of VReply r) (handshakes e)) (handshakes e)
    (handshakes (snd (process_handshake_bytes cr bc rand rng a b t e)))"
proof (cases "classify_incoming b")
  case KindHandshakeProbe
  then have p: "process_handshake_bytes cr bc rand rng a b t e =
      then_do (on_handshakes (process_probe_build_ack cr bc rand a b (identity e) t) e) (\<lambda>x e. (Ok (Some x), e))"
    by (simp add: process_handshake_bytes_def)
  have "pending_from (added c (outcome_of VReply r) (handshakes e)) (handshakes e)
      (snd (process_probe_build_ack cr bc rand a b (identity e) t (handshakes e)))"
    by (rule pending_from_ack) (auto simp: c r p on_handshakes_def intro: added.Ack)
  then show ?thesis by (simp add: p)
next
  case KindHandshakeAck
  then have p: "process_handshake_bytes cr bc rand rng a b t e =
      then_do (on_handshakes (process_ack_build_finish cr bc rng a b (identity e) t) e) (\<lambda>x e. (Ok (Some x), e))"
    by (simp add: process_handshake_bytes_def)
  have "pending_from (added c (outcome_of VReply r) (handshakes e)) (handshakes e)
      (snd (process_ack_build_finish cr bc rng a b (identity e) t (handshakes e)))"
    by (rule pending_from_finish) (auto simp: c r p on_handshakes_def intro: added.Finish)
  then show ?thesis by (simp add: p)
next
  case KindHandshakeFinish
  then show ?thesis
    using pending_from_step(1) [OF inv]
    by (auto simp: process_handshake_bytes_def handshakes_then_do split: prod.splits)
next
  case KindHandshakeFinishAck
  then show ?thesis
    using pending_from_step(2) [OF inv] by (simp add: process_handshake_bytes_def handshakes_then_do)
next
  case KindGossipEnvelope
  then show ?thesis by (simp add: process_handshake_bytes_def)
qed

subsection \<open>Calls on the component\<close>

text \<open>A call leaves a component without an engine, or starts one with no handshake, or lets the pending
  contexts of its engine grow by what it added.\<close>

definition origin_kept :: "export_call \<Rightarrow> ('k, 'd) globals \<Rightarrow> outcome \<times> ('k, 'd) globals \<Rightarrow> bool" where
  "origin_kept c g p \<longleftrightarrow>
     (case gossip_state (snd p) of
        None \<Rightarrow> True
      | Some e' \<Rightarrow> handshakes e' = manager_new \<or>
          (\<exists>e. gossip_state g = Some e \<and> pending_from (added c (fst p) (handshakes e)) (handshakes e) (handshakes e')))"

lemma origin_kept_same [simp]: "gossip_state g' = gossip_state g \<Longrightarrow> origin_kept c g (r, g')"
  by (auto simp: origin_kept_def split: option.splits)

lemma origin_kept_engine:
  assumes "\<And>e. gossip_state g = Some e \<Longrightarrow>
    pending_from (added c (outcome_of f (fst (run e))) (handshakes e)) (handshakes e) (handshakes (snd (run e)))"
  shows "origin_kept c g (deliver f (with_engine run g))"
  using assms
  by (auto simp: origin_kept_def deliver_def with_engine_def with_engine_and_def split: option.splits prod.splits)

lemma origin_kept_query [simp]: "origin_kept c g (deliver f (with_engine (\<lambda>e. (q e, e)) g))"
  by (rule origin_kept_engine) simp

lemma manager_of_inv: "globals_inv cr g \<Longrightarrow> gossip_state g = Some e \<Longrightarrow> manager_inv (handshakes e)"
  using globals_inv_Some engine_invD(2) by blast

subsection \<open>Calls that start an engine or replace its keys\<close>

definition started :: "('k, 'd) globals \<Rightarrow> ('k, 'd) globals \<Rightarrow> bool" where
  "started g g' \<longleftrightarrow> gossip_state g' = gossip_state g \<or>
     gossip_state g = None \<and> (\<exists>rc i. gossip_state g' = Some (engine_new rc i))"

lemma started_refl [simp]: "started g g"
  by (simp add: started_def)

lemma started_pure: "(\<And>x. m = Ok x \<Longrightarrow> started g (snd (f x g))) \<Longrightarrow> started g (snd (then_do (m, g) f))"
  by (cases m) auto

lemma started_install: "started g (snd (install rc i l g))"
  by (auto simp: started_def install_def with_lineage_def)

lemma started_init: "started g (snd (gossip_init cr js kr sr cfg g))"
  by (auto simp: gossip_init_def intro!: started_pure started_install)

lemma started_init_with_lineage: "started g (snd (gossip_init_with_lineage cr bc js cfg lb g))"
  by (auto simp: gossip_init_with_lineage_def Let_def intro!: started_pure started_install split: option.splits)

lemma origin_kept_started: "started g (snd p) \<Longrightarrow> origin_kept c g (deliver f p)"
  by (auto simp: started_def origin_kept_def deliver_def engine_new_def split: option.splits)

definition rekeyed :: "('k, 'd) globals \<Rightarrow> ('k, 'd) globals \<Rightarrow> bool" where
  "rekeyed g g' \<longleftrightarrow> (\<exists>f. gossip_state g' = map_option (\<lambda>e. e\<lparr>identity := f e\<rparr>) (gossip_state g))"

lemma rekeyedI:
  assumes "\<And>e l. \<exists>i. fst (snd (run (e, l))) = e\<lparr>identity := i\<rparr>"
  shows "rekeyed g (snd (with_engine_and run g))"
proof -
  obtain f where "fst (snd (run (e, l))) = e\<lparr>identity := f e l\<rparr>" for e l using assms by metis
  then have "gossip_state (snd (with_engine_and run g)) = map_option (\<lambda>e. e\<lparr>identity := f e (lineage g)\<rparr>) (gossip_state g)"
    by (auto simp: with_engine_and_def split: option.splits prod.splits) (metis fst_conv snd_conv)
  then show ?thesis unfolding rekeyed_def by (rule exI [where x = "\<lambda>e. f e (lineage g)"])
qed

lemma same_identity: "\<exists>i. e = e\<lparr>identity := i\<rparr>"
  by (rule exI [of _ "identity e"]) simp

lemma rekeyed_rotate: "rekeyed g (snd (gossip_rotate_keys cr kr sr g))"
  unfolding gossip_rotate_keys_def
  by (rule rekeyedI) (auto simp: rotate_keys_cases same_identity split: res.splits)

lemma rekeyed_same [simp]: "rekeyed g g"
  by (auto simp: rekeyed_def option.map_ident intro: exI [of _ identity])

lemma rotate_under_id_engine:
  "\<exists>i. fst (snd (rotate_keys_under_id cr nx c now (e, l))) = e\<lparr>identity := i\<rparr>"
  by (auto simp: rotate_keys_under_id_def same_identity split: res.splits prod.splits)

lemma encode_keeps_engine:
  "fst (snd (case p of
      (Ok x, e', updated) \<Rightarrow>
        (case lineage_encode bc updated of
           Ok bytes \<Rightarrow> (Ok bytes, e', Some updated)
         | Err err \<Rightarrow> (Err err, e', Some lin)
         | Panic \<Rightarrow> (Panic, e', Some lin))
    | (Err err, e', x) \<Rightarrow> (Err err, e', Some lin)
    | (Panic, e', x) \<Rightarrow> (Panic, e', Some lin))) = fst (snd p)"
  by (auto split: prod.splits res.splits)

lemma rekeyed_rotate_under_id: "rekeyed g (snd (gossip_rotate_keys_under_id cr bc clock ks ss ep c g))"
  unfolding gossip_rotate_keys_under_id_def
  by (intro then_do_state [where P = "rekeyed g"])
     (auto intro!: then_do_state [where P = "rekeyed g"] rekeyedI
       simp: encode_keeps_engine rotate_under_id_engine same_identity split: option.splits)

lemma origin_kept_rekeyed: "rekeyed g (snd p) \<Longrightarrow> origin_kept c g (deliver f p)"
  by (cases "gossip_state g") (auto simp: rekeyed_def origin_kept_def deliver_def)

lemma origin_kept_from_lineage:
  "origin_kept c g (deliver f (gossip_verify_envelope_from_lineage cr bc clock eb lb g))"
proof (cases "lineage_decode cr bc lb")
  case (Ok l)
  have "handshakes (snd (then_do (decode_envelope bc eb, e) (\<lambda>envelope e.
       case check_envelope_sender l envelope of
         Err err \<Rightarrow> (Err err, drop_message e)
       | Panic \<Rightarrow> (Panic, e)
       | Ok _ \<Rightarrow> verify_envelope_bytes cr bc eb (current_time_unix_ms clock) e))) = handshakes e" for e
    by (auto simp: handshakes_then_do split: res.splits)
  with Ok show ?thesis by (auto simp: gossip_verify_envelope_from_lineage_def intro!: origin_kept_engine)
qed (simp_all add: gossip_verify_envelope_from_lineage_def deliver_def)

lemma pending_from_disconnect:
  assumes "manager_inv (handshakes e)"
  shows "pending_from new (handshakes e) (handshakes (snd (disconnect_peer a e)))"
  using pending_from_remove [OF assms]
  by (auto simp: disconnect_peer_def Let_def remove_from_mesh_def sync_peer_stats_def split: prod.splits option.splits)

lemma pending_from_connect:
  assumes "r = fst (connect_peer bc rand a t e)"
  shows "pending_from (added (GossipConnectPeer clock rand a) (outcome_of VBytes r) m) (handshakes e)
    (handshakes (snd (connect_peer bc rand a t e)))"
  by (auto simp: connect_peer_def assms intro!: pending_from_probe added.Probe)

lemma origin_kept_stateless: "origin_kept c g (deliver f (r, g))"
  by (simp add: deliver_def)

lemma origin_kept_lineage: "origin_kept c g (deliver f (gossip_get_key_lineage bc g))"
  by (simp add: deliver_def gossip_get_key_lineage_def with_lineage_def)

lemma component_call_origin:
  assumes "globals_inv cr g"
  shows "origin_kept c g (component_call cr bc js c g)"
proof -
  note inv = manager_of_inv [OF assms]
  show ?thesis
  proof (cases c)
    case (GossipConnectPeer clock rand a)
    then show ?thesis
      by (auto simp: gossip_connect_peer_def intro!: origin_kept_engine pending_from_connect)
  next
    case (GossipProcessHandshakeBytes clock rand rng a b)
    then show ?thesis
      by (auto simp: gossip_process_handshake_bytes_def intro!: origin_kept_engine pending_from_process inv)
  next
    case (GossipBuildHandshakeAck clock rand a b)
    then show ?thesis
      by (auto simp: gossip_build_handshake_ack_def intro!: origin_kept_engine pending_from_ack added.Ack)
  next
    case (GossipBuildFinishAck clock a b)
    then show ?thesis
      by (auto simp: gossip_build_finish_ack_def handshakes_then_do split_beta intro!: origin_kept_engine pending_from_step inv)
  next
    case (GossipGetStats clock)
    then show ?thesis
      by (auto simp: gossip_get_stats_def Let_def intro!: origin_kept_engine pending_from_evict inv)
  next
    case (GossipDisconnectPeer a)
    then show ?thesis
      by (auto simp: gossip_disconnect_peer_def intro!: origin_kept_engine pending_from_disconnect inv)
  qed (simp_all add: gossip_publish_def gossip_get_peers_def gossip_get_session_def gossip_get_node_identity_def
      gossip_verify_envelope_def gossip_encode_envelope_def gossip_decode_envelope_def origin_kept_engine
      origin_kept_from_lineage origin_kept_stateless origin_kept_lineage origin_kept_started [OF started_init]
      origin_kept_started [OF started_init_with_lineage] origin_kept_rekeyed [OF rekeyed_rotate]
      origin_kept_rekeyed [OF rekeyed_rotate_under_id])
qed

section \<open>Facts about histories\<close>

text \<open>Every node of a network is in a reachable state of the component.\<close>

lemma history_reachable: "history cr bc js tr st \<Longrightarrow> reachable cr bc js (st n)"
proof (induction rule: history.induct)
  case (Called tr st c m r g')
  then have "component_step cr bc js (st m) g'" by (blast intro: component_step.Call)
  with Called show ?case by (cases "n = m") (auto intro: reachable.Step)
next
  case (Reordered tr st m e e')
  then have "component_step cr bc js (st m) ((st m)\<lparr>gossip_state := Some e'\<rparr>)" by (blast intro: component_step.Reorder)
  with Reordered show ?case by (cases "n = m") (auto intro: reachable.Step)
qed (auto intro: reachable.Start)

text \<open>An event of a history is a call, made in the state the events before it led to.\<close>

lemma history_event:
  assumes "history cr bc js tr st" and "i < length tr"
  shows "\<exists>st'. history cr bc js (take i tr) st' \<and> ev_before (tr ! i) = st' (ev_node (tr ! i)) \<and>
    fst (component_call cr bc js (ev_call (tr ! i)) (ev_before (tr ! i))) = ev_outcome (tr ! i)"
  using assms
proof (induction rule: history.induct)
  case (Called tr st c n r g')
  then show ?case by (cases "i < length tr") (auto simp: nth_append not_less less_Suc_eq)
qed simp_all

lemma nth_earlier: "k < length tr \<Longrightarrow> k < length (tr @ tr') \<and> (tr @ tr') ! k = tr ! k"
  by (simp add: nth_append)

lemma explained_append: "explained tr n a ctx \<Longrightarrow> explained (tr @ tr') n a ctx"
proof (induction tr n a ctx rule: explained.induct)
  case (1 tr n a cn pb t)
  then show ?case using nth_earlier by fastforce
next
  case (2 tr n a cn sn cb ss pb ab fb pk nid t)
  then obtain k0 k1 where k: "k0 < k1" "k1 < length tr" "opened (tr ! k0) n a pb" "answered (tr ! k1) n a ab fb" by auto
  moreover from k(1,2) have "k0 < length tr" by simp
  ultimately have "k0 < k1 \<and> k1 < length (tr @ tr') \<and> opened ((tr @ tr') ! k0) n a pb \<and> answered ((tr @ tr') ! k1) n a ab fb"
    by (simp add: nth_append)
  then show ?case unfolding explained.simps by blast
next
  case (3 tr n a cn sn pb ab t)
  then show ?case using nth_earlier by fastforce
qed simp_all

text \<open>What a call adds is explained by the call.\<close>

lemma explained_added:
  assumes "added c r m a ctx" and "ev_node ev = n" and "ev_call ev = c" and "ev_outcome ev = r"
    and "\<And>cn pb t. hm_get a (pending m) = Some (Client (ProbeSent cn pb t)) \<Longrightarrow> explained tr n a (Client (ProbeSent cn pb t))"
  shows "explained (tr @ [ev]) n a ctx"
proof -
  have last: "(tr @ [ev]) ! length tr = ev" "length tr < length (tr @ [ev])" by simp_all
  from assms(1) show ?thesis
  proof cases
    case (Probe pb clock rand cn t)
    then show ?thesis using last assms(2-4) by (auto simp: opened_def)
  next
    case (Ack pb ab cn sn t)
    then show ?thesis using last assms(2-4) by (auto simp: answered_def)
  next
    case (Finish ab fb cn pb t0 sn cb ss pk nid t)
    with assms(5) obtain k where k: "k < length tr" "opened (tr ! k) n a pb" by fastforce
    moreover have "answered ev n a ab fb" using Finish assms(2-4) by (simp add: answered_def)
    ultimately have "k < length tr \<and> length tr < length (tr @ [ev]) \<and> opened ((tr @ [ev]) ! k) n a pb \<and>
        answered ((tr @ [ev]) ! length tr) n a ab fb"
      by (simp add: nth_append)
    then show ?thesis unfolding Finish(1) explained.simps by blast
  qed
qed

lemma explained_call:
  assumes "globals_inv cr g" and "component_call cr bc js c g = (r, g')"
    and "gossip_state g' = Some e" and "hm_get a (pending (handshakes e)) = Some ctx"
    and IH: "\<And>e a ctx. gossip_state g = Some e \<Longrightarrow> hm_get a (pending (handshakes e)) = Some ctx \<Longrightarrow> explained tr n a ctx"
  shows "explained (tr @ [\<lparr>ev_node = n, ev_call = c, ev_before = g, ev_outcome = r\<rparr>]) n a ctx"
proof -
  from component_call_origin [OF assms(1), of c bc js] assms(2,3)
  have "handshakes e = manager_new \<or>
      (\<exists>e0. gossip_state g = Some e0 \<and> pending_from (added c r (handshakes e0)) (handshakes e0) (handshakes e))"
    by (simp add: origin_kept_def)
  then obtain e0 where e0: "gossip_state g = Some e0"
    and old: "hm_get a (pending (handshakes e0)) = Some ctx \<or> added c r (handshakes e0) a ctx"
    using assms(4) by (auto simp: pending_from_def manager_new_def)
  from old show ?thesis
  proof
    assume "added c r (handshakes e0) a ctx"
    then show ?thesis by (rule explained_added) (simp_all del: explained.simps add: IH [OF e0])
  qed (blast intro: explained_append IH [OF e0])
qed

text \<open>In every history, every handshake in progress is explained.\<close>

lemma history_explained:
  assumes "history cr bc js tr st" and laws: "key_size_laws cr" "lineage_ser_total bc"
    and "gossip_state (st n) = Some e" and "hm_get a (pending (handshakes e)) = Some ctx"
  shows "explained tr n a ctx"
  using assms(1,4,5)
proof (induction arbitrary: n e a ctx rule: history.induct)
  case Nothing
  then show ?case by (simp add: globals_init_def)
next
  case (Called tr st c m r g')
  have "globals_inv cr (st m)" using comp.holds [OF history_reachable [OF Called(1)]] laws by blast
  from explained_call [OF this Called(2), of e a ctx tr] Called show ?case by (cases "n = m") (auto simp: explained_append)
next
  case (Reordered tr st m e0 e')
  have inv: "manager_inv (handshakes e0)"
    using comp.holds [OF history_reachable [OF Reordered(1), of m]] laws Reordered(2) manager_of_inv by blast
  have "mset (pending (handshakes e')) = mset (pending (handshakes e0))" using Reordered(3) by (auto simp: reordered_def)
  from hm_get_perm(2) [OF _ this [symmetric]] inv
  have "hm_get b (pending (handshakes e')) = hm_get b (pending (handshakes e0))" for b by (simp add: manager_inv_def)
  with Reordered show ?case by (auto split: if_splits)
qed

end
