(* ===== verification/Signing.thy ===== *)
theory Signing
  imports History
begin

text \<open>
  Which messages a call signs. Nothing about it is written down by hand: a call signs a message with a
  key pair when its result depends on that signature, that is, when another signature in its place
  would change what the call returns or leaves in the state. Every definition of the component that
  takes the signing function is then shown to use it for what the source signs, and only for that.
\<close>

section \<open>Signatures a result depends on\<close>

text \<open>The crates, with another signature of one message by one key pair.\<close>

definition resigned :: "'d \<Rightarrow> bytes \<Rightarrow> bytes \<Rightarrow> ('k, 'p, 'c, 's, 'd) crypto \<Rightarrow> ('k, 'p, 'c, 's, 'd) crypto" where
  "resigned kp msg s cr = cr\<lparr>sig_sign_deterministic :=
     (\<lambda>k m. if k = kp \<and> m = msg then Inr s else sig_sign_deterministic cr k m)\<rparr>"

definition signs ::
    "('k, 'p, 'c, 's, 'd) crypto \<Rightarrow> codec \<Rightarrow> json \<Rightarrow> export_call \<Rightarrow> ('k, 'd) globals \<Rightarrow> 'd \<Rightarrow> bytes \<Rightarrow> bool" where
  "signs cr bc js c g kp msg \<longleftrightarrow>
     (\<exists>s. sig_sign_deterministic cr kp msg = Inr s) \<and>
     (\<exists>s. component_call (resigned kp msg s cr) bc js c g \<noteq> component_call cr bc js c g)"

named_theorems unaffected \<open>definitions that do not depend on a signature\<close>

section \<open>What does not sign\<close>

text \<open>The other functions of the crates, and what is built from them alone, do not depend on the
  signing function.\<close>

lemma resigned_crates [unaffected]:
  "sha256 (resigned kp msg s cr) = sha256 cr" "hmac_sha256 (resigned kp msg s cr) = hmac_sha256 cr"
  "hkdf_sha256 (resigned kp msg s cr) = hkdf_sha256 cr" "hex_encode (resigned kp msg s cr) = hex_encode cr"
  "hex_decode (resigned kp msg s cr) = hex_decode cr" "kem_generate (resigned kp msg s cr) = kem_generate cr"
  "kem_from_secret_key_bytes (resigned kp msg s cr) = kem_from_secret_key_bytes cr"
  "kem_public_key (resigned kp msg s cr) = kem_public_key cr" "kem_pk_to_json (resigned kp msg s cr) = kem_pk_to_json cr"
  "kem_pk_from_json (resigned kp msg s cr) = kem_pk_from_json cr"
  "kem_x25519_bytes (resigned kp msg s cr) = kem_x25519_bytes cr" "kem_mlkem_bytes (resigned kp msg s cr) = kem_mlkem_bytes cr"
  "kem_encapsulate_to (resigned kp msg s cr) = kem_encapsulate_to cr" "kem_decapsulate (resigned kp msg s cr) = kem_decapsulate cr"
  "ss_as_32_bytes (resigned kp msg s cr) = ss_as_32_bytes cr" "ct_to_json (resigned kp msg s cr) = ct_to_json cr"
  "ct_from_json (resigned kp msg s cr) = ct_from_json cr" "ct_bincode (resigned kp msg s cr) = ct_bincode cr"
  "sig_generate (resigned kp msg s cr) = sig_generate cr"
  "sig_from_secret_key_bytes (resigned kp msg s cr) = sig_from_secret_key_bytes cr"
  "sig_public_key (resigned kp msg s cr) = sig_public_key cr" "sig_verify (resigned kp msg s cr) = sig_verify cr"
  by (simp_all add: resigned_def)

lemma resigned_hashes [unaffected]:
  "derive_node_id (resigned kp msg s cr) = derive_node_id cr"
  "kem_public_key_bytes (resigned kp msg s cr) = kem_public_key_bytes cr"
  "sig_public_key_bytes (resigned kp msg s cr) = sig_public_key_bytes cr"
  "public_view (resigned kp msg s cr) = public_view cr"
  "verify_external (resigned kp msg s cr) = verify_external cr"
  "resolve_seed (resigned kp msg s cr) = resolve_seed cr"
  "compute_message_id (resigned kp msg s cr) = compute_message_id cr"
  "compute_transcript_hash (resigned kp msg s cr) = compute_transcript_hash cr"
  "compute_server_mac (resigned kp msg s cr) = compute_server_mac cr"
  "derive_session_id (resigned kp msg s cr) = derive_session_id cr"
  "key_commitment (resigned kp msg s cr) = key_commitment cr"
  "state_digest (resigned kp msg s cr) = state_digest cr"
  unfolding derive_node_id_def kem_public_key_bytes_def sig_public_key_bytes_def public_view_def verify_external_def resolve_seed_def compute_message_id_def compute_transcript_hash_def compute_server_mac_def derive_session_id_def key_commitment_def state_digest_def unaffected by (rule refl)+

lemma resigned_identities [unaffected]:
  "kem_public_key_canonical_bytes (resigned kp msg s cr) = kem_public_key_canonical_bytes cr"
  "identity_of_keypairs (resigned kp msg s cr) = identity_of_keypairs cr"
  "resolve (resigned kp msg s cr) = resolve cr"
  "verify_envelope (resigned kp msg s cr) = verify_envelope cr"
  "process_probe_build_ack (resigned kp msg s cr) = process_probe_build_ack cr"
  "process_ack_build_finish (resigned kp msg s cr) = process_ack_build_finish cr"
  "session_of_finish_ack (resigned kp msg s cr) = session_of_finish_ack cr"
  "key_commitment_for_seed (resigned kp msg s cr) = key_commitment_for_seed cr"
  "inception (resigned kp msg s cr) = inception cr"
  "verify_next (resigned kp msg s cr) = verify_next cr"
  "get_node_identity_json (resigned kp msg s cr) = get_node_identity_json cr"
  "verify_signature (resigned kp msg s cr) = verify_signature cr"
  unfolding kem_public_key_canonical_bytes_def identity_of_keypairs_def resolve_def verify_envelope_def process_probe_build_ack_def process_ack_build_finish_def session_of_finish_ack_def key_commitment_for_seed_def inception_def verify_next_def get_node_identity_json_def verify_signature_def unaffected by (rule refl)+

lemma resigned_handlers [unaffected]:
  "identity_generate (resigned kp msg s cr) = identity_generate cr"
  "from_seeds (resigned kp msg s cr) = from_seeds cr"
  "process_finish_ack (resigned kp msg s cr) = process_finish_ack cr"
  "verify_envelope_bytes (resigned kp msg s cr) = verify_envelope_bytes cr"
  "from_identity (resigned kp msg s cr) = from_identity cr"
  "apply_rotation (resigned kp msg s cr) = apply_rotation cr"
  unfolding identity_generate_def from_seeds_def process_finish_ack_def verify_envelope_bytes_def from_identity_def apply_rotation_def unaffected by (rule refl)+

lemma resigned_calls [unaffected]:
  "identity_of_seeds (resigned kp msg s cr) = identity_of_seeds cr"
  "identity_from_seed_bytes (resigned kp msg s cr) = identity_from_seed_bytes cr"
  "rotate_keys (resigned kp msg s cr) = rotate_keys cr"
  unfolding identity_of_seeds_def identity_from_seed_bytes_def rotate_keys_def unaffected by (rule refl)+

lemma resigned_replay [unaffected]: "replay (resigned kp msg s cr) = replay cr"
proof (intro ext)
  show "replay (resigned kp msg s cr) rs l = replay cr rs l" for rs l
  proof (induction rs arbitrary: l)
    case (Cons r rs)
    then have "replay (resigned kp msg s cr) rs = replay cr rs" by blast
    then show ?case unfolding replay.simps unaffected by (rule arg_cong)
  qed simp
qed

lemma resigned_decode [unaffected]:
  "lineage_decode (resigned kp msg s cr) = lineage_decode cr"
  unfolding lineage_decode_def unaffected by (rule refl)+

section \<open>What signs\<close>

text \<open>A signature in one context does not depend on the signatures of another.\<close>

lemma resigned_sign:
  "sign (resigned kp (tagged_message ctx m) s cr) i m' ctx' = sign cr i m' ctx'"
  if "length ctx \<le> 255" and "ctx' \<noteq> ctx \<or> m' \<noteq> m \<or> ni_sig_keypair i \<noteq> kp"
proof (cases "length ctx' \<le> 255")
  case True
  then have "tagged_message ctx' m' \<noteq> tagged_message ctx m \<or> ni_sig_keypair i \<noteq> kp"
    using tagged_message_inj [OF True that(1)] that(2) by blast
  then show ?thesis by (auto simp: sign_def resigned_def)
qed (simp add: sign_def)

text \<open>Envelopes and rotation records are signed in contexts of their own.\<close>

lemma other_contexts:
  "SIG_CTX_MESSAGE \<noteq> SIG_CTX_HANDSHAKE" "SIG_CTX_KEY_ROTATION \<noteq> SIG_CTX_HANDSHAKE" "SIG_CTX_KEY_POSSESSION \<noteq> SIG_CTX_HANDSHAKE"
  using SIG_CTX_HANDSHAKE_len SIG_CTX_MESSAGE_len ctx_lens by fastforce+

lemma sign_other_contexts [unaffected]:
  "sign (resigned kp (tagged_message SIG_CTX_HANDSHAKE h) s cr) i m SIG_CTX_MESSAGE = sign cr i m SIG_CTX_MESSAGE"
  "sign (resigned kp (tagged_message SIG_CTX_HANDSHAKE h) s cr) i m SIG_CTX_KEY_ROTATION = sign cr i m SIG_CTX_KEY_ROTATION"
  "sign (resigned kp (tagged_message SIG_CTX_HANDSHAKE h) s cr) i m SIG_CTX_KEY_POSSESSION = sign cr i m SIG_CTX_KEY_POSSESSION"
  by (simp_all add: resigned_sign other_contexts)

lemma resigned_signers [unaffected]:
  "build_envelope (resigned kp (tagged_message SIG_CTX_HANDSHAKE h) s cr) = build_envelope cr"
  "build_and_apply (resigned kp (tagged_message SIG_CTX_HANDSHAKE h) s cr) = build_and_apply cr"
  unfolding build_envelope_def build_and_apply_def unaffected by (rule refl)+

lemma resigned_engine [unaffected]:
  "publish (resigned kp (tagged_message SIG_CTX_HANDSHAKE h) s cr) = publish cr"
  "engine_encode_envelope (resigned kp (tagged_message SIG_CTX_HANDSHAKE h) s cr) = engine_encode_envelope cr"
  "lineage_rotate (resigned kp (tagged_message SIG_CTX_HANDSHAKE h) s cr) = lineage_rotate cr"
  "lineage_recover (resigned kp (tagged_message SIG_CTX_HANDSHAKE h) s cr) = lineage_recover cr"
  unfolding publish_def engine_encode_envelope_def lineage_rotate_def lineage_recover_def unaffected by (rule refl)+

lemma resigned_rotation [unaffected]:
  "rotate_keys_under_id (resigned kp (tagged_message SIG_CTX_HANDSHAKE h) s cr) = rotate_keys_under_id cr"
  unfolding rotate_keys_under_id_def unaffected by (rule refl)+

text \<open>So no export signs a handshake but the two that answer a Finish.\<close>

lemma resigned_api [unaffected]:
  "gossip_init (resigned kp (tagged_message SIG_CTX_HANDSHAKE h) s cr) = gossip_init cr"
  "gossip_publish (resigned kp (tagged_message SIG_CTX_HANDSHAKE h) s cr) = gossip_publish cr"
  "gossip_get_node_identity (resigned kp (tagged_message SIG_CTX_HANDSHAKE h) s cr) = gossip_get_node_identity cr"
  "gossip_rotate_keys (resigned kp (tagged_message SIG_CTX_HANDSHAKE h) s cr) = gossip_rotate_keys cr"
  "gossip_verify_envelope (resigned kp (tagged_message SIG_CTX_HANDSHAKE h) s cr) = gossip_verify_envelope cr"
  "gossip_encode_envelope (resigned kp (tagged_message SIG_CTX_HANDSHAKE h) s cr) = gossip_encode_envelope cr"
  "gossip_build_handshake_ack (resigned kp (tagged_message SIG_CTX_HANDSHAKE h) s cr) = gossip_build_handshake_ack cr"
  "gossip_verify_signature (resigned kp (tagged_message SIG_CTX_HANDSHAKE h) s cr) = gossip_verify_signature cr"
  "gossip_init_with_lineage (resigned kp (tagged_message SIG_CTX_HANDSHAKE h) s cr) = gossip_init_with_lineage cr"
  "gossip_rotate_keys_under_id (resigned kp (tagged_message SIG_CTX_HANDSHAKE h) s cr) = gossip_rotate_keys_under_id cr"
  "gossip_recover_lineage (resigned kp (tagged_message SIG_CTX_HANDSHAKE h) s cr) = gossip_recover_lineage cr"
  "gossip_verify_key_lineage (resigned kp (tagged_message SIG_CTX_HANDSHAKE h) s cr) = gossip_verify_key_lineage cr"
  "gossip_verify_envelope_from_lineage (resigned kp (tagged_message SIG_CTX_HANDSHAKE h) s cr) = gossip_verify_envelope_from_lineage cr"
  "gossip_key_commitment (resigned kp (tagged_message SIG_CTX_HANDSHAKE h) s cr) = gossip_key_commitment cr"
  unfolding gossip_init_def gossip_publish_def gossip_get_node_identity_def gossip_rotate_keys_def
    gossip_verify_envelope_def gossip_encode_envelope_def gossip_build_handshake_ack_def gossip_verify_signature_def
    gossip_init_with_lineage_def gossip_rotate_keys_under_id_def gossip_recover_lineage_def
    gossip_verify_key_lineage_def gossip_verify_envelope_from_lineage_def gossip_key_commitment_def
    unaffected by (rule refl)+

end
