(* ===== verification/Agreement.thy ===== *)
theory Agreement
  imports Signing
begin

text \<open>
  What a completed client can rely on in a network with an active attacker. Hosts deliver any bytes;
  the only thing asked of the attacker is that a signature of an honest key for some message is not
  delivered in a FinishAck before an earlier call has made a signature of that message with that
  key. The client's conversation then matches one of the owner of the key.
\<close>

section \<open>Answering a Finish\<close>

text \<open>The Finish a call delivers.\<close>

fun finish_of :: "export_call \<Rightarrow> (string \<times> bytes) option" where
  "finish_of (GossipProcessHandshakeBytes clock rand rng a b) =
     (if classify_incoming b = KindHandshakeFinish then Some (a, b) else None)"
| "finish_of (GossipBuildFinishAck clock a b) = Some (a, b)"
| "finish_of _ = None"

text \<open>The node answered the Finish \<open>fb\<close> of \<open>a\<close> while it was waiting for a Finish after \<open>pb\<close> and \<open>ab\<close>,
  with signing key \<open>pk\<close>.\<close>

definition finished :: "('k, 'p, 'c, 's, 'd) crypto \<Rightarrow> ('k, 'd) event \<Rightarrow> bytes \<Rightarrow> string \<Rightarrow> bytes \<Rightarrow> bytes \<Rightarrow> bytes \<Rightarrow> bool" where
  "finished cr ev pk a pb ab fb \<longleftrightarrow>
     finish_of (ev_call ev) = Some (a, fb) \<and> answer (ev_outcome ev) \<noteq> None \<and>
     (\<exists>e cn sn t. gossip_state (ev_before ev) = Some e \<and> sig_public_key_bytes cr (identity e) = pk \<and>
        hm_get a (pending (handshakes e)) = Some (Server (AckSent cn sn pb ab t)))"

text \<open>The FinishAck a call delivers.\<close>

definition presented :: "codec \<Rightarrow> export_call \<Rightarrow> handshake_finish_ack \<Rightarrow> bool" where
  "presented bc c g \<longleftrightarrow> (\<exists>clock rand rng a b. c = GossipProcessHandshakeBytes clock rand rng a b \<and>
     classify_incoming b = KindHandshakeFinishAck \<and> de_finish_ack bc b = Inr g)"

section \<open>Only an answered Finish is signed as a handshake\<close>

lemma process_handshake_unaffected:
  "classify_incoming b \<noteq> KindHandshakeFinish \<Longrightarrow>
   process_handshake_bytes (resigned kp (tagged_message SIG_CTX_HANDSHAKE h) s cr) bc rand rng a b =
   process_handshake_bytes cr bc rand rng a b"
  by (intro ext, cases "classify_incoming b") (simp_all add: process_handshake_bytes_def unaffected)

lemmas handshake_calls = gossip_process_handshake_bytes_def gossip_build_finish_ack_def

lemma component_unaffected:
  assumes "finish_of c = None"
  shows "component_call (resigned kp (tagged_message SIG_CTX_HANDSHAKE h) s cr) bc js c g = component_call cr bc js c g"
proof (cases c)
  case (GossipProcessHandshakeBytes clock rand rng a b)
  with assms have "classify_incoming b \<noteq> KindHandshakeFinish" by (auto split: if_splits)
  then show ?thesis
    by (simp add: GossipProcessHandshakeBytes gossip_process_handshake_bytes_def process_handshake_unaffected)
qed (use assms in \<open>simp_all add: unaffected\<close>)

lemma and_then_differs: "and_then m f \<noteq> and_then m g \<Longrightarrow> \<exists>x. m = Ok x \<and> f x \<noteq> g x"
  by (cases m) auto

text \<open>A Finish whose answer depends on a signature of a handshake: it is the signature of the transcript,
  by the answering identity.\<close>

lemma finish_ack_affected:
  assumes "finish_ack_of (resigned kp (tagged_message SIG_CTX_HANDSHAKE h) s cr) bc a fb i t f ctx \<noteq> finish_ack_of cr bc a fb i t f ctx"
    and "sig_sign_deterministic cr kp (tagged_message SIG_CTX_HANDSHAKE h) = Inr s0" and "\<forall>v. \<exists>b. ser_finish_ack bc v = Inr b"
  obtains cn sn pb ab t0 x r where "ctx = Some (Server (AckSent cn sn pb ab t0))" and "ni_sig_keypair i = kp"
    and "h = compute_transcript_hash cr pb ab fb" and "finish_ack_of cr bc a fb i t f ctx = Ok (x, r)"
proof -
  obtain cn sn pb ab t0 where ctx: "ctx = Some (Server (AckSent cn sn pb ab t0))"
    using assms(1) by (auto simp: finish_ack_of_def split: option.splits handshake_context.splits server_handshake_state.splits)
  let ?h = "compute_transcript_hash cr pb ab fb"
  have same: "ni_sig_keypair i = kp \<and> h = ?h"
  proof (rule ccontr)
    assume "\<not> (ni_sig_keypair i = kp \<and> h = ?h)"
    then have eq: "sign (resigned kp (tagged_message SIG_CTX_HANDSHAKE h) s cr) i ?h SIG_CTX_HANDSHAKE = sign cr i ?h SIG_CTX_HANDSHAKE"
      by (intro resigned_sign) auto
    have "finish_ack_of (resigned kp (tagged_message SIG_CTX_HANDSHAKE h) s cr) bc a fb i t f ctx = finish_ack_of cr bc a fb i t f ctx"
      unfolding finish_ack_of_def ctx option.case handshake_context.case server_handshake_state.case and_then.simps prod.case Let_def unaffected eq
      by (rule refl)
    with assms(1) show False by contradiction
  qed
  then have "sign cr i ?h SIG_CTX_HANDSHAKE = Ok s0" using assms(2) by (simp add: sign_def)
  then have "\<exists>x r. finish_ack_of cr bc a fb i t f ctx = Ok (x, r)"
    using assms(1,3) by (auto simp: finish_ack_of_def ctx unaffected Let_def dest!: and_then_differs)
  with ctx same that show thesis by blast
qed

text \<open>A call that delivers a Finish gives it to the handshake manager and uses the crates for nothing
  else.\<close>

lemma finish_call:
  fixes g :: "('k, 'd) globals"
  assumes "finish_of c = Some (a, fb)"
  shows "gossip_state g = None \<Longrightarrow> component_call cr bc js c g = (Failed WitNotInitialized, g)"
    and "gossip_state g = Some e \<Longrightarrow>
      \<exists>t F. (\<forall>cr :: ('k, 'p, 'c, 's, 'd) crypto.
          component_call cr bc js c g = F (process_finish_build_finish_ack cr bc a fb (identity e) t (handshakes e))) \<and>
        (\<forall>x r m. answer (fst (F (Ok (x, r), m))) = Some x)"
proof -
  show "gossip_state g = None \<Longrightarrow> component_call cr bc js c g = (Failed WitNotInitialized, g)"
    using assms by (cases c) (auto simp: handshake_calls with_engine_def with_engine_and_def deliver_def split: if_splits)
  let ?F = "\<lambda>v f (r, m). case then_do (r, e\<lparr>handshakes := m\<rparr>) f of (r, e') \<Rightarrow> (outcome_of v r, g\<lparr>gossip_state := Some e'\<rparr>)"
  assume e: "gossip_state g = Some e"
  from assms consider (process) clock rand rng where "c = GossipProcessHandshakeBytes clock rand rng a fb" "classify_incoming fb = KindHandshakeFinish"
    | (build) clock where "c = GossipBuildFinishAck clock a fb"
    by (cases c) (auto split: if_splits)
  then show "\<exists>t F. (\<forall>cr :: ('k, 'p, 'c, 's, 'd) crypto.
          component_call cr bc js c g = F (process_finish_build_finish_ack cr bc a fb (identity e) t (handshakes e))) \<and>
        (\<forall>x r m. answer (fst (F (Ok (x, r), m))) = Some x)"
  proof cases
    case process
    then show ?thesis
      by (intro exI [of _ "current_time_unix_ms clock"]
            exI [of _ "?F VReply (\<lambda>(x, s) e. (Ok (Some x), complete_handshake a s e))"])
         (simp add: e handshake_calls with_engine_def with_engine_and_def deliver_def process_handshake_bytes_def on_handshakes_def
           split_beta)
  next
    case build
    then show ?thesis
      by (intro exI [of _ "current_time_unix_ms clock"] exI [of _ "?F VBytes (\<lambda>(x, s) e. (Ok x, store_finished s e))"])
         (simp add: e handshake_calls with_engine_def with_engine_and_def deliver_def on_handshakes_def split_beta)
  qed
qed

text \<open>So a call that signs a handshake answers the Finish of that handshake.\<close>

lemma handshake_signature:
  fixes cr :: "('a, 'b, 'c, 'd, 'e) crypto"
  assumes "signs cr bc js (ev_call ev) (ev_before ev) kp (tagged_message SIG_CTX_HANDSHAKE h)"
    and "fst (component_call cr bc js (ev_call ev) (ev_before ev)) = ev_outcome ev" and "\<forall>v. \<exists>b. ser_finish_ack bc v = Inr b"
  shows "\<exists>a pb ab fb. finished cr ev (sig_public_key cr kp) a pb ab fb \<and> h = compute_transcript_hash cr pb ab fb"
proof -
  let ?msg = "tagged_message SIG_CTX_HANDSHAKE h"
  obtain s0 s where s: "sig_sign_deterministic cr kp ?msg = Inr s0"
    "component_call (resigned kp ?msg s cr) bc js (ev_call ev) (ev_before ev) \<noteq> component_call cr bc js (ev_call ev) (ev_before ev)"
    using assms(1) by (auto simp: signs_def)
  then obtain a fb where fin: "finish_of (ev_call ev) = Some (a, fb)" using component_unaffected by fastforce
  have "gossip_state (ev_before ev) \<noteq> None" using s(2) finish_call(1) [OF fin, of "ev_before ev"] by metis
  then obtain e where e: "gossip_state (ev_before ev) = Some e" by blast
  obtain t F where F: "\<And>cr :: ('a, 'b, 'c, 'd, 'e) crypto. component_call cr bc js (ev_call ev) (ev_before ev) =
      F (process_finish_build_finish_ack cr bc a fb (identity e) t (handshakes e))"
    and ok: "\<And>x r m. answer (fst (F (Ok (x, r), m))) = Some x"
    using finish_call(2) [OF fin e] by blast
  have diff: "process_finish_build_finish_ack (resigned kp ?msg s cr) bc a fb (identity e) t (handshakes e) \<noteq>
      process_finish_build_finish_ack cr bc a fb (identity e) t (handshakes e)"
    using s(2) F by metis
  from diff obtain f where f: "check_finish bc t fb = Ok f"
    and d: "finish_ack_of (resigned kp ?msg s cr) bc a fb (identity e) t f (hm_get a (pending (handshakes e))) \<noteq>
      finish_ack_of cr bc a fb (identity e) t f (hm_get a (pending (handshakes e)))"
    by (auto simp: process_finish_build_finish_ack_def split: res.splits)
  from finish_ack_affected [OF d s(1) assms(3)] obtain cn sn pb ab t0 x r where
    c: "hm_get a (pending (handshakes e)) = Some (Server (AckSent cn sn pb ab t0))" "ni_sig_keypair (identity e) = kp"
      "h = compute_transcript_hash cr pb ab fb"
      "finish_ack_of cr bc a fb (identity e) t f (hm_get a (pending (handshakes e))) = Ok (x, r)" by metis
  have "answer (ev_outcome ev) = Some x" unfolding assms(2) [symmetric] F
    by (simp add: process_finish_build_finish_ack_def f c(4) ok)
  with fin e c have "finished cr ev (sig_public_key cr kp) a pb ab fb"
    by (auto simp: finished_def sig_public_key_bytes_def)
  with c(3) show ?thesis by blast
qed

section \<open>Unforged histories\<close>

text \<open>Existential unforgeability, for the messages an attacker uses: whenever the signature in a delivered FinishAck
  verifies under an honest key, for whatever message, an earlier call of the history signed that
  message with a key pair of that public key.\<close>

definition unforged ::
    "('k, 'p, 'c, 's, 'd) crypto \<Rightarrow> codec \<Rightarrow> json \<Rightarrow> bytes set \<Rightarrow> ('k, 'd) event list \<Rightarrow> bool" where
  "unforged cr bc js honest tr \<longleftrightarrow>
     (\<forall>i < length tr. \<forall>f. presented bc (ev_call (tr ! i)) f \<longrightarrow>
        (\<forall>pk \<in> honest. \<forall>msg. sig_verify cr pk msg (fack_transcript_signature f) = SigOk \<longrightarrow>
           (\<exists>j < i. \<exists>kp. sig_public_key cr kp = pk \<and> signs cr bc js (ev_call (tr ! j)) (ev_before (tr ! j)) kp msg)))"

section \<open>The two ends of a handshake\<close>

lemma outcome_of_Returned: "outcome_of f r = Returned v \<longleftrightarrow> (\<exists>x. r = Ok x \<and> v = f x)"
  by (cases r) auto

lemma with_engine_Ok:
  "with_engine run g = (Ok x, g') \<longleftrightarrow>
     (\<exists>e e'. gossip_state g = Some e \<and> run e = (Ok x, e') \<and> g' = g\<lparr>gossip_state := Some e'\<rparr>)"
  by (auto simp: with_engine_def with_engine_and_def split: option.splits prod.splits)

text \<open>Only an accepted FinishAck has no reply.\<close>

lemma process_done:
  "process_handshake_bytes cr bc rand rng a b t e = (Ok None, e') \<longleftrightarrow>
     classify_incoming b = KindHandshakeFinishAck \<and>
     (\<exists>s m. process_finish_ack cr bc a b t (handshakes e) = (Ok s, m) \<and> e' = complete_handshake a s (e\<lparr>handshakes := m\<rparr>))"
  by (cases "classify_incoming b")
     (auto simp: process_handshake_bytes_def then_do_Ok on_handshakes_Ok)

lemma completed_client:
  assumes "component_call cr bc js (GossipProcessHandshakeBytes clock rand rng a b) g = (Returned (VReply None), g')"
  obtains e cn sn cb ss pb ab fb pk nid t0 f e' s
  where "gossip_state g = Some e"
    and "hm_get a (pending (handshakes e)) = Some (Client (FinishSent cn sn cb ss pb ab fb pk nid t0))"
    and "classify_incoming b = KindHandshakeFinishAck" and "de_finish_ack bc b = Inr f"
    and "fack_transcript_hash f = compute_transcript_hash cr pb ab fb"
    and "sig_verify cr pk (tagged_message SIG_CTX_HANDSHAKE (fack_transcript_hash f)) (fack_transcript_signature f) = SigOk"
    and "gossip_state g' = Some e'" and "sessions_get a (sessions e') = Some s"
    and "sr_peer_sig_public_key s = pk" and "sr_transcript_hash s = fack_transcript_hash f"
proof -
  have "gossip_process_handshake_bytes cr bc clock rand rng a b g = (Ok None, g')"
    using assms by (cases "gossip_process_handshake_bytes cr bc clock rand rng a b g")
      (auto simp: deliver_def outcome_of_Returned)
  then obtain e s m where e: "gossip_state g = Some e" "classify_incoming b = KindHandshakeFinishAck"
    and p: "process_finish_ack cr bc a b (current_time_unix_ms clock) (handshakes e) = (Ok s, m)"
    and g': "g' = g\<lparr>gossip_state := Some (complete_handshake a s (e\<lparr>handshakes := m\<rparr>))\<rparr>"
    by (auto simp: gossip_process_handshake_bytes_def with_engine_Ok process_done)
  from p show thesis
    by (auto simp: process_finish_ack_Ok check_finish_ack_Ok ses.get_ins g' e intro!: that)
qed

text \<open>The server of a finished handshake holds a session with the same transcript.\<close>

lemma process_finish_done:
  "classify_incoming b = KindHandshakeFinish \<Longrightarrow>
   process_handshake_bytes cr bc rand rng a b t e = (Ok y, e') \<longleftrightarrow>
     (\<exists>x s m. process_finish_build_finish_ack cr bc a b (identity e) t (handshakes e) = (Ok (x, s), m) \<and> y = Some x \<and>
        e' = complete_handshake a s (e\<lparr>handshakes := m\<rparr>))"
  by (auto simp: process_handshake_bytes_def then_do_Ok on_handshakes_Ok)

lemma finish_answered:
  assumes "finish_of c = Some (a, fb)" and "component_call cr bc js c g = (r, g')" and "answer r \<noteq> None"
  obtains e t x s m e' where "gossip_state g = Some e"
    and "process_finish_build_finish_ack cr bc a fb (identity e) t (handshakes e) = (Ok (x, s), m)"
    and "gossip_state g' = Some e'" and "sessions e' = sessions_insert s (sessions e)"
proof -
  from assms(1) consider (process) clock rand rng where "c = GossipProcessHandshakeBytes clock rand rng a fb" "classify_incoming fb = KindHandshakeFinish"
    | (build) clock where "c = GossipBuildFinishAck clock a fb"
    by (cases c) (auto split: if_splits)
  then show thesis
  proof cases
    case process
    with assms(2,3) obtain y where "gossip_process_handshake_bytes cr bc clock rand rng a fb g = (Ok y, g')"
      by (cases "gossip_process_handshake_bytes cr bc clock rand rng a fb g"; cases "fst (gossip_process_handshake_bytes cr bc clock rand rng a fb g)")
         (auto simp: deliver_def)
    then show thesis
      by (auto simp: gossip_process_handshake_bytes_def with_engine_Ok process_finish_done [OF process(2)] intro!: that)
  next
    case build
    with assms(2,3) obtain y where "gossip_build_finish_ack cr bc clock a fb g = (Ok y, g')"
      by (cases "gossip_build_finish_ack cr bc clock a fb g"; cases "fst (gossip_build_finish_ack cr bc clock a fb g)")
         (auto simp: deliver_def)
    then show thesis
      by (auto simp: gossip_build_finish_ack_def with_engine_Ok then_do_Ok on_handshakes_Ok store_finished_def Let_def intro!: that)
  qed
qed

lemma finished_session:
  assumes "finished cr ev pk a pb ab fb" and "component_call cr bc js (ev_call ev) (ev_before ev) = (ev_outcome ev, g')"
  shows "\<exists>e' s'. gossip_state g' = Some e' \<and> sessions_get a (sessions e') = Some s' \<and>
    sr_transcript_hash s' = compute_transcript_hash cr pb ab fb"
proof -
  from assms(1) obtain e cn sn t0 where f: "finish_of (ev_call ev) = Some (a, fb)" "answer (ev_outcome ev) \<noteq> None"
    and e: "gossip_state (ev_before ev) = Some e" "hm_get a (pending (handshakes e)) = Some (Server (AckSent cn sn pb ab t0))"
    unfolding finished_def by blast
  obtain t x s m e' where "process_finish_build_finish_ack cr bc a fb (identity e) t (handshakes e) = (Ok (x, s), m)"
    "gossip_state g' = Some e'" "sessions e' = sessions_insert s (sessions e)"
    using finish_answered [OF f(1) assms(2) f(2)] e(1) by (metis option.inject)
  with e(2) show ?thesis by (auto simp: process_finish_Ok ses.get_ins)
qed

section \<open>Matching conversations\<close>

lemma matching_conversation:
  assumes h: "history cr bc js tr st" and laws: "key_size_laws cr" "lineage_ser_total bc"
    and ser: "\<forall>v. \<exists>b. ser_finish_ack bc v = Inr b" and unforged: "unforged cr bc js honest tr"
    and i: "i < length tr" "ev_node (tr ! i) = n"
      "ev_call (tr ! i) = GossipProcessHandshakeBytes clock rand rng a b" "ev_outcome (tr ! i) = Returned (VReply None)"
    and g: "component_call cr bc js (ev_call (tr ! i)) (ev_before (tr ! i)) = (ev_outcome (tr ! i), g')"
      "gossip_state g' = Some e'" "sessions_get a (sessions e') = Some s" "sr_peer_sig_public_key s \<in> honest"
  obtains pb ab fb k0 k1 j k2 m a' pb' ab' fb' where
      "k0 < k1" and "k1 < i" and "opened (tr ! k0) n a pb" and "answered (tr ! k1) n a ab fb"
    and "k2 < j" and "j < i" and "ev_node (tr ! j) = m" and "answered (tr ! k2) m a' pb' ab'"
    and "finished cr (tr ! j) (sr_peer_sig_public_key s) a' pb' ab' fb'"
    and "sr_transcript_hash s = compute_transcript_hash cr pb ab fb"
    and "compute_transcript_hash cr pb ab fb = compute_transcript_hash cr pb' ab' fb'"
proof -
  obtain e cn sn cb ss pb ab fb pk nid t0 f where
    e: "gossip_state (ev_before (tr ! i)) = Some e"
      "hm_get a (pending (handshakes e)) = Some (Client (FinishSent cn sn cb ss pb ab fb pk nid t0))"
    and kind: "classify_incoming b = KindHandshakeFinishAck"
    and f: "de_finish_ack bc b = Inr f" "fack_transcript_hash f = compute_transcript_hash cr pb ab fb"
      "sig_verify cr pk (tagged_message SIG_CTX_HANDSHAKE (fack_transcript_hash f)) (fack_transcript_signature f) = SigOk"
    and s: "sr_peer_sig_public_key s = pk" "sr_transcript_hash s = fack_transcript_hash f"
    using completed_client [OF g(1) [unfolded i(3,4)]] g(2,3) i(3) by (metis option.inject)
  obtain st' where h': "history cr bc js (take i tr) st'" "ev_before (tr ! i) = st' n"
    using history_event [OF h i(1)] i(2) by blast
  have "explained (take i tr) n a (Client (FinishSent cn sn cb ss pb ab fb pk nid t0))"
    by (rule history_explained [OF h'(1) laws _ e(2)]) (use e(1) h'(2) in simp)
  then obtain k0 k1 where k: "k0 < k1" "k1 < i" "opened (tr ! k0) n a pb" "answered (tr ! k1) n a ab fb"
    using i(1) by auto
  have "presented bc (ev_call (tr ! i)) f" using kind f(1) i(3) by (auto simp: presented_def)
  then obtain j kp where j: "j < i" "sig_public_key cr kp = pk"
    "signs cr bc js (ev_call (tr ! j)) (ev_before (tr ! j)) kp (tagged_message SIG_CTX_HANDSHAKE (fack_transcript_hash f))"
    using unforged i(1) f(3) g(4) s(1) unfolding unforged_def by blast
  have jl: "j < length tr" using j(1) i(1) by simp
  obtain sj where hj: "history cr bc js (take j tr) sj" "ev_before (tr ! j) = sj (ev_node (tr ! j))"
    "fst (component_call cr bc js (ev_call (tr ! j)) (ev_before (tr ! j))) = ev_outcome (tr ! j)"
    using history_event [OF h jl] by blast
  from handshake_signature [OF j(3) hj(3) ser] j(2) obtain a' pb' ab' fb' where
    fin: "finished cr (tr ! j) pk a' pb' ab' fb'" "fack_transcript_hash f = compute_transcript_hash cr pb' ab' fb'" by blast
  then obtain ej cn' sn' t' where ej: "gossip_state (ev_before (tr ! j)) = Some ej"
    "hm_get a' (pending (handshakes ej)) = Some (Server (AckSent cn' sn' pb' ab' t'))"
    unfolding finished_def by blast
  have "explained (take j tr) (ev_node (tr ! j)) a' (Server (AckSent cn' sn' pb' ab' t'))"
    by (rule history_explained [OF hj(1) laws _ ej(2)]) (use ej(1) hj(2) in simp)
  then obtain k2 where "k2 < j" "answered (tr ! k2) (ev_node (tr ! j)) a' pb' ab'" using jl by auto
  from that [OF k this(1) j(1) refl this(2)] fin f(2) s show thesis by simp
qed

end
