(* ===== verification/Ledger.thy ===== *)
theory Ledger
  imports History
begin

text \<open>
  The counters of a node against the history: each of them is the number of the node's calls of one
  kind, modulo the width of the counter.
\<close>

section \<open>Counters and the calls they count\<close>

datatype counter = Published | Received | Dropped | Deduplicated | HandshakesCompleted

fun reading :: "counter \<Rightarrow> gossip_stats \<Rightarrow> nat" where
  "reading Published s = unat (messages_published s)"
| "reading Received s = unat (messages_received s)"
| "reading Dropped s = unat (messages_dropped s)"
| "reading Deduplicated s = unat (messages_deduplicated s)"
| "reading HandshakesCompleted s = unat (handshakes_completed s)"

text \<open>The width of a counter in \<^verbatim>\<open>GossipStats\<close>.\<close>

fun width :: "counter \<Rightarrow> nat" where
  "width HandshakesCompleted = 32"
| "width _ = 64"

text \<open>A call that checks an envelope the component can decode.\<close>

fun envelope_read :: "('k, 'p, 'c, 's, 'd) crypto \<Rightarrow> codec \<Rightarrow> export_call \<Rightarrow> bool" where
  "envelope_read cr bc (GossipVerifyEnvelope clock b) = (\<not> isl (de_envelope bc b))"
| "envelope_read cr bc (GossipVerifyEnvelopeFromLineage clock b lb) =
     (is_ok (lineage_decode cr bc lb) \<and> \<not> isl (de_envelope bc b))"
| "envelope_read cr bc _ = False"

fun publication :: "export_call \<Rightarrow> bool" where
  "publication (GossipPublish clock t payload) = True"
| "publication _ = False"

text \<open>A call that delivers the last message a side waits for.\<close>

fun completion :: "export_call \<Rightarrow> bool" where
  "completion (GossipProcessHandshakeBytes clock rand rng a b) =
     (classify_incoming b = KindHandshakeFinish \<or> classify_incoming b = KindHandshakeFinishAck)"
| "completion (GossipBuildFinishAck clock a b) = True"
| "completion _ = False"

fun returned :: "outcome \<Rightarrow> bool" where
  "returned (Returned v) = True"
| "returned _ = False"

fun counted :: "('k, 'p, 'c, 's, 'd) crypto \<Rightarrow> codec \<Rightarrow> counter \<Rightarrow> export_call \<Rightarrow> outcome \<Rightarrow> bool" where
  "counted cr bc Published c r = (publication c \<and> returned r)"
| "counted cr bc Deduplicated c r = (publication c \<and> r = Failed (WitEnvelopeError ''duplicate message''))"
| "counted cr bc Received c r = (envelope_read cr bc c \<and> r = Returned (VBool True))"
| "counted cr bc Dropped c r = (envelope_read cr bc c \<and> r \<noteq> Returned (VBool True) \<and> r \<noteq> Failed WitNotInitialized)"
| "counted cr bc HandshakesCompleted c r = (completion c \<and> returned r)"

definition tally ::
    "('k, 'p, 'c, 's, 'd) crypto \<Rightarrow> codec \<Rightarrow> counter \<Rightarrow> nat \<Rightarrow> ('k, 'd) event list \<Rightarrow> nat" where
  "tally cr bc k n tr = length (filter (\<lambda>ev. ev_node ev = n \<and> counted cr bc k (ev_call ev) (ev_outcome ev)) tr)"

section \<open>The effect of a call\<close>

lemma unat_inc: "unat (x + 1 :: 'a::len word) = (unat x + 1) mod 2 ^ LENGTH('a)"
  by (simp add: unat_word_ariths)

lemma unat_bound: "unat (x :: 'a::len word) < 2 ^ LENGTH('a)"
  by (rule unsigned_less)

lemma reading_bound: "reading k s mod 2 ^ width k = reading k s"
  using unat_bound [of "messages_published s"] unat_bound [of "messages_received s"] unat_bound [of "messages_dropped s"]
    unat_bound [of "messages_deduplicated s"] unat_bound [of "handshakes_completed s"]
  by (cases k) simp_all

definition adds :: "counter \<Rightarrow> bool \<Rightarrow> gossip_stats \<Rightarrow> gossip_stats \<Rightarrow> bool" where
  "adds k b s s' \<longleftrightarrow> reading k s' = (reading k s + of_bool b) mod 2 ^ width k"

lemma addsI: "reading k s' = reading k s \<Longrightarrow> adds k False s s'"
  by (simp add: adds_def reading_bound)

lemma adds_same [simp]: "adds k False s s"
  by (simp add: addsI)

lemma adds_inc:
  "adds k (k = Published) s (s\<lparr>messages_published := messages_published s + 1\<rparr>)"
  "adds k (k = Deduplicated) s (s\<lparr>messages_deduplicated := messages_deduplicated s + 1\<rparr>)"
  "adds k (k = Received) s (s\<lparr>messages_received := messages_received s + 1\<rparr>)"
  "adds k (k = Dropped) s (s\<lparr>messages_dropped := messages_dropped s + 1\<rparr>)"
  "adds k (k = HandshakesCompleted) s (s\<lparr>handshakes_completed := handshakes_completed s + 1\<rparr>)"
  by (cases k; simp add: addsI; simp add: adds_def unat_inc)+

text \<open>The gauges do not matter.\<close>

lemma adds_gauges [simp]:
  "adds k b s (s'\<lparr>active_peers_stat := x\<rparr>) = adds k b s s'"
  "adds k b s (s'\<lparr>mesh_peers_stat := x\<rparr>) = adds k b s s'"
  "adds k b s (s'\<lparr>dedup_cache_size := x\<rparr>) = adds k b s s'"
  "adds k b s (s'\<lparr>handshakes_failed := y\<rparr>) = adds k b s s'"
  by (cases k; simp add: adds_def)+

subsection \<open>Calls on the engine\<close>

lemma build_envelope_error: "build_envelope cr pt payload i ttl now \<noteq> Err (EnvelopeError m)"
  by (auto simp: build_envelope_def Let_def sign_def context_too_long_def result_simps)

lemma publish_adds:
  assumes "publish cr t payload now e = (r, e')"
  shows "adds k (k = Published \<and> is_ok r \<or> k = Deduplicated \<and> r = Err (EnvelopeError ''duplicate message'')) (stats e) (stats e')"
proof (cases rule: publish_cases [where t = t and e = e and payload = payload and cr = cr and now = now])
  case (duplicate pt)
  with assms show ?thesis using adds_inc(2) [of k "stats e"] by (auto simp: publish_simps)
next
  case (fresh pt)
  let ?b = "build_envelope cr pt payload (identity e) (rc_default_ttl (config e)) now"
  show ?thesis
  proof (cases ?b)
    case (Err err)
    then have "err \<noteq> EnvelopeError ''duplicate message''" using build_envelope_error by metis
    with Err fresh assms show ?thesis by (auto simp: publish_simps Let_def)
  qed (use fresh assms adds_inc(1) [of k "stats e"] in \<open>auto simp: publish_simps Let_def\<close>)
qed (use assms in \<open>auto simp: publish_simps\<close>)

lemma verify_adds:
  assumes "verify_envelope_bytes cr bc b now e = (r, e')"
  shows "adds k (\<not> isl (de_envelope bc b) \<and> (k = Received \<and> r = Ok True \<or> k = Dropped \<and> r \<noteq> Ok True)) (stats e) (stats e')"
  using assms adds_inc(3,4) [of k "stats e"]
  by (auto simp: verify_envelope_bytes_cases receive_message_def drop_message_def split: sum.splits if_splits)

lemma complete_adds: "adds k (k = HandshakesCompleted) (stats e) (stats (complete_handshake a s e))"
  "adds k (k = HandshakesCompleted) (stats e) (stats (store_finished s e))"
  using adds_inc(5) [of k "stats e"]
  by (simp_all add: complete_handshake_def store_finished_def Let_def sync_peer_stats_def add_to_mesh_def)

lemma then_complete_adds:
  assumes "\<And>x e. adds k (k = HandshakesCompleted) (stats e) (stats (snd (f x e)))" and "\<And>x e. is_ok (fst (f x e))"
  shows "adds k (k = HandshakesCompleted \<and> is_ok (fst (then_do p f))) (stats (snd p)) (stats (snd (then_do p f)))"
  using assms by (cases "(p, f)" rule: then_do.cases) auto

lemma process_adds:
  "adds k (k = HandshakesCompleted \<and> is_ok (fst (process_handshake_bytes cr bc rand rng a b t e)) \<and>
      (classify_incoming b = KindHandshakeFinish \<or> classify_incoming b = KindHandshakeFinishAck))
    (stats e) (stats (snd (process_handshake_bytes cr bc rand rng a b t e)))"
proof (cases "classify_incoming b")
  case KindHandshakeFinish
  have "adds k (k = HandshakesCompleted \<and> is_ok (fst (process_handshake_bytes cr bc rand rng a b t e)))
      (stats (snd (on_handshakes (process_finish_build_finish_ack cr bc a b (identity e) t) e)))
      (stats (snd (process_handshake_bytes cr bc rand rng a b t e)))"
    unfolding process_handshake_bytes_def KindHandshakeFinish message_kind.case
    by (rule then_complete_adds) (auto intro: complete_adds)
  with KindHandshakeFinish show ?thesis by simp
next
  case KindHandshakeFinishAck
  have "adds k (k = HandshakesCompleted \<and> is_ok (fst (process_handshake_bytes cr bc rand rng a b t e)))
      (stats (snd (on_handshakes (process_finish_ack cr bc a b t) e)))
      (stats (snd (process_handshake_bytes cr bc rand rng a b t e)))"
    unfolding process_handshake_bytes_def KindHandshakeFinishAck message_kind.case
    by (rule then_complete_adds) (auto intro: complete_adds)
  with KindHandshakeFinishAck show ?thesis by simp
qed (simp_all add: process_handshake_bytes_def)

lemma finish_ack_adds:
  assumes "p = then_do (on_handshakes f e) (\<lambda>(x, s) e. (Ok x, store_finished s e))"
  shows "adds k (k = HandshakesCompleted \<and> is_ok (fst p)) (stats e) (stats (snd p))"
proof -
  have "adds k (k = HandshakesCompleted \<and> is_ok (fst p)) (stats (snd (on_handshakes f e))) (stats (snd p))"
    unfolding assms by (rule then_complete_adds) (auto intro: complete_adds split: prod.splits)
  then show ?thesis by simp
qed

lemma keeps_stats [simp]:
  "adds k b s (stats (heartbeat now e)) = adds k b s (stats e)"
  "adds k b s (stats (snd (disconnect_peer a e))) = adds k b s (stats e)"
  "stats (snd (connect_peer bc rand a t e)) = stats e"
  by (auto simp: heartbeat_def Let_def graft_eq sync_peer_stats_def disconnect_peer_def remove_from_mesh_def connect_peer_def
      split: prod.splits option.splits)

subsection \<open>Calls on the component\<close>

definition balance :: "counter \<Rightarrow> ('k, 'd) globals \<Rightarrow> nat" where
  "balance k g = (case gossip_state g of None \<Rightarrow> 0 | Some e \<Rightarrow> reading k (stats e))"

lemma balance_bound: "balance k g mod 2 ^ width k = balance k g"
  by (simp add: balance_def reading_bound split: option.splits)

definition booked ::
    "('k, 'p, 'c, 's, 'd) crypto \<Rightarrow> codec \<Rightarrow> counter \<Rightarrow> export_call \<Rightarrow> ('k, 'd) globals \<Rightarrow> outcome \<times> ('k, 'd) globals \<Rightarrow> bool" where
  "booked cr bc k c g p \<longleftrightarrow>
     balance k (snd p) = (balance k g + of_bool (counted cr bc k c (fst p))) mod 2 ^ width k"

lemma booked_same:
  assumes "\<not> counted cr bc k c r" and "balance k g' = balance k g"
  shows "booked cr bc k c g (r, g')"
  using assms by (simp add: booked_def balance_bound)

lemma booked_engine:
  assumes "\<And>e. gossip_state g = Some e \<Longrightarrow>
      adds k (counted cr bc k c (outcome_of f (fst (run e)))) (stats e) (stats (snd (run e)))"
    and "\<not> counted cr bc k c (Failed WitNotInitialized)"
  shows "booked cr bc k c g (deliver f (with_engine run g))"
  using assms
  by (auto simp: booked_def balance_def deliver_def adds_def with_engine_def with_engine_and_def split: option.splits prod.splits)

lemma uncounted:
  "\<not> publication c \<Longrightarrow> \<not> completion c \<Longrightarrow> \<not> envelope_read cr bc c \<Longrightarrow> \<not> counted cr bc k c r"
  by (cases k) auto

lemma booked_query:
  "\<not> publication c \<Longrightarrow> \<not> completion c \<Longrightarrow> \<not> envelope_read cr bc c \<Longrightarrow> booked cr bc k c g (deliver f (with_engine (\<lambda>e. (q e, e)) g))"
  by (rule booked_engine) (simp_all add: uncounted)

lemma booked_stateless:
  "\<not> publication c \<Longrightarrow> \<not> completion c \<Longrightarrow> \<not> envelope_read cr bc c \<Longrightarrow> booked cr bc k c g (deliver f (r, g))"
  by (simp add: deliver_def booked_same uncounted)

lemma booked_started:
  assumes "\<not> publication c" "\<not> completion c" "\<not> envelope_read cr bc c" and "started g (snd p)"
  shows "booked cr bc k c g (deliver f p)"
proof -
  have "reading k stats_default = 0" by (cases k) (simp_all add: stats_default_def)
  then have "balance k (snd p) = balance k g"
    using assms(4) by (auto simp: started_def balance_def engine_new_def)
  then show ?thesis unfolding deliver_def by (rule booked_same [OF uncounted [OF assms(1-3)]])
qed

lemma booked_rekeyed:
  assumes "\<not> publication c" "\<not> completion c" "\<not> envelope_read cr bc c" and "rekeyed g (snd p)"
  shows "booked cr bc k c g (deliver f p)"
proof -
  have "balance k (snd p) = balance k g"
    using assms(4) by (cases "gossip_state g") (auto simp: rekeyed_def balance_def)
  then show ?thesis unfolding deliver_def by (rule booked_same [OF uncounted [OF assms(1-3)]])
qed

lemma errors_when_running [simp]:
  "verify_envelope cr env rc now \<noteq> Err NotInitialized" "check_envelope_sender l env \<noteq> Err NotInitialized"
  by (auto simp: verify_envelope_def check_envelope_sender_def verify_external_def context_too_long_def Let_def result_simps
      split: sig_outcome.splits)

lemma checked_adds:
  assumes "checked_verify cr bc b now l e = (r, e')"
  shows "adds k (\<not> isl (de_envelope bc b) \<and> (k = Received \<and> r = Ok True \<or> k = Dropped \<and> r \<noteq> Ok True)) (stats e) (stats e')"
proof (cases "de_envelope bc b")
  case (Inr env)
  show ?thesis
  proof (cases "check_envelope_sender l env")
    case (Ok u)
    then show ?thesis using assms verify_adds [of cr bc b now e r e'] Inr by (simp add: checked_verify_cases)
  next
    case (Err err)
    then show ?thesis using assms adds_inc(4) [of k "stats e"] Inr by (auto simp: checked_verify_cases drop_message_def)
  qed simp
qed (use assms in \<open>auto simp: checked_verify_cases\<close>)

lemma verify_not_NotInitialized:
  "fst (verify_envelope_bytes cr bc b now e) \<noteq> Err NotInitialized" "fst (checked_verify cr bc b now l e) \<noteq> Err NotInitialized"
  by (auto simp: checked_verify_cases verify_envelope_bytes_cases split: sum.splits res.splits)

lemma wit_errors:
  "wit_error_from e = WitNotInitialized \<longleftrightarrow> e = NotInitialized"
  "wit_error_from e = WitEnvelopeError m \<longleftrightarrow> e = EnvelopeError m"
  by (cases e; simp)+

lemma outcome_iff:
  "outcome_of VBool r = Returned (VBool b) \<longleftrightarrow> r = Ok b"
  "outcome_of f q = Failed WitNotInitialized \<longleftrightarrow> q = Err NotInitialized"
  "outcome_of f q = Failed (WitEnvelopeError m) \<longleftrightarrow> q = Err (EnvelopeError m)"
  "returned (outcome_of f q) \<longleftrightarrow> is_ok q"
  by (cases r, simp_all) (cases q, simp_all add: wit_errors)+

lemma counted_verify:
  "r \<noteq> Err NotInitialized \<Longrightarrow> counted cr bc k (GossipVerifyEnvelope clock b) (outcome_of VBool r) \<longleftrightarrow>
     \<not> isl (de_envelope bc b) \<and> (k = Received \<and> r = Ok True \<or> k = Dropped \<and> r \<noteq> Ok True)"
  by (cases k) (simp_all add: outcome_iff)

lemma counted_checked:
  "r \<noteq> Err NotInitialized \<Longrightarrow> lineage_decode cr bc lb = Ok l \<Longrightarrow>
   counted cr bc k (GossipVerifyEnvelopeFromLineage clock b lb) (outcome_of VBool r) \<longleftrightarrow>
     \<not> isl (de_envelope bc b) \<and> (k = Received \<and> r = Ok True \<or> k = Dropped \<and> r \<noteq> Ok True)"
  by (cases k) (simp_all add: outcome_iff)

lemma not_counted_before [simp]: "\<not> counted cr bc k c (Failed WitNotInitialized)"
  by (cases k) simp_all

lemma booked_from_lineage:
  "booked cr bc k (GossipVerifyEnvelopeFromLineage clock eb lb) g (deliver VBool (gossip_verify_envelope_from_lineage cr bc clock eb lb g))"
proof (cases "lineage_decode cr bc lb")
  case (Ok l)
  have "adds k (counted cr bc k (GossipVerifyEnvelopeFromLineage clock eb lb)
      (outcome_of VBool (fst (checked_verify cr bc eb (current_time_unix_ms clock) l e)))) (stats e)
      (stats (snd (checked_verify cr bc eb (current_time_unix_ms clock) l e)))" for e
    unfolding counted_checked [OF verify_not_NotInitialized(2) Ok] by (rule checked_adds [OF prod.collapse [symmetric]])
  then have "booked cr bc k (GossipVerifyEnvelopeFromLineage clock eb lb) g
      (deliver VBool (with_engine (checked_verify cr bc eb (current_time_unix_ms clock) l) g))"
    by (rule booked_engine) (simp only: not_counted_before not_False_eq_True)
  with Ok show ?thesis by (simp add: gossip_verify_envelope_from_lineage_def)
next
  case (Err err)
  then show ?thesis by (cases k) (auto simp: gossip_verify_envelope_from_lineage_def deliver_def intro!: booked_same)
qed simp

lemma counted_publish:
  "counted cr bc k (GossipPublish clock t payload) (outcome_of VBytes r) \<longleftrightarrow>
     k = Published \<and> is_ok r \<or> k = Deduplicated \<and> r = Err (EnvelopeError ''duplicate message'')"
  by (cases k) (simp_all add: outcome_iff)

lemma counted_completion:
  assumes "\<not> publication c" and "\<not> envelope_read cr bc c"
  shows "counted cr bc k c (outcome_of f r) \<longleftrightarrow> k = HandshakesCompleted \<and> is_ok r \<and> completion c"
  using assms by (cases k) (auto simp: outcome_iff)

lemma booked_handshake:
  assumes "\<not> publication c" and "\<not> envelope_read cr bc c"
    and "\<And>e. adds k (k = HandshakesCompleted \<and> is_ok (fst (run e)) \<and> completion c) (stats e) (stats (snd (run e)))"
  shows "booked cr bc k c g (deliver f (with_engine run g))"
  by (rule booked_engine) (simp_all only: counted_completion [OF assms(1,2)] assms(3) not_counted_before not_False_eq_True)

text \<open>Every call is booked.\<close>

lemma component_call_booked: "booked cr bc k c g (component_call cr bc js c g)"
proof (cases c)
  case (GossipPublish clock t payload)
  show ?thesis unfolding GossipPublish component_call.simps gossip_publish_def
    by (rule booked_engine) (use publish_adds [OF prod.collapse [symmetric]] in \<open>simp_all only: counted_publish not_counted_before not_False_eq_True\<close>)
next
  case (GossipVerifyEnvelope clock b)
  show ?thesis unfolding GossipVerifyEnvelope component_call.simps gossip_verify_envelope_def
    by (rule booked_engine)
       (use verify_adds [OF prod.collapse [symmetric]] in \<open>simp_all only: counted_verify [OF verify_not_NotInitialized(1)] not_counted_before not_False_eq_True\<close>)
next
  case (GossipProcessHandshakeBytes clock rand rng a b)
  then show ?thesis by (simp add: gossip_process_handshake_bytes_def booked_handshake process_adds)
next
  case (GossipBuildFinishAck clock a b)
  then show ?thesis by (simp add: gossip_build_finish_ack_def booked_handshake finish_ack_adds [OF refl])
next
  case (GossipVerifyEnvelopeFromLineage clock eb lb)
  then show ?thesis by (simp add: booked_from_lineage)
next
  case GossipGetKeyLineage
  then show ?thesis
    by (auto simp: gossip_get_key_lineage_def with_lineage_def deliver_def balance_def uncounted intro!: booked_same)
qed (simp_all add: gossip_get_peers_def gossip_get_session_def gossip_get_node_identity_def gossip_encode_envelope_def
    gossip_decode_envelope_def booked_query booked_started [OF _ _ _ started_init] booked_started [OF _ _ _ started_init_with_lineage]
    gossip_connect_peer_def gossip_disconnect_peer_def gossip_get_stats_def Let_def gossip_build_handshake_ack_def booked_handshake
    booked_rekeyed [OF _ _ _ rekeyed_rotate] booked_rekeyed [OF _ _ _ rekeyed_rotate_under_id] booked_stateless booked_same uncounted)

text \<open>In every history, the counters are the tallies.\<close>

lemma history_balance:
  "history cr bc js tr st \<Longrightarrow> balance k (st n) = tally cr bc k n tr mod 2 ^ width k"
proof (induction rule: history.induct)
  case Nothing
  then show ?case by (simp add: balance_def globals_init_def tally_def)
next
  case (Called tr st c m r g')
  from component_call_booked [of cr bc k c "st m" js] Called(2) Called.IH
  show ?case by (cases "n = m") (auto simp: booked_def tally_def mod_add_left_eq)
next
  case (Reordered tr st m e e')
  then have "stats e' = stats e" by (auto simp: reordered_def)
  with Reordered show ?case by (auto simp: balance_def)
qed

end
