(* ===== verification/History_Properties.thy ===== *)
theory History_Properties
  imports Agreement Ledger Properties
begin

text \<open>
  Properties of whole histories of a network, with a history of two example nodes that shake hands.
\<close>

section \<open>A history of two nodes\<close>

definition call0 :: "nat option \<Rightarrow> string \<Rightarrow> bytes \<Rightarrow> export_call" where
  "call0 clock a b = GossipProcessHandshakeBytes clock (Inr [2]) [3] a b"

text \<open>Nodes 0 and 1 are initialized; node 0 opens a handshake with node 1 and completes it.\<close>

definition calls0 :: "bytes \<Rightarrow> bytes \<Rightarrow> bytes \<Rightarrow> bytes \<Rightarrow> (nat \<times> export_call) list" where
  "calls0 probe ack fin fack =
     [(0, GossipInit [1] [1] ''{}''), (1, GossipInit [2] [2] ''{}''), (0, GossipConnectPeer (Some 1000) (Inr [1]) ''s''),
      (1, call0 (Some 1001) ''c'' probe), (0, call0 (Some 1002) ''s'' ack), (1, call0 (Some 1003) ''c'' fin),
      (0, call0 (Some 1004) ''s'' fack)]"

text \<open>The running component of the node with key seed \<open>k\<close> and engine \<open>e\<close>.\<close>

definition with_engine0 :: "bytes \<Rightarrow> (bytes, bytes) engine \<Rightarrow> (bytes, bytes) globals" where
  "with_engine0 k e = \<lparr>gossip_state = Some e, lineage = Some (lineage0 k)\<rparr>"

lemma init_0_call:
  "component_call cr0 bc0 js0 (GossipInit k k ''{}'') globals_init = (Returned VUnit, with_engine0 k (engine_new rc0 (node0 k)))"
  by (simp add: init_0 deliver_def running_def with_engine0_def)

lemma connect_0_call:
  assumes "build_probe bc0 (Inr [1]) a (node0 k) 1000 manager_new = (Ok probe, m)"
  shows "component_call cr0 bc0 js0 (GossipConnectPeer (Some 1000) (Inr [1]) a) (with_engine0 k (engine_new rc0 (node0 k))) =
    (Returned (VBytes probe), with_engine0 k ((engine_new rc0 (node0 k))\<lparr>handshakes := m\<rparr>))"
  using assms by (simp add: with_engine0_def gossip_connect_peer_def with_engine_def with_engine_and_def deliver_def
      connect_peer_def on_handshakes_def current_time_unix_ms_def ses.get_empty)

lemma process_0_call:
  assumes "process_handshake_bytes cr bc0 (Inr [2]) [3] a b (current_time_unix_ms clock) e = (Ok r, e')"
  shows "component_call cr bc0 js0 (call0 clock a b) (with_engine0 k e) = (Returned (VReply r), with_engine0 k e')"
  using assms
  by (simp add: with_engine0_def call0_def gossip_process_handshake_bytes_def with_engine_def with_engine_and_def deliver_def)

text \<open>The last two events: the server answers the Finish, the client completes.\<close>

lemma drive_0:
  obtains probe ack fin fack tr st ms1 ms2 ss mc3 sc where
      "drive cr0 bc0 js0 (calls0 probe ack fin fack) (\<lambda>n. globals_init) = (tr, st)"
    and "process_finish_build_finish_ack cr0 bc0 ''c'' fin (node0 [2]) 1003 ms1 = (Ok (fack, ss), ms2)"
    and "sr_peer_sig_public_key sc = pad 1952 [2]" and "sr_peer_addr sc = ''s''"
    and "classify_incoming probe = KindHandshakeProbe" and "classify_incoming ack = KindHandshakeAck"
    and "classify_incoming fin = KindHandshakeFinish" and "classify_incoming fack = KindHandshakeFinishAck"
    and "ev_before (tr ! 5) = with_engine0 [2] ((engine_new rc0 (node0 [2]))\<lparr>handshakes := ms1\<rparr>)"
    and "ev_outcome (tr ! 5) = Returned (VReply (Some fack))"
    and "ev_outcome (tr ! 6) = Returned (VReply None)"
    and "component_call cr0 bc0 js0 (ev_call (tr ! 6)) (ev_before (tr ! 6)) =
      (ev_outcome (tr ! 6), with_engine0 [1] (complete_handshake ''s'' sc ((engine_new rc0 (node0 [1]))\<lparr>handshakes := mc3\<rparr>)))"
proof -
  obtain probe ack fin fack mc1 ms1 mc2 ms2 mc3 sc ss where
    x: "build_probe bc0 (Inr [1]) ''s'' (node0 [1]) 1000 manager_new = (Ok probe, mc1)"
    "process_probe_build_ack cr0 bc0 (Inr [2]) ''c'' probe (node0 [2]) 1001 manager_new = (Ok ack, ms1)"
    "process_ack_build_finish cr0 bc0 [3] ''s'' ack (node0 [1]) 1002 mc1 = (Ok fin, mc2)"
    "process_finish_build_finish_ack cr0 bc0 ''c'' fin (node0 [2]) 1003 ms1 = (Ok (fack, ss), ms2)"
    "process_finish_ack cr0 bc0 ''s'' fack 1004 mc2 = (Ok sc, mc3)"
    and sc: "sr_peer_sig_public_key sc = pad 1952 [2]" "sr_peer_addr sc = ''s''"
    and kinds: "classify_incoming probe = KindHandshakeProbe" "classify_incoming ack = KindHandshakeAck"
    "classify_incoming fin = KindHandshakeFinish" "classify_incoming fack = KindHandshakeFinishAck"
    using exchange_0 by metis
  let ?ec = "engine_new rc0 (node0 [1])" and ?es = "engine_new rc0 (node0 [2])"
  let ?closed = "complete_handshake ''s'' sc (?ec\<lparr>handshakes := mc3\<rparr>)" and ?mid = "complete_handshake ''c'' ss (?es\<lparr>handshakes := ms2\<rparr>)"
  have c2: "component_call cr0 bc0 js0 (call0 (Some 1001) ''c'' probe) (with_engine0 [2] ?es) = (Returned (VReply (Some ack)), with_engine0 [2] (?es\<lparr>handshakes := ms1\<rparr>))"
    by (rule process_0_call) (use x(2) in \<open>simp add: current_time_unix_ms_def process_handshake_kinds(1) [OF kinds(1)]\<close>)
  have c3: "component_call cr0 bc0 js0 (call0 (Some 1002) ''s'' ack) (with_engine0 [1] (?ec\<lparr>handshakes := mc1\<rparr>)) = (Returned (VReply (Some fin)), with_engine0 [1] (?ec\<lparr>handshakes := mc2\<rparr>))"
    by (rule process_0_call) (use x(3) in \<open>simp add: current_time_unix_ms_def process_handshake_kinds(2) [OF kinds(2)]\<close>)
  have c4: "component_call cr0 bc0 js0 (call0 (Some 1003) ''c'' fin) (with_engine0 [2] (?es\<lparr>handshakes := ms1\<rparr>)) = (Returned (VReply (Some fack)), with_engine0 [2] ?mid)"
    by (rule process_0_call) (use x(4) in \<open>simp add: current_time_unix_ms_def process_handshake_kinds(3) [OF kinds(3)]\<close>)
  have c5: "component_call cr0 bc0 js0 (call0 (Some 1004) ''s'' fack) (with_engine0 [1] (?ec\<lparr>handshakes := mc2\<rparr>)) = (Returned (VReply None), with_engine0 [1] ?closed)"
    by (rule process_0_call) (use x(5) in \<open>simp add: current_time_unix_ms_def process_handshake_kinds(4) [OF kinds(4)]\<close>)
  obtain tr st where d: "drive cr0 bc0 js0 (calls0 probe ack fin fack) (\<lambda>n. globals_init) = (tr, st)" by force
  show thesis
    by (rule that [OF d x(4) sc kinds])
       (use d in \<open>auto simp: calls0_def init_0_call connect_0_call [OF x(1)] c2 c3 c4 c5 simp del: component_call.simps\<close>)
qed

text \<open>The answer to a Finish depends on the signature of its transcript.\<close>

lemma finish_signed_0:
  assumes "process_finish_build_finish_ack cr0 bc0 ''c'' fin (node0 [2]) 1003 ms1 = (Ok (fack, ss), ms2)"
    and "hm_get ''c'' (pending ms1) = Some (Server (AckSent cn sn pb ab t0))" and "classify_incoming fin = KindHandshakeFinish"
  shows "signs cr0 bc0 js0 (call0 (Some 1003) ''c'' fin) (with_engine0 [2] ((engine_new rc0 (node0 [2]))\<lparr>handshakes := ms1\<rparr>)) [2]
    (tagged_message SIG_CTX_HANDSHAKE (compute_transcript_hash cr0 pb ab fin))"
proof -
  let ?h = "compute_transcript_hash cr0 pb ab fin" and ?e = "(engine_new rc0 (node0 [2]))\<lparr>handshakes := ms1\<rparr>"
  let ?msg = "tagged_message SIG_CTX_HANDSHAKE ?h"
  let ?cr = "resigned [2] ?msg [] cr0"
  have sign: "sign cr0 (node0 [2]) ?h SIG_CTX_HANDSHAKE = Ok (pad 1952 [2] @ ?msg)" "sign ?cr (node0 [2]) ?h SIG_CTX_HANDSHAKE = Ok []"
    by (simp_all add: sign_def resigned_def node0_def cr0_def)
  obtain g where g: "ser_finish_ack bc0 g = Inr fack" "fack_transcript_signature g = pad 1952 [2] @ ?msg"
    and run: "\<And>b. ser_finish_ack bc0 (g\<lparr>fack_transcript_signature := []\<rparr>) = Inr b \<Longrightarrow>
      \<exists>s. process_finish_build_finish_ack ?cr bc0 ''c'' fin (node0 [2]) 1003 ms1 = (Ok (b, s), ms2)"
    using assms(1,2) sign unfolding process_finish_Ok unaffected by fastforce
  obtain b where b: "ser_finish_ack bc0 (g\<lparr>fack_transcript_signature := []\<rparr>) = Inr b"
    using externals_totalD(4) [OF externals_total_0] by blast
  have "b \<noteq> fack" using bincode_lawsD(5) [OF bincode_laws_bc0 b] bincode_lawsD(5) [OF bincode_laws_bc0 g(1)] g(2)
    by (cases g) (auto simp: tagged_message_def)
  obtain s where s: "process_finish_build_finish_ack ?cr bc0 ''c'' fin (node0 [2]) 1003 ms1 = (Ok (b, s), ms2)" using run [OF b] by blast
  note call = process_0_call [where clock = "Some 1003" and a = "''c''" and b = fin and e = ?e and k = "[2]"]
  have "fst (component_call cr0 bc0 js0 (call0 (Some 1003) ''c'' fin) (with_engine0 [2] ?e)) = Returned (VReply (Some fack))"
    using assms(1) by (subst call) (auto simp: current_time_unix_ms_def process_handshake_kinds(3) [OF assms(3)])
  moreover have "fst (component_call ?cr bc0 js0 (call0 (Some 1003) ''c'' fin) (with_engine0 [2] ?e)) = Returned (VReply (Some b))"
    using s by (subst call) (auto simp: current_time_unix_ms_def process_handshake_kinds(3) [OF assms(3)])
  ultimately have "component_call ?cr bc0 js0 (call0 (Some 1003) ''c'' fin) (with_engine0 [2] ?e) \<noteq>
      component_call cr0 bc0 js0 (call0 (Some 1003) ''c'' fin) (with_engine0 [2] ?e)"
    using \<open>b \<noteq> fack\<close> by (metis option.inject outcome.inject(1) wit_value.inject(4))
  moreover have "sig_sign_deterministic cr0 [2] ?msg = Inr (pad 1952 [2] @ ?msg)" by (simp add: cr0_def)
  ultimately show ?thesis unfolding signs_def by blast
qed

text \<open>In it the only FinishAck that is delivered was signed by its sender.\<close>

lemma history_0:
  obtains probe ack fin fack tr st g' e' s where
      "drive cr0 bc0 js0 (calls0 probe ack fin fack) (\<lambda>n. globals_init) = (tr, st)"
    and "history cr0 bc0 js0 tr st" and "unforged cr0 bc0 js0 {pad 1952 [2]} tr"
    and "6 < length tr" and "ev_node (tr ! 6) = 0" and "ev_call (tr ! 6) = call0 (Some 1004) ''s'' fack"
    and "ev_outcome (tr ! 6) = Returned (VReply None)"
    and "component_call cr0 bc0 js0 (ev_call (tr ! 6)) (ev_before (tr ! 6)) = (ev_outcome (tr ! 6), g')"
    and "gossip_state g' = Some e'" and "sessions_get ''s'' (sessions e') = Some s" and "sr_peer_sig_public_key s = pad 1952 [2]"
proof (rule drive_0)
  fix probe ack fin fack tr st ms1 ms2 ss mc3 sc
  assume d: "drive cr0 bc0 js0 (calls0 probe ack fin fack) (\<lambda>n. globals_init) = (tr, st)"
    and p: "process_finish_build_finish_ack cr0 bc0 ''c'' fin (node0 [2]) 1003 ms1 = (Ok (fack, ss), ms2)"
    and sc: "sr_peer_sig_public_key sc = pad 1952 [2]" "sr_peer_addr sc = ''s''"
    and kinds: "classify_incoming probe = KindHandshakeProbe" "classify_incoming ack = KindHandshakeAck"
    "classify_incoming fin = KindHandshakeFinish" "classify_incoming fack = KindHandshakeFinishAck"
    and ev5: "ev_before (tr ! 5) = with_engine0 [2] ((engine_new rc0 (node0 [2]))\<lparr>handshakes := ms1\<rparr>)"
      "ev_outcome (tr ! 5) = Returned (VReply (Some fack))"
    and ev6: "ev_outcome (tr ! 6) = Returned (VReply None)"
    and c: "component_call cr0 bc0 js0 (ev_call (tr ! 6)) (ev_before (tr ! 6)) =
      (ev_outcome (tr ! 6), with_engine0 [1] (complete_handshake ''s'' sc ((engine_new rc0 (node0 [1]))\<lparr>handshakes := mc3\<rparr>)))"
  have calls: "length tr = 7" "(ev_node (tr ! i), ev_call (tr ! i)) = calls0 probe ack fin fack ! i" if "i < 7" for i
    using drive_calls [OF d, THEN arg_cong, of length] drive_calls [OF d, THEN arg_cong, of "\<lambda>xs. xs ! i"] that
    by (simp_all add: calls0_def)
  obtain cn sn pb ab t0 f where ctx: "hm_get ''c'' (pending ms1) = Some (Server (AckSent cn sn pb ab t0))"
    and f: "ser_finish_ack bc0 f = Inr fack" "fack_transcript_hash f = compute_transcript_hash cr0 pb ab fin"
      "fack_transcript_signature f = pad 1952 [2] @ tagged_message SIG_CTX_HANDSHAKE (fack_transcript_hash f)"
    using p unfolding process_finish_Ok by (fastforce simp: sign_def cr0_def node0_def)
  have de: "de_finish_ack bc0 fack = Inr f" by (rule bincode_lawsD(5) [OF bincode_laws_bc0 f(1)])
  have "signs cr0 bc0 js0 (ev_call (tr ! 5)) (ev_before (tr ! 5)) [2] (tagged_message SIG_CTX_HANDSHAKE (fack_transcript_hash f))"
    unfolding f(2) using finish_signed_0 [OF p ctx kinds(3)] calls(2) [of 5] ev5(1) by (simp add: calls0_def)
  then have signed: "signs cr0 bc0 js0 (ev_call (tr ! 5)) (ev_before (tr ! 5)) [2] msg"
    if "sig_verify cr0 (pad 1952 [2]) msg (fack_transcript_signature f) = SigOk" for msg
    using that f(3) by (auto simp: cr0_def split: if_splits)
  have "i = 6 \<and> g = f" if "i < length tr" "presented bc0 (ev_call (tr ! i)) g" for i g
    using that calls(1) [of 0] calls(2) [of i] kinds de by (auto simp: presented_def calls0_def call0_def less_Suc_eq numeral_eq_Suc)
  moreover have "\<exists>j < 6. \<exists>kp. sig_public_key cr0 kp = pad 1952 [2] \<and> signs cr0 bc0 js0 (ev_call (tr ! j)) (ev_before (tr ! j)) kp msg"
    if "sig_verify cr0 (pad 1952 [2]) msg (fack_transcript_signature f) = SigOk" for msg
    by (intro exI [of _ 5] conjI exI [of _ "[2]"] signed [OF that]) (simp_all add: cr0_def)
  ultimately have "unforged cr0 bc0 js0 {pad 1952 [2]} tr" unfolding unforged_def by blast
  with d history_drive [OF history.Nothing d] ev6 c calls(1) [of 0] calls(2) [of 6] sc show thesis
    by (intro that [of probe ack fin fack tr st]) (auto simp: calls0_def with_engine0_def ses.get_ins)
qed

section \<open>Agreement\<close>

text \<open>C15. Agreement under an active attacker. When a node completes a handshake as the client and its
  session names an honest key, the owner of that key has answered, earlier in the history, the Finish
  of a handshake with the same transcript: the concatenation of the Probe the client sent, the Ack it got
  and the Finish it sent is the concatenation of the Probe the owner got, the Ack it sent and the
  Finish it got, unless the two are a collision of SHA-256; and the session the owner then had carries
  the same transcript hash. The attacker delivers any bytes in any order; the hypothesis on it is
  unforgeability: when the signature in a FinishAck it delivers verifies under an honest key, for
  whatever message, an earlier call has signed that message with that key, that is, the call's
  result depends on this signature. That only an answered Finish is signed this way is part of
  the proof: envelopes and rotation records are signed in other contexts.\<close>

theorem completed_clients_agree_with_the_key_owner:
  assumes "history cr bc js tr st" and "key_size_laws cr" and "lineage_ser_total bc"
    and "\<forall>v. \<exists>b. ser_finish_ack bc v = Inr b" and "unforged cr bc js honest tr"
    and "i < length tr" and "ev_node (tr ! i) = n"
    and "ev_call (tr ! i) = GossipProcessHandshakeBytes clock rand rng a b" and "ev_outcome (tr ! i) = Returned (VReply None)"
    and "component_call cr bc js (ev_call (tr ! i)) (ev_before (tr ! i)) = (ev_outcome (tr ! i), g')"
    and "gossip_state g' = Some e'" and "sessions_get a (sessions e') = Some s" and "sr_peer_sig_public_key s \<in> honest"
  shows "\<exists>k0 k1 pb ab fb k2 j m a' pb' ab' fb' gj ej sj.
     k0 < k1 \<and> k1 < i \<and> opened (tr ! k0) n a pb \<and> answered (tr ! k1) n a ab fb \<and>
     k2 < j \<and> j < i \<and> ev_node (tr ! j) = m \<and> answered (tr ! k2) m a' pb' ab' \<and>
     finished cr (tr ! j) (sr_peer_sig_public_key s) a' pb' ab' fb' \<and>
     (pb @ ab @ fb = pb' @ ab' @ fb' \<or> sha256_collision cr (pb @ ab @ fb) (pb' @ ab' @ fb')) \<and>
     component_call cr bc js (ev_call (tr ! j)) (ev_before (tr ! j)) = (ev_outcome (tr ! j), gj) \<and>
     gossip_state gj = Some ej \<and> sessions_get a' (sessions ej) = Some sj \<and>
     sr_transcript_hash sj = sr_transcript_hash s"
proof -
  obtain pb ab fb k0 k1 j k2 m a' pb' ab' fb' where
    k: "k0 < k1" "k1 < i" "opened (tr ! k0) n a pb" "answered (tr ! k1) n a ab fb"
    and j: "k2 < j" "j < i" "ev_node (tr ! j) = m" "answered (tr ! k2) m a' pb' ab'"
    and fin: "finished cr (tr ! j) (sr_peer_sig_public_key s) a' pb' ab' fb'"
    and hash: "sr_transcript_hash s = compute_transcript_hash cr pb ab fb"
      "compute_transcript_hash cr pb ab fb = compute_transcript_hash cr pb' ab' fb'"
    by (rule matching_conversation [OF assms])
  obtain gj where gj: "component_call cr bc js (ev_call (tr ! j)) (ev_before (tr ! j)) = (ev_outcome (tr ! j), gj)"
    using history_event [OF assms(1), of j] j(2) assms(6) by (metis less_trans prod.collapse)
  from finished_session [OF fin gj] hash obtain ej sj where "gossip_state gj = Some ej" "sessions_get a' (sessions ej) = Some sj"
    "sr_transcript_hash sj = sr_transcript_hash s" by auto
  moreover have "pb @ ab @ fb = pb' @ ab' @ fb' \<or> sha256_collision cr (pb @ ab @ fb) (pb' @ ab' @ fb')"
    using hash(2) by (auto simp: compute_transcript_hash_def sha256_collision_def)
  ultimately show ?thesis using k j fin gj by blast
qed

theorem completed_clients_agree_with_the_key_owner_witness:
  "\<exists>probe ack fin fack tr st j a' pb' ab' fb'.
     drive cr0 bc0 js0 (calls0 probe ack fin fack) (\<lambda>n. globals_init) = (tr, st) \<and>
     ev_outcome (tr ! 6) = Returned (VReply None) \<and> j < 6 \<and> finished cr0 (tr ! j) (pad 1952 [2]) a' pb' ab' fb'"
proof -
  obtain probe ack fin fack tr st g' e' s where
    d: "drive cr0 bc0 js0 (calls0 probe ack fin fack) (\<lambda>n. globals_init) = (tr, st)"
    and h: "history cr0 bc0 js0 tr st" "unforged cr0 bc0 js0 {pad 1952 [2]} tr"
    and ev: "6 < length tr" "ev_node (tr ! 6) = 0" "ev_call (tr ! 6) = call0 (Some 1004) ''s'' fack"
      "ev_outcome (tr ! 6) = Returned (VReply None)"
    and g: "component_call cr0 bc0 js0 (ev_call (tr ! 6)) (ev_before (tr ! 6)) = (ev_outcome (tr ! 6), g')"
      "gossip_state g' = Some e'" "sessions_get ''s'' (sessions e') = Some s" and pk: "sr_peer_sig_public_key s = pad 1952 [2]"
    by (rule history_0)
  from completed_clients_agree_with_the_key_owner [OF h(1) laws_cr0(5) lineage_laws_bc0(2) _ h(2) ev(1,2) ev(3) [unfolded call0_def] ev(4) g] pk
  show ?thesis using d ev(4) externals_totalD(4) [OF externals_total_0] by (metis singletonI)
qed

section \<open>Statistics\<close>

text \<open>C22. The statistics of a node are exact. In every history, \<open>messages_published\<close> is the number of its
  successful publications, \<open>messages_deduplicated\<close> of those refused as duplicates, \<open>messages_received\<close> of
  the envelopes it could decode and accepted, \<open>messages_dropped\<close> of those it could decode and did not
  accept, and \<open>handshakes_completed\<close> of the accepted Finish and FinishAck messages, each modulo the
  width of the counter; whatever the order of the calls, and across key rotations. (The comment on
  \<open>messages_received\<close> in \<^verbatim>\<open>types.rs\<close> describes it as all envelopes passed to verification; the code
  counts the accepted ones, and what cannot be decoded is counted nowhere.)\<close>

theorem statistics_are_exact:
  assumes "history cr bc js tr st" and "gossip_state (st n) = Some e"
  shows "unat (messages_published (stats e)) = tally cr bc Published n tr mod 2 ^ 64 \<and>
    unat (messages_deduplicated (stats e)) = tally cr bc Deduplicated n tr mod 2 ^ 64 \<and>
    unat (messages_received (stats e)) = tally cr bc Received n tr mod 2 ^ 64 \<and>
    unat (messages_dropped (stats e)) = tally cr bc Dropped n tr mod 2 ^ 64 \<and>
    unat (handshakes_completed (stats e)) = tally cr bc HandshakesCompleted n tr mod 2 ^ 32"
proof -
  have "reading k (stats e) = tally cr bc k n tr mod 2 ^ width k" for k
    using history_balance [OF assms(1), of k n] assms(2) by (simp add: balance_def)
  from this [of Published] this [of Deduplicated] this [of Received] this [of Dropped] this [of HandshakesCompleted]
  show ?thesis by simp
qed

theorem statistics_are_exact_witness:
  "\<exists>tr st e. drive cr0 bc0 js0 [(0, GossipInit [1] [1] ''{}''), (0, GossipPublish (Some 1000) 0 [42])] (\<lambda>n. globals_init) = (tr, st) \<and>
     gossip_state (st 0) = Some e \<and> unat (messages_published (stats e)) = 1 \<and> unat (messages_received (stats e)) = 0"
proof -
  obtain i e where p: "publish cr0 0 [42] 1000 (engine_new rc0 (node0 [1])) = (Ok i, e)" using publish_0 by blast
  let ?calls = "[(0, GossipInit [1] [1] ''{}''), (0, GossipPublish (Some 1000) 0 [42])] :: (nat \<times> export_call) list"
  obtain tr st where d: "drive cr0 bc0 js0 ?calls (\<lambda>n. globals_init) = (tr, st)" by force
  then have tr: "map (\<lambda>ev. (ev_node ev, ev_call ev, ev_outcome ev)) tr =
      [(0, GossipInit [1] [1] ''{}'', Returned VUnit), (0, GossipPublish (Some 1000) 0 [42], Returned (VBytes i))]"
    and e: "gossip_state (st 0) = Some e"
    using p by (auto simp: init_0 deliver_def gossip_publish_def with_engine_def with_engine_and_def current_time_unix_ms_def)
  obtain ev0 ev1 where evs: "tr = [ev0, ev1]" "ev_node ev0 = 0" "ev_node ev1 = 0" "ev_call ev0 = GossipInit [1] [1] ''{}''"
    "ev_call ev1 = GossipPublish (Some 1000) 0 [42]" "ev_outcome ev1 = Returned (VBytes i)"
    using tr by (auto simp: map_eq_Cons_conv)
  have t: "tally cr0 bc0 Published 0 tr = 1" "tally cr0 bc0 Received 0 tr = 0"
    using evs by (simp_all add: tally_def)
  have "history cr0 bc0 js0 tr st" using history_drive [OF history.Nothing d] by simp
  from statistics_are_exact [OF this e] t have "unat (messages_published (stats e)) = 1" "unat (messages_received (stats e)) = 0"
    by simp_all
  with d e show ?thesis by blast
qed

end
