(* ===== verification/Spec2Isabelle.thy ===== *)
theory Spec2Isabelle
  imports Host_Properties Scenario_Properties History_Properties
begin

text \<open>
  \<^bold>\<open>witan\<close>: a gossip protocol for validators with post-quantum keys, as a WebAssembly component
  (\<^verbatim>\<open>src/witan\<close>), and the host program that tests it (\<^verbatim>\<open>src/wasmtime-test\<close>).

  \<^bold>\<open>The program.\<close> A component instance keeps two process-wide cells: an engine and a key lineage. The
  engine owns a configuration, an identity (a hybrid KEM key pair, an ML-DSA-65 key pair and an id
  derived from both public keys), the sessions with peers, the handshakes under way, a cache of
  published message ids, a quorum tracker, counters and the list of mesh peers. A host carries bytes
  between instances: four messages establish a session, envelopes carry signed payloads, a lineage
  proves that keys were rotated under one id. The same functions are exported twice, as a component
  interface with typed results and as a C-ABI over linear memory.

  \<^bold>\<open>The theories\<close>, each named after what it models:
  \<^item> \<^verbatim>\<open>Prelude\<close>, \<^verbatim>\<open>HashMap\<close>, \<^verbatim>\<open>F64\<close>: results that are a value, an error or a panic; bytes, machine
    words and decimal rendering; \<open>HashMap\<close> as an association list (locale \<open>hash_map\<close>); rounding to
    binary64.
  \<^item> \<^verbatim>\<open>Errors\<close> (\<^verbatim>\<open>error.rs\<close>), \<^verbatim>\<open>Types\<close> (\<^verbatim>\<open>types.rs\<close>), \<^verbatim>\<open>Config\<close> (\<^verbatim>\<open>config.rs\<close>).
  \<^item> \<^verbatim>\<open>External\<close>: the crates the sources only call, as records of functions with named laws.
  \<^item> \<^verbatim>\<open>Identity\<close> (\<^verbatim>\<open>identity.rs\<close>), \<^verbatim>\<open>Envelope\<close> (\<^verbatim>\<open>envelope.rs\<close>), \<^verbatim>\<open>Dedup\<close> (\<^verbatim>\<open>dedup.rs\<close>), \<^verbatim>\<open>Quorum\<close>
    (\<^verbatim>\<open>quorum.rs\<close>), \<^verbatim>\<open>Session\<close> (\<^verbatim>\<open>session.rs\<close>).
  \<^item> \<^verbatim>\<open>Handshake\<close> and \<^verbatim>\<open>Handshake_Facts\<close> (\<^verbatim>\<open>handshake.rs\<close>): both state machines and what a run between
    an honest client and an honest server gives.
  \<^item> \<^verbatim>\<open>Rotation\<close> and \<^verbatim>\<open>Rotation_Facts\<close> (\<^verbatim>\<open>rotation.rs\<close>): rotation records and lineages; a lineage is a
    verified log (locale \<open>verified_log\<close>), an encoding of fields is a prefix code.
  \<^item> \<^verbatim>\<open>Engine\<close> and \<^verbatim>\<open>Engine_Facts\<close> (\<^verbatim>\<open>gossip.rs\<close>): the engine and its invariant; every method is
    shown to be an \<open>engine_op\<close>, which keeps it.
  \<^item> \<^verbatim>\<open>Api\<close> and \<^verbatim>\<open>Api_Facts\<close> (\<^verbatim>\<open>api.rs\<close>): the two cells and the functions over them.
  \<^item> \<^verbatim>\<open>Component\<close> (\<^verbatim>\<open>component.rs\<close>): the exports as a datatype of calls, one step of the component, its
    reachable states.
  \<^item> \<^verbatim>\<open>History\<close>: many nodes whose hosts call any export with any bytes, as sequences of events, and where
    every handshake in progress comes from. On it, \<^verbatim>\<open>Signing\<close> (which signatures the result of a call
    depends on), \<^verbatim>\<open>Agreement\<close> (what a completed client can conclude) and \<^verbatim>\<open>Ledger\<close> (the counters against the events).
  \<^item> \<^verbatim>\<open>Wasi\<close> and \<^verbatim>\<open>Wasi_Facts\<close> (\<^verbatim>\<open>wasi_exports.rs\<close>): linear memory with its live blocks, the out-slot, the
    C-ABI exports.
  \<^item> \<^verbatim>\<open>Network\<close> (\<open>do_handshake\<close> of \<^verbatim>\<open>main.rs\<close>), \<^verbatim>\<open>Node\<close> (\<^verbatim>\<open>node.rs\<close>), \<^verbatim>\<open>Scenario\<close> and \<^verbatim>\<open>Scenario_Facts\<close> (the
    rotation scenario of \<^verbatim>\<open>main.rs\<close>): instances and the host between them.
  \<^item> \<^verbatim>\<open>Mesh\<close> and \<^verbatim>\<open>Mesh_Facts\<close> (the rest of \<^verbatim>\<open>main.rs\<close>): the three-node scenario and the whole
    program, from its arguments to its verdict.
  \<^item> \<^verbatim>\<open>Validator\<close> and \<^verbatim>\<open>Validator_Facts\<close> (\<^verbatim>\<open>bin/validate_api.rs\<close>): the twenty tests of the API.
  \<^item> \<^verbatim>\<open>Instance\<close>: concrete functions for the external crates, on which the examples run.
  \<^item> \<^verbatim>\<open>Properties\<close>, \<^verbatim>\<open>History_Properties\<close>, \<^verbatim>\<open>Host_Properties\<close>, \<^verbatim>\<open>Scenario_Properties\<close> and this theory: the
    properties.

  \<^bold>\<open>How the code is modelled.\<close> A method on \<open>&mut self\<close> takes the state last and returns its result
  with the new state, on the error paths too. An index or slice out of range, and an \<open>expect\<close> that
  fails, is \<open>Panic\<close>; locks always succeed, because a panic aborts the instance. Counters and sequence
  numbers are words and wrap as in a release build; \<open>usize\<close> is a natural number, except in the C-ABI,
  where pointers and lengths are 32-bit words. The clock and the random bytes are arguments of each
  call. A hash map is visited in the order of its list; between two calls the component may permute
  every map, so that what is shown of reachable states holds for every iteration order. \<open>Arc\<close> is
  transparent: the identity behind it is only replaced, never mutated.

  \<^bold>\<open>Parameters.\<close> \<open>sha2\<close>, \<open>hmac\<close>, \<open>hkdf\<close>, \<open>hex\<close>, \<open>pqc-kem\<close> and \<open>pqc-sig\<close> are the record \<open>crypto\<close>,
  \<open>bincode\<close> the record \<open>codec\<close>, \<open>serde_json\<close> the records \<open>json\<close> and \<open>host_json\<close>, the allocator the record
  \<open>environment\<close>, what wasmtime makes of the bytes of a component the record \<open>wasm_image\<close>. A theorem that needs something of them says so by a hypothesis: sizes
  (\<open>hash_laws\<close>, \<open>key_size_laws\<close>), round trips (\<open>hex_laws\<close>, \<open>bincode_laws\<close>, \<open>lineage_codec_laws\<close>,
  \<open>kem_laws\<close>), verification of honest signatures (\<open>sig_laws\<close>), the field order of \<open>bincode\<close>
  (\<open>layout_laws\<close>), success on well-formed input (\<open>externals_total\<close>, \<open>lineage_ser_total\<close>), fresh blocks
  (\<open>environment_laws\<close>), a component that loads (\<open>loads\<close>). Nothing is assumed about secrecy; only C15 assumes
  something about an attacker: \<open>unforged\<close> says that when the signature in a delivered FinishAck verifies
  under an honest key, an earlier call has signed that message with that key, where a call signs a
  message when its result depends on the signature. Laws about public keys speak of the public keys
  of key pairs only. A collision of SHA-256 is never assumed
  away: where one would matter, it is an alternative of the conclusion.

  \<^bold>\<open>What is shown.\<close> States: the invariant of all reachable states and that no call traps (C1, C2).
  Handshakes: an honest run succeeds and both sides agree (C3); with an active attacker a completed
  client agrees with the owner of the server's key (C15); what a client requires (C20), single use (C16), independence of peers (C17), dispatch (C18), and what is not authenticated (C31, C32).
  Envelopes: the exact acceptance condition (C21), round trip through a lineage (C4), what the signature leaves open (C35). Lineages: validity of whatever decodes (C8), round
  trip (C9), commitments (C10, C14), binding of records (C11), forks as evidence against one key (C12),
  replay and fork (C13), rotation,
  refusal of replaced keys and restart of a running node (C5, C6, C7), the size limit (C37).
  Bookkeeping: the counters of the statistics in every history (C22), deduplication against a log that never forgets (C23, C24, C36), heartbeat (C25, C26),
  disconnection (C27), quorum arithmetic in binary64 (C28, C29), configuration (C30). Helpers:
  constant-time comparison (C19). Host interface: the C-ABI
  agrees with the component interface, stays inside its memory and traps exactly when the allocator
  refuses the bytes of the result (C33), what can be freed (C34), one
  export that leaves the mesh alone (C38). Host programs: the test
  program, given a component that loads, runs to its end with every check passed (C39), and so does the validator of the API (C40).

  \<^bold>\<open>Bounds.\<close> No definition uses fuel: the loops run over lists. The scenarios have at most three
  rotations with short epoch labels, for which the encoded lineage is far below 4 MiB.

  \<^bold>\<open>Not modelled.\<close> \<^verbatim>\<open>lib.rs\<close> (module declarations and re-exports: no code of its own), the WASI context of a
  store (\<^verbatim>\<open>Ctx\<close> of \<^verbatim>\<open>node.rs\<close>, which only hands standard streams to wasmtime), printing, and the unit tests. A failure of \<open>OsRng\<close> or of the allocator inside the component ends the
  instance and is left out, except for the results the C-ABI leaks. That the bytes wasmtime loads are
  the component built from these sources is taken for granted by C39.
\<close>

section \<open>The component\<close>

text \<open>C1. In every state the component can reach by any sequence of calls of its exports (with any
  iteration order of its hash maps), either nothing is initialized, or there are an engine and a
  lineage: the engine satisfies its invariant (mesh without duplicates, inside the sessions and
  within \<open>mesh_n_high\<close>; sessions filed under their address; peer counters exact), the lineage is a
  valid chain, and the engine's identity is the lineage's current one.\<close>

theorem reachable_states_consistent:
  assumes "reachable cr bc js g" and "key_size_laws cr" and "lineage_ser_total bc"
  shows "(gossip_state g = None \<and> lineage g = None) \<or>
    (\<exists>e l. gossip_state g = Some e \<and> lineage g = Some l \<and> engine_inv e \<and> lineage_inv cr l \<and> agrees cr e l)"
  using comp.holds [OF assms(1)] assms(2,3) by (auto simp: globals_inv_def split: option.splits)

theorem reachable_states_consistent_witness:
  "\<exists>e l. gossip_state (running [1]) = Some e \<and> lineage (running [1]) = Some l \<and>
     engine_inv e \<and> lineage_inv cr0 l \<and> agrees cr0 e l"
  using reachable_states_consistent [OF reachable_0 laws_cr0(5) lineage_laws_bc0(2), of "[1]"] by simp

text \<open>C2. No export traps in a reachable state, on any argument: no index or slice is out of range.\<close>

theorem exports_never_trap:
  assumes "reachable cr bc js g" and "key_size_laws cr" and "lineage_ser_total bc"
  shows "fst (component_call cr bc js c g) \<noteq> Trapped"
  using component_call_good [of cr g bc js c] comp.holds [OF assms(1)] assms(2,3)
  by (metis prod.collapse)

theorem exports_never_trap_witness:
  "fst (component_call cr0 bc0 js0 (GossipRotateKeysUnderId (Some 5) [] [1] ''e'' None) (running [1])) \<noteq> Trapped"
  by (rule exports_never_trap [OF reachable_0 laws_cr0(5) lineage_laws_bc0(2)])

text \<open>C3. The host's handshake driver succeeds between two initialized nodes whose clocks stay
  within the freshness windows, when the client has no session with the server: both end with a
  session of the same id and transcript, and each knows the other's node id and signing key.\<close>

theorem handshake_establishes_sessions:
  assumes "bincode_laws bc" and "layout_laws bc" and "kem_laws cr" and "sig_laws cr"
    and "externals_total cr bc" and "key_size_laws cr"
    and "he_client_nonce env = Inr cn" and "he_server_nonce env = Inr sn" and "clocks_fresh env"
    and "gossip_state client = Some ec" and "sessions_get sa (sessions ec) = None"
    and "gossip_state server = Some es"
  shows "\<exists>ec' es' sc ss. do_handshake cr bc env ca sa client server =
      (None, client\<lparr>gossip_state := Some ec'\<rparr>, server\<lparr>gossip_state := Some es'\<rparr>) \<and>
    sessions_get sa (sessions ec') = Some sc \<and> sessions_get ca (sessions es') = Some ss \<and>
    sr_session_id sc = sr_session_id ss \<and> sr_transcript_hash sc = sr_transcript_hash ss \<and>
    sr_peer_sig_public_key sc = sig_public_key_bytes cr (identity es) \<and> sr_peer_node_id sc = ni_node_id (identity es) \<and>
    sr_peer_sig_public_key ss = sig_public_key_bytes cr (identity ec) \<and> sr_peer_node_id ss = ni_node_id (identity ec)"
  by (rule do_handshake_succeeds) (rule assms)+

definition env0 :: handshake_env where
  "env0 = \<lparr>he_clock1 = Some 1000, he_clock2 = Some 1010, he_clock3 = Some 1020, he_clock4 = Some 1030,
     he_clock5 = Some 1040, he_client_nonce = Inr (replicate 32 1), he_server_nonce = Inr (replicate 32 2),
     he_coins = replicate 32 3\<rparr>"

theorem handshake_establishes_sessions_witness:
  "fst (do_handshake cr0 bc0 env0 ''client:1'' ''server:2'' (running [1]) (running [2])) = None"
proof -
  have fresh: "clocks_fresh env0"
    by (simp add: clocks_fresh_def fresh_iff env0_def current_time_unix_ms_def)
  have n: "he_client_nonce env0 = Inr (replicate 32 1)" "he_server_nonce env0 = Inr (replicate 32 2)"
    by (simp_all add: env0_def)
  from handshake_establishes_sessions [OF bincode_laws_bc0 layout_laws_bc0 laws_cr0(4,3) externals_total_0 laws_cr0(5)
      n fresh, of "running [1]" "engine_new rc0 (node0 [1])" "''server:2''" "running [2]" "engine_new rc0 (node0 [2])" "''client:1''"]
  show ?thesis by (auto simp: ses.get_empty)
qed

text \<open>C4. What a node signs and encodes, another initialized node accepts together with the lineage
  the first node exports, within the replay window and the size limit: the id and key in the
  envelope are the lineage's, and the message counts as received.\<close>

theorem own_envelopes_verify_against_own_lineage:
  assumes "reachable cr bc js a" and "key_size_laws cr" and "lineage_ser_total bc"
    and "bincode_laws bc" and "lineage_codec_laws bc" and "sig_laws cr"
    and "gossip_state a = Some ea"
    and "gossip_encode_envelope cr bc clock t payload a = (Ok eb, a')"
    and "gossip_get_key_lineage bc a = (Ok lb, a'')" and "length lb \<le> MAX_LINEAGE_BYTES"
    and "gossip_state b = Some e" and "length payload \<le> rc_max_message_bytes (config e)"
    and "rc_default_ttl (config ea) \<noteq> 0"
    and "unat (current_time_unix_ms clock') \<le> unat (current_time_unix_ms clock) + unat (rc_replay_window_ms (config e))"
  shows "gossip_verify_envelope_from_lineage cr bc clock' eb lb b =
    (Ok True, b\<lparr>gossip_state := Some (receive_message e)\<rparr>)"
  using comp.holds [OF assms(1)] assms(2-14) by (blast intro: own_envelope_accepted)

theorem own_envelopes_verify_against_own_lineage_witness:
  "\<exists>eb. fst (gossip_encode_envelope cr0 bc0 (Some 1000) 0 [42] (running [1])) = Ok eb \<and>
     fst (gossip_verify_envelope_from_lineage cr0 bc0 (Some 20000) eb (lineage_bytes0 [1]) (running [2])) = Ok True"
proof -
  obtain eb where enc: "gossip_encode_envelope cr0 bc0 (Some 1000) 0 [42] (running [1]) = (Ok eb, running [1])"
    using encode_running by blast
  have lin: "gossip_get_key_lineage bc0 (running [1]) = (Ok (lineage_bytes0 [1]), running [1])"
    by (simp add: gossip_get_key_lineage_Ok lineage_encode_0)
  have clk: "unat (current_time_unix_ms (Some 20000)) \<le> unat (current_time_unix_ms (Some 1000)) + unat (rc_replay_window_ms (config (engine_new rc0 (node0 [2]))))"
    by (simp add: current_time_unix_ms_def)
  from own_envelopes_verify_against_own_lineage [OF reachable_0 laws_cr0(5) lineage_laws_bc0(2) bincode_laws_bc0
      lineage_laws_bc0(1) laws_cr0(3) running_fields(1) enc lin length_lineage_bytes0 running_fields(1) _ _ clk]
  show ?thesis using enc by auto
qed

text \<open>C5. Rotating under the id through the exports, when no commitment is in force or the new key is
  the committed one: the call returns the encoded lineage, the node id and the sessions stay, the
  engine and the lineage move to the new keys together, the new commitment is in force, and the
  sequence grows by one.\<close>

theorem rotation_under_id_keeps_id:
  assumes "reachable cr bc js g" and "key_size_laws cr" and "lineage_ser_total bc" and "sig_laws cr"
    and "externals_total cr bc"
    and "gossip_state g = Some e" and "lineage g = Some l"
    and "identity_from_seed_bytes cr ks ss ep = Ok nx" and "parse_commitment c = Ok c'"
    and "next_key_commitment l = None \<or> next_key_commitment l = Some (key_commitment cr (sig_public_key_bytes cr nx))"
  shows "\<exists>b g' e' l'. gossip_rotate_keys_under_id cr bc clock ks ss ep c g = (Ok b, g') \<and>
    gossip_state g' = Some e' \<and> lineage g' = Some l' \<and> lineage_encode bc l' = Ok b \<and>
    ni_node_id (identity e') = ni_node_id (identity e) \<and> kl_node_id l' = kl_node_id l \<and>
    sig_public_key_bytes cr (identity e') = sig_public_key_bytes cr nx \<and>
    current_sig_public_key l' = sig_public_key_bytes cr nx \<and> next_key_commitment l' = c' \<and>
    lineage_sequence l' = lineage_sequence l + 1 \<and> sessions e' = sessions e"
proof -
  have inv: "globals_inv cr g" using comp.holds [OF assms(1)] assms(2,3) by blast
  have total: "\<And>kp m. \<exists>s. sig_sign_deterministic cr kp m = Inr s" using assms(5) by (simp add: externals_total_def)
  have "ni_node_id (identity e) = kl_node_id l" using globals_inv_Some [OF inv assms(6)] assms(7) by (auto simp: agrees_def)
  then show ?thesis
    by (rule_tac rotate_under_id_succeeds [OF inv assms(6,7,4,2,3) total assms(8-10), of clock])
       (auto simp: sig_public_key_bytes_def)
qed

theorem rotation_under_id_keeps_id_witness:
  "\<exists>b g' e'. gossip_rotate_keys_under_id cr0 bc0 (Some 9) (replicate 96 7) (replicate 32 7) ''epoch-2'' None (running [1]) = (Ok b, g') \<and>
     gossip_state g' = Some e' \<and> ni_node_id (identity e') = ni_node_id (node0 [1])"
proof -
  have "next_key_commitment (lineage0 [1]) = None"
    by (simp add: next_key_commitment_def lineage0_def inception_state_def Let_def)
  then show ?thesis
    using rotation_under_id_keeps_id [OF reachable_0 laws_cr0(5) lineage_laws_bc0(2) laws_cr0(3) externals_total_0
      running_fields [of "[1]"] seed_node_0, of None None "Some 9"]
    by (auto simp: parse_commitment_def)
qed

text \<open>C6. An envelope encoded before a rotation is refused afterwards: a node that holds the lineage
  exported after the rotation rejects the envelope signed with the replaced key and counts it as
  dropped.\<close>

theorem envelopes_of_replaced_keys_refused:
  assumes "reachable cr bc js g" and "key_size_laws cr" and "lineage_ser_total bc"
    and "bincode_laws bc" and "lineage_codec_laws bc"
    and "gossip_state g = Some e"
    and "gossip_encode_envelope cr bc clock t payload g = (Ok eb, g0)"
    and "gossip_rotate_keys_under_id cr bc clock2 ks ss ep c g = (Ok lb, g')" and "length lb \<le> MAX_LINEAGE_BYTES"
    and "gossip_state g' = Some e'"
    and "sig_public_key_bytes cr (identity e') \<noteq> sig_public_key_bytes cr (identity e)"
    and "gossip_state b = Some eb'"
  shows "\<exists>err. gossip_verify_envelope_from_lineage cr bc clock3 eb lb b =
    (Err (IdentityError err), b\<lparr>gossip_state := Some (drop_message eb')\<rparr>)"
proof -
  have inv: "globals_inv cr g" using comp.holds [OF assms(1)] assms(2,3) by blast
  have "globals_inv cr g'"
    using gossip_rotate_keys_under_id_good [OF inv assms(3), of clock2 ks ss ep c] assms(8) by simp
  then obtain l' where l': "lineage g' = Some l'" "lineage_inv cr l'" "agrees cr e' l'"
    using globals_inv_Some assms(10) by blast
  have "lineage_encode bc l' = Ok lb"
    by (rule gossip_rotate_under_id_Ok [OF assms(8)]) (use l'(1) in simp)
  from lineage_decode_encode [OF assms(5) l'(2) this assms(9)] have dec: "lineage_decode cr bc lb = Ok l'" .
  obtain env pt where env: "build_envelope cr pt payload (identity e) (rc_default_ttl (config e)) (current_time_unix_ms clock) = Ok env"
    and ser: "ser_envelope bc env = Inr eb"
    using gossip_encode_envelope_Ok [OF assms(7,6)] by metis
  have "env_sender_public_key env \<noteq> current_sig_public_key l'"
    using env assms(11) l'(3) by (auto simp: build_envelope_Ok agrees_def)
  then show ?thesis by (rule stale_key_refused [OF dec assms(12) bincode_lawsD(1) [OF assms(4) ser]])
qed

theorem envelopes_of_replaced_keys_refused_witness:
  "\<exists>eb lb. fst (gossip_encode_envelope cr0 bc0 (Some 1000) 0 [42] (running [1])) = Ok eb \<and>
     fst (gossip_rotate_keys_under_id cr0 bc0 (Some 2000) (replicate 96 7) (replicate 32 7) ''epoch-2'' None (running [1])) = Ok lb \<and>
     (\<exists>err. fst (gossip_verify_envelope_from_lineage cr0 bc0 (Some 3000) eb lb (running [2])) = Err (IdentityError err))"
proof -
  obtain eb where enc: "gossip_encode_envelope cr0 bc0 (Some 1000) 0 [42] (running [1]) = (Ok eb, running [1])"
    using encode_running by blast
  let ?e' = "(engine_new rc0 (node0 [1]))\<lparr>identity := seed_node\<lparr>ni_node_id := ni_node_id (node0 [1])\<rparr>\<rparr>"
  let ?g' = "(running [1])\<lparr>gossip_state := Some ?e', lineage := Some (rotated0 [1] None 2000)\<rparr>"
  have rot: "gossip_rotate_keys_under_id cr0 bc0 (Some 2000) (replicate 96 7) (replicate 32 7) ''epoch-2'' None (running [1]) =
      (Ok (rotated_bytes0 [1] None 2000), ?g')"
    by (rule rotate_running)
  have e': "gossip_state ?g' = Some ?e'" by simp
  have "hd (pad 1952 (replicate 32 7)) \<noteq> hd (pad 1952 [1 :: u8])" by (simp add: hd_pad)
  then have ne: "sig_public_key_bytes cr0 (identity ?e') \<noteq> sig_public_key_bytes cr0 (identity (engine_new rc0 (node0 [1])))"
    by (auto simp: sig_public_key_bytes_def node0_def seed_node_def cr0_def)
  from envelopes_of_replaced_keys_refused [OF reachable_0 laws_cr0(5) lineage_laws_bc0(2) bincode_laws_bc0
      lineage_laws_bc0(1) running_fields(1) enc rot length_rotated_bytes0 [OF commitment_ok_simps(1)] e' ne running_fields(1), of "Some 3000" "[2]"]
  show ?thesis using enc rot by auto
qed

text \<open>C7. A node restarted with the lineage it exported and the seeds of its current keys runs under
  the same id, with the same lineage.\<close>

theorem restart_keeps_id:
  assumes "reachable cr bc js g" and "key_size_laws cr" and "lineage_ser_total bc" and "lineage_codec_laws bc"
    and "gossip_state g = Some e"
    and "gossip_get_key_lineage bc g = (Ok lb, g0)" and "length lb \<le> MAX_LINEAGE_BYTES"
    and "and_then (config_from_json js cfg) (resolve cr) = Ok rc" and "rc_kem_seed rc = Some ks" and "rc_sig_seed rc = Some ss"
    and "identity_of_seeds cr ks ss (rc_key_epoch rc) = Ok i"
    and "sig_public_key_bytes cr i = sig_public_key_bytes cr (identity e)"
    and "kem_public_key_canonical_bytes cr i = kem_public_key_canonical_bytes cr (identity e)"
  shows "\<exists>g' e'. gossip_init_with_lineage cr bc js cfg lb globals_init = (Ok (), g') \<and>
    gossip_state g' = Some e' \<and> ni_node_id (identity e') = ni_node_id (identity e) \<and> lineage g' = lineage g"
proof -
  have inv: "globals_inv cr g" using comp.holds [OF assms(1)] assms(2,3) by blast
  obtain l where l: "lineage g = Some l" "lineage_encode bc l = Ok lb"
    using assms(6) by (auto simp: gossip_get_key_lineage_Ok)
  from restart_from_lineage [OF inv assms(5) l(1) assms(4) l(2) assms(7-13)] l(1) show ?thesis
    by (simp add: engine_new_def)
qed

theorem restart_keeps_id_witness:
  "\<exists>g' e'. gossip_init_with_lineage cr0 bc0 js0 ''{seeds}'' (lineage_bytes0 []) globals_init = (Ok (), g') \<and>
     gossip_state g' = Some e' \<and> ni_node_id (identity e') = ni_node_id (node0 [])"
proof -
  let ?rc = "rc0\<lparr>rc_kem_seed := Some (replicate 96 0), rc_sig_seed := Some (replicate 32 0)\<rparr>"
  let ?i = "(node0 [])\<lparr>ni_kem_keypair := replicate 96 0, ni_sig_keypair := replicate 32 0\<rparr>"
  have cfg: "and_then (config_from_json js0 ''{seeds}'') (resolve cr0) = Ok ?rc"
    by (simp add: config_from_json_def js0_def resolve_seeded)
  have "replicate 32 (0 :: u8) @ replicate 64 0 = replicate 96 0" by (simp add: replicate_add [symmetric])
  then have i: "identity_of_seeds cr0 (replicate 96 0) (replicate 32 0) (rc_key_epoch ?rc) = Ok ?i"
    by (simp add: identity_of_seeds_def from_seeds_def identity_of_keypairs_def kem_public_key_bytes_def node0_def
        pad_zeros cr0_def)
  have keys: "sig_public_key_bytes cr0 ?i = sig_public_key_bytes cr0 (node0 [])"
    "kem_public_key_canonical_bytes cr0 ?i = kem_public_key_canonical_bytes cr0 (node0 [])"
    by (simp_all add: sig_public_key_bytes_def kem_public_key_canonical_bytes_def kem_public_key_bytes_def node0_def
        cr0_def pad_zeros)
  have lin: "gossip_get_key_lineage bc0 (running []) = (Ok (lineage_bytes0 []), running [])"
    by (simp add: gossip_get_key_lineage_Ok lineage_encode_0)
  have e: "gossip_state (running []) = Some (engine_new rc0 (node0 []))" by simp
  show ?thesis
    using restart_keeps_id [OF reachable_0 laws_cr0(5) lineage_laws_bc0(2,1) e lin length_lineage_bytes0 cfg _ _ i]
    by (auto simp: keys)
qed

end
